(* ===== verification/Prelude.thy ===== *)
theory Prelude
  imports Complex_Main "HOL-Library.AList"
begin

text \<open>
  Shared vocabulary of the development: insertion-ordered dictionaries, sets kept as
  duplicate-free lists, bounded queues, first-hit searches, stable descending sorts and the
  error sum used for exceptions.  Every component theory imports this one, and its simp
  collections carry most of the component proofs.
\<close>

named_theorems dict_simps \<open>characterisation of the dictionary operations by their lookups\<close>
named_theorems wf_intros \<open>preservation of the well-formedness predicates\<close>

subsection \<open>Dictionaries\<close>

text \<open>
  A Python dict iterates in insertion order; assigning to an existing key keeps its position.
  The association list updated in place by \<open>AList.update\<close> has exactly that order.
\<close>

type_synonym ('k, 'v) dict = "('k \<times> 'v) list"

definition dget :: "('k, 'v) dict \<Rightarrow> 'k \<Rightarrow> 'v option" where
  "dget d k = map_of d k"

definition dset :: "'k \<Rightarrow> 'v \<Rightarrow> ('k, 'v) dict \<Rightarrow> ('k, 'v) dict" where
  "dset k v d = AList.update k v d"

definition ddel :: "'k \<Rightarrow> ('k, 'v) dict \<Rightarrow> ('k, 'v) dict" where
  "ddel k d = AList.delete k d"

definition dkeys :: "('k, 'v) dict \<Rightarrow> 'k list" where
  "dkeys d = map fst d"

definition dwf :: "('k, 'v) dict \<Rightarrow> bool" where
  "dwf d \<longleftrightarrow> distinct (map fst d)"

definition setdefault :: "'k \<Rightarrow> 'v \<Rightarrow> ('k, 'v) dict \<Rightarrow> ('k, 'v) dict" where
  "setdefault k v d = (if dget d k = None then dset k v d else d)"

lemma dget_Nil [simp, dict_simps]: "dget [] k = None"
  by (simp add: dget_def)

lemma dget_dset [simp, dict_simps]: "dget (dset k v d) j = (if j = k then Some v else dget d j)"
  by (simp add: dget_def dset_def update_conv')

lemma dget_ddel [simp, dict_simps]: "dget (ddel k d) j = (if j = k then None else dget d j)"
  by (simp add: dget_def ddel_def delete_conv')

lemma dget_setdefault [dict_simps]:
  "dget (setdefault k v d) j =
     (if j = k then (case dget d k of None \<Rightarrow> Some v | Some w \<Rightarrow> Some w) else dget d j)"
  by (auto simp: setdefault_def split: option.splits)

lemma set_dkeys_iff: "k \<in> set (dkeys d) \<longleftrightarrow> dget d k \<noteq> None"
  by (simp add: dkeys_def dget_def map_of_eq_None_iff)

lemma dget_None_iff: "dget d k = None \<longleftrightarrow> k \<notin> set (dkeys d)"
  using set_dkeys_iff [of k d] by auto

lemma set_dkeys_dset [simp]: "set (dkeys (dset k v d)) = insert k (set (dkeys d))"
  by (rule set_eqI) (simp add: set_dkeys_iff)

lemma set_dkeys_ddel [simp]: "set (dkeys (ddel k d)) = set (dkeys d) - {k}"
  by (rule set_eqI) (simp add: set_dkeys_iff)

lemma dwf_Nil [simp, wf_intros]: "dwf []"
  by (simp add: dwf_def)

lemma dwf_dset [simp, wf_intros]: "dwf d \<Longrightarrow> dwf (dset k v d)"
  by (simp add: dwf_def dset_def distinct_update)

lemma dwf_ddel [simp, wf_intros]: "dwf d \<Longrightarrow> dwf (ddel k d)"
  by (simp add: dwf_def ddel_def distinct_delete)

lemma dget_SomeD: "dget d k = Some v \<Longrightarrow> (k, v) \<in> set d"
  by (simp add: dget_def map_of_SomeD)

lemma dget_mem_iff: "dwf d \<Longrightarrow> (k, v) \<in> set d \<longleftrightarrow> dget d k = Some v"
  by (simp add: dwf_def dget_def)

lemma dget_Cons [simp]: "dget ((k, v) # d) j = (if j = k then Some v else dget d j)"
  by (simp add: dget_def)

lemma ddel_absent: "dget d k = None \<Longrightarrow> ddel k d = d"
  by (induction d) (auto simp: ddel_def dget_def split: if_splits)

text \<open>Deleting a list of keys, one after the other.\<close>

definition ddel_all :: "'k list \<Rightarrow> ('k, 'v) dict \<Rightarrow> ('k, 'v) dict" where
  "ddel_all ks d = fold ddel ks d"

lemma dget_ddel_all [simp, dict_simps]:
  "dget (ddel_all ks d) j = (if j \<in> set ks then None else dget d j)"
  unfolding ddel_all_def by (induction ks arbitrary: d) auto

lemma dwf_ddel_all [simp, wf_intros]: "dwf d \<Longrightarrow> dwf (ddel_all ks d)"
  unfolding ddel_all_def by (induction ks arbitrary: d) auto

subsection \<open>Sets as duplicate-free lists\<close>

definition sadd :: "'a \<Rightarrow> 'a list \<Rightarrow> 'a list" where
  "sadd x xs = (if x \<in> set xs then xs else xs @ [x])"

definition sdiscard :: "'a \<Rightarrow> 'a list \<Rightarrow> 'a list" where
  "sdiscard x xs = removeAll x xs"

definition sunion :: "'a list \<Rightarrow> 'a list \<Rightarrow> 'a list" where
  "sunion xs ys = fold sadd ys xs"

lemma set_sadd [simp]: "set (sadd x xs) = insert x (set xs)"
  by (auto simp: sadd_def)

lemma distinct_sadd [simp]: "distinct xs \<Longrightarrow> distinct (sadd x xs)"
  by (auto simp: sadd_def)

lemma set_sdiscard [simp]: "set (sdiscard x xs) = set xs - {x}"
  by (simp add: sdiscard_def)

lemma distinct_sdiscard [simp]: "distinct xs \<Longrightarrow> distinct (sdiscard x xs)"
  by (simp add: sdiscard_def distinct_removeAll)

lemma set_sunion [simp]: "set (sunion xs ys) = set xs \<union> set ys"
  unfolding sunion_def by (induction ys arbitrary: xs) auto

lemma distinct_sunion [simp]: "distinct xs \<Longrightarrow> distinct (sunion xs ys)"
  unfolding sunion_def by (induction ys arbitrary: xs) auto

lemma length_sadd: "length (sadd x xs) = (if x \<in> set xs then length xs else Suc (length xs))"
  by (simp add: sadd_def)

text \<open>The values of an iterable in first-occurrence order.\<close>

definition dedupe :: "'a list \<Rightarrow> 'a list" where
  "dedupe xs = fold sadd xs []"

lemma set_dedupe [simp]: "set (dedupe xs) = set xs"
  using set_sunion [of "[]" xs] by (simp add: dedupe_def sunion_def)

lemma distinct_dedupe [simp]: "distinct (dedupe xs)"
  using distinct_sunion [of "[]" xs] by (simp add: dedupe_def sunion_def)

subsection \<open>Bounded queues\<close>

text \<open>\<open>deque(maxlen=n)\<close>: appending to a full queue drops the oldest entry.\<close>

definition push_bounded :: "nat \<Rightarrow> 'a \<Rightarrow> 'a list \<Rightarrow> 'a list" where
  "push_bounded n x q = drop (Suc (length q) - n) (q @ [x])"

lemma length_push_bounded: "length q \<le> n \<Longrightarrow> length (push_bounded n x q) \<le> n"
  by (simp add: push_bounded_def)

lemma push_bounded_room: "length q < n \<Longrightarrow> push_bounded n x q = q @ [x]"
  by (simp add: push_bounded_def)

lemma push_bounded_full: "length q = n \<Longrightarrow> push_bounded n x q = drop 1 (q @ [x])"
  by (simp add: push_bounded_def)

text \<open>After any sequence of appends the queue holds the newest \<open>n\<close> entries, in order.\<close>

lemma push_bounded_fold:
  "length q \<le> n \<Longrightarrow>
     fold (push_bounded n) xs q = drop (length q + length xs - n) (q @ xs)"
proof (induction xs arbitrary: q)
  case Nil
  then show ?case by simp
next
  case (Cons x xs)
  show ?case
  proof (cases "length q < n")
    case True
    then show ?thesis using Cons.IH [of "q @ [x]"] by (simp add: push_bounded_room)
  next
    case False
    with Cons.prems have full: "length q = n" by simp
    let ?q = "drop 1 (q @ [x])"
    have len: "length ?q = n" using full by simp
    have "fold (push_bounded n) xs ?q = drop (length xs) (?q @ xs)"
      using Cons.IH [of ?q, unfolded len, OF order_refl] by (simp only: diff_add_inverse)
    also have "?q @ xs = drop 1 (q @ x # xs)" by (cases q) auto
    also have "drop (length xs) (drop 1 (q @ x # xs)) = drop (Suc (length xs)) (q @ x # xs)"
      by (simp only: drop_drop) simp
    finally show ?thesis using full by (simp add: push_bounded_full)
  qed
qed

subsection \<open>First-hit search\<close>

fun first_hit :: "('k \<Rightarrow> 'v option) \<Rightarrow> 'k list \<Rightarrow> ('k \<times> 'v) option" where
  "first_hit f [] = None"
| "first_hit f (k # ks) = (case f k of None \<Rightarrow> first_hit f ks | Some v \<Rightarrow> Some (k, v))"

lemma first_hit_None_iff: "first_hit f ks = None \<longleftrightarrow> (\<forall>k \<in> set ks. f k = None)"
  by (induction ks) (auto split: option.splits)

lemma first_hit_SomeD: "first_hit f ks = Some (k, v) \<Longrightarrow> k \<in> set ks \<and> f k = Some v"
  by (induction ks) (auto split: option.splits)

subsection \<open>Stable descending sort\<close>

text \<open>Python's \<open>sort(key=..., reverse=True)\<close> keeps the original order of equal elements.\<close>

definition sort_desc :: "('a \<Rightarrow> 'k::linorder) \<Rightarrow> 'a list \<Rightarrow> 'a list" where
  "sort_desc f xs = rev (sort_key f (rev xs))"

lemma set_sort_desc [simp]: "set (sort_desc f xs) = set xs"
  by (simp add: sort_desc_def)

lemma length_sort_desc [simp]: "length (sort_desc f xs) = length xs"
  by (simp add: sort_desc_def)

lemma sort_desc_sorted: "sorted_wrt (\<lambda>a b. f b \<le> f a) (sort_desc f xs)"
proof -
  have "sorted_wrt (\<lambda>a b. f a \<le> f b) (sort_key f (rev xs))"
    using sorted_sort_key [of f "rev xs"] by (simp add: sorted_map)
  then show ?thesis by (simp add: sort_desc_def sorted_wrt_rev)
qed

subsection \<open>Exceptions as sums\<close>

fun ebind :: "'err + 'res \<Rightarrow> ('res \<Rightarrow> 'err + 'out) \<Rightarrow> 'err + 'out" where
  "ebind (Inl e) k = Inl e"
| "ebind (Inr v) k = k v"

lemma ebind_case: "ebind m k = (case m of Inr v \<Rightarrow> k v | Inl e \<Rightarrow> Inl e)"
  by (cases m) simp_all

lemma ebind_Inr_iff: "ebind m k = Inr w \<longleftrightarrow> (\<exists>v. k v = Inr w \<and> m = Inr v)"
  by (cases m) auto

text \<open>A comprehension whose body may raise: the first failing element ends it.\<close>

fun emap :: "('item \<Rightarrow> 'err + 'out) \<Rightarrow> 'item list \<Rightarrow> 'err + 'out list" where
  "emap f [] = Inr []"
| "emap f (x # xs) = ebind (f x) (\<lambda>y. ebind (emap f xs) (\<lambda>ys. Inr (y # ys)))"

lemma emap_Inr_iff: "emap f xs = Inr ys \<longleftrightarrow> list_all2 (\<lambda>x y. f x = Inr y) xs ys"
  by (induction xs arbitrary: ys) (auto simp: ebind_Inr_iff list_all2_Cons1)

lemma emap_Inr_all: "emap f xs = Inr ys \<Longrightarrow> (\<And>x y. f x = Inr y \<Longrightarrow> P y) \<Longrightarrow> \<forall>y \<in> set ys. P y"
  by (fastforce simp: emap_Inr_iff list_all2_conv_all_nth in_set_conv_nth)

lemma emap_Inr_length: "emap f xs = Inr ys \<Longrightarrow> length ys = length xs"
  by (auto simp: emap_Inr_iff dest: list_all2_lengthD)

end
