(* ===== verification/PyValues.thy ===== *)
theory PyValues
  imports Prelude
begin

text \<open>
  The Python values that flow through the handlers: JSON values plus datetimes.  Strings are
  lists of Latin-1 code points; \<open>lower\<close>, \<open>upper\<close>, \<open>strip\<close>, \<open>isdigit\<close> and \<open>repr\<close> are Python's on that
  range (the three letters whose upper case leaves Latin-1 are left alone).  A float carries its
  value and the text \<open>str\<close> gives for it, a datetime its instant (microseconds since the epoch)
  and its \<open>str\<close> text (payloads never nest a datetime, so its \<open>repr\<close> is not needed).  The conversions raise what \<open>int\<close> and \<open>float\<close> raise.
\<close>

datatype pyexn = TypeError | ValueError | OverflowError | AttributeError | IndexError | KeyError

datatype pfloat = Fin rat | PosInf | NegInf | NaN

datatype pyval =
    PNone
  | PBool bool
  | PInt int
  | PFloat pfloat string
  | PStr string
  | PTime int string
  | PList "pyval list"
  | PDict "(string \<times> pyval) list"

subsection \<open>Characters and strings\<close>

definition code :: "char \<Rightarrow> nat" where
  "code c = of_char c"

definition is_space :: "char \<Rightarrow> bool" where
  "is_space c = (let n = code c in (9 \<le> n \<and> n \<le> 13) \<or> (28 \<le> n \<and> n \<le> 32) \<or> n = 133 \<or> n = 160)"

definition is_ascii_digit :: "char \<Rightarrow> bool" where
  "is_ascii_digit c = (let n = code c in 48 \<le> n \<and> n \<le> 57)"

text \<open>\<open>str.isdigit\<close> also accepts the superscripts two, three and one.\<close>

definition is_digit_char :: "char \<Rightarrow> bool" where
  "is_digit_char c = (is_ascii_digit c \<or> code c \<in> {178, 179, 185})"

definition lower_char :: "char \<Rightarrow> char" where
  "lower_char c =
     (let n = code c in
      if (65 \<le> n \<and> n \<le> 90) \<or> (192 \<le> n \<and> n \<le> 222 \<and> n \<noteq> 215) then char_of (n + 32) else c)"

definition upper_char :: "char \<Rightarrow> string" where
  "upper_char c =
     (let n = code c in
      if (97 \<le> n \<and> n \<le> 122) \<or> (224 \<le> n \<and> n \<le> 254 \<and> n \<noteq> 247) then [char_of (n - 32)]
      else if n = 223 then ''SS'' else [c])"

definition py_lower :: "string \<Rightarrow> string" where
  "py_lower s = map lower_char s"

definition py_upper :: "string \<Rightarrow> string" where
  "py_upper s = concat (map upper_char s)"

definition py_casefold :: "string \<Rightarrow> string" where
  "py_casefold s = concat (map (\<lambda>c. if code c = 223 then ''ss'' else [lower_char c]) s)"

definition py_lstrip :: "string \<Rightarrow> string" where
  "py_lstrip s = dropWhile is_space s"

definition py_rstrip :: "string \<Rightarrow> string" where
  "py_rstrip s = rev (dropWhile is_space (rev s))"

definition py_strip :: "string \<Rightarrow> string" where
  "py_strip s = py_rstrip (py_lstrip s)"

definition py_isdigit :: "string \<Rightarrow> bool" where
  "py_isdigit s = (s \<noteq> [] \<and> list_all is_digit_char s)"

fun py_startswith :: "string \<Rightarrow> string \<Rightarrow> bool" where
  "py_startswith s [] = True"
| "py_startswith [] (p # ps) = False"
| "py_startswith (c # cs) (p # ps) = (c = p \<and> py_startswith cs ps)"

fun py_join :: "string \<Rightarrow> string list \<Rightarrow> string" where
  "py_join sep [] = []"
| "py_join sep [x] = x"
| "py_join sep (x # y # xs) = x @ sep @ py_join sep (y # xs)"

text \<open>\<open>text.partition(sep)\<close>: the part before the separator and, where there is one, the part after it.\<close>

definition before_char :: "char \<Rightarrow> string \<Rightarrow> string" where
  "before_char c s = takeWhile (\<lambda>x. x \<noteq> c) s"

definition py_partition :: "char \<Rightarrow> string \<Rightarrow> string \<times> string option" where
  "py_partition sep s =
     (let a = before_char sep s in (a, if sep \<in> set s then Some (drop (Suc (length a)) s) else None))"

lemma py_startswith_iff: "py_startswith s p \<longleftrightarrow> (\<exists>t. s = p @ t)"
  by (induction s p rule: py_startswith.induct) auto

lemma py_startswith_append [simp]: "py_startswith (p @ t) p"
  by (auto simp: py_startswith_iff)

lemma dropWhile_idem: "dropWhile P (dropWhile P xs) = dropWhile P xs"
  by (induction xs) auto

lemma py_rstrip_idem [simp]: "py_rstrip (py_rstrip s) = py_rstrip s"
  by (simp add: py_rstrip_def dropWhile_idem)

lemma py_lstrip_rstrip: "py_lstrip (py_rstrip (py_lstrip s)) = py_rstrip (py_lstrip s)"
proof (cases "py_rstrip (py_lstrip s)")
  case Nil
  then show ?thesis by (simp add: py_lstrip_def)
next
  case (Cons c cs)
  obtain ys where ys: "py_lstrip s = py_rstrip (py_lstrip s) @ ys"
    unfolding py_rstrip_def
    by (metis append_self_conv rev_append rev_rev_ident takeWhile_dropWhile_id)
  have "\<not> is_space c"
    using ys Cons by (metis append_Cons dropWhile_eq_Cons_conv py_lstrip_def)
  then show ?thesis using Cons by (simp add: py_lstrip_def)
qed

lemma py_strip_idem [simp]: "py_strip (py_strip s) = py_strip s"
  by (simp add: py_strip_def py_lstrip_rstrip)

lemma py_strip_Nil [simp]: "py_strip [] = []"
  by (simp add: py_strip_def py_lstrip_def py_rstrip_def)

lemma dropWhile_hd: "s \<noteq> [] \<Longrightarrow> \<not> P (hd s) \<Longrightarrow> dropWhile P s = s"
  by (cases s) auto

lemma py_strip_clean: "s \<noteq> [] \<Longrightarrow> \<not> is_space (hd s) \<Longrightarrow> \<not> is_space (last s) \<Longrightarrow> py_strip s = s"
  by (simp add: py_strip_def py_lstrip_def py_rstrip_def dropWhile_hd hd_rev)

subsection \<open>Integers as text\<close>

definition digit_char :: "int \<Rightarrow> char" where
  "digit_char d = char_of (48 + nat d)"

definition digit_val :: "char \<Rightarrow> int" where
  "digit_val c = int (code c) - 48"

function nat_str :: "int \<Rightarrow> string" where
  "nat_str n = (if n < 10 then [digit_char n] else nat_str (n div 10) @ [digit_char (n mod 10)])"
  by pat_completeness auto
termination
  by (relation "measure nat") auto

declare nat_str.simps [simp del]

definition int_str :: "int \<Rightarrow> string" where
  "int_str i = (if i < 0 then ''-'' @ nat_str (- i) else nat_str i)"

text \<open>
  \<open>int(text)\<close>: surrounding whitespace and one sign are accepted, single underscores may separate
  digits.  (The interpreter's limit of 4300 digits is not modelled.)
\<close>

fun int_digits :: "bool \<Rightarrow> int \<Rightarrow> string \<Rightarrow> int option" where
  "int_digits need acc [] = (if need then None else Some acc)"
| "int_digits need acc (c # cs) =
     (if is_ascii_digit c then int_digits False (10 * acc + digit_val c) cs
      else if c = CHR ''_'' \<and> \<not> need then int_digits True acc cs
      else None)"

definition signed_part :: "string \<Rightarrow> bool \<times> string" where
  "signed_part s =
     (case s of [] \<Rightarrow> (False, [])
      | c # cs \<Rightarrow> (if c = CHR ''-'' then (True, cs) else if c = CHR ''+'' then (False, cs) else (False, c # cs)))"

definition int_of_str :: "string \<Rightarrow> int option" where
  "int_of_str s =
     (case signed_part (py_strip s) of (neg, ds) \<Rightarrow>
        map_option (\<lambda>n. if neg then - n else n) (int_digits True 0 ds))"

lemma code_char_of [simp]: "n < 256 \<Longrightarrow> code (char_of n) = n"
  by (simp add: code_def)

lemma digit_char_ascii [simp]: "0 \<le> d \<Longrightarrow> d < 10 \<Longrightarrow> is_ascii_digit (digit_char d)"
  by (simp add: is_ascii_digit_def digit_char_def Let_def nat_less_iff)

lemma digit_val_char [simp]: "0 \<le> d \<Longrightarrow> d < 10 \<Longrightarrow> digit_val (digit_char d) = d"
  by (simp add: digit_val_def digit_char_def nat_less_iff)

lemma nat_str_nonempty [simp]: "nat_str n \<noteq> []"
  by (subst nat_str.simps) simp

lemma nat_str_digits: "0 \<le> n \<Longrightarrow> list_all is_ascii_digit (nat_str n)"
proof (induction n rule: nat_str.induct)
  case (1 n)
  then show ?case by (simp add: nat_str.simps [of n])
qed

lemma int_digits_append_False:
  "list_all is_ascii_digit xs \<Longrightarrow>
     int_digits False acc (xs @ ys) = int_digits False (foldl (\<lambda>a c. 10 * a + digit_val c) acc xs) ys"
  by (induction xs arbitrary: acc) auto

lemma int_digits_append:
  "list_all is_ascii_digit xs \<Longrightarrow> xs \<noteq> [] \<Longrightarrow>
     int_digits need acc (xs @ ys) = int_digits False (foldl (\<lambda>a c. 10 * a + digit_val c) acc xs) ys"
  by (cases xs) (auto simp: int_digits_append_False)

lemma foldl_digits_nat_str: "0 \<le> n \<Longrightarrow> foldl (\<lambda>a c. 10 * a + digit_val c) 0 (nat_str n) = n"
proof (induction n rule: nat_str.induct)
  case (1 n)
  then show ?case by (simp add: nat_str.simps [of n])
qed

lemma int_digits_nat_str [simp]: "0 \<le> n \<Longrightarrow> int_digits True 0 (nat_str n) = Some n"
  using int_digits_append [OF nat_str_digits, of n True 0 "[]"] by (simp add: foldl_digits_nat_str)

lemma ascii_digit_not_space: "is_ascii_digit c \<Longrightarrow> \<not> is_space c"
  by (auto simp: is_ascii_digit_def is_space_def Let_def)

lemma nat_str_hd_last:
  "0 \<le> n \<Longrightarrow> is_ascii_digit (hd (nat_str n))" "0 \<le> n \<Longrightarrow> is_ascii_digit (last (nat_str n))"
  using nat_str_digits [of n] nat_str_nonempty [of n]
  by (auto simp: list_all_iff)

lemma py_strip_int_str [simp]: "py_strip (int_str i) = int_str i"
proof -
  have "\<not> is_space CHR ''-''" by (simp add: is_space_def code_def Let_def)
  then show ?thesis
    using nat_str_hd_last [of i] nat_str_hd_last [of "- i"]
    by (intro py_strip_clean) (auto simp: int_str_def ascii_digit_not_space)
qed

lemma sign_not_digit: "\<not> is_ascii_digit CHR ''-''" "\<not> is_ascii_digit CHR ''+''"
  by (simp_all add: is_ascii_digit_def code_def Let_def)

lemma signed_part_nat_str: "0 \<le> n \<Longrightarrow> signed_part (nat_str n) = (False, nat_str n)"
  using nat_str_hd_last(1) [of n] nat_str_nonempty [of n] sign_not_digit
  by (cases "nat_str n") (auto simp: signed_part_def)

lemma signed_part_int_str:
  "signed_part (int_str i) = (i < 0, nat_str \<bar>i\<bar>)"
  by (cases "i < 0") (simp_all add: int_str_def signed_part_nat_str, simp add: signed_part_def)

lemma int_of_str_int_str [simp]: "int_of_str (int_str i) = Some i"
  by (simp add: int_of_str_def signed_part_int_str)

lemma int_str_inj: "int_str i = int_str j \<longleftrightarrow> i = j"
  by (metis int_of_str_int_str option.inject)

lemma int_str_nonempty [simp]: "int_str i \<noteq> []"
  by (simp add: int_str_def)

subsection \<open>Floats as text\<close>

text \<open>
  Rounding of a rational to the nearest binary64 value, ties to even; \<open>None\<close> when the result
  leaves the finite range.  The exponent is found from the bit lengths of numerator and denominator.
\<close>

definition round_half_even :: "rat \<Rightarrow> int" where
  "round_half_even q =
     (let f = \<lfloor>q\<rfloor>; r = q - of_int f in
      if r < 1 / 2 then f else if 1 / 2 < r then f + 1 else if even f then f else f + 1)"

definition pow2 :: "int \<Rightarrow> rat" where
  "pow2 e = (if 0 \<le> e then 2 ^ nat e else 1 / 2 ^ nat (- e))"

function bit_length :: "int \<Rightarrow> int" where
  "bit_length n = (if n \<le> 0 then 0 else 1 + bit_length (n div 2))"
  by pat_completeness auto
termination
  by (relation "measure nat") auto

declare bit_length.simps [simp del]

definition binary_exponent :: "rat \<Rightarrow> int" where
  "binary_exponent a =
     (let (p, d) = quotient_of a;
          e = bit_length p - bit_length d
      in if pow2 e \<le> a then e else e - 1)"

definition round_double :: "rat \<Rightarrow> rat option" where
  "round_double q =
     (if q = 0 then Some 0
      else let ulp = pow2 (max (binary_exponent \<bar>q\<bar> - 52) (- 1074));
               v = of_int (round_half_even (\<bar>q\<bar> / ulp)) * ulp
           in if v < pow2 1024 then Some (if q < 0 then - v else v) else None)"

text \<open>
  Decimal literals: digits with an optional fraction and exponent.  Each part allows single
  underscores between digits.
\<close>

fun span_until :: "(char \<Rightarrow> bool) \<Rightarrow> string \<Rightarrow> string \<times> string" where
  "span_until p [] = ([], [])"
| "span_until p (c # cs) = (if p c then ([], c # cs) else (case span_until p cs of (a, b) \<Rightarrow> (c # a, b)))"

definition count_digits :: "string \<Rightarrow> nat" where
  "count_digits s = length (filter is_ascii_digit s)"

definition decimal_mantissa :: "string \<Rightarrow> rat option" where
  "decimal_mantissa s =
     (case span_until (\<lambda>c. c = CHR ''.'') s of (whole, rest) \<Rightarrow>
        (case rest of
           [] \<Rightarrow> map_option of_int (int_digits True 0 whole)
         | pt # fr \<Rightarrow>
             (if whole = [] \<and> fr = [] then None
              else case (if whole = [] then Some 0 else int_digits True 0 whole,
                         if fr = [] then Some 0 else int_digits True 0 fr) of
                     (Some w, Some f) \<Rightarrow> Some (of_int w + of_int f / 10 ^ count_digits fr)
                   | _ \<Rightarrow> None)))"

definition decimal_exponent :: "string \<Rightarrow> int option" where
  "decimal_exponent s =
     (case signed_part s of (neg, ds) \<Rightarrow>
        map_option (\<lambda>n. if neg then - n else n) (int_digits True 0 ds))"

definition pow10 :: "int \<Rightarrow> rat" where
  "pow10 e = (if 0 \<le> e then 10 ^ nat e else 1 / 10 ^ nat (- e))"

definition decimal_value :: "string \<Rightarrow> rat option" where
  "decimal_value s =
     (case span_until (\<lambda>c. c = CHR ''e'' \<or> c = CHR ''E'') s of (m, rest) \<Rightarrow>
        (case rest of
           [] \<Rightarrow> decimal_mantissa m
         | e # ex \<Rightarrow>
             (case (decimal_mantissa m, decimal_exponent ex) of
                (Some q, Some k) \<Rightarrow> Some (q * pow10 k)
              | _ \<Rightarrow> None)))"

definition float_of_str :: "string \<Rightarrow> pfloat option" where
  "float_of_str s =
     (case signed_part (py_strip s) of (neg, body) \<Rightarrow>
        (let word = py_lower body in
         if word = ''inf'' \<or> word = ''infinity'' then Some (if neg then NegInf else PosInf)
         else if word = ''nan'' then Some NaN
         else case decimal_value body of
                None \<Rightarrow> None
              | Some q \<Rightarrow>
                  (case round_double (if neg then - q else q) of
                     Some v \<Rightarrow> Some (Fin v)
                   | None \<Rightarrow> Some (if neg then NegInf else PosInf))))"

subsection \<open>Conversions\<close>

definition rat_trunc :: "rat \<Rightarrow> int" where
  "rat_trunc q = (if q < 0 then - \<lfloor>- q\<rfloor> else \<lfloor>q\<rfloor>)"

text \<open>\<open>int(value)\<close>\<close>

fun py_int :: "pyval \<Rightarrow> pyexn + int" where
  "py_int (PBool b) = Inr (if b then 1 else 0)"
| "py_int (PInt i) = Inr i"
| "py_int (PFloat (Fin q) _) = Inr (rat_trunc q)"
| "py_int (PFloat NaN _) = Inl ValueError"
| "py_int (PFloat PosInf _) = Inl OverflowError"
| "py_int (PFloat NegInf _) = Inl OverflowError"
| "py_int (PStr s) = (case int_of_str s of None \<Rightarrow> Inl ValueError | Some i \<Rightarrow> Inr i)"
| "py_int PNone = Inl TypeError"
| "py_int (PTime _ _) = Inl TypeError"
| "py_int (PList _) = Inl TypeError"
| "py_int (PDict _) = Inl TypeError"

text \<open>\<open>float(value)\<close>\<close>

definition float_of_int :: "int \<Rightarrow> pyexn + pfloat" where
  "float_of_int i = (case round_double (of_int i) of Some v \<Rightarrow> Inr (Fin v) | None \<Rightarrow> Inl OverflowError)"

fun py_float :: "pyval \<Rightarrow> pyexn + pfloat" where
  "py_float (PBool b) = Inr (Fin (if b then 1 else 0))"
| "py_float (PInt i) = float_of_int i"
| "py_float (PFloat f _) = Inr f"
| "py_float (PStr s) = (case float_of_str s of None \<Rightarrow> Inl ValueError | Some f \<Rightarrow> Inr f)"
| "py_float PNone = Inl TypeError"
| "py_float (PTime _ _) = Inl TypeError"
| "py_float (PList _) = Inl TypeError"
| "py_float (PDict _) = Inl TypeError"

text \<open>\<open>bool(value)\<close>\<close>

fun truthy :: "pyval \<Rightarrow> bool" where
  "truthy PNone = False"
| "truthy (PBool b) = b"
| "truthy (PInt i) = (i \<noteq> 0)"
| "truthy (PFloat f _) = (f \<noteq> Fin 0)"
| "truthy (PStr s) = (s \<noteq> [])"
| "truthy (PTime _ _) = True"
| "truthy (PList vs) = (vs \<noteq> [])"
| "truthy (PDict kvs) = (kvs \<noteq> [])"

text \<open>\<open>a or b\<close>\<close>

definition por :: "pyval \<Rightarrow> pyval \<Rightarrow> pyval" where
  "por a b = (if truthy a then a else b)"

subsection \<open>repr and str\<close>

definition hex_digit :: "nat \<Rightarrow> char" where
  "hex_digit n = (if n < 10 then char_of (48 + n) else char_of (87 + n))"

definition repr_char :: "char \<Rightarrow> char \<Rightarrow> string" where
  "repr_char quote c =
     (let n = code c in
      if c = quote \<or> n = 92 then [char_of (92 :: nat), c]
      else if n = 9 then [char_of (92 :: nat), CHR ''t'']
      else if n = 10 then [char_of (92 :: nat), CHR ''n'']
      else if n = 13 then [char_of (92 :: nat), CHR ''r'']
      else if n < 32 \<or> (127 \<le> n \<and> n \<le> 160) \<or> n = 173
        then [char_of (92 :: nat), CHR ''x'', hex_digit (n div 16), hex_digit (n mod 16)]
      else [c])"

definition str_repr :: "string \<Rightarrow> string" where
  "str_repr s =
     (let single = char_of (39 :: nat); dq = char_of (34 :: nat);
          quote = (if single \<in> set s \<and> dq \<notin> set s then dq else single)
      in [quote] @ concat (map (repr_char quote) s) @ [quote])"

fun py_repr :: "pyval \<Rightarrow> string" where
  "py_repr PNone = ''None''"
| "py_repr (PBool b) = (if b then ''True'' else ''False'')"
| "py_repr (PInt i) = int_str i"
| "py_repr (PFloat _ txt) = txt"
| "py_repr (PStr s) = str_repr s"
| "py_repr (PTime _ txt) = txt"
| "py_repr (PList vs) = ''['' @ py_join '', '' (map py_repr vs) @ '']''"
| "py_repr (PDict kvs) =
     ''{'' @ py_join '', '' (map (\<lambda>kv. str_repr (fst kv) @ '': '' @ py_repr (snd kv)) kvs) @ ''}''"

definition py_str :: "pyval \<Rightarrow> string" where
  "py_str v = (case v of PStr s \<Rightarrow> s | _ \<Rightarrow> py_repr v)"

lemma py_str_simps [simp]:
  "py_str (PStr s) = s" "py_str (PInt i) = int_str i" "py_str PNone = ''None''"
  by (simp_all add: py_str_def)

subsection \<open>Dictionary access\<close>

text \<open>\<open>payload.get(key)\<close> on a JSON object.\<close>

type_synonym obj = "(string, pyval) dict"

definition jget :: "obj \<Rightarrow> string \<Rightarrow> pyval" where
  "jget d k = (case dget d k of None \<Rightarrow> PNone | Some v \<Rightarrow> v)"

lemma jget_Nil [simp]: "jget [] k = PNone"
  by (simp add: jget_def)

lemma jget_Cons [simp]: "jget ((k, v) # d) j = (if j = k then v else jget d j)"
  by (simp add: jget_def)

lemma jget_dset [simp]: "jget (dset k v d) j = (if j = k then v else jget d j)"
  by (simp add: jget_def)

text \<open>\<open>payload if isinstance(payload, dict) else {}\<close>\<close>

definition as_obj :: "pyval \<Rightarrow> obj" where
  "as_obj v = (case v of PDict d \<Rightarrow> d | _ \<Rightarrow> [])"

definition is_dict :: "pyval \<Rightarrow> bool" where
  "is_dict v = (case v of PDict _ \<Rightarrow> True | _ \<Rightarrow> False)"

text \<open>\<open>str(value or "").strip()\<close>, the idiom by which the handlers read text fields.\<close>

definition text_field :: "pyval \<Rightarrow> string" where
  "text_field v = py_strip (py_str (por v (PStr [])))"

lemma text_field_PNone [simp]: "text_field PNone = []"
  by (simp add: text_field_def por_def)

lemma text_field_PStr [simp]: "text_field (PStr s) = py_strip s"
  by (simp add: text_field_def por_def)

lemma text_field_stripped [simp]: "py_strip (text_field v) = text_field v"
  by (simp add: text_field_def)

end
