(* ===== verification/StoreState.thy ===== *)
theory StoreState
  imports PyValues
begin

text \<open>
  \<open>apps/ocpp/store/state.py\<close>: the process-wide caches of the OCPP server.  Module globals are the
  fields of one record; every function takes the record and returns the updated one.  Consumers
  (\<open>'c\<close>) and transaction rows (\<open>'t\<close>) are opaque.  Redis is a service outside the repository: the
  client is a record of its commands over an abstract server state \<open>'r\<close>, each of which may fail,
  and \<open>redis\<close> is \<open>None\<close> when no URL is configured.
\<close>

subsection \<open>The Redis client\<close>

text \<open>
  A command answers \<open>None\<close> for \<open>RedisError\<close>; the server state may have changed all the same.
\<close>

record 'r redis_client =
  rc_sadd_scard :: "string \<Rightarrow> string \<Rightarrow> int \<Rightarrow> 'r \<Rightarrow> (int \<times> int) option \<times> 'r"
  rc_srem :: "string \<Rightarrow> string \<Rightarrow> 'r \<Rightarrow> bool \<times> 'r"
  rc_set :: "string \<Rightarrow> string \<Rightarrow> int \<Rightarrow> 'r \<Rightarrow> bool \<times> 'r"
  rc_get :: "string \<Rightarrow> 'r \<Rightarrow> string option option \<times> 'r"
  rc_delete :: "string \<Rightarrow> 'r \<Rightarrow> bool \<times> 'r"
  rc_scan :: "string \<Rightarrow> 'r \<Rightarrow> string list option \<times> 'r"

subsection \<open>Keys\<close>

definition IDENTITY_SEPARATOR :: string where "IDENTITY_SEPARATOR = ''#''"
definition AGGREGATE_SLUG :: string where "AGGREGATE_SLUG = ''all''"
definition PENDING_SLUG :: string where "PENDING_SLUG = ''pending''"

lemmas slug_defs = IDENTITY_SEPARATOR_def AGGREGATE_SLUG_def PENDING_SLUG_def

text \<open>\<open>value in (None, "", AGGREGATE_SLUG)\<close>\<close>

definition is_aggregate :: "pyval \<Rightarrow> bool" where
  "is_aggregate v = (v = PNone \<or> v = PStr [] \<or> v = PStr AGGREGATE_SLUG)"

text \<open>The domain the annotations give is \<open>int | str | None\<close>.\<close>

definition connector_slug :: "pyval \<Rightarrow> string" where
  "connector_slug v =
     (if is_aggregate v then AGGREGATE_SLUG
      else case py_int v of Inr i \<Rightarrow> int_str i | Inl _ \<Rightarrow> py_str v)"

definition identity_key :: "string \<Rightarrow> pyval \<Rightarrow> string" where
  "identity_key serial connector = serial @ IDENTITY_SEPARATOR @ connector_slug connector"

definition pending_key :: "string \<Rightarrow> string" where
  "pending_key serial = serial @ IDENTITY_SEPARATOR @ PENDING_SLUG"

subsection \<open>The state\<close>

record ('c, 't, 'r) store_state =
  connections :: "(string, 'c) dict"
  transactions :: "(string, 't) dict"
  ip_connections :: "(string, 'c list) dict"
  billing_updates :: "obj list"
  ev_charging_needs :: "obj list"
  ev_charging_schedules :: "obj list"
  planner_notifications :: "obj list"
  observability_events :: "obj list"
  transaction_events :: "obj list"
  connector_release_notifications :: "obj list"
  monitoring_reports :: "obj list"
  display_message_compliance :: "(string, obj list) dict"
  charging_profile_reports :: "(string, (int, (string, int list) dict) dict) dict"
  redis :: "'r option"

definition init_store :: "'r option \<Rightarrow> ('c, 't, 'r) store_state" where
  "init_store r =
     \<lparr>connections = [], transactions = [], ip_connections = [], billing_updates = [],
      ev_charging_needs = [], ev_charging_schedules = [], planner_notifications = [],
      observability_events = [], transaction_events = [], connector_release_notifications = [],
      monitoring_reports = [], display_message_compliance = [], charging_profile_reports = [],
      redis = r\<rparr>"

subsection \<open>Connections per client address\<close>

definition IP_CONNECTION_TTL :: int where "IP_CONNECTION_TTL = 3600"

definition redis_ip_key :: "string \<Rightarrow> string" where
  "redis_ip_key ip = ''ocpp:ip-connection:'' @ ip"

definition register_ip_connection_redis ::
  "'r redis_client \<Rightarrow> nat \<Rightarrow> ('c \<Rightarrow> string) \<Rightarrow> string \<Rightarrow> 'c \<Rightarrow> ('c, 't, 'r) store_state \<Rightarrow>
     bool option \<times> ('c, 't, 'r) store_state" where
  "register_ip_connection_redis rc maxc token ip consumer s =
     (case redis s of
        None \<Rightarrow> (None, s)
      | Some r \<Rightarrow>
          (let key = redis_ip_key ip; tok = token consumer in
           case rc_sadd_scard rc key tok IP_CONNECTION_TTL r of
             (None, r1) \<Rightarrow> (None, s\<lparr>redis := Some r1\<rparr>)
           | (Some (added, count), r1) \<Rightarrow>
               (if count > int maxc \<and> added \<noteq> 0
                then (case rc_srem rc key tok r1 of
                        (ok, r2) \<Rightarrow> (if ok then Some False else None, s\<lparr>redis := Some r2\<rparr>))
                else (Some (count \<le> int maxc), s\<lparr>redis := Some r1\<rparr>))))"

definition release_ip_connection_redis ::
  "'r redis_client \<Rightarrow> ('c \<Rightarrow> string) \<Rightarrow> string \<Rightarrow> 'c \<Rightarrow> ('c, 't, 'r) store_state \<Rightarrow>
     ('c, 't, 'r) store_state" where
  "release_ip_connection_redis rc token ip consumer s =
     (case redis s of
        None \<Rightarrow> s
      | Some r \<Rightarrow> s\<lparr>redis := Some (snd (rc_srem rc (redis_ip_key ip) (token consumer) r))\<rparr>)"

text \<open>
  The per-address lock makes each call atomic.  \<open>ip\<close> is \<open>None\<close> or empty for an unknown client.
\<close>

definition register_ip_connection ::
  "'r redis_client \<Rightarrow> nat \<Rightarrow> ('c \<Rightarrow> string) \<Rightarrow> string option \<Rightarrow> 'c \<Rightarrow> ('c, 't, 'r) store_state \<Rightarrow>
     bool \<times> ('c, 't, 'r) store_state" where
  "register_ip_connection rc maxc token ip consumer s =
     (case ip of
        None \<Rightarrow> (True, s)
      | Some a \<Rightarrow>
          (if a = [] then (True, s)
           else case register_ip_connection_redis rc maxc token a consumer s of
                  (allowed, s1) \<Rightarrow>
                    (if allowed = Some False then (False, s1)
                     else let s2 = s1\<lparr>ip_connections := setdefault a [] (ip_connections s1)\<rparr>;
                              conns = (case dget (ip_connections s2) a of None \<Rightarrow> [] | Some cs \<Rightarrow> cs)
                          in if consumer \<in> set conns then (True, s2)
                             else if length conns \<ge> maxc
                               then (False, if allowed = Some True
                                            then release_ip_connection_redis rc token a consumer s2 else s2)
                             else (True, s2\<lparr>ip_connections := dset a (sadd consumer conns) (ip_connections s2)\<rparr>))))"

definition release_ip_connection ::
  "'r redis_client \<Rightarrow> ('c \<Rightarrow> string) \<Rightarrow> string option \<Rightarrow> 'c \<Rightarrow> ('c, 't, 'r) store_state \<Rightarrow>
     ('c, 't, 'r) store_state" where
  "release_ip_connection rc token ip consumer s =
     (case ip of
        None \<Rightarrow> s
      | Some a \<Rightarrow>
          (if a = [] then s
           else let s1 = release_ip_connection_redis rc token a consumer s
                in case dget (ip_connections s1) a of
                     None \<Rightarrow> s1
                   | Some conns \<Rightarrow>
                       (if conns = [] then s1
                        else let conns' = sdiscard consumer conns
                             in if conns' = []
                                then s1\<lparr>ip_connections := ddel a (ip_connections s1)\<rparr>
                                else s1\<lparr>ip_connections := dset a conns' (ip_connections s1)\<rparr>)))"

subsection \<open>Connections and transactions by identity\<close>

definition candidate_keys :: "string \<Rightarrow> pyval \<Rightarrow> ('c, 't, 'r) store_state \<Rightarrow> string list" where
  "candidate_keys serial connector s =
     (let keys =
        (if \<not> is_aggregate connector then [identity_key serial connector]
         else [identity_key serial PNone] @
              filter (\<lambda>k. py_startswith k (serial @ IDENTITY_SEPARATOR) \<and> k \<noteq> identity_key serial PNone)
                (dkeys (connections s)))
      in dedupe (filter (\<lambda>k. k \<noteq> []) (keys @ [pending_key serial, serial])))"

definition iter_identity_keys :: "string \<Rightarrow> ('c, 't, 'r) store_state \<Rightarrow> string list" where
  "iter_identity_keys serial s =
     filter (\<lambda>k. py_startswith k (serial @ IDENTITY_SEPARATOR)) (dkeys (connections s)) @
     (if serial \<in> set (dkeys (connections s)) then [serial] else [])"

definition is_connected :: "string \<Rightarrow> pyval \<Rightarrow> ('c, 't, 'r) store_state \<Rightarrow> bool" where
  "is_connected serial connector s =
     (if is_aggregate connector
      then list_ex (\<lambda>k. py_startswith k (serial @ IDENTITY_SEPARATOR)) (dkeys (connections s)) \<or>
           serial \<in> set (dkeys (connections s))
      else list_ex (\<lambda>k. k \<in> set (dkeys (connections s))) (candidate_keys serial connector s))"

definition get_connection :: "string \<Rightarrow> pyval \<Rightarrow> ('c, 't, 'r) store_state \<Rightarrow> 'c option" where
  "get_connection serial connector s =
     map_option snd (first_hit (dget (connections s)) (candidate_keys serial connector s))"

definition set_connection ::
  "string \<Rightarrow> pyval \<Rightarrow> 'c \<Rightarrow> ('c, 't, 'r) store_state \<Rightarrow> string \<times> ('c, 't, 'r) store_state" where
  "set_connection serial connector consumer s =
     (let key = identity_key serial connector
      in (key, s\<lparr>connections := dset key consumer (connections s)\<rparr>))"

definition pop_connection ::
  "string \<Rightarrow> pyval \<Rightarrow> ('c, 't, 'r) store_state \<Rightarrow> 'c option \<times> ('c, 't, 'r) store_state" where
  "pop_connection serial connector s =
     (case first_hit (dget (connections s)) (candidate_keys serial connector s) of
        None \<Rightarrow> (None, s)
      | Some (key, conn) \<Rightarrow> (Some conn, s\<lparr>connections := ddel key (connections s)\<rparr>))"

definition get_transaction :: "string \<Rightarrow> pyval \<Rightarrow> ('c, 't, 'r) store_state \<Rightarrow> 't option" where
  "get_transaction serial connector s =
     map_option snd (first_hit (dget (transactions s)) (candidate_keys serial connector s))"

definition set_transaction ::
  "string \<Rightarrow> pyval \<Rightarrow> 't \<Rightarrow> ('c, 't, 'r) store_state \<Rightarrow> string \<times> ('c, 't, 'r) store_state" where
  "set_transaction serial connector tx s =
     (let key = identity_key serial connector
      in (key, s\<lparr>transactions := dset key tx (transactions s)\<rparr>))"

definition pop_transaction ::
  "string \<Rightarrow> pyval \<Rightarrow> ('c, 't, 'r) store_state \<Rightarrow> 't option \<times> ('c, 't, 'r) store_state" where
  "pop_transaction serial connector s =
     (case first_hit (dget (transactions s)) (candidate_keys serial connector s) of
        None \<Rightarrow> (None, s)
      | Some (key, tx) \<Rightarrow> (Some tx, s\<lparr>transactions := ddel key (transactions s)\<rparr>))"

subsection \<open>Event queues and report caches\<close>

definition opt_int :: "int option \<Rightarrow> pyval" where
  "opt_int v = (case v of None \<Rightarrow> PNone | Some i \<Rightarrow> PInt i)"

definition record_display_message_compliance ::
  "string \<Rightarrow> int option \<Rightarrow> bool \<Rightarrow> pyval list \<Rightarrow> pyval \<Rightarrow> ('c, 't, 'r) store_state \<Rightarrow>
     ('c, 't, 'r) store_state" where
  "record_display_message_compliance charger_id request_id tbc messages received_at s =
     (if charger_id = [] then s
      else let rec = [(''charger_id'', PStr charger_id), (''request_id'', opt_int request_id),
                      (''tbc'', PBool tbc), (''messages'', PList messages),
                      (''received_at'', received_at)];
               old = (case dget (display_message_compliance s) charger_id of None \<Rightarrow> [] | Some rs \<Rightarrow> rs)
           in s\<lparr>display_message_compliance :=
                  dset charger_id (old @ [rec]) (display_message_compliance s)\<rparr>)"

definition clear_display_message_compliance ::
  "('c, 't, 'r) store_state \<Rightarrow> ('c, 't, 'r) store_state" where
  "clear_display_message_compliance s = s\<lparr>display_message_compliance := []\<rparr>"

definition request_key :: "int option \<Rightarrow> int" where
  "request_key request_id = (case request_id of Some i \<Rightarrow> i | None \<Rightarrow> - 1)"

definition reported_entry ::
  "string \<Rightarrow> int \<Rightarrow> ('c, 't, 'r) store_state \<Rightarrow> (string, int list) dict" where
  "reported_entry charger_id key s =
     (case dget (charging_profile_reports s) charger_id of
        None \<Rightarrow> []
      | Some entries \<Rightarrow> (case dget entries key of None \<Rightarrow> [] | Some rep \<Rightarrow> rep))"

definition record_reported_charging_profile ::
  "string \<Rightarrow> int option \<Rightarrow> pyval \<Rightarrow> int option \<Rightarrow> ('c, 't, 'r) store_state \<Rightarrow>
     ('c, 't, 'r) store_state" where
  "record_reported_charging_profile charger_id request_id evse_id profile_id s =
     (case profile_id of
        None \<Rightarrow> s
      | Some pid \<Rightarrow>
          (if charger_id = [] then s
           else let key = request_key request_id;
                    slug = connector_slug evse_id;
                    entries = (case dget (charging_profile_reports s) charger_id of
                                 None \<Rightarrow> [] | Some es \<Rightarrow> es);
                    rep = (case dget entries key of None \<Rightarrow> [] | Some r \<Rightarrow> r);
                    ids = (case dget rep slug of None \<Rightarrow> [] | Some xs \<Rightarrow> xs);
                    rep' = dset slug (sadd pid ids) rep
                in s\<lparr>charging_profile_reports :=
                       dset charger_id (dset key rep' entries) (charging_profile_reports s)\<rparr>))"

definition consume_reported_charging_profiles ::
  "string \<Rightarrow> int option \<Rightarrow> ('c, 't, 'r) store_state \<Rightarrow>
     (string, int list) dict option \<times> ('c, 't, 'r) store_state" where
  "consume_reported_charging_profiles charger_id request_id s =
     (if charger_id = [] then (None, s)
      else case dget (charging_profile_reports s) charger_id of
             None \<Rightarrow> (None, s)
           | Some entries \<Rightarrow>
               (let key = request_key request_id;
                    entries' = ddel key entries;
                    s' = s\<lparr>charging_profile_reports :=
                             (if entries' = [] then ddel charger_id (charging_profile_reports s)
                              else dset charger_id entries' (charging_profile_reports s))\<rparr>
                in (dget entries key, s')))"

definition record_ev_charging_needs ::
  "string \<Rightarrow> pyval \<Rightarrow> int \<Rightarrow> int option \<Rightarrow> pyval \<Rightarrow> obj \<Rightarrow> pyval \<Rightarrow> ('c, 't, 'r) store_state \<Rightarrow>
     ('c, 't, 'r) store_state" where
  "record_ev_charging_needs charger_id connector_id evse_id requested_energy departure_time
     needs received_at s =
     (if charger_id = [] then s
      else s\<lparr>ev_charging_needs := push_bounded 500
               [(''charger_id'', PStr charger_id), (''connector_id'', PStr (connector_slug connector_id)),
                (''evse_id'', PInt evse_id), (''requested_energy'', opt_int requested_energy),
                (''departure_time'', departure_time), (''charging_needs'', PDict needs),
                (''received_at'', received_at)]
               (ev_charging_needs s)\<rparr>)"

definition record_ev_charging_schedule ::
  "string \<Rightarrow> pyval \<Rightarrow> int \<Rightarrow> pyval \<Rightarrow> obj option \<Rightarrow> pyval \<Rightarrow> ('c, 't, 'r) store_state \<Rightarrow>
     ('c, 't, 'r) store_state" where
  "record_ev_charging_schedule charger_id connector_id evse_id timebase schedule received_at s =
     (case schedule of
        None \<Rightarrow> s
      | Some sched \<Rightarrow>
          (if charger_id = [] then s
           else s\<lparr>ev_charging_schedules := push_bounded 500
                    [(''charger_id'', PStr charger_id),
                     (''connector_id'', PStr (connector_slug connector_id)),
                     (''evse_id'', PInt evse_id), (''timebase'', timebase),
                     (''charging_schedule'', PDict sched), (''received_at'', received_at)]
                    (ev_charging_schedules s)\<rparr>))"

text \<open>The seventeen keyword arguments of \<open>record_monitoring_report\<close> arrive as one record.\<close>

record monitoring_entry =
  me_request_id :: "int option"
  me_seq_no :: "int option"
  me_generated_at :: pyval
  me_tbc :: bool
  me_component_name :: string
  me_component_instance :: string
  me_variable_name :: string
  me_variable_instance :: string
  me_monitoring_id :: int
  me_severity :: "int option"
  me_monitor_type :: string
  me_threshold :: string
  me_is_transaction :: bool
  me_evse_id :: "int option"
  me_connector_id :: pyval
  me_received_at :: pyval

definition record_monitoring_report ::
  "string \<Rightarrow> monitoring_entry \<Rightarrow> ('c, 't, 'r) store_state \<Rightarrow> ('c, 't, 'r) store_state" where
  "record_monitoring_report charger_id m s =
     (if charger_id = [] then s
      else s\<lparr>monitoring_reports := push_bounded 1000
               [(''charger_id'', PStr charger_id), (''request_id'', opt_int (me_request_id m)),
                (''seq_no'', opt_int (me_seq_no m)), (''generated_at'', me_generated_at m),
                (''tbc'', PBool (me_tbc m)), (''component_name'', PStr (me_component_name m)),
                (''component_instance'', PStr (me_component_instance m)),
                (''variable_name'', PStr (me_variable_name m)),
                (''variable_instance'', PStr (me_variable_instance m)),
                (''monitoring_id'', PInt (me_monitoring_id m)), (''severity'', opt_int (me_severity m)),
                (''monitor_type'', PStr (me_monitor_type m)), (''threshold'', PStr (me_threshold m)),
                (''is_transaction'', PBool (me_is_transaction m)), (''evse_id'', opt_int (me_evse_id m)),
                (''connector_id'', PStr (connector_slug (me_connector_id m))),
                (''received_at'', me_received_at m)]
               (monitoring_reports s)\<rparr>)"

definition forward_ev_charging_schedule :: "obj \<Rightarrow> ('c, 't, 'r) store_state \<Rightarrow> ('c, 't, 'r) store_state" where
  "forward_ev_charging_schedule schedule s =
     s\<lparr>planner_notifications := push_bounded 500 schedule (planner_notifications s)\<rparr>"

definition forward_event_to_observability :: "obj \<Rightarrow> ('c, 't, 'r) store_state \<Rightarrow> ('c, 't, 'r) store_state" where
  "forward_event_to_observability event s =
     s\<lparr>observability_events := push_bounded 1000 event (observability_events s)\<rparr>"

definition record_transaction_event :: "obj \<Rightarrow> ('c, 't, 'r) store_state \<Rightarrow> ('c, 't, 'r) store_state" where
  "record_transaction_event event s =
     s\<lparr>transaction_events := push_bounded 1000 event (transaction_events s)\<rparr>"

definition forward_connector_release :: "obj \<Rightarrow> ('c, 't, 'r) store_state \<Rightarrow> ('c, 't, 'r) store_state" where
  "forward_connector_release notification s =
     s\<lparr>connector_release_notifications :=
         push_bounded 500 notification (connector_release_notifications s)\<rparr>"

definition forward_cost_update_to_billing :: "obj \<Rightarrow> ('c, 't, 'r) store_state \<Rightarrow> ('c, 't, 'r) store_state" where
  "forward_cost_update_to_billing update s =
     s\<lparr>billing_updates := push_bounded 1000 update (billing_updates s)\<rparr>"

subsection \<open>Moving an identity\<close>

text \<open>
  \<open>reassign_identity\<close> of \<open>apps/ocpp/store/__init__.py\<close> also renames the log buffers; \<open>logs\<close> stands for
  those three mappings (history, per-type buffers, per-type names) as one list of dictionaries.
\<close>

definition rename_key :: "string \<Rightarrow> string \<Rightarrow> (string, 'v) dict \<Rightarrow> (string, 'v) dict" where
  "rename_key old new d = (case dget d old of None \<Rightarrow> d | Some v \<Rightarrow> dset new v (ddel old d))"

definition reassign_identity ::
  "string \<Rightarrow> string \<Rightarrow> ('c, 't, 'r) store_state \<times> (string, 'l) dict list \<Rightarrow>
     string \<times> ('c, 't, 'r) store_state \<times> (string, 'l) dict list" where
  "reassign_identity old_key new_key st =
     (case st of (s, logs) \<Rightarrow>
        (if old_key = new_key then (new_key, s, logs)
         else if old_key = [] then (new_key, s, logs)
         else (new_key,
               s\<lparr>connections := rename_key old_key new_key (connections s),
                 transactions := rename_key old_key new_key (transactions s)\<rparr>,
               map (rename_key old_key new_key) logs)))"

end
