(* ===== verification/TxRequests.thy ===== *)
theory TxRequests
  imports StoreState
begin

text \<open>
  \<open>apps/ocpp/store/transactions.py\<close>: remote start and stop requests in flight, with one index by
  connector and one by transaction; and the part of \<open>clear_pending_calls\<close> (\<open>pending_calls.py\<close>) that
  takes the requests of a charger out of the table.  The module's lock makes each function atomic; \<open>now\<close> is the
  clock reading the call takes.  A Python set is a duplicate-free list.
\<close>

subsection \<open>State and indices\<close>

record tx_state =
  transaction_requests :: "(string, obj) dict"
  requests_by_connector :: "(string, string list) dict"
  requests_by_transaction :: "(string, string list) dict"

definition init_tx_state :: tx_state where
  "init_tx_state = \<lparr>transaction_requests = [], requests_by_connector = [], requests_by_transaction = []\<rparr>"

definition normalize_transaction_id :: "pyval \<Rightarrow> string option" where
  "normalize_transaction_id v = (if v = PNone \<or> v = PStr [] then None else Some (py_str v))"

definition transaction_connector_key :: "string \<Rightarrow> pyval \<Rightarrow> string option" where
  "transaction_connector_key charger_id connector =
     (if charger_id = [] then None else Some (identity_key charger_id connector))"

definition remove_transaction_index_entry ::
  "(string, string list) dict \<Rightarrow> string option \<Rightarrow> string \<Rightarrow> (string, string list) dict" where
  "remove_transaction_index_entry m key mid =
     (case key of
        None \<Rightarrow> m
      | Some k \<Rightarrow>
          (if k = [] then m
           else case dget m k of
                  None \<Rightarrow> m
                | Some entries \<Rightarrow>
                    (if entries = [] then m
                     else let entries' = sdiscard mid entries
                          in if entries' = [] then ddel k m else dset k entries' m)))"

definition add_transaction_index_entry ::
  "(string, string list) dict \<Rightarrow> string option \<Rightarrow> string \<Rightarrow> (string, string list) dict" where
  "add_transaction_index_entry m key mid =
     (case key of
        None \<Rightarrow> m
      | Some k \<Rightarrow>
          (if k = [] then m
           else dset k (sadd mid (case dget m k of None \<Rightarrow> [] | Some entries \<Rightarrow> entries)) m))"

text \<open>\<open>str(entry.get("charger_id") or "")\<close> and the two ways an entry is filed.\<close>

definition entry_charger :: "obj \<Rightarrow> string" where
  "entry_charger entry = py_str (por (jget entry ''charger_id'') (PStr []))"

definition entry_tx_key :: "obj \<Rightarrow> string option" where
  "entry_tx_key entry =
     normalize_transaction_id (por (jget entry ''transaction_id'') (jget entry ''ocpp_transaction_id''))"

definition entry_connector_key :: "obj \<Rightarrow> string option" where
  "entry_connector_key entry =
     transaction_connector_key (entry_charger entry) (jget entry ''connector_id'')"

subsection \<open>Operations\<close>

text \<open>The keyword arguments \<open>status\<close>, \<open>connector_id\<close>, \<open>transaction_id\<close>, \<open>ocpp_transaction_id\<close>.\<close>

record tx_update =
  tu_status :: "string option"
  tu_connector_id :: pyval
  tu_transaction_id :: pyval
  tu_ocpp_transaction_id :: pyval

definition set_entry_status :: "pyval \<Rightarrow> string option \<Rightarrow> obj \<Rightarrow> obj" where
  "set_entry_status now status entry =
     (case status of
        None \<Rightarrow> entry
      | Some st \<Rightarrow> (if st = [] then entry else dset ''status_at'' now (dset ''status'' (PStr st) entry)))"

text \<open>The connector and the transaction part of an update, each with the index it maintains.\<close>

definition move_connector ::
  "string \<Rightarrow> pyval \<Rightarrow> obj \<times> (string, string list) dict \<Rightarrow> obj \<times> (string, string list) dict" where
  "move_connector mid connector_id p =
     (case p of (entry, m) \<Rightarrow>
        (if connector_id \<noteq> PNone \<and>
            connector_slug (jget entry ''connector_id'') \<noteq> connector_slug connector_id
         then let old_key = transaction_connector_key (entry_charger entry) (jget entry ''connector_id'');
                  new_key = transaction_connector_key (entry_charger entry) connector_id
              in (dset ''connector_id'' connector_id entry,
                  add_transaction_index_entry (remove_transaction_index_entry m old_key mid) new_key mid)
         else (entry, m)))"

definition retag_transaction ::
  "string \<Rightarrow> pyval \<Rightarrow> pyval \<Rightarrow> obj \<times> (string, string list) dict \<Rightarrow> obj \<times> (string, string list) dict" where
  "retag_transaction mid transaction_id ocpp_transaction_id p =
     (case p of (entry, m) \<Rightarrow>
        (if transaction_id \<noteq> PNone \<or> ocpp_transaction_id \<noteq> PNone
         then let old_tx = entry_tx_key entry
              in case normalize_transaction_id
                        (if transaction_id \<noteq> PNone then transaction_id else ocpp_transaction_id) of
                   None \<Rightarrow> (entry, m)
                 | Some new_tx \<Rightarrow>
                     (if new_tx \<noteq> [] \<and> Some new_tx \<noteq> old_tx
                      then (dset ''transaction_id'' (PStr new_tx) entry,
                            add_transaction_index_entry
                              (remove_transaction_index_entry m old_tx mid) (Some new_tx) mid)
                      else (entry, m))
         else (entry, m)))"

text \<open>The entry is the dictionary held in \<open>transaction_requests\<close>, so its changes are stored there.\<close>

definition update_transaction_request_locked ::
  "pyval \<Rightarrow> string \<Rightarrow> obj \<Rightarrow> tx_update \<Rightarrow> tx_state \<Rightarrow> obj \<times> tx_state" where
  "update_transaction_request_locked now mid entry u s =
     (case move_connector mid (tu_connector_id u)
             (set_entry_status now (tu_status u) entry, requests_by_connector s) of
        (e2, by_conn) \<Rightarrow>
          (case retag_transaction mid (tu_transaction_id u) (tu_ocpp_transaction_id u)
                  (e2, requests_by_transaction s) of
             (e3, by_tx) \<Rightarrow>
               (e3, \<lparr>transaction_requests = dset mid e3 (transaction_requests s),
                     requests_by_connector = by_conn, requests_by_transaction = by_tx\<rparr>)))"

definition register_transaction_request :: "pyval \<Rightarrow> string \<Rightarrow> obj \<Rightarrow> tx_state \<Rightarrow> tx_state" where
  "register_transaction_request now mid metadata s =
     (let entry = setdefault ''status_at'' now (setdefault ''status'' (PStr ''requested'') metadata)
      in \<lparr>transaction_requests = dset mid entry (transaction_requests s),
          requests_by_connector =
            add_transaction_index_entry (requests_by_connector s) (entry_connector_key entry) mid,
          requests_by_transaction =
            add_transaction_index_entry (requests_by_transaction s) (entry_tx_key entry) mid\<rparr>)"

definition update_transaction_request ::
  "pyval \<Rightarrow> string \<Rightarrow> tx_update \<Rightarrow> tx_state \<Rightarrow> obj option \<times> tx_state" where
  "update_transaction_request now mid u s =
     (case dget (transaction_requests s) mid of
        None \<Rightarrow> (None, s)
      | Some entry \<Rightarrow>
          (if entry = [] then (None, s)
           else case update_transaction_request_locked now mid entry u s of (e, s') \<Rightarrow> (Some e, s')))"

text \<open>The candidate message ids, before the filters.\<close>

definition request_candidates :: "string \<Rightarrow> pyval \<Rightarrow> pyval \<Rightarrow> tx_state \<Rightarrow> string list" where
  "request_candidates charger_id connector_id transaction_id s =
     (let connector_key = transaction_connector_key charger_id connector_id;
          transaction_key = normalize_transaction_id transaction_id;
          ids = (\<lambda>m key. case key of None \<Rightarrow> []
                 | Some k \<Rightarrow> (if k = [] then [] else case dget m k of None \<Rightarrow> [] | Some xs \<Rightarrow> xs))
      in sunion (sunion (sunion [] (ids (requests_by_transaction s) transaction_key))
                        (ids (requests_by_connector s) connector_key))
                (if connector_id = PNone \<and> transaction_key = None
                 then dkeys (transaction_requests s) else []))"

definition request_matches :: "string \<Rightarrow> pyval \<Rightarrow> pyval \<Rightarrow> string list \<Rightarrow> string list \<Rightarrow> obj \<Rightarrow> bool" where
  "request_matches charger_id connector_id transaction_id actions statuses entry =
     (jget entry ''charger_id'' = PStr charger_id \<and>
      (connector_id = PNone \<or>
       connector_slug (jget entry ''connector_id'') = connector_slug connector_id) \<and>
      (case normalize_transaction_id transaction_id of
         None \<Rightarrow> True | Some k \<Rightarrow> k = [] \<or> entry_tx_key entry = Some k) \<and>
      (actions = [] \<or> jget entry ''action'' \<in> PStr ` set actions) \<and>
      (statuses = [] \<or> jget entry ''status'' \<in> PStr ` set statuses))"

text \<open>Sort keys are the datetimes that the callers and \<open>register_transaction_request\<close> store.\<close>

definition datetime_min :: int where "datetime_min = - 62135596800000000"

definition request_time :: "obj \<Rightarrow> int" where
  "request_time entry =
     (case por (jget entry ''requested_at'') (jget entry ''status_at'') of
        PTime t _ \<Rightarrow> t | _ \<Rightarrow> datetime_min)"

definition find_transaction_requests ::
  "string \<Rightarrow> pyval \<Rightarrow> pyval \<Rightarrow> string option \<Rightarrow> string list \<Rightarrow> tx_state \<Rightarrow> (string \<times> obj) list" where
  "find_transaction_requests charger_id connector_id transaction_id action statuses s =
     (let actions = (case action of None \<Rightarrow> [] | Some a \<Rightarrow> (if a = [] then [] else [a]))
      in sort_desc (\<lambda>item. request_time (snd item))
           (List.map_filter
             (\<lambda>mid. case dget (transaction_requests s) mid of
                None \<Rightarrow> None
              | Some entry \<Rightarrow>
                  (if entry \<noteq> [] \<and> request_matches charger_id connector_id transaction_id actions statuses entry
                   then Some (mid, entry) else None))
             (request_candidates charger_id connector_id transaction_id s)))"

definition mark_step ::
  "pyval \<Rightarrow> string \<Rightarrow> pyval \<Rightarrow> pyval \<Rightarrow> string list \<Rightarrow> string list \<Rightarrow> string \<Rightarrow> string \<Rightarrow>
     obj list \<times> tx_state \<Rightarrow> obj list \<times> tx_state" where
  "mark_step now charger_id connector_id transaction_id actions statuses status mid acc =
     (case acc of (updated, s) \<Rightarrow>
        (case dget (transaction_requests s) mid of
           None \<Rightarrow> (updated, s)
         | Some entry \<Rightarrow>
             (if entry \<noteq> [] \<and> request_matches charger_id connector_id transaction_id actions statuses entry
              then case update_transaction_request_locked now mid entry
                     \<lparr>tu_status = Some status, tu_connector_id = connector_id,
                      tu_transaction_id = transaction_id, tu_ocpp_transaction_id = PNone\<rparr> s of
                     (e, s') \<Rightarrow> (updated @ [e], s')
              else (updated, s))))"

definition mark_transaction_requests ::
  "pyval \<Rightarrow> string \<Rightarrow> pyval \<Rightarrow> pyval \<Rightarrow> string list \<Rightarrow> string list \<Rightarrow> string \<Rightarrow> tx_state \<Rightarrow>
     obj list \<times> tx_state" where
  "mark_transaction_requests now charger_id connector_id transaction_id actions statuses status s =
     fold (mark_step now charger_id connector_id transaction_id actions statuses status)
       (request_candidates charger_id connector_id transaction_id s) ([], s)"

subsection \<open>Clearing a charger\<close>

text \<open>The part of \<open>clear_pending_calls\<close> of \<open>store/pending_calls.py\<close> that acts on this table.\<close>

definition charger_calls :: "string \<Rightarrow> (string, obj) dict \<Rightarrow> string list" where
  "charger_calls serial calls =
     map fst (filter (\<lambda>kv. jget (snd kv) ''charger_id'' = PStr serial) calls)"

definition drop_transaction_request :: "string \<Rightarrow> tx_state \<Rightarrow> tx_state" where
  "drop_transaction_request mid s =
     (case dget (transaction_requests s) mid of
        None \<Rightarrow> s
      | Some entry \<Rightarrow>
          (let s1 = s\<lparr>transaction_requests := ddel mid (transaction_requests s)\<rparr>
           in if entry = [] then s1
              else s1\<lparr>requests_by_connector :=
                        remove_transaction_index_entry (requests_by_connector s1) (entry_connector_key entry) mid,
                      requests_by_transaction :=
                        remove_transaction_index_entry (requests_by_transaction s1) (entry_tx_key entry) mid\<rparr>))"

definition clear_requests :: "string \<Rightarrow> tx_state \<Rightarrow> tx_state" where
  "clear_requests serial s = fold drop_transaction_request (charger_calls serial (transaction_requests s)) s"

end
