(* ===== verification/PendingCalls.thy ===== *)
theory PendingCalls
  imports TxRequests
begin

text \<open>
  \<open>apps/ocpp/store/pending_calls.py\<close>: calls the server has sent and whose reply is outstanding.
  The module keeps the metadata, the reply, an event for waiting threads and a timer handle per
  message id, mirrors metadata and reply to Redis, and tracks follow-ups and monitoring reports.
  Events and timers are numbered: a set event is listed in \<open>events_set\<close>, a timer that is armed and
  not cancelled is in \<open>live_timers\<close> with the arguments its callback closes over.
\<close>

subsection \<open>State\<close>

record call_timer =
  ct_message_id :: string
  ct_action :: "string option"
  ct_log_key :: "string option"
  ct_log_type :: string
  ct_message :: "string option"

record followup =
  fu_action :: string
  fu_connector :: string
  fu_log_key :: "string option"
  fu_target :: "string option"

record ('c, 't, 'r) ocpp_store =
  st :: "('c, 't, 'r) store_state"
  txs :: tx_state
  pending_calls :: "(string, obj) dict"
  call_events :: "(string, nat) dict"
  events_set :: "nat list"
  next_event :: nat
  call_results :: "(string, obj) dict"
  call_handles :: "(string, nat) dict"
  live_timers :: "(nat, call_timer) dict"
  next_timer :: nat
  triggered_followups :: "(string, followup list) dict"
  monitoring_report_requests :: "(int, obj) dict"
  log_lines :: "(pyval \<times> string \<times> string) list"

definition init_ocpp_store :: "'r option \<Rightarrow> ('c, 't, 'r) ocpp_store" where
  "init_ocpp_store r =
     \<lparr>st = init_store r, txs = init_tx_state, pending_calls = [], call_events = [], events_set = [],
      next_event = 0, call_results = [], call_handles = [], live_timers = [], next_timer = 0,
      triggered_followups = [], monitoring_report_requests = [], log_lines = []\<rparr>"

text \<open>\<open>if text:\<close> for an optional string.\<close>

definition given :: "string option \<Rightarrow> bool" where
  "given t = (case t of None \<Rightarrow> False | Some s \<Rightarrow> s \<noteq> [])"

subsection \<open>The Redis mirror\<close>

text \<open>
  The JSON encoder and decoder are library code: \<open>dumps\<close> answers \<open>None\<close> where it raises \<open>TypeError\<close>
  or \<open>ValueError\<close>, \<open>loads\<close> where it raises \<open>JSONDecodeError\<close>; only objects are stored.
\<close>

record 'r redis_env =
  env_client :: "'r redis_client"
  env_dumps :: "obj \<Rightarrow> string option"
  env_loads :: "string \<Rightarrow> obj option"

definition PENDING_TTL :: int where "PENDING_TTL = 1800"

definition pending_metadata_key :: "string \<Rightarrow> string" where
  "pending_metadata_key mid = ''ocpp:pending:'' @ mid"

definition pending_result_key :: "string \<Rightarrow> string" where
  "pending_result_key mid = ''ocpp:pending-result:'' @ mid"

definition set_redis :: "'r \<Rightarrow> ('c, 't, 'r) ocpp_store \<Rightarrow> ('c, 't, 'r) ocpp_store" where
  "set_redis r s = s\<lparr>st := (st s)\<lparr>redis := Some r\<rparr>\<rparr>"

definition store_json_redis ::
  "'r redis_env \<Rightarrow> string \<Rightarrow> obj \<Rightarrow> ('c, 't, 'r) ocpp_store \<Rightarrow> ('c, 't, 'r) ocpp_store" where
  "store_json_redis env key d s =
     (case redis (st s) of
        None \<Rightarrow> s
      | Some r \<Rightarrow>
          (case env_dumps env d of
             None \<Rightarrow> s
           | Some text \<Rightarrow> set_redis (snd (rc_set (env_client env) key text PENDING_TTL r)) s))"

definition load_json_redis ::
  "'r redis_env \<Rightarrow> string \<Rightarrow> ('c, 't, 'r) ocpp_store \<Rightarrow> obj option \<times> ('c, 't, 'r) ocpp_store" where
  "load_json_redis env key s =
     (case redis (st s) of
        None \<Rightarrow> (None, s)
      | Some r \<Rightarrow>
          (case rc_get (env_client env) key r of
             (reply, r') \<Rightarrow>
               ((case reply of
                   Some (Some raw) \<Rightarrow> (if raw = [] then None else env_loads env raw)
                 | _ \<Rightarrow> None), set_redis r' s)))"

definition store_pending_metadata_redis ::
  "'r redis_env \<Rightarrow> string \<Rightarrow> obj \<Rightarrow> ('c, 't, 'r) ocpp_store \<Rightarrow> ('c, 't, 'r) ocpp_store" where
  "store_pending_metadata_redis env mid md s = store_json_redis env (pending_metadata_key mid) md s"

definition load_pending_metadata_redis ::
  "'r redis_env \<Rightarrow> string \<Rightarrow> ('c, 't, 'r) ocpp_store \<Rightarrow> obj option \<times> ('c, 't, 'r) ocpp_store" where
  "load_pending_metadata_redis env mid s = load_json_redis env (pending_metadata_key mid) s"

definition store_pending_result_redis ::
  "'r redis_env \<Rightarrow> string \<Rightarrow> obj \<Rightarrow> ('c, 't, 'r) ocpp_store \<Rightarrow> ('c, 't, 'r) ocpp_store" where
  "store_pending_result_redis env mid res s = store_json_redis env (pending_result_key mid) res s"

definition load_pending_result_redis ::
  "'r redis_env \<Rightarrow> string \<Rightarrow> ('c, 't, 'r) ocpp_store \<Rightarrow> obj option \<times> ('c, 't, 'r) ocpp_store" where
  "load_pending_result_redis env mid s = load_json_redis env (pending_result_key mid) s"

text \<open>A failing first delete skips the second.\<close>

definition clear_pending_redis ::
  "'r redis_env \<Rightarrow> string \<Rightarrow> ('c, 't, 'r) ocpp_store \<Rightarrow> ('c, 't, 'r) ocpp_store" where
  "clear_pending_redis env mid s =
     (case redis (st s) of
        None \<Rightarrow> s
      | Some r \<Rightarrow>
          (case rc_delete (env_client env) (pending_metadata_key mid) r of
             (ok, r1) \<Rightarrow>
               (if ok then set_redis (snd (rc_delete (env_client env) (pending_result_key mid) r1)) s
                else set_redis r1 s)))"

subsection \<open>Registering and answering a call\<close>

definition cancel_handle :: "string \<Rightarrow> ('c, 't, 'r) ocpp_store \<Rightarrow> ('c, 't, 'r) ocpp_store" where
  "cancel_handle mid s =
     (case dget (call_handles s) mid of
        None \<Rightarrow> s
      | Some h \<Rightarrow> s\<lparr>call_handles := ddel mid (call_handles s), live_timers := ddel h (live_timers s)\<rparr>)"

definition register_pending_call ::
  "'r redis_env \<Rightarrow> string \<Rightarrow> obj \<Rightarrow> ('c, 't, 'r) ocpp_store \<Rightarrow> ('c, 't, 'r) ocpp_store" where
  "register_pending_call env mid metadata s =
     (let s1 = s\<lparr>pending_calls := dset mid metadata (pending_calls s),
                 call_events := dset mid (next_event s) (call_events s),
                 next_event := Suc (next_event s),
                 call_results := ddel mid (call_results s)\<rparr>
      in store_pending_metadata_redis env mid metadata (cancel_handle mid s1))"

definition pop_pending_call ::
  "'r redis_env \<Rightarrow> string \<Rightarrow> ('c, 't, 'r) ocpp_store \<Rightarrow> obj option \<times> ('c, 't, 'r) ocpp_store" where
  "pop_pending_call env mid s =
     (let metadata = dget (pending_calls s) mid;
          s1 = cancel_handle mid (s\<lparr>pending_calls := ddel mid (pending_calls s)\<rparr>);
          (metadata', s2) = (case metadata of
                               Some md \<Rightarrow> (Some md, s1)
                             | None \<Rightarrow> load_pending_metadata_redis env mid s1)
      in (metadata', clear_pending_redis env mid s2))"

definition has_pending_result ::
  "'r redis_env \<Rightarrow> string \<Rightarrow> ('c, 't, 'r) ocpp_store \<Rightarrow> bool \<times> ('c, 't, 'r) ocpp_store" where
  "has_pending_result env mid s =
     (if dget (call_results s) mid \<noteq> None then (True, s)
      else case load_pending_result_redis env mid s of (res, s') \<Rightarrow> (res \<noteq> None, s'))"

record call_outcome =
  co_metadata :: obj
  co_success :: bool
  co_payload :: pyval
  co_error_code :: pyval
  co_error_description :: pyval
  co_error_details :: pyval

definition result_entry :: "call_outcome \<Rightarrow> obj" where
  "result_entry co =
     [(''metadata'', PDict (co_metadata co)), (''success'', PBool (co_success co)),
      (''payload'', co_payload co), (''error_code'', co_error_code co),
      (''error_description'', co_error_description co), (''error_details'', co_error_details co)]"

definition record_pending_call_result ::
  "'r redis_env \<Rightarrow> string \<Rightarrow> call_outcome \<Rightarrow> ('c, 't, 'r) ocpp_store \<Rightarrow> ('c, 't, 'r) ocpp_store" where
  "record_pending_call_result env mid co s =
     (let result = result_entry co;
          event = dget (call_events s) mid;
          s1 = cancel_handle mid (s\<lparr>call_results := dset mid result (call_results s),
                                    call_events := ddel mid (call_events s)\<rparr>);
          s2 = (case event of None \<Rightarrow> s1 | Some e \<Rightarrow> s1\<lparr>events_set := sadd e (events_set s1)\<rparr>)
      in store_pending_result_redis env mid result s2)"

subsection \<open>Waiting\<close>

text \<open>
  \<open>wait_for_pending_call\<close> runs up to \<open>event.wait\<close> in one phase and from there in a second one; other
  threads run in between.  In the second phase the wait has succeeded when the event is set.
\<close>

datatype wait_phase = WaitDone "obj option" | WaitOn nat

definition wait_for_pending_call_start ::
  "'r redis_env \<Rightarrow> string \<Rightarrow> ('c, 't, 'r) ocpp_store \<Rightarrow> wait_phase \<times> ('c, 't, 'r) ocpp_store" where
  "wait_for_pending_call_start env mid s =
     (case dget (call_results s) mid of
        Some existing \<Rightarrow> (WaitDone (Some existing), s\<lparr>call_results := ddel mid (call_results s)\<rparr>)
      | None \<Rightarrow>
          (case dget (call_events s) mid of
             Some e \<Rightarrow> (WaitOn e, s)
           | None \<Rightarrow>
               (case load_pending_result_redis env mid s of
                  (Some cached, s1) \<Rightarrow> (WaitDone (Some cached), clear_pending_redis env mid s1)
                | (None, s1) \<Rightarrow> (WaitDone None, s1))))"

definition wait_for_pending_call_finish ::
  "'r redis_env \<Rightarrow> string \<Rightarrow> nat \<Rightarrow> ('c, 't, 'r) ocpp_store \<Rightarrow> obj option \<times> ('c, 't, 'r) ocpp_store" where
  "wait_for_pending_call_finish env mid e s =
     (if e \<notin> set (events_set s)
      then (case load_pending_result_redis env mid s of
              (Some cached, s1) \<Rightarrow> (Some cached, clear_pending_redis env mid s1)
            | (None, s1) \<Rightarrow> (None, s1))
      else (dget (call_results s) mid,
            s\<lparr>call_results := ddel mid (call_results s), call_events := ddel mid (call_events s)\<rparr>))"

subsection \<open>Timeout notices\<close>

text \<open>
  \<open>schedule_call_timeout\<close> arms the timer on the scheduler thread and then records its handle; the
  callback may run in between.  When the scheduler does not answer in time, the handle is never
  recorded, although the timer may be armed.
\<close>

definition arm_call_timer :: "call_timer \<Rightarrow> ('c, 't, 'r) ocpp_store \<Rightarrow> nat \<times> ('c, 't, 'r) ocpp_store" where
  "arm_call_timer t s =
     (next_timer s, s\<lparr>live_timers := dset (next_timer s) t (live_timers s), next_timer := Suc (next_timer s)\<rparr>)"

definition track_call_timer :: "string \<Rightarrow> nat \<Rightarrow> ('c, 't, 'r) ocpp_store \<Rightarrow> ('c, 't, 'r) ocpp_store" where
  "track_call_timer mid h s =
     (let s1 = cancel_handle mid s in s1\<lparr>call_handles := dset mid h (call_handles s1)\<rparr>)"

definition schedule_call_timeout ::
  "call_timer \<Rightarrow> ('c, 't, 'r) ocpp_store \<Rightarrow> ('c, 't, 'r) ocpp_store" where
  "schedule_call_timeout t s =
     (case arm_call_timer t s of (h, s1) \<Rightarrow> track_call_timer (ct_message_id t) h s1)"

definition timeout_target :: "call_timer \<Rightarrow> obj \<Rightarrow> pyval" where
  "timeout_target t md =
     (case ct_log_key t of
        Some k \<Rightarrow> (if k \<noteq> [] then PStr k else jget md ''log_key'') | None \<Rightarrow> jget md ''log_key'')"

definition timeout_label :: "call_timer \<Rightarrow> obj \<Rightarrow> string" where
  "timeout_label t md =
     (if given (ct_message t) then the (ct_message t)
      else (if given (ct_action t) then the (ct_action t)
            else py_str (por (jget md ''action'') (PStr ''Call''))) @ '' request timed out'')"

definition notify_timeout :: "call_timer \<Rightarrow> ('c, 't, 'r) ocpp_store \<Rightarrow> ('c, 't, 'r) ocpp_store" where
  "notify_timeout t s =
     (let mid = ct_message_id t;
          s1 = s\<lparr>call_handles := ddel mid (call_handles s)\<rparr>
      in case dget (pending_calls s1) mid of
           None \<Rightarrow> s1
         | Some md \<Rightarrow>
             (if md = [] then s1
              else if given (ct_action t) \<and> jget md ''action'' \<noteq> PStr (the (ct_action t)) then s1
              else if truthy (jget md ''timeout_notice_sent'') then s1
              else let s2 = s1\<lparr>pending_calls :=
                                 dset mid (dset ''timeout_notice_sent'' (PBool True) md) (pending_calls s1)\<rparr>
                   in if \<not> truthy (timeout_target t md) then s2
                      else s2\<lparr>log_lines := log_lines s2 @
                                [(timeout_target t md, timeout_label t md, ct_log_type t)]\<rparr>))"

text \<open>The scheduler runs a live timer once.\<close>

definition fire_timer :: "nat \<Rightarrow> ('c, 't, 'r) ocpp_store \<Rightarrow> ('c, 't, 'r) ocpp_store" where
  "fire_timer h s =
     (case dget (live_timers s) h of
        None \<Rightarrow> s
      | Some t \<Rightarrow> notify_timeout t (s\<lparr>live_timers := ddel h (live_timers s)\<rparr>))"

subsection \<open>Monitoring report requests and follow-ups\<close>

definition register_monitoring_report_request ::
  "int option \<Rightarrow> obj \<Rightarrow> ('c, 't, 'r) ocpp_store \<Rightarrow> ('c, 't, 'r) ocpp_store" where
  "register_monitoring_report_request request_id metadata s =
     (case request_id of
        None \<Rightarrow> s
      | Some i \<Rightarrow> s\<lparr>monitoring_report_requests := dset i metadata (monitoring_report_requests s)\<rparr>)"

definition get_monitoring_report_request :: "int \<Rightarrow> ('c, 't, 'r) ocpp_store \<Rightarrow> obj option" where
  "get_monitoring_report_request request_id s = dget (monitoring_report_requests s) request_id"

definition pop_monitoring_report_request ::
  "int \<Rightarrow> ('c, 't, 'r) ocpp_store \<Rightarrow> obj option \<times> ('c, 't, 'r) ocpp_store" where
  "pop_monitoring_report_request request_id s =
     (dget (monitoring_report_requests s) request_id,
      s\<lparr>monitoring_report_requests := ddel request_id (monitoring_report_requests s)\<rparr>)"

definition register_triggered_followup ::
  "string \<Rightarrow> string \<Rightarrow> pyval \<Rightarrow> string option \<Rightarrow> string option \<Rightarrow> ('c, 't, 'r) ocpp_store \<Rightarrow>
     ('c, 't, 'r) ocpp_store" where
  "register_triggered_followup serial action connector log_key target s =
     (let entry = \<lparr>fu_action = action, fu_connector = connector_slug connector,
                   fu_log_key = log_key, fu_target = target\<rparr>;
          old = (case dget (triggered_followups s) serial of None \<Rightarrow> [] | Some es \<Rightarrow> es)
      in s\<lparr>triggered_followups := dset serial (old @ [entry]) (triggered_followups s)\<rparr>)"

definition followup_matches :: "string \<Rightarrow> string \<Rightarrow> followup \<Rightarrow> bool" where
  "followup_matches action slug entry =
     (fu_action entry = action \<and> (fu_connector entry = AGGREGATE_SLUG \<or> slug = fu_connector entry))"

text \<open>The first matching entry and the list without it.\<close>

fun pop_followup :: "(followup \<Rightarrow> bool) \<Rightarrow> followup list \<Rightarrow> (followup \<times> followup list) option" where
  "pop_followup p [] = None"
| "pop_followup p (e # es) =
     (if p e then Some (e, es) else map_option (\<lambda>(x, rest). (x, e # rest)) (pop_followup p es))"

definition consume_triggered_followup ::
  "string \<Rightarrow> string \<Rightarrow> pyval \<Rightarrow> ('c, 't, 'r) ocpp_store \<Rightarrow> followup option \<times> ('c, 't, 'r) ocpp_store" where
  "consume_triggered_followup serial action connector s =
     (case dget (triggered_followups s) serial of
        None \<Rightarrow> (None, s)
      | Some entries \<Rightarrow>
          (case pop_followup (followup_matches action (connector_slug connector)) entries of
             None \<Rightarrow> (None, s)
           | Some (e, rest) \<Rightarrow>
               (Some e, s\<lparr>triggered_followups :=
                          (if rest = [] then ddel serial (triggered_followups s)
                           else dset serial rest (triggered_followups s))\<rparr>)))"

subsection \<open>Clearing and restoring a charger\<close>

definition clear_one_call ::
  "'r redis_env \<Rightarrow> string \<Rightarrow> ('c, 't, 'r) ocpp_store \<Rightarrow> ('c, 't, 'r) ocpp_store" where
  "clear_one_call env key s =
     clear_pending_redis env key
       (cancel_handle key
         (s\<lparr>pending_calls := ddel key (pending_calls s), call_events := ddel key (call_events s),
            call_results := ddel key (call_results s)\<rparr>))"

definition clear_pending_calls ::
  "'r redis_env \<Rightarrow> string \<Rightarrow> ('c, 't, 'r) ocpp_store \<Rightarrow> ('c, 't, 'r) ocpp_store" where
  "clear_pending_calls env serial s =
     (let s1 = fold (clear_one_call env) (charger_calls serial (pending_calls s)) s;
          stale = map fst (filter (\<lambda>kv. jget (snd kv) ''charger_id'' = PStr serial)
                                  (monitoring_report_requests s1));
          s2 = s1\<lparr>monitoring_report_requests := ddel_all stale (monitoring_report_requests s1),
                  txs := clear_requests serial (txs s1)\<rparr>
      in s2\<lparr>st := (st s2)\<lparr>charging_profile_reports := ddel serial (charging_profile_reports (st s2))\<rparr>\<rparr>)"

text \<open>\<open>key.rsplit(":", 1)[-1]\<close>\<close>

definition after_last_colon :: "string \<Rightarrow> string" where
  "after_last_colon key = rev (takeWhile (\<lambda>c. c \<noteq> CHR '':'') (rev key))"

text \<open>
  The scan is taken in one answer.  An error while reading a key ends the loop with what has been
  restored so far.
\<close>

fun restore_keys ::
  "'r redis_env \<Rightarrow> string \<Rightarrow> string list \<Rightarrow> string list \<Rightarrow> ('c, 't, 'r) ocpp_store \<Rightarrow>
     string list \<times> ('c, 't, 'r) ocpp_store" where
  "restore_keys env serial [] restored s = (restored, s)"
| "restore_keys env serial (key # keys) restored s =
     (case redis (st s) of
        None \<Rightarrow> (restored, s)
      | Some r \<Rightarrow>
          (case rc_get (env_client env) key r of
             (None, r1) \<Rightarrow> (restored, set_redis r1 s)
           | (Some reply, r1) \<Rightarrow>
               (let s1 = set_redis r1 s;
                    metadata = (case reply of
                                  Some raw \<Rightarrow> (if raw = [] then None else env_loads env raw) | None \<Rightarrow> None)
                in case metadata of
                     None \<Rightarrow> restore_keys env serial keys restored s1
                   | Some md \<Rightarrow>
                       (let charger_id = py_lower (py_str (por (jget md ''charger_id'') (PStr [])));
                            mid = after_last_colon key
                        in if charger_id = [] \<or> charger_id \<noteq> py_lower serial
                              \<or> dget (pending_calls s1) mid \<noteq> None
                           then restore_keys env serial keys restored s1
                           else restore_keys env serial keys (restored @ [mid])
                                  (register_pending_call env mid md s1)))))"

definition restore_pending_calls ::
  "'r redis_env \<Rightarrow> string \<Rightarrow> ('c, 't, 'r) ocpp_store \<Rightarrow> string list \<times> ('c, 't, 'r) ocpp_store" where
  "restore_pending_calls env serial s =
     (case redis (st s) of
        None \<Rightarrow> ([], s)
      | Some r \<Rightarrow>
          (case rc_scan (env_client env) (pending_metadata_key ''*'') r of
             (None, r1) \<Rightarrow> ([], set_redis r1 s)
           | (Some keys, r1) \<Rightarrow> restore_keys env serial keys [] (set_redis r1 s)))"

end
