(* ===== verification/HandlerWorld.thy ===== *)
theory HandlerWorld
  imports PendingCalls "HOL-Library.List_Lexorder" "HOL-Library.Char_ord"
begin

text \<open>
  What the reply handlers act on: the OCPP store, the database and the consumer that received the
  reply.  The database is a list of rows per model and primary key; only the queries the handlers
  make are defined (by primary key, by field equality, update of named columns, get-or-create and
  update-or-create), and column types and constraints are left out.  The consumer is the one the
  handlers' own protocol \<open>CallResultContext\<close> describes: its methods are recorded as calls, and
  those that answer something take their answer from the environment.
\<close>

subsection \<open>JSON text\<close>

definition json_char :: "char \<Rightarrow> string" where
  "json_char c =
     (let n = code c; bs = char_of (92 :: nat) in
      if n = 34 \<or> n = 92 then [bs, c]
      else if n = 10 then [bs, CHR ''n'']
      else if n = 13 then [bs, CHR ''r'']
      else if n = 9 then [bs, CHR ''t'']
      else if n = 8 then [bs, CHR ''b'']
      else if n = 12 then [bs, CHR ''f'']
      else if n < 32 then [bs, CHR ''u'', CHR ''0'', CHR ''0'', hex_digit (n div 16), hex_digit (n mod 16)]
      else [c])"

definition json_string :: "string \<Rightarrow> string" where
  "json_string s = [char_of (34 :: nat)] @ concat (map json_char s) @ [char_of (34 :: nat)]"

text \<open>\<open>json.dumps(value, sort_keys=True, ensure_ascii=False)\<close>; \<open>None\<close> is \<open>TypeError\<close>.\<close>

fun json_text :: "pyval \<Rightarrow> string option" where
  "json_text PNone = Some ''null''"
| "json_text (PBool b) = Some (if b then ''true'' else ''false'')"
| "json_text (PInt i) = Some (int_str i)"
| "json_text (PFloat v txt) =
     Some (case v of Fin q \<Rightarrow> txt | PosInf \<Rightarrow> ''Infinity'' | NegInf \<Rightarrow> ''-Infinity'' | NaN \<Rightarrow> ''NaN'')"
| "json_text (PStr s) = Some (json_string s)"
| "json_text (PTime t txt) = None"
| "json_text (PList vs) =
     map_option (\<lambda>xs. ''['' @ py_join '', '' xs @ '']'') (those (map json_text vs))"
| "json_text (PDict kvs) =
     map_option (\<lambda>xs. ''{'' @ py_join '', '' xs @ ''}'')
       (those (map (\<lambda>(k, t). map_option (\<lambda>x. json_string k @ '': '' @ x) t)
         (sort_key fst (map (\<lambda>kv. (fst kv, json_text (snd kv))) kvs))))"

definition json_or_str :: "pyval \<Rightarrow> string" where
  "json_or_str v = (case json_text v of Some t \<Rightarrow> t | None \<Rightarrow> py_str v)"

definition format_status_info :: "pyval \<Rightarrow> string" where
  "format_status_info info =
     (if \<not> truthy info then [] else case info of PStr s \<Rightarrow> py_strip s | _ \<Rightarrow> json_or_str info)"

definition json_details :: "pyval \<Rightarrow> string" where
  "json_details details = (if \<not> truthy details then [] else json_or_str details)"

subsection \<open>The database\<close>

type_synonym db = "(string \<times> pyval, obj) dict"

definition db_pks :: "string \<Rightarrow> (obj \<Rightarrow> bool) \<Rightarrow> db \<Rightarrow> pyval list" where
  "db_pks model p d = map (snd \<circ> fst) (filter (\<lambda>row. fst (fst row) = model \<and> p (snd row)) d)"

definition has_fields :: "obj \<Rightarrow> obj \<Rightarrow> bool" where
  "has_fields lookup row = list_all (\<lambda>kv. jget row (fst kv) = snd kv) lookup"

definition set_fields :: "obj \<Rightarrow> obj \<Rightarrow> obj" where
  "set_fields cols row = fold (\<lambda>kv. dset (fst kv) (snd kv)) cols row"

text \<open>\<open>filter(pk=...).first()\<close> and \<open>save(update_fields=...)\<close>\<close>

definition db_get :: "string \<Rightarrow> pyval \<Rightarrow> db \<Rightarrow> obj option" where
  "db_get model pk d = dget d (model, pk)"

definition db_save :: "string \<Rightarrow> pyval \<Rightarrow> obj \<Rightarrow> db \<Rightarrow> db" where
  "db_save model pk cols d =
     (case dget d (model, pk) of None \<Rightarrow> d | Some row \<Rightarrow> dset (model, pk) (set_fields cols row) d)"

definition db_first :: "string \<Rightarrow> (obj \<Rightarrow> bool) \<Rightarrow> db \<Rightarrow> pyval option" where
  "db_first model p d = (case db_pks model p d of [] \<Rightarrow> None | pk # _ \<Rightarrow> Some pk)"

definition db_update_where :: "string \<Rightarrow> (obj \<Rightarrow> bool) \<Rightarrow> obj \<Rightarrow> db \<Rightarrow> db" where
  "db_update_where model p cols d =
     map (\<lambda>row. if fst (fst row) = model \<and> p (snd row) then (fst row, set_fields cols (snd row)) else row) d"

definition db_next_pk :: "string \<Rightarrow> db \<Rightarrow> int" where
  "db_next_pk model d =
     fold (\<lambda>row m. case fst row of (n, PInt i) \<Rightarrow> (if n = model then max m (i + 1) else m) | _ \<Rightarrow> m) d 1"

definition db_create :: "string \<Rightarrow> obj \<Rightarrow> db \<Rightarrow> pyval \<times> db" where
  "db_create model cols d =
     (let pk = PInt (db_next_pk model d) in (pk, dset (model, pk) cols d))"

definition db_get_or_create :: "string \<Rightarrow> obj \<Rightarrow> obj \<Rightarrow> db \<Rightarrow> pyval \<times> bool \<times> db" where
  "db_get_or_create model lookup defaults d =
     (case db_first model (has_fields lookup) d of
        Some pk \<Rightarrow> (pk, False, d)
      | None \<Rightarrow> (case db_create model (lookup @ defaults) d of (pk, d') \<Rightarrow> (pk, True, d')))"

definition db_update_or_create :: "string \<Rightarrow> obj \<Rightarrow> obj \<Rightarrow> db \<Rightarrow> db" where
  "db_update_or_create model lookup defaults d =
     (case db_first model (has_fields lookup) d of
        Some pk \<Rightarrow> db_save model pk defaults d
      | None \<Rightarrow> snd (db_create model (lookup @ defaults) d))"

subsection \<open>The consumer\<close>

datatype consumer_call =
    UpdateLocalAuthorization "int option"
  | ApplyLocalEntries "pyval list"
  | UpdateAvailability pyval pyval string pyval string
  | ApplyConfiguration string "string option" pyval
  | PersistConfiguration obj pyval

datatype capture_event = CaptureAppend string string | CaptureFinish string

record ('c, 't, 'r) world =
  hw_store :: "('c, 't, 'r) ocpp_store"
  hw_db :: db
  hw_calls :: "consumer_call list"
  hw_captures :: "capture_event list"
  hw_charger_id :: "string option"
  hw_charger :: "obj option"
  hw_aggregate_charger :: "obj option"

record 'r handler_env =
  he_redis :: "'r redis_env"
  he_now :: pyval
  he_parse_timestamp :: "pyval \<Rightarrow> pyexn + pyval"
  he_entries_applied :: "pyval list \<Rightarrow> int"
  he_configuration :: "consumer_call \<Rightarrow> pyval"

subsection \<open>Steps the handlers share\<close>

definition add_log :: "pyval \<Rightarrow> string \<Rightarrow> ('c, 't, 'r) world \<Rightarrow> ('c, 't, 'r) world" where
  "add_log key entry w =
     w\<lparr>hw_store := (hw_store w)\<lparr>log_lines := log_lines (hw_store w) @ [(key, entry, ''charger'')]\<rparr>\<rparr>"

definition record_result ::
  "'r handler_env \<Rightarrow> string \<Rightarrow> call_outcome \<Rightarrow> ('c, 't, 'r) world \<Rightarrow> ('c, 't, 'r) world" where
  "record_result env mid co w =
     w\<lparr>hw_store := record_pending_call_result (he_redis env) mid co (hw_store w)\<rparr>"

definition consumer_does :: "consumer_call \<Rightarrow> ('c, 't, 'r) world \<Rightarrow> ('c, 't, 'r) world" where
  "consumer_does c w = w\<lparr>hw_calls := hw_calls w @ [c]\<rparr>"

definition with_db :: "(db \<Rightarrow> db) \<Rightarrow> ('c, 't, 'r) world \<Rightarrow> ('c, 't, 'r) world" where
  "with_db f w = w\<lparr>hw_db := f (hw_db w)\<rparr>"

definition str_parts :: "string \<Rightarrow> string list \<Rightarrow> string" where
  "str_parts label parts = label @ (if parts = [] then [] else '': '' @ py_join '', '' parts)"

definition opt_part :: "string \<Rightarrow> string \<Rightarrow> string list" where
  "opt_part name v = (if v = [] then [] else [name @ ''='' @ v])"

text \<open>The consumer's cached charger objects take the configuration that was stored.\<close>

definition set_configuration_on :: "pyval \<Rightarrow> string option \<Rightarrow> obj option \<Rightarrow> obj option" where
  "set_configuration_on conf cid target =
     (case target of
        None \<Rightarrow> None
      | Some c \<Rightarrow>
          Some (if given cid \<and> jget c ''charger_id'' = PStr (the cid) then dset ''configuration'' conf c else c))"

definition assign_configuration :: "pyval \<Rightarrow> ('c, 't, 'r) world \<Rightarrow> ('c, 't, 'r) world" where
  "assign_configuration conf w =
     (if truthy conf
      then w\<lparr>hw_charger := set_configuration_on conf (hw_charger_id w) (hw_charger w),
             hw_aggregate_charger := set_configuration_on conf (hw_charger_id w) (hw_aggregate_charger w)\<rparr>
      else w)"

lemma add_log_frame [simp]:
  "hw_db (add_log k e w) = hw_db w" "hw_calls (add_log k e w) = hw_calls w"
  "hw_charger_id (add_log k e w) = hw_charger_id w"
  "call_results (hw_store (add_log k e w)) = call_results (hw_store w)"
  "pending_calls (hw_store (add_log k e w)) = pending_calls (hw_store w)"
  "hw_captures (add_log k e w) = hw_captures w"
  by (simp_all add: add_log_def)

lemma with_db_frame [simp]:
  "hw_store (with_db f w) = hw_store w" "hw_db (with_db f w) = f (hw_db w)"
  "hw_calls (with_db f w) = hw_calls w" "hw_charger_id (with_db f w) = hw_charger_id w"
  by (simp_all add: with_db_def)

lemma consumer_does_frame [simp]:
  "hw_store (consumer_does c w) = hw_store w" "hw_db (consumer_does c w) = hw_db w"
  "hw_charger_id (consumer_does c w) = hw_charger_id w"
  by (simp_all add: consumer_does_def)

lemma record_result_frame [simp]:
  "hw_db (record_result env m co w) = hw_db w" "hw_calls (record_result env m co w) = hw_calls w"
  "hw_store (record_result env m co w) = record_pending_call_result (he_redis env) m co (hw_store w)"
  by (simp_all add: record_result_def)

lemma dget_Some_key: "dget d k = Some v \<Longrightarrow> k \<in> fst ` set d"
  by (force dest: dget_SomeD)

lemma jget_set_fields:
  "distinct (map fst cols) \<Longrightarrow>
     jget (set_fields cols row) k = (case dget cols k of None \<Rightarrow> jget row k | Some v \<Rightarrow> v)"
proof (induction cols arbitrary: row)
  case (Cons f fs)
  then show ?case
    by (cases f) (auto simp: set_fields_def dest: dget_Some_key split: option.splits)
qed (simp add: set_fields_def)

lemma db_save_lookup [simp]:
  "dget (db_save model pk cols d) k =
     (if k = (model, pk) then map_option (set_fields cols) (dget d k) else dget d k)"
  by (auto simp: db_save_def split: option.split)

end
