(* ===== verification/CallResults.thy ===== *)
theory CallResults
  imports HandlerWorld
begin

text \<open>
  \<open>apps/ocpp/call_result_handlers\<close>: what the server does with the CALLRESULT of each action it
  can send.  A handler gets the environment, the call's context and the world, and answers whether
  it completed or which exception left it, with the world as it is then.  Database functions run
  in a worker thread but are awaited, so they are steps of the handler.
\<close>

subsection \<open>Context\<close>

record call_ctx =
  cc_message_id :: string
  cc_metadata :: obj
  cc_payload :: obj
  cc_log_key :: pyval

type_synonym ('c, 't, 'r) handler =
  "'r handler_env \<Rightarrow> call_ctx \<Rightarrow> ('c, 't, 'r) world \<Rightarrow> (pyexn + bool) \<times> ('c, 't, 'r) world"

definition ok_outcome :: "obj \<Rightarrow> obj \<Rightarrow> call_outcome" where
  "ok_outcome metadata payload =
     \<lparr>co_metadata = metadata, co_success = True, co_payload = PDict payload, co_error_code = PNone,
      co_error_description = PNone, co_error_details = PNone\<rparr>"

definition finish_with :: "obj \<Rightarrow> ('c, 't, 'r) handler" where
  "finish_with metadata env ctx w =
     (Inr True, record_result env (cc_message_id ctx) (ok_outcome metadata (cc_payload ctx)) w)"

definition finish :: "('c, 't, 'r) handler" where
  "finish env ctx w = finish_with (cc_metadata ctx) env ctx w"

definition meta :: "call_ctx \<Rightarrow> string \<Rightarrow> pyval" where
  "meta ctx k = jget (cc_metadata ctx) k"

definition reply :: "call_ctx \<Rightarrow> string \<Rightarrow> pyval" where
  "reply ctx k = jget (cc_payload ctx) k"

definition reply_status :: "call_ctx \<Rightarrow> string" where
  "reply_status ctx = text_field (reply ctx ''status'')"

text \<open>\<open>int(value)\<close> under \<open>except (TypeError, ValueError)\<close>: an \<open>OverflowError\<close> still escapes.\<close>

definition guarded_int :: "pyval \<Rightarrow> pyexn + int option" where
  "guarded_int v =
     (case py_int v of Inr i \<Rightarrow> Inr (Some i) | Inl OverflowError \<Rightarrow> Inl OverflowError | Inl _ \<Rightarrow> Inr None)"

text \<open>\<open>str(value).strip()\<close> fields of a component/variable entry.\<close>

definition extract_component_variable :: "obj \<Rightarrow> string \<times> string \<times> string \<times> string" where
  "extract_component_variable entry =
     (case (jget entry ''component'', jget entry ''variable'') of
        (PDict c, PDict v) \<Rightarrow>
          (text_field (jget c ''name''), text_field (jget c ''instance''),
           text_field (jget v ''name''), text_field (jget v ''instance''))
      | _ \<Rightarrow> ([], [], [], []))"

text \<open>\<open>str(value) if value is not None else ""\<close>\<close>

definition str_or_empty :: "pyval \<Rightarrow> string" where
  "str_or_empty v = (if v = PNone then [] else py_str v)"

definition list_items :: "pyval \<Rightarrow> pyval list option" where
  "list_items v = (case v of PList vs \<Rightarrow> Some vs | _ \<Rightarrow> None)"

subsection \<open>Replies that only carry a status\<close>

definition status_log_result :: "string \<Rightarrow> ('c, 't, 'r) handler" where
  "status_log_result label env ctx w =
     finish env ctx
       (add_log (cc_log_key ctx) (str_parts label (opt_part ''status'' (reply_status ctx))) w)"

definition handle_unpublish_firmware_result :: "('c, 't, 'r) handler" where
  "handle_unpublish_firmware_result = status_log_result ''UnpublishFirmware result''"

definition handle_remote_start_transaction_result :: "('c, 't, 'r) handler" where
  "handle_remote_start_transaction_result = status_log_result ''RemoteStartTransaction result''"

definition handle_remote_stop_transaction_result :: "('c, 't, 'r) handler" where
  "handle_remote_stop_transaction_result = status_log_result ''RemoteStopTransaction result''"

definition handle_set_charging_profile_result :: "('c, 't, 'r) handler" where
  "handle_set_charging_profile_result = status_log_result ''SetChargingProfile result''"

definition handle_reset_result :: "('c, 't, 'r) handler" where
  "handle_reset_result = status_log_result ''Reset result''"

definition handle_clear_display_message_result :: "('c, 't, 'r) handler" where
  "handle_clear_display_message_result = status_log_result ''ClearDisplayMessage result''"

definition handle_customer_information_result :: "('c, 't, 'r) handler" where
  "handle_customer_information_result = status_log_result ''CustomerInformation result''"

definition handle_get_base_report_result :: "('c, 't, 'r) handler" where
  "handle_get_base_report_result = status_log_result ''GetBaseReport result''"

definition handle_get_charging_profiles_result :: "('c, 't, 'r) handler" where
  "handle_get_charging_profiles_result = status_log_result ''GetChargingProfiles result''"

definition handle_get_display_messages_result :: "('c, 't, 'r) handler" where
  "handle_get_display_messages_result = status_log_result ''GetDisplayMessages result''"

definition handle_get_report_result :: "('c, 't, 'r) handler" where
  "handle_get_report_result = status_log_result ''GetReport result''"

definition handle_set_display_message_result :: "('c, 't, 'r) handler" where
  "handle_set_display_message_result = status_log_result ''SetDisplayMessage result''"

subsection \<open>Configuration, transfer and local lists\<close>

definition handle_change_configuration_result :: "('c, 't, 'r) handler" where
  "handle_change_configuration_result env ctx w =
     (let key_value = text_field (meta ctx ''key'');
          status_value = reply_status ctx;
          stored_value = meta ctx ''value'';
          parts = opt_part ''status'' status_value @ opt_part ''key'' key_value @
                  (if stored_value \<noteq> PNone then [''value='' @ py_str stored_value] else []);
          w1 = add_log (cc_log_key ctx) (str_parts ''ChangeConfiguration result'' parts) w;
          call = ApplyConfiguration key_value (case stored_value of PStr s \<Rightarrow> Some s | _ \<Rightarrow> None)
                   (meta ctx ''connector_id'');
          w2 = (if py_casefold status_value \<in> {''accepted'', ''rebootrequired''} \<and> key_value \<noteq> []
                then assign_configuration (he_configuration env call) (consumer_does call w1)
                else w1)
      in finish env ctx w2)"

definition handle_data_transfer_result :: "('c, 't, 'r) handler" where
  "handle_data_transfer_result env ctx w =
     (let message_pk = meta ctx ''message_pk''
      in if \<not> truthy message_pk then finish env ctx w
         else finish env ctx (with_db (\<lambda>d.
           case db_get ''DataTransferMessage'' message_pk d of
             None \<Rightarrow> d
           | Some row \<Rightarrow>
               (let status_value = (if reply_status ctx \<noteq> [] then PStr (reply_status ctx)
                                    else por (meta ctx ''fallback_status'') (PStr ''Unknown''));
                    d1 = db_save ''DataTransferMessage'' message_pk
                      [(''status'', status_value), (''response_data'', reply ctx ''data''),
                       (''error_code'', PStr []), (''error_description'', PStr []),
                       (''error_details'', PNone), (''responded_at'', he_now env),
                       (''updated_at'', he_now env)] d
                in case db_first ''CPFirmwareRequest'' (has_fields [(''message'', message_pk)]) d1 of
                     None \<Rightarrow> d1
                   | Some rpk \<Rightarrow> db_save ''CPFirmwareRequest'' rpk
                       [(''status'', status_value), (''responded_at'', he_now env),
                        (''response_payload'', PDict (cc_payload ctx)), (''updated_at'', he_now env)] d1)) w))"

definition handle_send_local_list_result :: "('c, 't, 'r) handler" where
  "handle_send_local_list_result env ctx w =
     (let status_value = reply_status ctx;
          version = por (por (reply ctx ''currentLocalListVersion'') (reply ctx ''listVersion''))
                        (meta ctx ''list_version'');
          entry = ''SendLocalList result'' @
                  (if status_value \<noteq> [] then '': status='' @ status_value else []) @
                  (if version \<noteq> PNone then '', version='' @ py_str version else []);
          w1 = add_log (cc_log_key ctx) entry w
      in case guarded_int version of
           Inl e \<Rightarrow> (Inl e, w1)
         | Inr version_int \<Rightarrow> finish env ctx (consumer_does (UpdateLocalAuthorization version_int) w1))"

definition handle_get_local_list_version_result :: "('c, 't, 'r) handler" where
  "handle_get_local_list_version_result env ctx w =
     (let version = reply ctx ''listVersion'';
          (processed, w1) = (case list_items (reply ctx ''localAuthorizationList'') of
                               Some entries \<Rightarrow>
                                 (he_entries_applied env entries, consumer_does (ApplyLocalEntries entries) w)
                             | None \<Rightarrow> (0, w));
          entry = ''GetLocalListVersion result'' @
                  (if version \<noteq> PNone then '': version='' @ py_str version else []) @
                  (if processed \<noteq> 0 then '', entries='' @ int_str processed else []);
          w2 = add_log (cc_log_key ctx) entry w1
      in case guarded_int version of
           Inl e \<Rightarrow> (Inl e, w2)
         | Inr version_int \<Rightarrow> finish env ctx (consumer_does (UpdateLocalAuthorization version_int) w2))"

definition handle_clear_cache_result :: "('c, 't, 'r) handler" where
  "handle_clear_cache_result env ctx w =
     (let status_value = reply_status ctx;
          w1 = add_log (cc_log_key ctx)
                 (str_parts ''ClearCache result'' (opt_part ''status'' status_value)) w;
          version_int = (if status_value = ''Accepted'' then Some 0 else None)
      in finish env ctx (consumer_does (UpdateLocalAuthorization version_int) w1))"

definition handle_get_configuration_result :: "('c, 't, 'r) handler" where
  "handle_get_configuration_result env ctx w =
     (let payload_text = json_or_str (PDict (cc_payload ctx));
          w1 = add_log (cc_log_key ctx) (''GetConfiguration result: '' @ payload_text) w;
          filtered = (case list_items (meta ctx ''configuration_key_filter'') of
                        Some vs \<Rightarrow> vs \<noteq> [] | None \<Rightarrow> False);
          call = PersistConfiguration (cc_payload ctx) (meta ctx ''connector_id'');
          w2 = (if filtered
                then add_log (cc_log_key ctx)
                  ''Partial GetConfiguration result was not persisted as a full configuration snapshot.'' w1
                else assign_configuration (he_configuration env call) (consumer_does call w1))
      in finish env ctx w2)"

definition handle_trigger_message_result :: "('c, 't, 'r) handler" where
  "handle_trigger_message_result env ctx w =
     (let status_value = reply_status ctx;
          target = por (meta ctx ''trigger_target'') (meta ctx ''follow_up_action'');
          connector_value = meta ctx ''trigger_connector'';
          entry = (if truthy target then ''TriggerMessage '' @ py_str target @ '' result''
                   else ''TriggerMessage result'') @
                  (if status_value \<noteq> [] then '': status='' @ status_value else []) @
                  (if truthy connector_value then '', connector='' @ py_str connector_value else []);
          w1 = add_log (cc_log_key ctx) entry w;
          w2 = (if status_value = ''Accepted'' \<and> truthy target
                then w1\<lparr>hw_store := register_triggered_followup
                       (case hw_charger_id w1 of None \<Rightarrow> [] | Some c \<Rightarrow> c) (py_str target) connector_value
                       (Some (py_str (cc_log_key ctx))) (Some (py_str target)) (hw_store w1)\<rparr>
                else w1)
      in finish env ctx w2)"

subsection \<open>Schedules, logs and diagnostics\<close>

text \<open>One entry of \<open>chargingSchedulePeriod\<close>; \<open>None\<close> is a skipped entry.\<close>

definition projection_period :: "pyval \<Rightarrow> pyexn + obj option" where
  "projection_period entry =
     (case entry of
        PDict e \<Rightarrow>
          ebind (guarded_int (jget e ''startPeriod''))
            (\<lambda>start. Inr (case start of
                None \<Rightarrow> None
              | Some i \<Rightarrow> Some
                  ([(''start_period'', PInt i), (''limit'', jget e ''limit'')] @
                   (if jget e ''numberPhases'' \<noteq> PNone then [(''number_phases'', jget e ''numberPhases'')] else []) @
                   (if jget e ''phaseToUse'' \<noteq> PNone then [(''phase_to_use'', jget e ''phaseToUse'')] else []))))
      | _ \<Rightarrow> Inr None)"

definition projection_periods :: "pyval \<Rightarrow> pyexn + obj list" where
  "projection_periods raw =
     (case list_items raw of
        None \<Rightarrow> Inr []
      | Some entries \<Rightarrow> ebind (emap projection_period entries) (\<lambda>ps. Inr (List.map_filter id ps)))"

definition handle_get_composite_schedule_result :: "('c, 't, 'r) handler" where
  "handle_get_composite_schedule_result env ctx w =
     (let projection_pk = meta ctx ''projection_pk'';
          status_value = reply_status ctx;
          parsed = ebind (he_parse_timestamp env (reply ctx ''scheduleStart'')) (\<lambda>start. case reply ctx ''chargingSchedule'' of
              PDict sp \<Rightarrow>
                ebind (guarded_int (jget sp ''duration'')) (\<lambda>duration.
                  ebind (projection_periods (jget sp ''chargingSchedulePeriod'')) (\<lambda>periods.
                    Inr (start, duration, text_field (jget sp ''chargingRateUnit''), periods)))
            | _ \<Rightarrow> Inr (start, None, [], []))
      in case parsed of
           Inl e \<Rightarrow> (Inl e, w)
         | Inr (schedule_start, duration, rate_unit, periods) \<Rightarrow>
             (let w1 = (if truthy projection_pk
                        then with_db (db_save ''PowerProjection'' projection_pk
                          [(''status'', PStr status_value), (''schedule_start'', schedule_start),
                           (''duration_seconds'', opt_int duration), (''charging_rate_unit'', PStr rate_unit),
                           (''charging_schedule_periods'', PList (map PDict periods)),
                           (''raw_response'', PDict (cc_payload ctx)), (''received_at'', he_now env),
                           (''updated_at'', he_now env)]) w
                        else w)
              in finish env ctx (add_log (cc_log_key ctx)
                   (''GetCompositeSchedule result'' @
                    (if status_value \<noteq> [] then '': status='' @ status_value else [])) w1)))"

text \<open>Log lines returned inline.  JSON carries no byte strings, so the decoding branch does not arise.\<close>

definition log_fragments :: "pyval \<Rightarrow> string list" where
  "log_fragments data =
     (case list_items data of
        Some entries \<Rightarrow> map py_str (filter (\<lambda>e. e \<noteq> PNone) entries)
      | None \<Rightarrow> (if data = PNone \<or> data = PStr [] then [] else [py_str data]))"

definition handle_get_log_result :: "('c, 't, 'r) handler" where
  "handle_get_log_result env ctx w =
     (let request_pk = meta ctx ''log_request_pk'';
          capture_key = meta ctx ''capture_key'';
          status_value = reply_status ctx;
          filename_value = text_field (por (reply ctx ''filename'') (reply ctx ''location''));
          location_value = text_field (reply ctx ''location'');
          fragments = log_fragments (por (reply ctx ''logData'') (reply ctx ''entries''));
          updates = [(''responded_at'', he_now env), (''raw_response'', PDict (cc_payload ctx))] @
            (if status_value \<noteq> [] then [(''status'', PStr status_value)] else []) @
            (if filename_value \<noteq> [] then [(''filename'', PStr filename_value)] else []) @
            (if location_value \<noteq> [] then [(''location'', PStr location_value)] else []) @
            (if truthy capture_key then [(''session_key'', PStr (py_str capture_key))] else []) @
            (if truthy (meta ctx ''message_id'') then [(''message_id'', PStr (py_str (meta ctx ''message_id'')))] else []);
          row = (if truthy request_pk then db_get ''ChargerLogRequest'' request_pk (hw_db w) else None);
          session_capture = (case row of
              None \<Rightarrow> PStr [] | Some r \<Rightarrow> por (jget (set_fields updates r) ''session_key'') (PStr []));
          w1 = (if row = None then w else with_db (db_save ''ChargerLogRequest'' request_pk updates) w);
          entry = ''GetLog result'' @
            (if status_value \<noteq> [] then '': status='' @ status_value else []) @
            (if filename_value \<noteq> [] then '', filename='' @ filename_value else []) @
            (if location_value \<noteq> [] then '', location='' @ location_value else []);
          w2 = add_log (cc_log_key ctx) entry w1;
          w3 = (if truthy capture_key \<and> fragments \<noteq> []
                then w2\<lparr>hw_captures := hw_captures w2 @ map (CaptureAppend (py_str capture_key)) fragments @
                                       [CaptureFinish (py_str capture_key)]\<rparr>
                else if truthy session_capture \<and>
                        py_lower status_value \<in> {''uploaded'', ''uploadfailure'', ''rejected'', ''idle''}
                  then w2\<lparr>hw_captures := hw_captures w2 @ [CaptureFinish (py_str session_capture)]\<rparr>
                else w2)
      in finish env ctx w3)"

definition handle_get_diagnostics_result :: "('c, 't, 'r) handler" where
  "handle_get_diagnostics_result env ctx w =
     (let status_value = reply_status ctx;
          file_name = text_field (por (reply ctx ''fileName'') (reply ctx ''filename''));
          location_value = text_field (por (reply ctx ''location'') (meta ctx ''location''));
          entry = ''GetDiagnostics result'' @
            (if status_value \<noteq> [] then '': status='' @ status_value else []) @
            (if file_name \<noteq> [] then '', fileName='' @ file_name else []) @
            (if location_value \<noteq> [] then '', location='' @ location_value else []);
          charger_id = meta ctx ''charger_id'';
          updates = [(''diagnostics_timestamp'', he_now env)] @
            (if location_value \<noteq> [] then [(''diagnostics_location'', PStr location_value)]
             else if file_name \<noteq> [] then [(''diagnostics_location'', PStr file_name)] else []);
          w1 = add_log (cc_log_key ctx) entry w
      in finish env ctx
           (if truthy charger_id
            then with_db (db_update_where ''Charger'' (has_fields [(''charger_id'', charger_id)]) updates) w1
            else w1))"

subsection \<open>Firmware, reservations and transactions\<close>

definition TERMINAL_STATUSES :: "string list" where
  "TERMINAL_STATUSES =
     [''Installed'', ''InstallationFailed'', ''DownloadFailed'', ''Published'', ''PublishFailed'']"

text \<open>\<open>CPFirmwareDeployment.mark_status\<close>\<close>

definition firmware_mark_status ::
  "pyval \<Rightarrow> string \<Rightarrow> string \<Rightarrow> pyval option \<Rightarrow> pyval \<Rightarrow> db \<Rightarrow> db" where
  "firmware_mark_status now status info response pk d =
     (case db_get ''CPFirmwareDeployment'' pk d of
        None \<Rightarrow> d
      | Some row \<Rightarrow>
          db_save ''CPFirmwareDeployment'' pk
            ([(''status'', PStr status), (''status_info'', PStr info), (''status_timestamp'', now)] @
             (case response of Some r \<Rightarrow> [(''response_payload'', r)] | None \<Rightarrow> []) @
             (if status \<in> set TERMINAL_STATUSES \<and> \<not> truthy (jget row ''completed_at'')
              then [(''completed_at'', now)] else []) @
             [(''updated_at'', now)]) d)"

definition firmware_result :: "('c, 't, 'r) handler" where
  "firmware_result env ctx w =
     (let deployment_pk = meta ctx ''deployment_pk'';
          status_value = (if reply_status ctx = [] then ''Accepted'' else reply_status ctx)
      in finish env ctx
           (if truthy deployment_pk
            then with_db (firmware_mark_status (he_now env) status_value []
                            (Some (PDict (cc_payload ctx))) deployment_pk) w
            else w))"

definition handle_update_firmware_result :: "('c, 't, 'r) handler" where
  "handle_update_firmware_result = firmware_result"

definition handle_publish_firmware_result :: "('c, 't, 'r) handler" where
  "handle_publish_firmware_result = firmware_result"

definition handle_reserve_now_result :: "('c, 't, 'r) handler" where
  "handle_reserve_now_result env ctx w =
     (let status_value = reply_status ctx;
          w1 = add_log (cc_log_key ctx) (str_parts ''ReserveNow result'' (opt_part ''status'' status_value)) w;
          reservation_pk = meta ctx ''reservation_pk'';
          confirmed = (py_casefold status_value = ''accepted'')
      in finish env ctx
           (if truthy reservation_pk
            then with_db (db_save ''CPReservation'' reservation_pk
              [(''evcs_status'', PStr status_value), (''evcs_error'', PStr []),
               (''evcs_confirmed'', PBool confirmed),
               (''evcs_confirmed_at'', if confirmed then he_now env else PNone),
               (''updated_on'', he_now env)]) w1
            else w1))"

definition handle_cancel_reservation_result :: "('c, 't, 'r) handler" where
  "handle_cancel_reservation_result env ctx w =
     (let status_value = reply_status ctx;
          w1 = add_log (cc_log_key ctx) (str_parts ''CancelReservation result'' (opt_part ''status'' status_value)) w;
          reservation_pk = meta ctx ''reservation_pk''
      in finish env ctx
           (if truthy reservation_pk
            then with_db (db_save ''CPReservation'' reservation_pk
              [(''evcs_status'', PStr status_value), (''evcs_error'', PStr []),
               (''evcs_confirmed'', PBool False), (''evcs_confirmed_at'', PNone),
               (''updated_on'', he_now env)]) w1
            else w1))"

definition mark_request ::
  "'r handler_env \<Rightarrow> string \<Rightarrow> string \<Rightarrow> pyval \<Rightarrow> ('c, 't, 'r) world \<Rightarrow> ('c, 't, 'r) world" where
  "mark_request env mid status transaction_id w =
     w\<lparr>hw_store := (hw_store w)\<lparr>txs := snd (update_transaction_request (he_now env) mid
         \<lparr>tu_status = Some status, tu_connector_id = PNone, tu_transaction_id = transaction_id,
          tu_ocpp_transaction_id = PNone\<rparr> (txs (hw_store w)))\<rparr>\<rparr>"

definition request_status :: "string \<Rightarrow> string" where
  "request_status status_value = (if py_casefold status_value = ''accepted'' then ''accepted'' else ''rejected'')"

definition handle_request_start_transaction_result :: "('c, 't, 'r) handler" where
  "handle_request_start_transaction_result env ctx w =
     (let status_value = reply_status ctx;
          tx_identifier = reply ctx ''transactionId'';
          entry = ''RequestStartTransaction result'' @
            (if status_value \<noteq> [] then '': status='' @ status_value else []) @
            (if truthy tx_identifier then '', transactionId='' @ py_str tx_identifier else []);
          w1 = add_log (cc_log_key ctx) entry w
      in finish env ctx (mark_request env (cc_message_id ctx) (request_status status_value) tx_identifier w1))"

definition handle_request_stop_transaction_result :: "('c, 't, 'r) handler" where
  "handle_request_stop_transaction_result env ctx w =
     (let status_value = reply_status ctx;
          w1 = add_log (cc_log_key ctx)
                 (str_parts ''RequestStopTransaction result'' (opt_part ''status'' status_value)) w
      in finish env ctx (mark_request env (cc_message_id ctx) (request_status status_value)
                           (meta ctx ''transaction_id'') w1))"

definition handle_get_transaction_status_result :: "('c, 't, 'r) handler" where
  "handle_get_transaction_status_result env ctx w =
     (let ongoing = reply ctx ''ongoingIndicator'';
          queue = reply ctx ''messagesInQueue'';
          parts = (if ongoing \<noteq> PNone then [''ongoingIndicator='' @ py_str ongoing] else []) @
                  (if queue \<noteq> PNone then [''messagesInQueue='' @ py_str queue] else [])
      in finish env ctx (add_log (cc_log_key ctx) (str_parts ''GetTransactionStatus result'' parts) w))"

subsection \<open>Charging profiles and availability\<close>

definition profile_rows :: "pyval \<Rightarrow> pyval \<Rightarrow> db \<Rightarrow> obj \<Rightarrow> bool" where
  "profile_rows profile_id charger_id d row =
     (jget row ''charging_profile_id'' = profile_id \<and>
      (truthy charger_id \<longrightarrow>
        (case db_get ''Charger'' (jget row ''charger'') d of
           None \<Rightarrow> False | Some c \<Rightarrow> jget c ''charger_id'' = PStr (py_str charger_id))))"

definition handle_clear_charging_profile_result :: "('c, 't, 'r) handler" where
  "handle_clear_charging_profile_result env ctx w =
     (let status_value = reply_status ctx;
          status_info = format_status_info (reply ctx ''statusInfo'');
          w1 = add_log (cc_log_key ctx) (str_parts ''ClearChargingProfile result''
                 (opt_part ''status'' status_value @ opt_part ''info'' status_info)) w;
          profile_id = meta ctx ''charging_profile_id''
      in finish env ctx
           (if truthy profile_id
            then with_db (\<lambda>d. db_update_where ''ChargingProfile'' (profile_rows profile_id (meta ctx ''charger_id'') d)
              [(''last_status'', PStr status_value), (''last_status_info'', PStr status_info),
               (''last_response_payload'', PDict (cc_payload ctx)), (''last_response_at'', he_now env)] d) w1
            else w1))"

definition handle_change_availability_result :: "('c, 't, 'r) handler" where
  "handle_change_availability_result env ctx w =
     finish env ctx (consumer_does (UpdateAvailability (meta ctx ''connector_id'')
       (meta ctx ''availability_type'') (reply_status ctx) (meta ctx ''requested_at'') []) w)"

definition status_metadata :: "string \<Rightarrow> string \<Rightarrow> obj \<Rightarrow> obj" where
  "status_metadata status_value status_info md =
     (let md1 = (if status_value \<noteq> [] then dset ''status'' (PStr status_value) md else md)
      in if status_info \<noteq> [] then dset ''status_info'' (PStr status_info) md1 else md1)"

definition handle_unlock_connector_result :: "('c, 't, 'r) handler" where
  "handle_unlock_connector_result env ctx w =
     (let status_value = reply_status ctx;
          status_info = format_status_info (reply ctx ''statusInfo'')
      in finish_with (status_metadata status_value status_info (cc_metadata ctx)) env ctx
           (consumer_does (UpdateAvailability (meta ctx ''connector_id'') PNone status_value
              (meta ctx ''requested_at'') status_info) w))"

text \<open>\<open>SetMonitoringBase\<close> and \<open>SetMonitoringLevel\<close> differ in the field names and the label.\<close>

definition monitoring_setting_result ::
  "string \<Rightarrow> string \<Rightarrow> string \<Rightarrow> string \<Rightarrow> ('c, 't, 'r) handler" where
  "monitoring_setting_result label meta_key reply_key part env ctx w =
     (let status_value = reply_status ctx;
          status_info = format_status_info (reply ctx ''statusInfo'');
          setting = por (meta ctx meta_key) (reply ctx reply_key);
          present = (setting \<noteq> PNone \<and> setting \<noteq> PStr []);
          fragments = opt_part ''status'' status_value @ opt_part ''statusInfo'' status_info @
                      (if present then [part @ ''='' @ py_str setting] else []);
          md = (if present then dset meta_key setting (cc_metadata ctx) else cc_metadata ctx)
      in finish_with (status_metadata status_value status_info md) env ctx
           (add_log (cc_log_key ctx) (str_parts label fragments) w))"

definition handle_set_monitoring_base_result :: "('c, 't, 'r) handler" where
  "handle_set_monitoring_base_result =
     monitoring_setting_result ''SetMonitoringBase result'' ''monitoring_base'' ''monitoringBase'' ''base''"

definition handle_set_monitoring_level_result :: "('c, 't, 'r) handler" where
  "handle_set_monitoring_level_result =
     monitoring_setting_result ''SetMonitoringLevel result'' ''monitoring_level'' ''severity'' ''severity''"

definition handle_get_monitoring_report_result :: "('c, 't, 'r) handler" where
  "handle_get_monitoring_report_result env ctx w =
     (let request_id = meta ctx ''request_id''
      in if py_casefold (reply_status ctx) \<in> {''rejected'', ''notsupported''} \<and> request_id \<noteq> PNone
         then case guarded_int request_id of
                Inl e \<Rightarrow> (Inl e, w)
              | Inr None \<Rightarrow> finish env ctx w
              | Inr (Some i) \<Rightarrow>
                  finish env ctx (w\<lparr>hw_store := snd (pop_monitoring_report_request i (hw_store w))\<rparr>)
         else finish env ctx w)"

subsection \<open>Device-model variables and monitors\<close>

text \<open>The charger row the entries belong to, created when it is missing.\<close>

definition result_charger :: "call_ctx \<Rightarrow> ('c, 't, 'r) world \<Rightarrow> pyval option \<times> db" where
  "result_charger ctx w =
     (let charger_id = por (meta ctx ''charger_id'')
                           (case hw_charger_id w of None \<Rightarrow> PNone | Some c \<Rightarrow> PStr c)
      in if truthy charger_id
         then case db_get_or_create ''Charger''
                     [(''charger_id'', charger_id), (''connector_id'', meta ctx ''connector_id'')] [] (hw_db w) of
                (pk, _, d) \<Rightarrow> (Some pk, d)
         else (None, hw_db w))"

definition variable_key :: "pyval \<Rightarrow> string \<times> string \<times> string \<times> string \<Rightarrow> string \<Rightarrow> obj" where
  "variable_key charger cv attribute_type =
     (case cv of (cn, ci, vn, vi) \<Rightarrow>
        [(''charger'', charger), (''component_name'', PStr cn), (''component_instance'', PStr ci),
         (''variable_name'', PStr vn), (''variable_instance'', PStr vi),
         (''attribute_type'', PStr attribute_type)])"

definition named :: "string \<times> string \<times> string \<times> string \<Rightarrow> bool" where
  "named cv = (case cv of (cn, ci, vn, vi) \<Rightarrow> cn \<noteq> [] \<and> vn \<noteq> [])"

text \<open>One result entry; \<open>value_of\<close> tells the value to store.\<close>

definition store_variable ::
  "pyval \<Rightarrow> (obj \<Rightarrow> string \<times> string \<times> string \<times> string \<Rightarrow> string \<Rightarrow> string) \<Rightarrow> pyval \<Rightarrow> db \<Rightarrow> db" where
  "store_variable charger value_of entry d =
     (case entry of
        PDict e \<Rightarrow>
          (let cv = extract_component_variable e;
               attribute_type = text_field (jget e ''attributeType'')
           in if \<not> named cv then d
              else db_update_or_create ''Variable'' (variable_key charger cv attribute_type)
                     [(''attribute_status'', PStr (text_field (jget e ''attributeStatus''))),
                      (''value'', PStr (value_of e cv attribute_type)), (''value_type'', PStr [])] d)
      | _ \<Rightarrow> d)"

definition store_variables ::
  "(obj \<Rightarrow> string \<times> string \<times> string \<times> string \<Rightarrow> string \<Rightarrow> string) \<Rightarrow> pyval list \<Rightarrow> call_ctx \<Rightarrow>
     ('c, 't, 'r) world \<Rightarrow> ('c, 't, 'r) world" where
  "store_variables value_of results ctx w =
     (case result_charger ctx w of
        (None, d) \<Rightarrow> w
      | (Some charger, d) \<Rightarrow> w\<lparr>hw_db := fold (store_variable charger value_of) results d\<rparr>)"

definition handle_get_variables_result :: "('c, 't, 'r) handler" where
  "handle_get_variables_result env ctx w =
     (case list_items (reply ctx ''getVariableResult'') of
        None \<Rightarrow> finish env ctx w
      | Some results \<Rightarrow>
          finish env ctx (store_variables (\<lambda>e _ _. str_or_empty (jget e ''attributeValue'')) results ctx w))"

definition requested_values ::
  "pyval list \<Rightarrow> ((string \<times> string \<times> string \<times> string) \<times> string, string) dict" where
  "requested_values entries =
     fold (\<lambda>entry lookup. case entry of
         PDict e \<Rightarrow>
           (let cv = extract_component_variable e
            in if named cv
               then dset (cv, text_field (jget e ''attributeType'')) (str_or_empty (jget e ''attributeValue'')) lookup
               else lookup)
       | _ \<Rightarrow> lookup) entries []"

definition handle_set_variables_result :: "('c, 't, 'r) handler" where
  "handle_set_variables_result env ctx w =
     (case list_items (reply ctx ''setVariableResult'') of
        None \<Rightarrow> finish env ctx w
      | Some results \<Rightarrow>
          (let lookup = requested_values (case list_items (meta ctx ''set_variable_data'') of
                                            None \<Rightarrow> [] | Some es \<Rightarrow> es)
           in finish env ctx (store_variables
                (\<lambda>_ cv a. case dget lookup (cv, a) of None \<Rightarrow> [] | Some v \<Rightarrow> v) results ctx w)))"

text \<open>The monitors a request asked for, by id, with the entry each came in.\<close>

fun monitor_lookup :: "obj \<Rightarrow> pyval list \<Rightarrow> (int, obj \<times> obj) dict \<Rightarrow> pyexn + (int, obj \<times> obj) dict" where
  "monitor_lookup entry [] lookup = Inr lookup"
| "monitor_lookup entry (m # ms) lookup =
     (case m of
        PDict monitor \<Rightarrow>
          (case guarded_int (por (jget monitor ''id'') (jget monitor ''monitoringId'')) of
             Inl e \<Rightarrow> Inl e
           | Inr None \<Rightarrow> monitor_lookup entry ms lookup
           | Inr (Some i) \<Rightarrow> monitor_lookup entry ms (dset i (entry, monitor) lookup))
      | _ \<Rightarrow> monitor_lookup entry ms lookup)"

fun requested_monitors :: "pyval list \<Rightarrow> (int, obj \<times> obj) dict \<Rightarrow> pyexn + (int, obj \<times> obj) dict" where
  "requested_monitors [] lookup = Inr lookup"
| "requested_monitors (entry # es) lookup =
     (case entry of
        PDict e \<Rightarrow>
          (case list_items (jget e ''variableMonitoring'') of
             None \<Rightarrow> requested_monitors es lookup
           | Some ms \<Rightarrow> ebind (monitor_lookup e ms lookup) (requested_monitors es))
      | _ \<Rightarrow> requested_monitors es lookup)"

definition store_monitor :: "pyval \<Rightarrow> int \<Rightarrow> string \<Rightarrow> obj \<times> obj \<Rightarrow> db \<Rightarrow> db" where
  "store_monitor charger monitoring_id status_value request d =
     (case request of (entry, monitor) \<Rightarrow>
        (let cv = extract_component_variable entry
         in if \<not> named cv then d
            else case db_get_or_create ''Variable'' (variable_key charger cv []) [] d of
                   (variable, _, d1) \<Rightarrow>
                     db_update_or_create ''MonitoringRule''
                       [(''charger'', charger), (''monitoring_id'', PInt monitoring_id)]
                       [(''variable'', variable), (''severity'', jget monitor ''severity''),
                        (''monitor_type'', PStr (text_field (jget monitor ''type''))),
                        (''threshold'', PStr (str_or_empty (jget monitor ''value''))),
                        (''is_transaction'', PBool (truthy (jget monitor ''transaction''))),
                        (''is_active'', PBool (py_casefold status_value = ''accepted'')),
                        (''raw_payload'', PDict monitor)] d1))"

fun store_monitors ::
  "pyval \<Rightarrow> (int, obj \<times> obj) dict \<Rightarrow> pyval list \<Rightarrow> db \<Rightarrow> (pyexn + unit) \<times> db" where
  "store_monitors charger lookup [] d = (Inr (), d)"
| "store_monitors charger lookup (entry # es) d =
     (case entry of
        PDict e \<Rightarrow>
          (case guarded_int (por (jget e ''id'') (jget e ''monitoringId'')) of
             Inl x \<Rightarrow> (Inl x, d)
           | Inr None \<Rightarrow> store_monitors charger lookup es d
           | Inr (Some i) \<Rightarrow>
               (case dget lookup i of
                  None \<Rightarrow> store_monitors charger lookup es d
                | Some request \<Rightarrow>
                    store_monitors charger lookup es
                      (store_monitor charger i (text_field (jget e ''status'')) request d)))
      | _ \<Rightarrow> store_monitors charger lookup es d)"

definition handle_set_variable_monitoring_result :: "('c, 't, 'r) handler" where
  "handle_set_variable_monitoring_result env ctx w =
     (case list_items (reply ctx ''setMonitoringResult'') of
        None \<Rightarrow> finish env ctx w
      | Some results \<Rightarrow>
          (case requested_monitors (case list_items (meta ctx ''set_monitoring_data'') of
                                      None \<Rightarrow> [] | Some es \<Rightarrow> es) [] of
             Inl e \<Rightarrow> (Inl e, w)
           | Inr lookup \<Rightarrow>
               (case result_charger ctx w of
                  (None, d) \<Rightarrow> finish env ctx w
                | (Some charger, d) \<Rightarrow>
                    (case store_monitors charger lookup results d of
                       (Inl e, d') \<Rightarrow> (Inl e, w\<lparr>hw_db := d'\<rparr>)
                     | (Inr _, d') \<Rightarrow> finish env ctx (w\<lparr>hw_db := d'\<rparr>)))))"

definition handle_clear_variable_monitoring_result :: "('c, 't, 'r) handler" where
  "handle_clear_variable_monitoring_result env ctx w =
     (let monitor_ids = (case list_items (meta ctx ''monitoring_ids'') of None \<Rightarrow> [] | Some ids \<Rightarrow> ids);
          charger_id = por (meta ctx ''charger_id'')
                           (case hw_charger_id w of None \<Rightarrow> PNone | Some c \<Rightarrow> PStr c)
      in finish env ctx
           (if py_casefold (reply_status ctx) = ''accepted'' \<and> truthy charger_id
            then with_db (\<lambda>d. db_update_where ''MonitoringRule''
              (\<lambda>row. (case db_get ''Charger'' (jget row ''charger'') d of
                        None \<Rightarrow> False | Some c \<Rightarrow> jget c ''charger_id'' = charger_id) \<and>
                     jget row ''monitoring_id'' \<in> set monitor_ids)
              [(''is_active'', PBool False)] d) w
            else w))"

subsection \<open>Network profiles and certificates\<close>

definition network_mark_status ::
  "pyval \<Rightarrow> string \<Rightarrow> string \<Rightarrow> pyval \<Rightarrow> pyval option \<Rightarrow> pyval \<Rightarrow> db \<Rightarrow> db" where
  "network_mark_status now status info timestamp response pk d =
     db_save ''CPNetworkProfileDeployment'' pk
       ([(''status'', PStr status), (''status_info'', PStr info),
         (''status_timestamp'', if timestamp = PNone then now else timestamp)] @
        (case response of Some r \<Rightarrow> [(''response_payload'', r)] | None \<Rightarrow> [])) d"

definition complete_deployment :: "string \<Rightarrow> pyval \<Rightarrow> pyval \<Rightarrow> db \<Rightarrow> db" where
  "complete_deployment model now pk d =
     db_save model pk [(''completed_at'', now), (''updated_at'', now)] d"

definition handle_set_network_profile_result :: "('c, 't, 'r) handler" where
  "handle_set_network_profile_result env ctx w =
     (let status_value = (if reply_status ctx = [] then ''Accepted'' else reply_status ctx);
          pk = meta ctx ''deployment_pk''
      in case he_parse_timestamp env (reply ctx ''timestamp'') of
           Inl e \<Rightarrow> (Inl e, w)
         | Inr stamp \<Rightarrow>
             (let apply_db = (\<lambda>d. case db_get ''CPNetworkProfileDeployment'' pk d of
                  None \<Rightarrow> d
                | Some row \<Rightarrow>
                    (let d1 = network_mark_status (he_now env) status_value [] (por stamp (he_now env))
                                (Some (PDict (cc_payload ctx))) pk d;
                         d2 = complete_deployment ''CPNetworkProfileDeployment'' (he_now env) pk d1
                     in if py_casefold status_value = ''accepted''
                        then db_save ''Charger'' (jget row ''charger'')
                               [(''network_profile'', jget row ''network_profile'')] d2
                        else d2))
              in finish env ctx (add_log (cc_log_key ctx)
                   (str_parts ''SetNetworkProfile result'' (opt_part ''status'' status_value)) (with_db apply_db w))))"

definition certificate_status :: "string \<Rightarrow> string" where
  "certificate_status status_value =
     (if py_casefold status_value = ''accepted'' then ''Accepted''
      else if py_casefold status_value = ''rejected'' then ''Rejected''
      else ''Error'')"

definition certificate_reply_status :: "call_ctx \<Rightarrow> string" where
  "certificate_reply_status ctx = (if reply_status ctx = [] then ''Unknown'' else reply_status ctx)"

text \<open>The operation row takes the reply; all four certificate handlers do this first.\<close>

definition operation_reply :: "'r handler_env \<Rightarrow> call_ctx \<Rightarrow> db \<Rightarrow> db" where
  "operation_reply env ctx d =
     db_save ''CertificateOperation'' (meta ctx ''operation_pk'')
       [(''status'', PStr (certificate_status (certificate_reply_status ctx))),
        (''status_info'', PStr (format_status_info (reply ctx ''statusInfo''))),
        (''response_payload'', PDict (cc_payload ctx)), (''responded_at'', he_now env)] d"

definition installed_reply ::
  "'r handler_env \<Rightarrow> call_ctx \<Rightarrow> string \<Rightarrow> string \<Rightarrow> string \<Rightarrow> db \<Rightarrow> db" where
  "installed_reply env ctx accepted stamp action d =
     (let status = certificate_status (certificate_reply_status ctx)
      in db_save ''InstalledCertificate'' (meta ctx ''installed_certificate_pk'')
           ([(''status'', PStr (if status = ''Accepted'' then accepted else status))] @
            (if status = ''Accepted'' then [(stamp, he_now env)] else []) @
            [(''last_action'', PStr action)]) d)"

definition certificate_log :: "string \<Rightarrow> call_ctx \<Rightarrow> ('c, 't, 'r) world \<Rightarrow> ('c, 't, 'r) world" where
  "certificate_log label ctx w =
     add_log (cc_log_key ctx) (label @ '' result: status='' @ certificate_reply_status ctx) w"

definition handle_install_certificate_result :: "('c, 't, 'r) handler" where
  "handle_install_certificate_result env ctx w =
     finish env ctx (certificate_log ''InstallCertificate'' ctx
       (with_db (installed_reply env ctx ''Installed'' ''installed_at'' ''InstallCertificate''
                 \<circ> operation_reply env ctx) w))"

definition handle_delete_certificate_result :: "('c, 't, 'r) handler" where
  "handle_delete_certificate_result env ctx w =
     finish env ctx (certificate_log ''DeleteCertificate'' ctx
       (with_db (installed_reply env ctx ''Deleted'' ''deleted_at'' ''DeleteCertificate''
                 \<circ> operation_reply env ctx) w))"

definition handle_certificate_signed_result :: "('c, 't, 'r) handler" where
  "handle_certificate_signed_result env ctx w =
     finish env ctx (certificate_log ''CertificateSigned'' ctx (with_db (operation_reply env ctx) w))"

text \<open>One reported certificate of the charger.\<close>

definition list_certificate :: "pyval \<Rightarrow> pyval \<Rightarrow> pyval \<Rightarrow> db \<Rightarrow> db" where
  "list_certificate now charger entry d =
     (case entry of
        PDict e \<Rightarrow>
          (case por (por (jget e ''hashData'') (jget e ''certificateHashData'')) (PDict e) of
             PDict hash_data \<Rightarrow>
               (let cert_type = text_field (jget e ''certificateType'')
                in case db_get_or_create ''InstalledCertificate''
                          [(''charger'', charger), (''certificate_hash_data'', PDict hash_data)]
                          [(''certificate_type'', PStr cert_type), (''status'', PStr ''Installed''),
                           (''last_action'', PStr ''GetInstalledCertificateIds''), (''installed_at'', now)] d of
                     (pk, created, d1) \<Rightarrow>
                       (if created then d1
                        else case db_get ''InstalledCertificate'' pk d1 of
                               None \<Rightarrow> d1
                             | Some row \<Rightarrow> db_save ''InstalledCertificate'' pk
                                 [(''certificate_type'', por (PStr cert_type) (jget row ''certificate_type'')),
                                  (''status'', PStr ''Installed''),
                                  (''last_action'', PStr ''GetInstalledCertificateIds''),
                                  (''installed_at'', if jget row ''installed_at'' = PNone then now
                                                     else jget row ''installed_at'')] d1))
           | _ \<Rightarrow> d)
      | _ \<Rightarrow> d)"

definition certificate_entries :: "pyval \<Rightarrow> pyval list" where
  "certificate_entries v = (case v of PDict e \<Rightarrow> [PDict e] | PList es \<Rightarrow> es | _ \<Rightarrow> [])"

definition handle_get_installed_certificate_ids_result :: "('c, 't, 'r) handler" where
  "handle_get_installed_certificate_ids_result env ctx w =
     (let certificates = por (reply ctx ''certificateHashData'') (PList []);
          apply_db = (\<lambda>d. let d1 = operation_reply env ctx d
            in if certificate_status (certificate_reply_status ctx) \<noteq> ''Accepted'' then d1
               else case db_first ''Charger'' (has_fields [(''charger_id'', meta ctx ''charger_id'')]) d1 of
                      None \<Rightarrow> d1
                    | Some charger \<Rightarrow>
                        fold (list_certificate (he_now env) charger) (certificate_entries certificates) d1)
      in finish env ctx (certificate_log ''GetInstalledCertificateIds'' ctx (with_db apply_db w)))"

subsection \<open>The registry\<close>

definition CALL_RESULT_HANDLER_REGISTRY :: "(string \<times> ('c, 't, 'r) handler) list" where
  "CALL_RESULT_HANDLER_REGISTRY =
     [(''CancelReservation'', handle_cancel_reservation_result),
      (''CertificateSigned'', handle_certificate_signed_result),
      (''ChangeAvailability'', handle_change_availability_result),
      (''ChangeConfiguration'', handle_change_configuration_result),
      (''ClearCache'', handle_clear_cache_result),
      (''ClearChargingProfile'', handle_clear_charging_profile_result),
      (''ClearDisplayMessage'', handle_clear_display_message_result),
      (''ClearVariableMonitoring'', handle_clear_variable_monitoring_result),
      (''CustomerInformation'', handle_customer_information_result),
      (''DataTransfer'', handle_data_transfer_result),
      (''DeleteCertificate'', handle_delete_certificate_result),
      (''GetBaseReport'', handle_get_base_report_result),
      (''GetChargingProfiles'', handle_get_charging_profiles_result),
      (''GetCompositeSchedule'', handle_get_composite_schedule_result),
      (''GetConfiguration'', handle_get_configuration_result),
      (''GetDiagnostics'', handle_get_diagnostics_result),
      (''GetDisplayMessages'', handle_get_display_messages_result),
      (''GetInstalledCertificateIds'', handle_get_installed_certificate_ids_result),
      (''GetLocalListVersion'', handle_get_local_list_version_result),
      (''GetLog'', handle_get_log_result),
      (''GetMonitoringReport'', handle_get_monitoring_report_result),
      (''GetReport'', handle_get_report_result),
      (''GetTransactionStatus'', handle_get_transaction_status_result),
      (''GetVariables'', handle_get_variables_result),
      (''InstallCertificate'', handle_install_certificate_result),
      (''PublishFirmware'', handle_publish_firmware_result),
      (''RemoteStartTransaction'', handle_remote_start_transaction_result),
      (''RemoteStopTransaction'', handle_remote_stop_transaction_result),
      (''RequestStartTransaction'', handle_request_start_transaction_result),
      (''RequestStopTransaction'', handle_request_stop_transaction_result),
      (''ReserveNow'', handle_reserve_now_result),
      (''Reset'', handle_reset_result),
      (''SendLocalList'', handle_send_local_list_result),
      (''SetChargingProfile'', handle_set_charging_profile_result),
      (''SetDisplayMessage'', handle_set_display_message_result),
      (''SetMonitoringBase'', handle_set_monitoring_base_result),
      (''SetMonitoringLevel'', handle_set_monitoring_level_result),
      (''SetNetworkProfile'', handle_set_network_profile_result),
      (''SetVariableMonitoring'', handle_set_variable_monitoring_result),
      (''SetVariables'', handle_set_variables_result),
      (''TriggerMessage'', handle_trigger_message_result),
      (''UnlockConnector'', handle_unlock_connector_result),
      (''UnpublishFirmware'', handle_unpublish_firmware_result),
      (''UpdateFirmware'', handle_update_firmware_result)]"

text \<open>
  \<open>action\<close> is the metadata's; a value that is not a string is not a key of the registry (an
  unhashable one would raise, but the server only stores strings).
\<close>

definition dispatch_call_result :: "pyval \<Rightarrow> ('c, 't, 'r) handler" where
  "dispatch_call_result action env ctx w =
     (case action of
        PStr a \<Rightarrow>
          (if a = [] then (Inr False, w)
           else case map_of CALL_RESULT_HANDLER_REGISTRY a of
                  None \<Rightarrow> (Inr False, w) | Some handler \<Rightarrow> handler env ctx w)
      | _ \<Rightarrow> (Inr False, w))"

end
