(* ===== verification/CallErrors.thy ===== *)
theory CallErrors
  imports CallResults
begin

text \<open>
  \<open>apps/ocpp/call_error_handlers\<close>: what the server does with a CALLERROR.  The error fields are
  whatever the frame holds.  A handler can raise only by stripping a code or description that is
  not a string, which each of them does before its first effect, so a raise leaves the world as it
  was; the dispatcher catches it.
\<close>

record err_ctx =
  ec_message_id :: string
  ec_metadata :: obj
  ec_code :: pyval
  ec_description :: pyval
  ec_details :: pyval
  ec_log_key :: pyval

type_synonym ('c, 't, 'r) err_handler =
  "'r handler_env \<Rightarrow> err_ctx \<Rightarrow> ('c, 't, 'r) world \<Rightarrow> pyexn + ('c, 't, 'r) world"

definition emeta :: "err_ctx \<Rightarrow> string \<Rightarrow> pyval" where
  "emeta ctx k = jget (ec_metadata ctx) k"

definition fail_outcome :: "obj \<Rightarrow> err_ctx \<Rightarrow> call_outcome" where
  "fail_outcome metadata ctx =
     \<lparr>co_metadata = metadata, co_success = False, co_payload = PNone, co_error_code = ec_code ctx,
      co_error_description = ec_description ctx, co_error_details = ec_details ctx\<rparr>"

definition fail_with :: "obj \<Rightarrow> 'r handler_env \<Rightarrow> err_ctx \<Rightarrow> ('c, 't, 'r) world \<Rightarrow> ('c, 't, 'r) world" where
  "fail_with metadata env ctx w = record_result env (ec_message_id ctx) (fail_outcome metadata ctx) w"

definition fail :: "'r handler_env \<Rightarrow> err_ctx \<Rightarrow> ('c, 't, 'r) world \<Rightarrow> ('c, 't, 'r) world" where
  "fail env ctx w = fail_with (ec_metadata ctx) env ctx w"

text \<open>\<open>(value or alt).strip()\<close>\<close>

definition strip_or :: "pyval \<Rightarrow> string \<Rightarrow> pyexn + string" where
  "strip_or v alt =
     (case por v (PStr alt) of PStr s \<Rightarrow> Inr (py_strip s) | _ \<Rightarrow> Inl AttributeError)"

definition or_error :: "string \<Rightarrow> string" where
  "or_error s = (if s = [] then ''Error'' else s)"

subsection \<open>The four ways the log line is put together\<close>

definition stripped_parts :: "err_ctx \<Rightarrow> pyexn + string list" where
  "stripped_parts ctx =
     ebind (strip_or (ec_code ctx) []) (\<lambda>code. ebind (strip_or (ec_description ctx) []) (\<lambda>description.
       Inr (opt_part ''code'' code @ opt_part ''description'' description)))"

definition details_part :: "err_ctx \<Rightarrow> string list" where
  "details_part ctx = opt_part ''details'' (json_details (ec_details ctx))"

definition loose_parts :: "err_ctx \<Rightarrow> string list" where
  "loose_parts ctx =
     (if truthy (ec_code ctx) then [''code='' @ py_strip (py_str (ec_code ctx))] else []) @
     (if truthy (ec_description ctx) then [''description='' @ py_strip (py_str (ec_description ctx))] else [])"

definition nonempty_parts :: "err_ctx \<Rightarrow> string list" where
  "nonempty_parts ctx =
     (if truthy (ec_code ctx) then opt_part ''code'' (py_strip (py_str (ec_code ctx))) else []) @
     (if truthy (ec_description ctx) then opt_part ''description'' (py_strip (py_str (ec_description ctx))) else [])"

definition raw_parts :: "err_ctx \<Rightarrow> string list" where
  "raw_parts ctx =
     (if truthy (ec_code ctx) then [''code='' @ py_str (ec_code ctx)] else []) @
     (if truthy (ec_description ctx) then [''description='' @ py_str (ec_description ctx)] else [])"

definition given_details :: "err_ctx \<Rightarrow> string list" where
  "given_details ctx =
     (if truthy (ec_details ctx) then [''details='' @ json_details (ec_details ctx)] else [])"

definition err_log :: "string \<Rightarrow> string list \<Rightarrow> err_ctx \<Rightarrow> ('c, 't, 'r) world \<Rightarrow> ('c, 't, 'r) world" where
  "err_log label parts ctx w = add_log (ec_log_key ctx) (str_parts (label @ '' error'') parts) w"

definition log_and_fail :: "string \<Rightarrow> string list \<Rightarrow> ('c, 't, 'r) err_handler" where
  "log_and_fail label parts env ctx w = Inr (fail env ctx (err_log label parts ctx w))"

definition error_payload :: "err_ctx \<Rightarrow> pyval" where
  "error_payload ctx =
     PDict [(''errorCode'', por (ec_code ctx) (PStr [])), (''description'', por (ec_description ctx) (PStr [])),
            (''details'', por (ec_details ctx) (PDict []))]"

definition raw_error_payload :: "err_ctx \<Rightarrow> pyval" where
  "raw_error_payload ctx =
     PDict [(''errorCode'', ec_code ctx), (''errorDescription'', ec_description ctx),
            (''details'', ec_details ctx)]"

subsection \<open>Configuration and reporting\<close>

definition handle_change_configuration_error :: "('c, 't, 'r) err_handler" where
  "handle_change_configuration_error env ctx =
     log_and_fail ''ChangeConfiguration''
       (opt_part ''key'' (text_field (emeta ctx ''key'')) @ loose_parts ctx @ given_details ctx) env ctx"

definition handle_clear_cache_error :: "('c, 't, 'r) err_handler" where
  "handle_clear_cache_error env ctx w =
     ebind (stripped_parts ctx) (\<lambda>parts.
       Inr (fail env ctx (consumer_does (UpdateLocalAuthorization None)
         (err_log ''ClearCache'' (parts @ details_part ctx) ctx w))))"

definition handle_get_configuration_error :: "('c, 't, 'r) err_handler" where
  "handle_get_configuration_error env ctx w =
     ebind (stripped_parts ctx) (\<lambda>parts. log_and_fail ''GetConfiguration'' (parts @ details_part ctx) env ctx w)"

definition handle_trigger_message_error :: "('c, 't, 'r) err_handler" where
  "handle_trigger_message_error env ctx w =
     (let target = por (emeta ctx ''trigger_target'') (emeta ctx ''follow_up_action'');
          connector_value = emeta ctx ''trigger_connector'';
          label = (if truthy target then ''TriggerMessage '' @ py_str target else ''TriggerMessage'');
          entry = str_parts (label @ '' error'') (loose_parts ctx @ given_details ctx) @
                  (if truthy connector_value then '', connector='' @ py_str connector_value else [])
      in Inr (fail env ctx (add_log (ec_log_key ctx) entry w)))"

definition handle_remote_start_transaction_error :: "('c, 't, 'r) err_handler" where
  "handle_remote_start_transaction_error env ctx =
     log_and_fail ''RemoteStartTransaction'' (nonempty_parts ctx) env ctx"

definition handle_remote_stop_transaction_error :: "('c, 't, 'r) err_handler" where
  "handle_remote_stop_transaction_error env ctx =
     log_and_fail ''RemoteStopTransaction'' (nonempty_parts ctx) env ctx"

definition handle_request_start_transaction_error :: "('c, 't, 'r) err_handler" where
  "handle_request_start_transaction_error env ctx w =
     Inr (fail env ctx (mark_request env (ec_message_id ctx) ''rejected'' PNone
       (err_log ''RequestStartTransaction'' (nonempty_parts ctx) ctx w)))"

definition handle_request_stop_transaction_error :: "('c, 't, 'r) err_handler" where
  "handle_request_stop_transaction_error env ctx w =
     Inr (fail env ctx (mark_request env (ec_message_id ctx) ''rejected'' PNone
       (err_log ''RequestStopTransaction'' (nonempty_parts ctx) ctx w)))"

definition handle_get_transaction_status_error :: "('c, 't, 'r) err_handler" where
  "handle_get_transaction_status_error env ctx =
     log_and_fail ''GetTransactionStatus'' (nonempty_parts ctx) env ctx"

definition handle_reset_error :: "('c, 't, 'r) err_handler" where
  "handle_reset_error env ctx = log_and_fail ''Reset'' (nonempty_parts ctx) env ctx"

text \<open>\<open>_json_details(details) if details is not None else ""\<close>, then description, code, "Error".\<close>

definition rejection_detail :: "err_ctx \<Rightarrow> pyexn + string" where
  "rejection_detail ctx =
     (let detail = (if ec_details ctx = PNone then [] else json_details (ec_details ctx))
      in if detail \<noteq> [] then Inr detail
         else ebind (strip_or (ec_description ctx) []) (\<lambda>description.
           if description \<noteq> [] then Inr description
           else ebind (strip_or (ec_code ctx) []) (\<lambda>code. Inr (or_error code))))"

definition handle_change_availability_error :: "('c, 't, 'r) err_handler" where
  "handle_change_availability_error env ctx w =
     ebind (rejection_detail ctx) (\<lambda>detail.
       Inr (fail env ctx (consumer_does (UpdateAvailability (emeta ctx ''connector_id'')
         (emeta ctx ''availability_type'') ''Rejected'' (emeta ctx ''requested_at'') detail) w)))"

definition handle_unlock_connector_error :: "('c, 't, 'r) err_handler" where
  "handle_unlock_connector_error env ctx w =
     ebind (rejection_detail ctx) (\<lambda>detail.
       log_and_fail ''UnlockConnector'' (raw_parts ctx @ given_details ctx) env ctx
         (consumer_does (UpdateAvailability (emeta ctx ''connector_id'') PNone ''Rejected''
           (emeta ctx ''requested_at'') detail) w))"

definition handle_clear_display_message_error :: "('c, 't, 'r) err_handler" where
  "handle_clear_display_message_error env ctx =
     log_and_fail ''ClearDisplayMessage'' (loose_parts ctx @ details_part ctx) env ctx"

definition handle_customer_information_error :: "('c, 't, 'r) err_handler" where
  "handle_customer_information_error env ctx =
     log_and_fail ''CustomerInformation'' (loose_parts ctx @ details_part ctx) env ctx"

definition handle_get_base_report_error :: "('c, 't, 'r) err_handler" where
  "handle_get_base_report_error env ctx =
     log_and_fail ''GetBaseReport'' (loose_parts ctx @ details_part ctx) env ctx"

definition handle_get_display_messages_error :: "('c, 't, 'r) err_handler" where
  "handle_get_display_messages_error env ctx =
     log_and_fail ''GetDisplayMessages'' (loose_parts ctx @ details_part ctx) env ctx"

definition handle_get_report_error :: "('c, 't, 'r) err_handler" where
  "handle_get_report_error env ctx =
     log_and_fail ''GetReport'' (loose_parts ctx @ details_part ctx) env ctx"

definition handle_set_display_message_error :: "('c, 't, 'r) err_handler" where
  "handle_set_display_message_error env ctx =
     log_and_fail ''SetDisplayMessage'' (loose_parts ctx @ details_part ctx) env ctx"

definition monitoring_setting_error :: "string \<Rightarrow> string \<Rightarrow> string \<Rightarrow> ('c, 't, 'r) err_handler" where
  "monitoring_setting_error label meta_key part env ctx w =
     (let setting = emeta ctx meta_key;
          present = (setting \<noteq> PNone \<and> setting \<noteq> PStr []);
          fragments = loose_parts ctx @ details_part ctx @
                      (if present then [part @ ''='' @ py_str setting] else []);
          md = (if present then dset meta_key setting (ec_metadata ctx) else ec_metadata ctx)
      in Inr (fail_with md env ctx (err_log label fragments ctx w)))"

definition handle_set_monitoring_base_error :: "('c, 't, 'r) err_handler" where
  "handle_set_monitoring_base_error = monitoring_setting_error ''SetMonitoringBase'' ''monitoring_base'' ''base''"

definition handle_set_monitoring_level_error :: "('c, 't, 'r) err_handler" where
  "handle_set_monitoring_level_error =
     monitoring_setting_error ''SetMonitoringLevel'' ''monitoring_level'' ''severity''"

definition handle_set_network_profile_error :: "('c, 't, 'r) err_handler" where
  "handle_set_network_profile_error env ctx w =
     (let pk = emeta ctx ''deployment_pk''
      in case db_get ''CPNetworkProfileDeployment'' pk (hw_db w) of
           None \<Rightarrow> Inr (fail env ctx w)
         | Some row \<Rightarrow>
             ebind (strip_or (ec_description ctx) []) (\<lambda>description.
               let detail = (if description \<noteq> [] then description else json_details (ec_details ctx))
               in ebind (if detail \<noteq> [] then Inr detail
                         else ebind (strip_or (ec_code ctx) []) (\<lambda>code. Inr (or_error code)))
                    (\<lambda>text. Inr (fail env ctx
                       (with_db (complete_deployment ''CPNetworkProfileDeployment'' (he_now env) pk
                          \<circ> network_mark_status (he_now env) ''Error'' text PNone
                              (if ec_details ctx = PNone then None else Some (ec_details ctx)) pk) w)))))"

subsection \<open>Schedules, logs and firmware\<close>

definition handle_get_composite_schedule_error :: "('c, 't, 'r) err_handler" where
  "handle_get_composite_schedule_error env ctx w =
     (let pk = emeta ctx ''projection_pk'';
          w1 = (if truthy pk
                then with_db (db_save ''PowerProjection'' pk
                  [(''status'', por (ec_code ctx) (PStr ''Error'')), (''schedule_start'', PNone),
                   (''duration_seconds'', PNone), (''charging_schedule_periods'', PList []),
                   (''raw_response'', error_payload ctx), (''received_at'', he_now env),
                   (''updated_at'', he_now env)]) w
                else w)
      in log_and_fail ''GetCompositeSchedule'' (raw_parts ctx) env ctx w1)"

definition handle_get_log_error :: "('c, 't, 'r) err_handler" where
  "handle_get_log_error env ctx w =
     (let pk = emeta ctx ''log_request_pk'';
          capture_key = emeta ctx ''capture_key'';
          present = (truthy pk \<and> db_get ''ChargerLogRequest'' pk (hw_db w) \<noteq> None)
      in ebind (if present then ebind (strip_or (ec_code ctx) ''Error'') (\<lambda>code. Inr (or_error code))
                else Inr []) (\<lambda>label.
           let w1 = (if present
                     then with_db (db_save ''ChargerLogRequest'' pk
                       ([(''status'', PStr label), (''responded_at'', he_now env),
                         (''raw_response'', raw_error_payload ctx)] @
                        (if truthy capture_key then [(''session_key'', PStr (py_str capture_key))] else []))) w
                     else w);
               w2 = err_log ''GetLog'' (raw_parts ctx) ctx w1;
               w3 = (if truthy capture_key
                     then w2\<lparr>hw_captures := hw_captures w2 @ [CaptureFinish (py_str capture_key)]\<rparr> else w2)
           in Inr (fail env ctx w3)))"

definition firmware_error :: "string \<Rightarrow> ('c, 't, 'r) err_handler" where
  "firmware_error label env ctx w =
     (let pk = emeta ctx ''deployment_pk'';
          entry = str_parts (label @ '' error'') (loose_parts ctx @ details_part ctx)
      in Inr (fail env ctx
           (if truthy pk
            then with_db (complete_deployment ''CPFirmwareDeployment'' (he_now env) pk
                   \<circ> firmware_mark_status (he_now env) ''Error'' entry
                       (Some (por (ec_details ctx) (PDict []))) pk) w
            else w)))"

definition handle_update_firmware_error :: "('c, 't, 'r) err_handler" where
  "handle_update_firmware_error = firmware_error ''UpdateFirmware''"

definition handle_publish_firmware_error :: "('c, 't, 'r) err_handler" where
  "handle_publish_firmware_error = firmware_error ''PublishFirmware''"

definition handle_unpublish_firmware_error :: "('c, 't, 'r) err_handler" where
  "handle_unpublish_firmware_error env ctx =
     log_and_fail ''UnpublishFirmware'' (loose_parts ctx @ details_part ctx) env ctx"

definition handle_get_diagnostics_error :: "('c, 't, 'r) err_handler" where
  "handle_get_diagnostics_error env ctx w =
     ebind (stripped_parts ctx) (\<lambda>parts. log_and_fail ''GetDiagnostics'' (parts @ details_part ctx) env ctx w)"

subsection \<open>Data transfer and reservations\<close>

definition handle_data_transfer_error :: "('c, 't, 'r) err_handler" where
  "handle_data_transfer_error env ctx w =
     (let pk = emeta ctx ''message_pk''
      in if \<not> truthy pk \<or> db_get ''DataTransferMessage'' pk (hw_db w) = None then Inr (fail env ctx w)
         else ebind (strip_or (ec_code ctx) ''Error'') (\<lambda>label.
           ebind (strip_or (ec_code ctx) []) (\<lambda>code.
             ebind (strip_or (ec_description ctx) []) (\<lambda>description.
               let status = PStr (or_error label);
                   d1 = db_save ''DataTransferMessage'' pk
                     [(''status'', status), (''response_data'', PNone), (''error_code'', PStr code),
                      (''error_description'', PStr description), (''error_details'', ec_details ctx),
                      (''responded_at'', he_now env), (''updated_at'', he_now env)] (hw_db w);
                   d2 = (case db_first ''CPFirmwareRequest'' (has_fields [(''message'', pk)]) d1 of
                           None \<Rightarrow> d1
                         | Some rpk \<Rightarrow> db_save ''CPFirmwareRequest'' rpk
                             [(''status'', status), (''responded_at'', he_now env),
                              (''response_payload'', raw_error_payload ctx), (''updated_at'', he_now env)] d1)
               in Inr (fail env ctx (w\<lparr>hw_db := d2\<rparr>))))))"

definition handle_reservation_error :: "string \<Rightarrow> ('c, 't, 'r) err_handler" where
  "handle_reservation_error label env ctx w =
     ebind (strip_or (ec_code ctx) []) (\<lambda>code. ebind (strip_or (ec_description ctx) []) (\<lambda>description.
       let details = json_details (ec_details ctx);
           w1 = err_log label (opt_part ''code'' code @ opt_part ''description'' description @
                               opt_part ''details'' details) ctx w;
           pk = emeta ctx ''reservation_pk'';
           summary = py_join ''; '' (filter (\<lambda>p. p \<noteq> []) [code, description, details])
       in Inr (fail env ctx
            (if truthy pk
             then with_db (db_save ''CPReservation'' pk
               [(''evcs_status'', PStr []), (''evcs_error'', PStr summary), (''evcs_confirmed'', PBool False),
                (''evcs_confirmed_at'', PNone), (''updated_on'', he_now env)]) w1
             else w1))))"

definition handle_reserve_now_error :: "('c, 't, 'r) err_handler" where
  "handle_reserve_now_error = handle_reservation_error ''ReserveNow''"

definition handle_cancel_reservation_error :: "('c, 't, 'r) err_handler" where
  "handle_cancel_reservation_error = handle_reservation_error ''CancelReservation''"

subsection \<open>Charging profiles\<close>

definition handle_set_charging_profile_error :: "('c, 't, 'r) err_handler" where
  "handle_set_charging_profile_error env ctx w =
     ebind (stripped_parts ctx) (\<lambda>parts. log_and_fail ''SetChargingProfile'' (parts @ details_part ctx) env ctx w)"

definition handle_clear_charging_profile_error :: "('c, 't, 'r) err_handler" where
  "handle_clear_charging_profile_error env ctx w =
     ebind (strip_or (ec_code ctx) []) (\<lambda>code. ebind (strip_or (ec_description ctx) []) (\<lambda>description.
       let w1 = err_log ''ClearChargingProfile''
                  (opt_part ''code'' code @ opt_part ''description'' description) ctx w;
           text1 = (if description \<noteq> [] then description else json_details (ec_details ctx));
           detail = (if text1 \<noteq> [] then text1 else code);
           profile_id = emeta ctx ''charging_profile_id''
       in Inr (fail env ctx
            (if truthy profile_id
             then with_db (\<lambda>d. db_update_where ''ChargingProfile''
               (profile_rows profile_id (emeta ctx ''charger_id'') d)
               [(''last_status'', por (ec_code ctx) (PStr ''Error'')), (''last_status_info'', PStr detail),
                (''last_response_payload'', error_payload ctx), (''last_response_at'', he_now env)] d) w1
             else w1))))"

definition handle_get_charging_profiles_error :: "('c, 't, 'r) err_handler" where
  "handle_get_charging_profiles_error env ctx =
     log_and_fail ''GetChargingProfiles'' (loose_parts ctx @ details_part ctx) env ctx"

subsection \<open>Certificates\<close>

definition apply_operation_error :: "pyval \<Rightarrow> err_ctx \<Rightarrow> db \<Rightarrow> pyexn + db" where
  "apply_operation_error now ctx d =
     (let pk = emeta ctx ''operation_pk''
      in case db_get ''CertificateOperation'' pk d of
           None \<Rightarrow> Inr d
         | Some row \<Rightarrow>
             ebind (strip_or (ec_description ctx) []) (\<lambda>description.
               let text1 = (if description \<noteq> [] then description else json_details (ec_details ctx))
               in ebind (if text1 \<noteq> [] then Inr text1
                         else ebind (strip_or (ec_code ctx) []) (\<lambda>code. Inr (or_error code)))
                    (\<lambda>detail. Inr (db_save ''CertificateOperation'' pk
                       [(''status'', PStr ''Error''), (''status_info'', PStr detail),
                        (''response_payload'', error_payload ctx), (''responded_at'', now)] d))))"

definition certificate_error :: "string option \<Rightarrow> ('c, 't, 'r) err_handler" where
  "certificate_error action env ctx w =
     ebind (apply_operation_error (he_now env) ctx (hw_db w)) (\<lambda>d.
       Inr (fail env ctx (w\<lparr>hw_db :=
         (case action of
            None \<Rightarrow> d
          | Some a \<Rightarrow> db_save ''InstalledCertificate'' (emeta ctx ''installed_certificate_pk'')
              [(''status'', PStr ''Error''), (''last_action'', PStr a)] d)\<rparr>)))"

definition handle_install_certificate_error :: "('c, 't, 'r) err_handler" where
  "handle_install_certificate_error = certificate_error (Some ''InstallCertificate'')"

definition handle_delete_certificate_error :: "('c, 't, 'r) err_handler" where
  "handle_delete_certificate_error = certificate_error (Some ''DeleteCertificate'')"

definition handle_certificate_signed_error :: "('c, 't, 'r) err_handler" where
  "handle_certificate_signed_error = certificate_error None"

definition handle_get_installed_certificate_ids_error :: "('c, 't, 'r) err_handler" where
  "handle_get_installed_certificate_ids_error = certificate_error None"

subsection \<open>The dispatcher\<close>

definition CALL_ERROR_HANDLERS :: "(string \<times> ('c, 't, 'r) err_handler) list" where
  "CALL_ERROR_HANDLERS =
     [(''GetCompositeSchedule'', handle_get_composite_schedule_error),
      (''ChangeConfiguration'', handle_change_configuration_error),
      (''GetLog'', handle_get_log_error),
      (''DataTransfer'', handle_data_transfer_error),
      (''ClearCache'', handle_clear_cache_error),
      (''GetConfiguration'', handle_get_configuration_error),
      (''TriggerMessage'', handle_trigger_message_error),
      (''UpdateFirmware'', handle_update_firmware_error),
      (''PublishFirmware'', handle_publish_firmware_error),
      (''UnpublishFirmware'', handle_unpublish_firmware_error),
      (''ReserveNow'', handle_reserve_now_error),
      (''CancelReservation'', handle_cancel_reservation_error),
      (''RemoteStartTransaction'', handle_remote_start_transaction_error),
      (''RemoteStopTransaction'', handle_remote_stop_transaction_error),
      (''GetDiagnostics'', handle_get_diagnostics_error),
      (''RequestStartTransaction'', handle_request_start_transaction_error),
      (''RequestStopTransaction'', handle_request_stop_transaction_error),
      (''GetTransactionStatus'', handle_get_transaction_status_error),
      (''Reset'', handle_reset_error),
      (''ChangeAvailability'', handle_change_availability_error),
      (''UnlockConnector'', handle_unlock_connector_error),
      (''SetChargingProfile'', handle_set_charging_profile_error),
      (''ClearChargingProfile'', handle_clear_charging_profile_error),
      (''ClearDisplayMessage'', handle_clear_display_message_error),
      (''CustomerInformation'', handle_customer_information_error),
      (''GetBaseReport'', handle_get_base_report_error),
      (''GetChargingProfiles'', handle_get_charging_profiles_error),
      (''GetDisplayMessages'', handle_get_display_messages_error),
      (''GetReport'', handle_get_report_error),
      (''SetDisplayMessage'', handle_set_display_message_error),
      (''SetMonitoringBase'', handle_set_monitoring_base_error),
      (''SetMonitoringLevel'', handle_set_monitoring_level_error),
      (''SetNetworkProfile'', handle_set_network_profile_error),
      (''InstallCertificate'', handle_install_certificate_error),
      (''DeleteCertificate'', handle_delete_certificate_error),
      (''CertificateSigned'', handle_certificate_signed_error),
      (''GetInstalledCertificateIds'', handle_get_installed_certificate_ids_error)]"

text \<open>Every exception of a handler is caught; the call then counts as not handled.\<close>

definition dispatch_call_error ::
  "pyval \<Rightarrow> 'r handler_env \<Rightarrow> err_ctx \<Rightarrow> ('c, 't, 'r) world \<Rightarrow> bool \<times> ('c, 't, 'r) world" where
  "dispatch_call_error action env ctx w =
     (case action of
        PStr a \<Rightarrow>
          (if a = [] then (False, w)
           else case map_of CALL_ERROR_HANDLERS a of
                  None \<Rightarrow> (False, w)
                | Some handler \<Rightarrow> (case handler env ctx w of Inl e \<Rightarrow> (False, w) | Inr w' \<Rightarrow> (True, w')))
      | _ \<Rightarrow> (False, w))"

end
