(* ===== verification/StoreStateProps.thy ===== *)
theory StoreStateProps
  imports StoreState
begin

text \<open>
  What the state module promises: the canonical form of connector slugs, the separation of
  chargers in the two session tables (stated once as the interface \<open>session_table\<close> and
  interpreted for both), the bound on connections per address, the bounded event queues and the
  charging-profile report cache.
\<close>

subsection \<open>Slugs and identity keys\<close>

lemma connector_slug_int [simp]: "connector_slug (PInt i) = int_str i"
  by (simp add: connector_slug_def is_aggregate_def)

lemma connector_slug_None [simp]: "connector_slug PNone = AGGREGATE_SLUG"
  by (simp add: connector_slug_def is_aggregate_def)

lemma connector_slug_all [simp]: "connector_slug (PStr AGGREGATE_SLUG) = AGGREGATE_SLUG"
  by (simp add: connector_slug_def is_aggregate_def)

lemma int_of_str_slugs [simp]: "int_of_str ''all'' = None" "int_of_str ''pending'' = None"
  by (simp_all add: int_of_str_def py_strip_def py_lstrip_def py_rstrip_def is_space_def code_def
      signed_part_def is_ascii_digit_def Let_def)

lemma int_str_not_slug [simp]: "int_str i \<noteq> ''all''" "int_str i \<noteq> ''pending''"
  by (metis int_of_str_int_str int_of_str_slugs(1) option.distinct(1))
    (metis int_of_str_int_str int_of_str_slugs(2) option.distinct(1))

definition sep_free :: "string \<Rightarrow> bool" where
  "sep_free n = (CHR ''#'' \<notin> set n)"

lemma sep_cancel:
  "sep_free n \<Longrightarrow> sep_free m \<Longrightarrow> n @ IDENTITY_SEPARATOR @ x = m @ IDENTITY_SEPARATOR @ y \<longleftrightarrow> n = m \<and> x = y"
proof (induction n arbitrary: m)
  case Nil
  then show ?case by (cases m) (auto simp: slug_defs sep_free_def)
next
  case (Cons a n)
  then show ?case by (cases m) (auto simp: slug_defs sep_free_def)
qed

lemma sep_not_plain: "sep_free m \<Longrightarrow> n @ IDENTITY_SEPARATOR @ x \<noteq> m"
  by (auto simp: slug_defs sep_free_def)

text \<open>The keys that belong to a serial: the serial itself, or the serial, the separator and a slug.\<close>

definition owned :: "string \<Rightarrow> string \<Rightarrow> bool" where
  "owned n k = (k = n \<or> py_startswith k (n @ IDENTITY_SEPARATOR))"

lemma owned_disjoint: "sep_free n \<Longrightarrow> sep_free m \<Longrightarrow> n \<noteq> m \<Longrightarrow> owned n k \<Longrightarrow> \<not> owned m k"
  by (auto simp: owned_def py_startswith_iff sep_cancel sep_not_plain dest: sep_not_plain sym)

lemma owned_identity_key [simp]: "owned n (identity_key n c)"
  by (simp add: owned_def identity_key_def py_startswith_iff)

lemma candidate_keys_owned: "k \<in> set (candidate_keys n c s) \<Longrightarrow> owned n k"
  by (auto simp: candidate_keys_def Let_def owned_def identity_key_def pending_key_def
      py_startswith_iff split: if_splits)

lemma identity_key_nonempty [simp]: "identity_key n c \<noteq> []"
  by (simp add: identity_key_def slug_defs)

lemma dedupe_Cons_hd: "\<exists>ys. dedupe (x # xs) = x # ys"
proof -
  have "\<exists>ys. fold sadd xs (x # zs) = x # ys" for zs
    by (induction xs arbitrary: zs) (auto simp: sadd_def)
  then show ?thesis by (simp add: dedupe_def sadd_def)
qed

lemma aggregate_key: "is_aggregate c \<Longrightarrow> identity_key n PNone = identity_key n c"
  by (simp add: identity_key_def connector_slug_def is_aggregate_def)

lemma candidate_keys_hd: "\<exists>ks. candidate_keys n c s = identity_key n c # ks"
  using dedupe_Cons_hd [of "identity_key n c"]
  by (auto simp: candidate_keys_def Let_def aggregate_key)

lemma candidate_keys_distinct: "distinct (candidate_keys n c s)"
  by (simp add: candidate_keys_def Let_def)

lemma first_hit_set:
  assumes "\<And>k. k \<in> set ks \<Longrightarrow> f k = g k"
  shows "first_hit f ks = first_hit g ks"
  using assms by (induction ks) (auto split: option.splits)

subsection \<open>The session tables\<close>

locale session_table =
  fixes get :: "string \<Rightarrow> pyval \<Rightarrow> 's \<Rightarrow> 'v option"
    and put :: "string \<Rightarrow> pyval \<Rightarrow> 'v \<Rightarrow> 's \<Rightarrow> string \<times> 's"
    and take_out :: "string \<Rightarrow> pyval \<Rightarrow> 's \<Rightarrow> 'v option \<times> 's"
  assumes get_put: "get n c (snd (put n c v s)) = Some v"
    and take_get: "fst (take_out n c s) = get n c s"
    and take_absent: "get n c s = None \<Longrightarrow> snd (take_out n c s) = s"
    and get_put_other:
      "sep_free n \<Longrightarrow> sep_free m \<Longrightarrow> n \<noteq> m \<Longrightarrow> get m d (snd (put n c v s)) = get m d s"
    and get_take_other:
      "sep_free n \<Longrightarrow> sep_free m \<Longrightarrow> n \<noteq> m \<Longrightarrow> get m d (snd (take_out n c s)) = get m d s"
begin

text \<open>A history of table operations, each naming the charger it is for.\<close>

fun apply_op :: "string \<times> pyval \<times> 'v option \<Rightarrow> 's \<Rightarrow> 's" where
  "apply_op (n, c, Some v) s = snd (put n c v s)"
| "apply_op (n, c, None) s = snd (take_out n c s)"

lemma apply_op_foreign:
  "sep_free (fst p) \<Longrightarrow> sep_free m \<Longrightarrow> fst p \<noteq> m \<Longrightarrow> get m d (apply_op p s) = get m d s"
  by (cases p; cases "snd (snd p)") (auto simp: get_put_other get_take_other)

lemma foreign_history:
  "sep_free m \<Longrightarrow> \<forall>p \<in> set h. sep_free (fst p) \<and> fst p \<noteq> m \<Longrightarrow>
     get m d (fold apply_op h s) = get m d s"
  by (induction h arbitrary: s) (auto simp: apply_op_foreign)

lemma kept_until_taken:
  assumes "sep_free m" and "\<forall>p \<in> set h. sep_free (fst p) \<and> fst p \<noteq> m"
  shows "fst (take_out m c (fold apply_op h (snd (put m c v s)))) = Some v"
  using foreign_history [OF assms, of c "snd (put m c v s)"] by (simp add: take_get get_put)

end

lemma candidate_keys_put_other:
  assumes "sep_free n" "sep_free m" "n \<noteq> m"
    and "filter (\<lambda>k. py_startswith k (m @ IDENTITY_SEPARATOR)) (dkeys (connections s')) =
         filter (\<lambda>k. py_startswith k (m @ IDENTITY_SEPARATOR)) (dkeys (connections s))"
  shows "candidate_keys m d s' = candidate_keys m d s"
proof -
  have same: "filter (\<lambda>k. py_startswith k (m @ IDENTITY_SEPARATOR) \<and> P k) (dkeys (connections s')) =
        filter (\<lambda>k. py_startswith k (m @ IDENTITY_SEPARATOR) \<and> P k) (dkeys (connections s))" for P
    using arg_cong [OF assms(4), of "filter P"] by simp
  show ?thesis unfolding candidate_keys_def Let_def by (simp only: same)
qed

lemma filter_dkeys_dset: "\<not> P k \<Longrightarrow> filter P (dkeys (dset k v d)) = filter P (dkeys d)"
  by (induction d) (auto simp: dset_def dkeys_def)

lemma filter_dkeys_ddel: "\<not> P k \<Longrightarrow> filter P (dkeys (ddel k d)) = filter P (dkeys d)"
  by (induction d) (auto simp: ddel_def dkeys_def)

lemma owned_foreign_prefix:
  "sep_free n \<Longrightarrow> sep_free m \<Longrightarrow> n \<noteq> m \<Longrightarrow> owned n k \<Longrightarrow> \<not> py_startswith k (m @ IDENTITY_SEPARATOR)"
  using owned_disjoint [of n m k] by (auto simp: owned_def)

lemma pop_connection_cases:
  obtains "get_connection n c s = None" "pop_connection n c s = (None, s)"
  | k v where "get_connection n c s = Some v" "owned n k"
      "pop_connection n c s = (Some v, s\<lparr>connections := ddel k (connections s)\<rparr>)"
  by (cases "first_hit (dget (connections s)) (candidate_keys n c s)")
    (auto simp: pop_connection_def get_connection_def dest!: first_hit_SomeD candidate_keys_owned)

lemma pop_transaction_cases:
  obtains "get_transaction n c s = None" "pop_transaction n c s = (None, s)"
  | k v where "get_transaction n c s = Some v" "owned n k"
      "pop_transaction n c s = (Some v, s\<lparr>transactions := ddel k (transactions s)\<rparr>)"
  by (cases "first_hit (dget (transactions s)) (candidate_keys n c s)")
    (auto simp: pop_transaction_def get_transaction_def dest!: first_hit_SomeD candidate_keys_owned)

text \<open>A write to one key of another charger changes no lookup.\<close>

lemma get_connection_foreign:
  assumes "sep_free n" "sep_free m" "n \<noteq> m" "owned n k"
  shows "get_connection m d (s\<lparr>connections := dset k v (connections s)\<rparr>) = get_connection m d s"
    and "get_connection m d (s\<lparr>connections := ddel k (connections s)\<rparr>) = get_connection m d s"
proof -
  note np = owned_foreign_prefix [OF assms]
  have keys: "candidate_keys m d (s\<lparr>connections := dset k v (connections s)\<rparr>) = candidate_keys m d s"
    "candidate_keys m d (s\<lparr>connections := ddel k (connections s)\<rparr>) = candidate_keys m d s"
    using assms np
    by (auto intro!: candidate_keys_put_other [OF assms(1-3)] filter_dkeys_dset filter_dkeys_ddel)
  have "j \<noteq> k" if "j \<in> set (candidate_keys m d s)" for j
    using candidate_keys_owned [OF that] owned_disjoint [OF assms] by auto
  then show "get_connection m d (s\<lparr>connections := dset k v (connections s)\<rparr>) = get_connection m d s"
    "get_connection m d (s\<lparr>connections := ddel k (connections s)\<rparr>) = get_connection m d s"
    by (auto simp: get_connection_def keys intro!: arg_cong [of _ _ "map_option snd"] first_hit_set)
qed

lemma candidate_keys_transactions [simp]:
  "candidate_keys m d (s\<lparr>transactions := t\<rparr>) = candidate_keys m d s"
  by (simp add: candidate_keys_def)

lemma get_transaction_foreign:
  assumes "sep_free n" "sep_free m" "n \<noteq> m" "owned n k"
  shows "get_transaction m d (s\<lparr>transactions := dset k v (transactions s)\<rparr>) = get_transaction m d s"
    and "get_transaction m d (s\<lparr>transactions := ddel k (transactions s)\<rparr>) = get_transaction m d s"
proof -
  have "j \<noteq> k" if "j \<in> set (candidate_keys m d s)" for j
    using candidate_keys_owned [OF that] owned_disjoint [OF assms] by auto
  then show "get_transaction m d (s\<lparr>transactions := dset k v (transactions s)\<rparr>) = get_transaction m d s"
    "get_transaction m d (s\<lparr>transactions := ddel k (transactions s)\<rparr>) = get_transaction m d s"
    by (auto simp: get_transaction_def intro!: arg_cong [of _ _ "map_option snd"] first_hit_set)
qed

interpretation conn: session_table
  "get_connection :: string \<Rightarrow> pyval \<Rightarrow> ('c, 't, 'r) store_state \<Rightarrow> 'c option"
  set_connection pop_connection
proof
  fix n m c d v and s :: "('c, 't, 'r) store_state"
  obtain ks where "candidate_keys n c (snd (set_connection n c v s)) = identity_key n c # ks"
    using candidate_keys_hd by blast
  then show "get_connection n c (snd (set_connection n c v s)) = Some v"
    by (simp add: get_connection_def set_connection_def Let_def)
  show "fst (pop_connection n c s) = get_connection n c s"
    by (rule pop_connection_cases [of n c s]) auto
  show "get_connection n c s = None \<Longrightarrow> snd (pop_connection n c s) = s"
    by (rule pop_connection_cases [of n c s]) auto
  assume f: "sep_free n" "sep_free m" "n \<noteq> m"
  show "get_connection m d (snd (set_connection n c v s)) = get_connection m d s"
    using get_connection_foreign(1) [OF f owned_identity_key] by (simp add: set_connection_def Let_def)
  show "get_connection m d (snd (pop_connection n c s)) = get_connection m d s"
    by (rule pop_connection_cases [of n c s]) (auto simp: get_connection_foreign(2) [OF f])
qed

interpretation tx: session_table
  "get_transaction :: string \<Rightarrow> pyval \<Rightarrow> ('c, 't, 'r) store_state \<Rightarrow> 't option"
  set_transaction pop_transaction
proof
  fix n m c d v and s :: "('c, 't, 'r) store_state"
  obtain ks where "candidate_keys n c s = identity_key n c # ks"
    using candidate_keys_hd by blast
  then show "get_transaction n c (snd (set_transaction n c v s)) = Some v"
    by (simp add: get_transaction_def set_transaction_def Let_def)
  show "fst (pop_transaction n c s) = get_transaction n c s"
    by (rule pop_transaction_cases [of n c s]) auto
  show "get_transaction n c s = None \<Longrightarrow> snd (pop_transaction n c s) = s"
    by (rule pop_transaction_cases [of n c s]) auto
  assume f: "sep_free n" "sep_free m" "n \<noteq> m"
  show "get_transaction m d (snd (set_transaction n c v s)) = get_transaction m d s"
    using get_transaction_foreign(1) [OF f owned_identity_key] by (simp add: set_transaction_def Let_def)
  show "get_transaction m d (snd (pop_transaction n c s)) = get_transaction m d s"
    by (rule pop_transaction_cases [of n c s]) (auto simp: get_transaction_foreign(2) [OF f])
qed

subsection \<open>Separation of chargers\<close>

text \<open>
  A transaction stored for a charger is still the one removed after any history of table
  operations on other chargers, provided the serials do not contain the separator.
\<close>

lemma transaction_kept_until_popped:
  assumes "sep_free m" and "\<forall>p \<in> set h. sep_free (fst p) \<and> fst p \<noteq> m"
  shows "fst (pop_transaction m c (fold tx.apply_op h (snd (set_transaction m c v s)))) = Some v"
  by (rule tx.kept_until_taken [OF assms])

lemma transaction_kept_until_popped_witness:
  "fst (pop_transaction ''CP1'' (PInt 1)
      (fold tx.apply_op [(''CP2'', PInt 1, Some 7), (''CP2'', PNone, None)]
        (snd (set_transaction ''CP1'' (PInt 1) (3 :: nat) (init_store None :: (nat, nat, unit) store_state)))))
    = Some 3"
  by (rule transaction_kept_until_popped) (simp_all add: sep_free_def)

text \<open>
  A websocket stored for a charger is still the one looked up after any history of table
  operations on other chargers, provided the serials do not contain the separator.
\<close>

lemma connection_lookup_foreign_history:
  assumes "sep_free m" and "\<forall>p \<in> set h. sep_free (fst p) \<and> fst p \<noteq> m"
  shows "get_connection m c (fold conn.apply_op h (snd (set_connection m c v s))) = Some v"
  using conn.foreign_history [OF assms, of c "snd (set_connection m c v s)"] by (simp add: conn.get_put)

lemma connection_lookup_foreign_history_witness:
  "get_connection ''CP1'' (PInt 1)
      (fold conn.apply_op [(''CP2'', PInt 1, Some 7), (''CP2'', PNone, None)]
        (snd (set_connection ''CP1'' (PInt 1) (3 :: nat) (init_store None :: (nat, nat, unit) store_state))))
    = Some 3"
  by (rule connection_lookup_foreign_history) (simp_all add: sep_free_def)

text \<open>
  Without that proviso the tables do mix chargers: a charge point registered under the serial
  CP1#2 is answered with the websocket of connector 2 of CP1.
\<close>

lemma separator_in_serial_collides:
  "get_connection ''CP1#2'' PNone
     (snd (set_connection ''CP1'' (PInt 2) x (init_store r :: ('c, 't, 'r) store_state))) = Some x"
proof -
  have two: "int_str 2 = ''2''"
    by (simp add: int_str_def nat_str.simps digit_char_def) code_simp
  then have key: "identity_key ''CP1'' (PInt 2) = ''CP1#2''"
    by (simp add: identity_key_def slug_defs)
  show ?thesis
    by (simp add: get_connection_def set_connection_def Let_def key two init_store_def candidate_keys_def
        is_aggregate_def dedupe_def sadd_def pending_key_def dkeys_def dset_def slug_defs
        identity_key_def connector_slug_def)
qed

subsection \<open>Connections per address\<close>

lemma ip_connections_redis [simp]:
  "ip_connections (snd (register_ip_connection_redis rc maxc token a x s)) = ip_connections s"
  "ip_connections (release_ip_connection_redis rc token a x s) = ip_connections s"
  by (auto simp: register_ip_connection_redis_def release_ip_connection_redis_def Let_def
      split: option.splits prod.splits if_splits)

definition ip_bounded :: "nat \<Rightarrow> ('c, 't, 'r) store_state \<Rightarrow> bool" where
  "ip_bounded maxc s =
     (\<forall>a cs. dget (ip_connections s) a = Some cs \<longrightarrow> cs \<noteq> [] \<and> distinct cs \<and> length cs \<le> maxc)"

inductive ip_reach ::
  "'r redis_client \<Rightarrow> nat \<Rightarrow> ('c \<Rightarrow> string) \<Rightarrow> ('c, 't, 'r) store_state \<Rightarrow> bool"
  for rc :: "'r redis_client" and maxc :: nat and token :: "'c \<Rightarrow> string" where
  ip_init: "ip_reach rc maxc token (init_store r)"
| ip_register: "ip_reach rc maxc token s \<Longrightarrow>
     ip_reach rc maxc token (snd (register_ip_connection rc maxc token ip x s))"
| ip_release: "ip_reach rc maxc token s \<Longrightarrow>
     ip_reach rc maxc token (release_ip_connection rc token ip x s)"

lemma register_ip_bounded:
  assumes "ip_bounded maxc s" "0 < maxc"
  shows "ip_bounded maxc (snd (register_ip_connection rc maxc token ip x s))"
proof (cases ip)
  case None
  then show ?thesis using assms by (simp add: register_ip_connection_def)
next
  case (Some a)
  obtain allowed s1 where r: "register_ip_connection_redis rc maxc token a x s = (allowed, s1)"
    by (cases "register_ip_connection_redis rc maxc token a x s")
  then have same: "ip_connections s1 = ip_connections s"
    by (metis ip_connections_redis(1) snd_conv)
  show ?thesis
  proof (cases "dget (ip_connections s) a")
    case None
    then show ?thesis using assms Some r same
      by (auto simp: register_ip_connection_def ip_bounded_def setdefault_def Let_def sadd_def)
  next
    case (Some cs)
    then have "cs \<noteq> []" "distinct cs" "length cs \<le> maxc"
      using assms(1) by (auto simp: ip_bounded_def)
    then show ?thesis using assms \<open>ip = Some a\<close> Some r same
      by (auto simp: register_ip_connection_def ip_bounded_def setdefault_def Let_def length_sadd)
        (auto simp: sadd_def)
  qed
qed

lemma length_sdiscard: "length (sdiscard x xs) \<le> length xs"
  by (simp add: sdiscard_def length_removeAll_less_eq)

lemma release_ip_bounded:
  assumes "ip_bounded maxc s"
  shows "ip_bounded maxc (release_ip_connection rc token ip x s)"
proof (cases ip)
  case None
  then show ?thesis using assms by (simp add: release_ip_connection_def)
next
  case (Some a)
  have "length (sdiscard x cs) \<le> maxc" if "dget (ip_connections s) a = Some cs" for cs
    using assms that length_sdiscard [of x cs] by (auto simp: ip_bounded_def intro: order_trans)
  then show ?thesis using assms Some
    by (auto simp: release_ip_connection_def ip_bounded_def Let_def split: option.splits)
qed

text \<open>
  In every state reached by registering and releasing websockets, whatever the Redis server
  answers, an address holds at least one and at most the configured number of distinct consumers.
\<close>

lemma ip_connections_bounded:
  assumes "ip_reach rc maxc token s" and "0 < maxc" and "dget (ip_connections s) a = Some cs"
  shows "cs \<noteq> [] \<and> distinct cs \<and> length cs \<le> maxc"
proof -
  from assms(1) have "ip_bounded maxc s"
  proof (induction rule: ip_reach.induct)
    case (ip_init r)
    show ?case by (simp add: ip_bounded_def init_store_def)
  qed (auto intro: register_ip_bounded release_ip_bounded assms(2))
  with assms(3) show ?thesis by (simp add: ip_bounded_def)
qed

definition no_redis :: "unit redis_client" where
  "no_redis = \<lparr>rc_sadd_scard = (\<lambda>_ _ _ r. (None, r)), rc_srem = (\<lambda>_ _ r. (False, r)),
               rc_set = (\<lambda>_ _ _ r. (False, r)), rc_get = (\<lambda>_ r. (None, r)),
               rc_delete = (\<lambda>_ r. (False, r)), rc_scan = (\<lambda>_ r. (None, r))\<rparr>"

lemma ip_connections_bounded_witness:
  "([1, 2] :: nat list) \<noteq> [] \<and> distinct [1, 2 :: nat] \<and> length [1, 2 :: nat] \<le> 2"
proof -
  let ?reg = "\<lambda>x s. snd (register_ip_connection no_redis 2 (\<lambda>_. ''t'') (Some ''10.0.0.1'') x s)"
  let ?s = "?reg 3 (?reg 2 (?reg (1 :: nat) (init_store None :: (nat, nat, unit) store_state)))"
  have "ip_reach no_redis 2 (\<lambda>_. ''t'') ?s"
    by (intro ip_reach.intros)
  moreover have "dget (ip_connections ?s) ''10.0.0.1'' = Some [1, 2]"
    by (simp add: register_ip_connection_def register_ip_connection_redis_def init_store_def
        setdefault_def sadd_def Let_def)
  ultimately show ?thesis using ip_connections_bounded [of no_redis 2 "\<lambda>_. ''t''" ?s] by fastforce
qed

text \<open>
  Without Redis a websocket is admitted exactly when its address is unknown, it is already
  registered, or the address is below the limit; a refusal leaves every address's consumers as
  they were, an admission makes the consumer one of its address's consumers.
\<close>

definition consumers_at :: "string \<Rightarrow> ('c, 't, 'r) store_state \<Rightarrow> 'c list" where
  "consumers_at a s = (case dget (ip_connections s) a of None \<Rightarrow> [] | Some cs \<Rightarrow> cs)"

lemma register_ip_connection_decision:
  assumes "redis s = None" and "a \<noteq> []"
  shows "fst (register_ip_connection rc maxc token (Some a) x s) =
           (x \<in> set (consumers_at a s) \<or> length (consumers_at a s) < maxc) \<and>
         consumers_at b (snd (register_ip_connection rc maxc token (Some a) x s)) =
           (if b = a \<and> fst (register_ip_connection rc maxc token (Some a) x s)
            then sadd x (consumers_at a s) else consumers_at b s)"
  using assms
  by (auto simp: register_ip_connection_def register_ip_connection_redis_def Let_def setdefault_def
      consumers_at_def sadd_def split: option.splits)

lemma register_ip_connection_decision_witness:
  "fst (register_ip_connection no_redis 2 (\<lambda>_. ''t'') (Some ''10.0.0.1'') (3 :: nat)
      ((init_store None :: (nat, nat, unit) store_state)\<lparr>ip_connections := [(''10.0.0.1'', [1, 2])]\<rparr>)) = False"
  using register_ip_connection_decision [of
      "(init_store None :: (nat, nat, unit) store_state)\<lparr>ip_connections := [(''10.0.0.1'', [1, 2])]\<rparr>"
      "''10.0.0.1''" no_redis 2 "\<lambda>_. ''t''" 3]
  by (simp add: init_store_def consumers_at_def)

subsection \<open>Event queues\<close>

lemma fold_push_billing:
  "billing_updates (fold forward_cost_update_to_billing xs s) =
     fold (push_bounded 1000) xs (billing_updates s)"
  by (induction xs arbitrary: s) (auto simp: forward_cost_update_to_billing_def)

lemma fold_push_observability:
  "observability_events (fold forward_event_to_observability xs s) =
     fold (push_bounded 1000) xs (observability_events s)"
  by (induction xs arbitrary: s) (auto simp: forward_event_to_observability_def)

lemma fold_push_transaction_events:
  "transaction_events (fold record_transaction_event xs s) =
     fold (push_bounded 1000) xs (transaction_events s)"
  by (induction xs arbitrary: s) (auto simp: record_transaction_event_def)

lemma fold_push_planner:
  "planner_notifications (fold forward_ev_charging_schedule xs s) =
     fold (push_bounded 500) xs (planner_notifications s)"
  by (induction xs arbitrary: s) (auto simp: forward_ev_charging_schedule_def)

lemma fold_push_release:
  "connector_release_notifications (fold forward_connector_release xs s) =
     fold (push_bounded 500) xs (connector_release_notifications s)"
  by (induction xs arbitrary: s) (auto simp: forward_connector_release_def)

lemmas fold_push = fold_push_billing fold_push_observability fold_push_transaction_events
  fold_push_planner fold_push_release push_bounded_fold init_store_def

text \<open>
  After any sequence of forwarded records each queue holds exactly the newest entries, in
  arrival order: a thousand billing updates, observability events and transaction events, five
  hundred planner and connector-release notifications.
\<close>

lemma event_queues_keep_newest:
  "billing_updates (fold forward_cost_update_to_billing xs (init_store r)) = drop (length xs - 1000) xs \<and>
   observability_events (fold forward_event_to_observability xs (init_store r)) = drop (length xs - 1000) xs \<and>
   transaction_events (fold record_transaction_event xs (init_store r)) = drop (length xs - 1000) xs \<and>
   planner_notifications (fold forward_ev_charging_schedule xs (init_store r)) = drop (length xs - 500) xs \<and>
   connector_release_notifications (fold forward_connector_release xs (init_store r)) =
     drop (length xs - 500) xs"
  by (simp add: fold_push)

subsection \<open>The charging-profile report cache\<close>

definition reported_ids ::
  "string \<Rightarrow> int option \<Rightarrow> string \<Rightarrow> ('c, 't, 'r) store_state \<Rightarrow> int list" where
  "reported_ids cid rid slug s =
     (case dget (reported_entry cid (request_key rid) s) slug of None \<Rightarrow> [] | Some ids \<Rightarrow> ids)"

lemma reported_ids_record:
  "cid \<noteq> [] \<Longrightarrow>
   reported_ids cid rid slug (record_reported_charging_profile cid rid evse (Some pid) s) =
     (if connector_slug evse = slug then sadd pid (reported_ids cid rid slug s)
      else reported_ids cid rid slug s)"
  by (auto simp: reported_ids_def reported_entry_def record_reported_charging_profile_def Let_def
      split: option.splits)

lemma reported_ids_fold:
  "cid \<noteq> [] \<Longrightarrow>
   set (reported_ids cid rid slug
      (fold (\<lambda>(evse, pid). record_reported_charging_profile cid rid evse (Some pid)) ps s)) =
     set (reported_ids cid rid slug s) \<union> {pid. \<exists>evse. (evse, pid) \<in> set ps \<and> connector_slug evse = slug}"
  by (induction ps arbitrary: s) (auto simp: reported_ids_record split: if_splits)

lemma consume_reported_absent:
  "fst (consume_reported_charging_profiles cid rid (snd (consume_reported_charging_profiles cid rid s))) = None"
  by (auto simp: consume_reported_charging_profiles_def Let_def split: option.splits if_splits)

lemma consume_reported_entry:
  "consume_reported_charging_profiles cid rid s = (Some rep, s') \<Longrightarrow>
     reported_entry cid (request_key rid) s = rep"
  by (auto simp: consume_reported_charging_profiles_def reported_entry_def Let_def
      split: option.splits if_splits)

lemma consume_reported_other:
  "request_key rid \<noteq> k \<Longrightarrow>
     reported_entry cid k (snd (consume_reported_charging_profiles cid rid s)) = reported_entry cid k s"
  by (auto simp: consume_reported_charging_profiles_def reported_entry_def Let_def
      split: option.splits if_splits) (metis dget_Nil dget_ddel option.distinct(1))+

lemma consume_after_record:
  "cid \<noteq> [] \<Longrightarrow> ps \<noteq> [] \<Longrightarrow> fst (consume_reported_charging_profiles cid rid
      (fold (\<lambda>(evse, pid). record_reported_charging_profile cid rid evse (Some pid)) ps s)) \<noteq> None"
proof (induction ps rule: rev_induct)
  case Nil
  then show ?case by simp
next
  case (snoc p ps)
  then show ?case
    by (cases p) (auto simp: consume_reported_charging_profiles_def record_reported_charging_profile_def
        Let_def split: option.splits)
qed

text \<open>
  A ReportChargingProfiles sequence is consumed exactly once: consuming returns, per connector
  slug, exactly the profile ids reported under that request since the cache was empty, a second
  consume returns nothing, and the reports of other requests are untouched.
\<close>

lemma reported_profiles_roundtrip:
  assumes "cid \<noteq> []" and "ps \<noteq> []" and "request_key rid \<noteq> k"
  shows "case consume_reported_charging_profiles cid rid
      (fold (\<lambda>(evse, pid). record_reported_charging_profile cid rid evse (Some pid)) ps (init_store r :: ('c, 't, 'r) store_state)) of
    (result, s') \<Rightarrow>
      (\<exists>rep. result = Some rep \<and>
        (\<forall>slug. set (case dget rep slug of None \<Rightarrow> [] | Some ids \<Rightarrow> ids) =
           {pid. \<exists>evse. (evse, pid) \<in> set ps \<and> connector_slug evse = slug})) \<and>
      fst (consume_reported_charging_profiles cid rid s') = None \<and>
      reported_entry cid k s' = reported_entry cid k
        (fold (\<lambda>(evse, pid). record_reported_charging_profile cid rid evse (Some pid)) ps (init_store r :: ('c, 't, 'r) store_state))"
    (is "case consume_reported_charging_profiles _ _ ?s of (result, s') \<Rightarrow> ?P result s'")
proof -
  obtain result s' where c: "consume_reported_charging_profiles cid rid ?s = (result, s')"
    by (cases "consume_reported_charging_profiles cid rid ?s")
  then obtain rep where rep: "result = Some rep"
    using consume_after_record [OF assms(1,2), of rid "init_store r :: ('c, 't, 'r) store_state"] by (cases result) auto
  have "reported_ids cid rid slug (init_store r :: ('c, 't, 'r) store_state) = []" for slug
    by (simp add: reported_ids_def reported_entry_def init_store_def)
  then show ?thesis
    using c rep reported_ids_fold [OF assms(1), of rid _ ps "init_store r :: ('c, 't, 'r) store_state"]
      consume_reported_absent [of cid rid ?s] consume_reported_other [OF assms(3), of cid ?s]
      consume_reported_entry [of cid rid ?s rep s']
    by (simp add: reported_ids_def)
qed

lemma reported_profiles_roundtrip_witness:
  "fst (consume_reported_charging_profiles ''CP1'' (Some 7) (snd (consume_reported_charging_profiles ''CP1'' (Some 7)
      (fold (\<lambda>(evse, pid). record_reported_charging_profile ''CP1'' (Some 7) evse (Some pid))
        [(PInt 1, 4), (PInt 1, 5)] (init_store None :: (nat, nat, unit) store_state))))) = None"
  using reported_profiles_roundtrip [of "''CP1''" "[(PInt 1, 4), (PInt 1, 5)]" "Some 7" 8 None]
  by (simp add: request_key_def case_prod_beta) blast

subsection \<open>Moving an identity\<close>

text \<open>
  When a charger's identity moves, the connection, the transaction and every log buffer filed
  under the old key are found under the new one, the old key is gone, every other key is as before.
\<close>

lemma reassign_identity_moves:
  assumes "old \<noteq> new" and "old \<noteq> []"
  shows "case reassign_identity old new (s, logs) of (k, s', logs') \<Rightarrow>
    k = new \<and> dget (connections s') old = None \<and> dget (transactions s') old = None \<and>
    dget (connections s') new = (case dget (connections s) old of
        None \<Rightarrow> dget (connections s) new | Some c \<Rightarrow> Some c) \<and>
    dget (transactions s') new = (case dget (transactions s) old of
        None \<Rightarrow> dget (transactions s) new | Some t \<Rightarrow> Some t) \<and>
    (j \<notin> {old, new} \<longrightarrow> dget (connections s') j = dget (connections s) j \<and>
       dget (transactions s') j = dget (transactions s) j) \<and>
    list_all2 (\<lambda>d d'. dget d' old = None \<and> dget d' new = (case dget d old of
        None \<Rightarrow> dget d new | Some l \<Rightarrow> Some l)) logs logs'"
  using assms
  by (auto simp: reassign_identity_def rename_key_def list.rel_map intro!: list_all2_all_nthI
      split: option.splits)

lemma reassign_identity_moves_witness:
  "dget (connections (fst (snd (reassign_identity ''CP1#pending'' ''CP1#1''
      (snd (set_connection ''CP1'' (PStr ''pending'') (9 :: nat) (init_store None :: (nat, nat, unit) store_state)),
       [] :: (string, nat) dict list))))) ''CP1#pending'' = None"
  using reassign_identity_moves [where old = "''CP1#pending''" and new = "''CP1#1''"
      and s = "snd (set_connection ''CP1'' (PStr ''pending'') (9 :: nat) (init_store None :: (nat, nat, unit) store_state))"
      and logs = "[] :: (string, nat) dict list"]
  by (simp add: case_prod_beta)

end
