(* ===== verification/ChargerIdentity.thy ===== *)
theory ChargerIdentity
  imports StoreStateProps
begin

text \<open>
  The identity and policy helpers of \<open>apps/ocpp/models/charger.py\<close>: serial numbers, connector slugs
  and letters, availability states, location names and the authorization policy.  The domain of
  connector values is the one the annotations give, integers, strings and \<open>None\<close>; a
  \<open>ValidationError\<close> carries which rule was broken.
\<close>

subsection \<open>Serial numbers\<close>

datatype serial_error = BlankSerial | PlaceholderSerial

definition normalize_serial :: "string option \<Rightarrow> string" where
  "normalize_serial v = (case v of None \<Rightarrow> [] | Some s \<Rightarrow> py_strip s)"

text \<open>The pattern \<open>^<[^>]+>$\<close> on a stripped text.\<close>

definition placeholder_match :: "string \<Rightarrow> bool" where
  "placeholder_match s =
     (length s \<ge> 3 \<and> hd s = CHR ''<'' \<and> last s = CHR ''>'' \<and> CHR ''>'' \<notin> set (butlast (tl s)))"

definition is_placeholder_serial :: "string option \<Rightarrow> bool" where
  "is_placeholder_serial v = (let n = normalize_serial v in n \<noteq> [] \<and> placeholder_match n)"

definition validate_serial :: "string option \<Rightarrow> serial_error + string" where
  "validate_serial v =
     (let n = normalize_serial v
      in if n = [] then Inl BlankSerial
         else if is_placeholder_serial (Some n) then Inl PlaceholderSerial
         else Inr n)"

subsection \<open>Connectors\<close>

definition connector_slug_from_value :: "int option \<Rightarrow> string" where
  "connector_slug_from_value c = (case c of None \<Rightarrow> AGGREGATE_SLUG | Some i \<Rightarrow> int_str i)"

definition connector_value_from_slug :: "pyval \<Rightarrow> pyexn + int option" where
  "connector_value_from_slug slug =
     (if is_aggregate slug then Inr None
      else case slug of
             PInt i \<Rightarrow> Inr (Some i)
           | PBool b \<Rightarrow> Inr (Some (if b then 1 else 0))
           | _ \<Rightarrow> (case int_of_str (py_str slug) of None \<Rightarrow> Inl ValueError | Some i \<Rightarrow> Inr (Some i)))"

function letter_digits :: "int \<Rightarrow> string" where
  "letter_digits v =
     (if v \<le> 0 then []
      else letter_digits ((v - 1) div 26) @ [char_of (65 + nat ((v - 1) mod 26))])"
  by pat_completeness auto
termination
  by (relation "measure nat") auto

declare letter_digits.simps [simp del]

definition connector_letter_from_value :: "pyval \<Rightarrow> pyexn + string option" where
  "connector_letter_from_value connector =
     (if is_aggregate connector then Inr None
      else case py_int connector of
             Inr v \<Rightarrow> Inr (Some (if v \<le> 0 then int_str v else letter_digits v))
           | Inl OverflowError \<Rightarrow> Inl OverflowError
           | Inl _ \<Rightarrow> (let t = py_strip (py_str connector) in Inr (if t = [] then None else Some t)))"

definition connector_letter_from_slug :: "pyval \<Rightarrow> pyexn + string option" where
  "connector_letter_from_slug slug =
     ebind (connector_value_from_slug slug)
       (\<lambda>v. connector_letter_from_value (case v of None \<Rightarrow> PNone | Some i \<Rightarrow> PInt i))"

fun letters_value :: "int \<Rightarrow> string \<Rightarrow> int option" where
  "letters_value acc [] = Some acc"
| "letters_value acc (c # cs) =
     (if 65 \<le> code c \<and> code c \<le> 90 then letters_value (acc * 26 + (int (code c) - 65 + 1)) cs
      else None)"

definition connector_value_from_letter :: "string \<Rightarrow> pyexn + int" where
  "connector_value_from_letter label =
     (let normalized = py_upper (py_strip label)
      in if normalized = [] then Inl ValueError
         else case letters_value 0 normalized of None \<Rightarrow> Inl ValueError | Some v \<Rightarrow> Inr v)"

definition identity_slug :: "string \<Rightarrow> int option \<Rightarrow> string" where
  "identity_slug serial connector = serial @ ''#'' @ connector_slug_from_value connector"

subsection \<open>Availability, policy, location names\<close>

definition OPERATIVE_STATUSES :: "string list" where
  "OPERATIVE_STATUSES = [''Available'', ''Preparing'', ''Charging'', ''SuspendedEV'', ''SuspendedEVSE'',
     ''Finishing'', ''Reserved'']"

definition INOPERATIVE_STATUSES :: "string list" where
  "INOPERATIVE_STATUSES = [''Unavailable'', ''Faulted'']"

definition availability_state_from_status :: "string \<Rightarrow> string option" where
  "availability_state_from_status status =
     (let n = py_strip status
      in if n = [] then None
         else if n \<in> set INOPERATIVE_STATUSES then Some ''Inoperative''
         else if n \<in> set OPERATIVE_STATUSES then Some ''Operative''
         else None)"

definition AUTHORIZATION_POLICIES :: "string list" where
  "AUTHORIZATION_POLICIES = [''strict'', ''allowlist'', ''open'']"

text \<open>\<open>configured\<close> is the setting \<open>OCPP_AUTHORIZATION_POLICY\<close>, \<open>None\<close> when it is not defined.\<close>

definition resolved_authorization_policy :: "string option \<Rightarrow> string option \<Rightarrow> string" where
  "resolved_authorization_policy authorization_policy configured =
     (let norm = (\<lambda>v. py_lower (py_strip (case v of None \<Rightarrow> [] | Some s \<Rightarrow> s)));
          explicit = norm authorization_policy
      in if explicit \<noteq> []
         then (if explicit \<in> set AUTHORIZATION_POLICIES then explicit else ''strict'')
         else if norm configured \<in> set AUTHORIZATION_POLICIES then norm configured
         else ''strict'')"

definition preferred_ocpp_version_value :: "string \<Rightarrow> string option \<Rightarrow> string" where
  "preferred_ocpp_version_value own model_version =
     (if own \<noteq> [] then own else case model_version of None \<Rightarrow> [] | Some v \<Rightarrow> v)"

definition safe_name_char :: "char \<Rightarrow> bool" where
  "safe_name_char c =
     (let n = code c in (48 \<le> n \<and> n \<le> 57) \<or> (65 \<le> n \<and> n \<le> 90) \<or> (97 \<le> n \<and> n \<le> 122) \<or>
        n = 95 \<or> n = 45)"

text \<open>\<open>re.sub("[...]+", "_", text)\<close>: each maximal run of matching characters becomes one underscore.\<close>

function sub_runs :: "(char \<Rightarrow> bool) \<Rightarrow> string \<Rightarrow> string" where
  "sub_runs p [] = []"
| "sub_runs p (c # cs) =
     (if p c then CHR ''_'' # sub_runs p (dropWhile p cs) else c # sub_runs p cs)"
  by pat_completeness auto
termination
  by (relation "measure (\<lambda>(p, s). length s)") (auto simp: le_imp_less_Suc length_dropWhile_le)

definition sanitize_auto_location_name :: "string \<Rightarrow> string" where
  "sanitize_auto_location_name v =
     (let s1 = sub_runs (\<lambda>c. \<not> safe_name_char c) v;
          s2 = sub_runs (\<lambda>c. c = CHR ''_'') s1;
          s3 = rev (dropWhile (\<lambda>c. c = CHR ''_'') (rev (dropWhile (\<lambda>c. c = CHR ''_'') s2)))
      in if s3 = [] then ''Charger'' else s3)"

subsection \<open>Properties\<close>

lemma letter_digits_upper: "list_all (\<lambda>c. 65 \<le> code c \<and> code c \<le> 90) (letter_digits v)"
proof (induction v rule: letter_digits.induct)
  case (1 v)
  have "nat ((v - 1) mod 26) \<le> 25" by simp
  then show ?case using 1 by (subst letter_digits.simps) auto
qed

lemma letters_value_append:
  "letters_value t (xs @ ys) = (case letters_value t xs of None \<Rightarrow> None | Some v \<Rightarrow> letters_value v ys)"
  by (induction xs arbitrary: t) auto

lemma letters_value_digits: "0 \<le> v \<Longrightarrow> letters_value 0 (letter_digits v) = Some v"
proof (induction v rule: letter_digits.induct)
  case (1 v)
  show ?case
  proof (cases "v \<le> 0")
    case True
    with 1 have "v = 0" by simp
    then show ?thesis by (simp add: letter_digits.simps [of 0])
  next
    case False
    have "nat ((v - 1) mod 26) \<le> 25" by simp
    moreover from False have "letters_value 0 (letter_digits ((v - 1) div 26)) = Some ((v - 1) div 26)"
      by (intro 1) auto
    moreover have "(v - 1) div 26 * 26 + (v - 1) mod 26 = v - 1" by simp
    ultimately show ?thesis using False
      by (subst letter_digits.simps) (simp add: letters_value_append)
  qed
qed

lemma upper_letters: "list_all (\<lambda>c. 65 \<le> code c \<and> code c \<le> 90) s \<Longrightarrow> py_upper s = s"
  by (induction s) (auto simp: py_upper_def upper_char_def Let_def)

lemma strip_letters: "list_all (\<lambda>c. 65 \<le> code c \<and> code c \<le> 90) s \<Longrightarrow> py_strip s = s"
proof (cases "s = []")
  case False
  have sp: "65 \<le> code c \<Longrightarrow> code c \<le> 90 \<Longrightarrow> \<not> is_space c" for c by (simp add: is_space_def Let_def)
  assume "list_all (\<lambda>c. 65 \<le> code c \<and> code c \<le> 90) s"
  with False show ?thesis by (intro py_strip_clean sp) (auto simp: list_all_iff)
qed simp

lemma letter_digits_pos: "0 < v \<Longrightarrow> letter_digits v \<noteq> []"
  by (subst letter_digits.simps) simp

lemma letters_value_nonneg:
  "letters_value t s = Some v \<Longrightarrow> 0 \<le> t \<Longrightarrow> 0 \<le> v \<and> (s \<noteq> [] \<longrightarrow> 0 < v)"
proof (induction s arbitrary: t)
  case (Cons c cs)
  then show ?case by (force split: if_splits)
qed simp

lemma digits_letters_value: "letters_value 0 s = Some v \<Longrightarrow> letter_digits v = s"
proof (induction s arbitrary: v rule: rev_induct)
  case Nil
  then show ?case by (simp add: letter_digits.simps)
next
  case (snoc c s)
  then obtain w where w: "letters_value 0 s = Some w" "65 \<le> code c" "code c \<le> 90"
    and v: "v = w * 26 + (int (code c) - 64)"
    by (auto simp: letters_value_append split: option.splits if_splits)
  have w0: "0 \<le> w" using letters_value_nonneg [OF w(1)] by simp
  have v1: "v - 1 = (int (code c) - 65) + 26 * w" using v by simp
  have m: "(v - 1) mod 26 = int (code c) - 65" and d: "(v - 1) div 26 = w"
    using w(2,3) unfolding v1 mod_mult_self2 by (simp_all add: div_mult_self2)
  have "char_of (65 + nat (int (code c) - 65)) = c"
    using w(2) by (simp add: nat_diff_distrib code_def)
  moreover have "\<not> v \<le> 0" using w0 w(2) v by simp
  ultimately show ?case using snoc.IH [OF w(1)]
    by (subst letter_digits.simps) (simp add: m d)
qed

text \<open>
  Connector letters and connector numbers are in bijection: the letter of a positive connector
  reads back as that connector, and a label that is accepted is the letter of the number it gives.
\<close>

lemma connector_letters_bijective:
  "(0 < v \<longrightarrow> (\<exists>l. connector_letter_from_value (PInt v) = Inr (Some l) \<and>
      connector_value_from_letter l = Inr v)) \<and>
   (connector_value_from_letter label = Inr w \<longrightarrow>
      0 < w \<and> connector_letter_from_value (PInt w) = Inr (Some (py_upper (py_strip label))))"
proof (intro conjI impI)
  assume v: "0 < v"
  then have "connector_letter_from_value (PInt v) = Inr (Some (letter_digits v))"
    by (simp add: connector_letter_from_value_def is_aggregate_def)
  moreover have "connector_value_from_letter (letter_digits v) = Inr v"
    using v by (simp add: connector_value_from_letter_def strip_letters upper_letters
        letter_digits_upper letter_digits_pos letters_value_digits)
  ultimately show "\<exists>l. connector_letter_from_value (PInt v) = Inr (Some l) \<and>
      connector_value_from_letter l = Inr v" by blast
next
  assume "connector_value_from_letter label = Inr w"
  then have l: "letters_value 0 (py_upper (py_strip label)) = Some w" "py_upper (py_strip label) \<noteq> []"
    by (auto simp: connector_value_from_letter_def Let_def split: option.splits if_splits)
  then show "0 < w" using letters_value_nonneg [OF l(1)] by simp
  with digits_letters_value [OF l(1)]
  show "connector_letter_from_value (PInt w) = Inr (Some (py_upper (py_strip label)))"
    by (simp add: connector_letter_from_value_def is_aggregate_def)
qed

lemma connector_letters_bijective_witness:
  "\<exists>l. connector_letter_from_value (PInt 28) = Inr (Some l) \<and> connector_value_from_letter l = Inr 28"
  using connector_letters_bijective [of 28] by simp

text \<open>
  A connector survives its slug, and the slug identity of a charger is the key under which the
  store files its session.
\<close>

lemma connector_slug_roundtrip:
  "connector_value_from_slug (PStr (connector_slug_from_value c)) = Inr c \<and>
   identity_slug serial c = identity_key serial (opt_int c)"
  by (cases c) (simp_all add: connector_value_from_slug_def connector_slug_from_value_def
      is_aggregate_def slug_defs identity_slug_def identity_key_def opt_int_def)

lemma sub_runs_safe: "(\<And>c. \<not> p c \<Longrightarrow> q c) \<Longrightarrow> q CHR ''_'' \<Longrightarrow> list_all q (sub_runs p s)"
  by (induction p s rule: sub_runs.induct) auto

lemma sub_runs_keeps: "list_all q s \<Longrightarrow> q CHR ''_'' \<Longrightarrow> list_all q (sub_runs p s)"
proof (induction p s rule: sub_runs.induct)
  case (2 p c cs)
  have "list_all q (dropWhile p cs)" using 2(3) by (auto simp: list_all_iff dest: set_dropWhileD)
  with 2 show ?case by auto
qed simp

lemma list_all_strip:
  "list_all q s \<Longrightarrow> list_all q (rev (dropWhile r (rev (dropWhile r s))))"
  by (auto simp: list_all_iff dest!: set_dropWhileD)

text \<open>
  Every generated location name is nonempty and consists of letters, digits, hyphens and
  underscores, whatever the charger reported.
\<close>

lemma auto_location_name_safe:
  "sanitize_auto_location_name v \<noteq> [] \<and> list_all safe_name_char (sanitize_auto_location_name v)"
proof -
  have us: "safe_name_char CHR ''_''" "list_all safe_name_char ''Charger''" by code_simp+
  have "list_all safe_name_char (sub_runs (\<lambda>c. \<not> safe_name_char c) v)"
    by (rule sub_runs_safe) (simp_all add: us)
  then have "list_all safe_name_char (sub_runs (\<lambda>c. c = CHR ''_'') (sub_runs (\<lambda>c. \<not> safe_name_char c) v))"
    by (rule sub_runs_keeps) (simp add: us)
  from list_all_strip [OF this, of "\<lambda>c. c = CHR ''_''"] us(2) show ?thesis
    by (simp add: sanitize_auto_location_name_def Let_def)
qed

text \<open>
  The resolved policy is always one of the three policies, and it is the open one only when
  the charger asks for it, or leaves the choice to a setting that does.
\<close>

lemma resolved_policy_closed:
  "resolved_authorization_policy p configured \<in> set AUTHORIZATION_POLICIES \<and>
   (resolved_authorization_policy p configured = ''open'' \<longleftrightarrow>
     py_lower (py_strip (case p of None \<Rightarrow> [] | Some s \<Rightarrow> s)) = ''open'' \<or>
     py_strip (case p of None \<Rightarrow> [] | Some s \<Rightarrow> s) = [] \<and>
     py_lower (py_strip (case configured of None \<Rightarrow> [] | Some s \<Rightarrow> s)) = ''open'')"
  by (auto simp: resolved_authorization_policy_def AUTHORIZATION_POLICIES_def Let_def py_lower_def
      split: option.split)

end
