(* ===== verification/Dispatch.thy ===== *)
theory Dispatch
  imports CallErrors ChargerIdentity
begin

text \<open>
  \<open>apps/ocpp/consumers/base/dispatch.py\<close>: one websocket frame from the charger.  The JSON parser,
  the action handlers and \<open>_assign_connector\<close> are parameters of the connection environment; an
  exception that leaves \<open>receive\<close> is the left value of the result.
\<close>

subsection \<open>The connection\<close>

record forward_task =
  ft_message_id :: pyval
  ft_done :: bool

record ('c, 't, 'r) conn =
  cn_world :: "('c, 't, 'r) world"
  cn_store_key :: string
  cn_sent :: "pyval list"
  cn_forwarded :: "(pyval \<times> string) list"
  cn_tasks :: "forward_task list"
  cn_meta :: pyval

type_synonym ('c, 't, 'r) conn_act = "('c, 't, 'r) conn \<Rightarrow> (pyexn + unit) \<times> ('c, 't, 'r) conn"

record ('c, 't, 'r) conn_env =
  ce_handlers :: "'r handler_env"
  ce_loads :: "string \<Rightarrow> pyval option"
  ce_dumps :: "pyval \<Rightarrow> string"
  ce_router :: "string \<Rightarrow>
    (pyval \<Rightarrow> pyval \<Rightarrow> string \<Rightarrow> ('c, 't, 'r) conn \<Rightarrow> (pyexn + pyval) \<times> ('c, 't, 'r) conn) option"
  ce_assign_connector :: "pyval \<Rightarrow> ('c, 't, 'r) conn_act"

definition conn_log :: "pyval \<Rightarrow> string \<Rightarrow> ('c, 't, 'r) conn \<Rightarrow> ('c, 't, 'r) conn" where
  "conn_log key entry c = c\<lparr>cn_world := add_log key entry (cn_world c)\<rparr>"

definition conn_charger_id :: "('c, 't, 'r) conn \<Rightarrow> string" where
  "conn_charger_id c = (case hw_charger_id (cn_world c) of None \<Rightarrow> [] | Some s \<Rightarrow> s)"

subsection \<open>Frames\<close>

text \<open>Python's \<open>value == n\<close> for an integer literal.\<close>

fun equals_int :: "pyval \<Rightarrow> int \<Rightarrow> bool" where
  "equals_int (PInt i) n = (i = n)"
| "equals_int (PBool b) n = ((if b then 1 else 0) = n)"
| "equals_int (PFloat (Fin q) _) n = (q = of_int n)"
| "equals_int _ n = False"

definition parse_message ::
  "('c, 't, 'r) conn_env \<Rightarrow> string \<Rightarrow> ('c, 't, 'r) conn \<Rightarrow> pyval list option \<times> ('c, 't, 'r) conn" where
  "parse_message env raw c =
     (case ce_loads env raw of
        None \<Rightarrow> (None, c)
      | Some (PDict d) \<Rightarrow>
          (case jget d ''ocpp'' of
             PList (x # xs) \<Rightarrow> (Some (x # xs), c\<lparr>cn_meta := jget d ''meta''\<rparr>)
           | _ \<Rightarrow> (None, c))
      | Some (PList (x # xs)) \<Rightarrow> (Some (x # xs), c)
      | Some _ \<Rightarrow> (None, c))"

definition frame_item :: "pyval list \<Rightarrow> nat \<Rightarrow> pyval \<Rightarrow> pyval" where
  "frame_item msg i alt = (if i < length msg then msg ! i else alt)"

subsection \<open>Forwarding replies in the background\<close>

definition MAX_BACKGROUND_FORWARD_REPLY_TASKS :: nat where
  "MAX_BACKGROUND_FORWARD_REPLY_TASKS = 32"

definition dispatch_forward_reply :: "pyval \<Rightarrow> string \<Rightarrow> ('c, 't, 'r) conn \<Rightarrow> ('c, 't, 'r) conn" where
  "dispatch_forward_reply message_id raw c =
     (let running = filter (\<lambda>t. \<not> ft_done t) (cn_tasks c)
      in if length running \<ge> MAX_BACKGROUND_FORWARD_REPLY_TASKS then c\<lparr>cn_tasks := running\<rparr>
         else c\<lparr>cn_tasks := running @ [\<lparr>ft_message_id = message_id, ft_done = False\<rparr>],
                cn_forwarded := cn_forwarded c @ [(message_id, raw)]\<rparr>)"

definition finish_task :: "nat \<Rightarrow> ('c, 't, 'r) conn \<Rightarrow> ('c, 't, 'r) conn" where
  "finish_task i c = c\<lparr>cn_tasks := take i (cn_tasks c) @ drop (Suc i) (cn_tasks c)\<rparr>"

subsection \<open>CALL\<close>

text \<open>\<open>connector_slug\<close> of an infinite float raises; any other JSON value has a slug.\<close>

definition slug_overflows :: "pyval \<Rightarrow> bool" where
  "slug_overflows v = (py_int v = Inl OverflowError)"

definition log_triggered_follow_up :: "pyval \<Rightarrow> pyval \<Rightarrow> ('c, 't, 'r) conn_act" where
  "log_triggered_follow_up action hint c =
     (let s = hw_store (cn_world c); serial = conn_charger_id c
      in if dget (triggered_followups s) serial \<notin> {None, Some []} \<and> slug_overflows hint
         then (Inl OverflowError, c)
         else case action of
           PStr a \<Rightarrow>
             (case consume_triggered_followup serial a hint s of
                (None, s') \<Rightarrow> (Inr (), c)
              | (Some fu, s') \<Rightarrow>
                  (let c1 = c\<lparr>cn_world := (cn_world c)\<lparr>hw_store := s'\<rparr>\<rparr>;
                       key = (if given (fu_log_key fu) then the (fu_log_key fu) else cn_store_key c);
                       label = (if given (fu_target fu) then the (fu_target fu) else a);
                       slug = fu_connector fu;
                       entry = (\<lambda>suffix. ''TriggerMessage follow-up received: '' @ label @ suffix)
                   in if slug \<noteq> [] \<and> slug \<noteq> AGGREGATE_SLUG
                      then case connector_letter_from_slug (PStr slug) of
                             Inl e \<Rightarrow> (Inl e, c1)
                           | Inr letter \<Rightarrow>
                               (Inr (), conn_log (PStr key)
                                 (entry ('' (connector '' @ (if given letter then the letter else slug) @ '')'')) c1)
                      else (Inr (), conn_log (PStr key) (entry []) c1)))
         | _ \<Rightarrow> (Inr (), c))"

definition handle_call_message :: "('c, 't, 'r) conn_env \<Rightarrow> pyval list \<Rightarrow> string \<Rightarrow> ('c, 't, 'r) conn_act" where
  "handle_call_message env msg raw c =
     (if length msg < 3 then (Inl IndexError, c)
      else let msg_id = msg ! 1; action = msg ! 2; payload = frame_item msg 3 (PDict []);
               hint = (if is_dict payload then jget (as_obj payload) ''connectorId'' else PNone)
           in case log_triggered_follow_up action hint c of
                (Inl e, c1) \<Rightarrow> (Inl e, c1)
              | (Inr _, c1) \<Rightarrow>
                  (if \<not> is_dict payload then (Inl AttributeError, c1)
                   else case ce_assign_connector env (jget (as_obj payload) ''connectorId'') c1 of
                     (Inl e, c2) \<Rightarrow> (Inl e, c2)
                   | (Inr _, c2) \<Rightarrow>
                       (case (case action of PStr a \<Rightarrow> Inr (ce_router env a)
                                           | PList _ \<Rightarrow> Inl TypeError | PDict _ \<Rightarrow> Inl TypeError
                                           | _ \<Rightarrow> Inr None) of
                          Inl e \<Rightarrow> (Inl e, c2)
                        | Inr handler \<Rightarrow>
                            (case (case handler of None \<Rightarrow> (Inr (PDict []), c2)
                                                 | Some h \<Rightarrow> h payload msg_id raw c2) of
                               (Inl e, c3) \<Rightarrow> (Inl e, c3)
                             | (Inr reply_payload, c3) \<Rightarrow>
                                 (let response = PList [PInt 3, msg_id, reply_payload];
                                      c4 = c3\<lparr>cn_sent := cn_sent c3 @ [response]\<rparr>;
                                      c5 = conn_log (PStr (cn_store_key c4)) (''< '' @ ce_dumps env response) c4
                                  in (Inr (), c5\<lparr>cn_forwarded := cn_forwarded c5 @ [(action, raw)]\<rparr>))))))"

subsection \<open>CALLRESULT and CALLERROR\<close>

text \<open>\<open>normalize_serial(str(value)).casefold()\<close> on both sides; an empty one matches anything.\<close>

definition other_charger :: "obj \<Rightarrow> string \<Rightarrow> bool" where
  "other_charger metadata charger_id =
     (let mine = jget metadata ''charger_id'';
          a = py_casefold (normalize_serial (Some (py_str mine)));
          b = py_casefold (normalize_serial (Some charger_id))
      in truthy mine \<and> charger_id \<noteq> [] \<and> a \<noteq> [] \<and> b \<noteq> [] \<and> a \<noteq> b)"

definition pop_call ::
  "('c, 't, 'r) conn_env \<Rightarrow> string \<Rightarrow> ('c, 't, 'r) conn \<Rightarrow> obj option \<times> ('c, 't, 'r) conn" where
  "pop_call env mid c =
     (case pop_pending_call (he_redis (ce_handlers env)) mid (hw_store (cn_world c)) of
        (md, s) \<Rightarrow> (md, c\<lparr>cn_world := (cn_world c)\<lparr>hw_store := s\<rparr>\<rparr>))"

definition call_log_key :: "obj \<Rightarrow> ('c, 't, 'r) conn \<Rightarrow> pyval" where
  "call_log_key metadata c = por (jget metadata ''log_key'') (PStr (cn_store_key c))"

definition record_on :: "('c, 't, 'r) conn_env \<Rightarrow> string \<Rightarrow> call_outcome \<Rightarrow> ('c, 't, 'r) conn \<Rightarrow> ('c, 't, 'r) conn" where
  "record_on env mid co c = c\<lparr>cn_world := record_result (ce_handlers env) mid co (cn_world c)\<rparr>"

definition handle_call_result ::
  "('c, 't, 'r) conn_env \<Rightarrow> string \<Rightarrow> pyval \<Rightarrow> string option \<Rightarrow> ('c, 't, 'r) conn_act" where
  "handle_call_result env mid payload raw c =
     (case pop_call env mid c of
        (None, c1) \<Rightarrow> (Inr (), c1)
      | (Some metadata, c1) \<Rightarrow>
          (if metadata = [] \<or> other_charger metadata (conn_charger_id c1) then (Inr (), c1)
           else let ctx = \<lparr>cc_message_id = mid, cc_metadata = metadata, cc_payload = as_obj payload,
                           cc_log_key = call_log_key metadata c1\<rparr>
                in case dispatch_call_result (jget metadata ''action'') (ce_handlers env) ctx (cn_world c1) of
                     (Inl e, w) \<Rightarrow> (Inl e, c1\<lparr>cn_world := w\<rparr>)
                   | (Inr handled, w) \<Rightarrow>
                       (let c2 = c1\<lparr>cn_world := w\<rparr>;
                            c3 = (case raw of None \<Rightarrow> c2 | Some t \<Rightarrow> dispatch_forward_reply (PStr mid) t c2)
                        in (Inr (), if handled then c3
                                    else record_on env mid (ok_outcome metadata (as_obj payload)) c3))))"

definition handle_call_error ::
  "('c, 't, 'r) conn_env \<Rightarrow> string \<Rightarrow> pyval \<Rightarrow> pyval \<Rightarrow> pyval \<Rightarrow> string option \<Rightarrow> ('c, 't, 'r) conn_act" where
  "handle_call_error env mid error_code description details raw c =
     (case pop_call env mid c of
        (None, c1) \<Rightarrow> (Inr (), c1)
      | (Some metadata, c1) \<Rightarrow>
          (if metadata = [] \<or> other_charger metadata (conn_charger_id c1) then (Inr (), c1)
           else let ctx = \<lparr>ec_message_id = mid, ec_metadata = metadata, ec_code = error_code,
                           ec_description = description, ec_details = details,
                           ec_log_key = call_log_key metadata c1\<rparr>
                in case dispatch_call_error (jget metadata ''action'') (ce_handlers env) ctx (cn_world c1) of
                     (handled, w) \<Rightarrow>
                       (let c2 = c1\<lparr>cn_world := w\<rparr>;
                            c3 = (case raw of None \<Rightarrow> c2 | Some t \<Rightarrow> dispatch_forward_reply (PStr mid) t c2)
                        in (Inr (), if handled then c3 else record_on env mid (fail_outcome metadata ctx) c3))))"

subsection \<open>receive\<close>

text \<open>
  Message ids the server sends are strings.  A list or an object raises when it is looked up; any
  other value that is not a string is the id of no call.
\<close>

definition with_message_id ::
  "pyval \<Rightarrow> (string \<Rightarrow> ('c, 't, 'r) conn_act) \<Rightarrow> ('c, 't, 'r) conn_act" where
  "with_message_id v f c =
     (case v of PStr mid \<Rightarrow> f mid c
      | PList _ \<Rightarrow> (Inl TypeError, c) | PDict _ \<Rightarrow> (Inl TypeError, c) | _ \<Rightarrow> (Inr (), c))"

text \<open>\<open>raw\<close> is the text, or the base64 text of a binary frame.\<close>

definition receive :: "('c, 't, 'r) conn_env \<Rightarrow> string option \<Rightarrow> ('c, 't, 'r) conn_act" where
  "receive env raw_opt c =
     (case raw_opt of
        None \<Rightarrow> (Inr (), c)
      | Some raw \<Rightarrow>
          (case parse_message env raw (conn_log (PStr (cn_store_key c)) raw c) of
             (None, c1) \<Rightarrow> (Inr (), c1)
           | (Some msg, c1) \<Rightarrow>
               (if equals_int (msg ! 0) 2 then handle_call_message env msg raw c1
                else if equals_int (msg ! 0) 3
                  then with_message_id (frame_item msg 1 (PStr []))
                    (\<lambda>mid. handle_call_result env mid (frame_item msg 2 (PDict [])) (Some raw)) c1
                else if equals_int (msg ! 0) 4
                  then with_message_id (frame_item msg 1 (PStr []))
                    (\<lambda>mid. handle_call_error env mid (frame_item msg 2 (PStr [])) (frame_item msg 3 (PStr []))
                       (frame_item msg 4 (PDict [])) (Some raw)) c1
                else (Inr (), c1))))"

end
