(* ===== verification/TxRequestsProps.thy ===== *)
theory TxRequestsProps
  imports TxRequests StoreStateProps
begin

text \<open>
  The two indices of the transaction-request table are complete in every reachable state, so the
  indexed search is the plain filter over all requests, and marking changes exactly the requests
  the filter selects.
\<close>

subsection \<open>Index entries\<close>

definition index_ids :: "(string, string list) dict \<Rightarrow> string \<Rightarrow> string list" where
  "index_ids m k = (case dget m k of None \<Rightarrow> [] | Some xs \<Rightarrow> xs)"

lemma index_ids_add [simp]:
  "set (index_ids (add_transaction_index_entry m key mid) k) =
     (if key = Some k \<and> k \<noteq> [] then insert mid (set (index_ids m k)) else set (index_ids m k))"
  by (auto simp: index_ids_def add_transaction_index_entry_def split: option.splits)

lemma sdiscard_Nil: "sdiscard mid xs = [] \<Longrightarrow> set xs - {mid} = {}"
  by (metis list.set(1) set_sdiscard)

lemma index_ids_remove [simp]:
  "set (index_ids (remove_transaction_index_entry m key mid) k) =
     (if key = Some k \<and> k \<noteq> [] then set (index_ids m k) - {mid} else set (index_ids m k))"
proof (cases "\<exists>k' xs. key = Some k' \<and> k' \<noteq> [] \<and> dget m k' = Some xs \<and> xs \<noteq> []")
  case True
  then obtain k' xs where "key = Some k'" "k' \<noteq> []" "dget m k' = Some xs" "xs \<noteq> []" by blast
  then show ?thesis using sdiscard_Nil [of mid xs]
    by (cases "sdiscard mid xs = []") (auto simp: index_ids_def remove_transaction_index_entry_def Let_def)
next
  case False
  then have "remove_transaction_index_entry m key mid = m"
    by (auto simp: remove_transaction_index_entry_def split: option.splits)
  moreover from False have "key = Some k \<Longrightarrow> k \<noteq> [] \<Longrightarrow> index_ids m k = []"
    by (auto simp: index_ids_def split: option.splits)
  ultimately show ?thesis by auto
qed

definition filed :: "(string, string list) dict \<Rightarrow> string option \<Rightarrow> string \<Rightarrow> bool" where
  "filed m key mid = (\<forall>k. key = Some k \<longrightarrow> k \<noteq> [] \<longrightarrow> mid \<in> set (index_ids m k))"

definition tx_indexed :: "tx_state \<Rightarrow> bool" where
  "tx_indexed s = (\<forall>mid entry. dget (transaction_requests s) mid = Some entry \<longrightarrow>
     entry \<noteq> [] \<and> filed (requests_by_connector s) (entry_connector_key entry) mid \<and>
     filed (requests_by_transaction s) (entry_tx_key entry) mid)"

lemma filed_add:
  "filed (add_transaction_index_entry m key mid) key mid"
  "filed m k' j \<Longrightarrow> filed (add_transaction_index_entry m key mid) k' j"
  by (auto simp: filed_def)

lemma filed_move:
  "filed m k' j \<Longrightarrow> j \<noteq> mid \<Longrightarrow>
     filed (add_transaction_index_entry (remove_transaction_index_entry m old mid) new mid) k' j"
  by (auto simp: filed_def)

lemma dset_nonempty [simp]: "dset k v d \<noteq> []"
  by (metis dget_Nil dget_dset option.distinct(1))

lemma setdefault_nonempty [simp]: "setdefault k v d \<noteq> []"
  by (auto simp: setdefault_def)

lemma register_indexed:
  "tx_indexed s \<Longrightarrow> tx_indexed (register_transaction_request now mid md s)"
  by (auto simp: tx_indexed_def register_transaction_request_def Let_def filed_add)

subsection \<open>One update\<close>

lemma set_entry_status_keys [simp]:
  "jget (set_entry_status now st e) ''connector_id'' = jget e ''connector_id''"
  "entry_charger (set_entry_status now st e) = entry_charger e"
  "entry_tx_key (set_entry_status now st e) = entry_tx_key e"
  "e \<noteq> [] \<Longrightarrow> set_entry_status now st e \<noteq> []"
  by (auto simp: set_entry_status_def entry_charger_def entry_tx_key_def split: option.splits)

lemma entry_keys_dset [simp]:
  "entry_charger (dset ''connector_id'' v e) = entry_charger e"
  "entry_tx_key (dset ''connector_id'' v e) = entry_tx_key e"
  "entry_charger (dset ''transaction_id'' v e) = entry_charger e"
  "entry_connector_key (dset ''connector_id'' v e) = transaction_connector_key (entry_charger e) v"
  "entry_connector_key (dset ''transaction_id'' v e) = entry_connector_key e"
  by (simp_all add: entry_charger_def entry_tx_key_def entry_connector_key_def)

lemma entry_tx_key_retag: "k \<noteq> [] \<Longrightarrow> entry_tx_key (dset ''transaction_id'' (PStr k) e) = Some k"
  by (simp add: entry_tx_key_def por_def normalize_transaction_id_def)

lemma connector_key_slug:
  "connector_slug a = connector_slug b \<Longrightarrow> transaction_connector_key n a = transaction_connector_key n b"
  by (simp add: transaction_connector_key_def identity_key_def)

lemma move_connector_others:
  "move_connector mid c (e, m) = (e', m') \<Longrightarrow> j \<noteq> mid \<Longrightarrow> filed m k j \<Longrightarrow> filed m' k j"
  by (auto simp: move_connector_def Let_def filed_move split: if_splits)

lemma retag_transaction_others:
  "retag_transaction mid t ot (e, m) = (e', m') \<Longrightarrow> j \<noteq> mid \<Longrightarrow> filed m k j \<Longrightarrow> filed m' k j"
  by (auto simp: retag_transaction_def Let_def filed_move split: if_splits option.splits)

lemma move_connector_self:
  "move_connector mid c (e, m) = (e', m') \<Longrightarrow> filed m (entry_connector_key e) mid \<Longrightarrow>
     filed m' (entry_connector_key e') mid \<and> entry_tx_key e' = entry_tx_key e \<and> (e \<noteq> [] \<longrightarrow> e' \<noteq> [])"
  by (auto simp: move_connector_def Let_def filed_add split: if_splits)

lemma retag_transaction_self:
  "retag_transaction mid t ot (e, m) = (e', m') \<Longrightarrow> filed m (entry_tx_key e) mid \<Longrightarrow>
     filed m' (entry_tx_key e') mid \<and> entry_connector_key e' = entry_connector_key e \<and> (e \<noteq> [] \<longrightarrow> e' \<noteq> [])"
  by (auto simp: retag_transaction_def Let_def filed_add entry_tx_key_retag split: if_splits option.splits)

lemma update_locked_requests:
  "update_transaction_request_locked now mid e u s = (e', s') \<Longrightarrow>
     transaction_requests s' = dset mid e' (transaction_requests s)"
  by (auto simp: update_transaction_request_locked_def split: prod.splits)

lemma update_locked_others:
  "update_transaction_request_locked now mid e u s = (e', s') \<Longrightarrow> j \<noteq> mid \<Longrightarrow>
     (filed (requests_by_connector s) k j \<longrightarrow> filed (requests_by_connector s') k j) \<and>
     (filed (requests_by_transaction s) k j \<longrightarrow> filed (requests_by_transaction s') k j)"
  by (auto simp: update_transaction_request_locked_def split: prod.splits
      dest: move_connector_others retag_transaction_others)

lemma entry_connector_key_status [simp]:
  "entry_connector_key (set_entry_status now st e) = entry_connector_key e"
  by (simp add: entry_connector_key_def)

lemma update_locked_self:
  assumes "update_transaction_request_locked now mid e u s = (e', s')" and "e \<noteq> []"
    and "filed (requests_by_connector s) (entry_connector_key e) mid"
    and "filed (requests_by_transaction s) (entry_tx_key e) mid"
  shows "e' \<noteq> [] \<and> filed (requests_by_connector s') (entry_connector_key e') mid \<and>
         filed (requests_by_transaction s') (entry_tx_key e') mid"
proof -
  let ?e = "set_entry_status now (tu_status u) e"
  obtain e2 bc where mv: "move_connector mid (tu_connector_id u) (?e, requests_by_connector s) = (e2, bc)"
    by fastforce
  obtain e3 bt where rt: "retag_transaction mid (tu_transaction_id u) (tu_ocpp_transaction_id u)
      (e2, requests_by_transaction s) = (e3, bt)" by fastforce
  have "e' = e3" "requests_by_connector s' = bc" "requests_by_transaction s' = bt"
    using assms(1) by (auto simp: update_transaction_request_locked_def mv rt)
  then show ?thesis
    using move_connector_self [OF mv] retag_transaction_self [OF rt] assms(2-4) by simp
qed

lemma update_locked_indexed:
  assumes "tx_indexed s" and "dget (transaction_requests s) mid = Some e"
    and u: "update_transaction_request_locked now mid e u s = (e', s')"
  shows "tx_indexed s'"
proof -
  have "e' \<noteq> [] \<and> filed (requests_by_connector s') (entry_connector_key e') mid \<and>
      filed (requests_by_transaction s') (entry_tx_key e') mid"
    using assms(1,2) by (intro update_locked_self [OF u]) (auto simp: tx_indexed_def)
  then show ?thesis
    using assms(1) update_locked_others [OF u] update_locked_requests [OF u]
    by (auto simp: tx_indexed_def)
qed

lemma update_indexed: "tx_indexed s \<Longrightarrow> tx_indexed (snd (update_transaction_request now mid u s))"
  by (auto simp: update_transaction_request_def split: option.splits prod.splits
      intro: update_locked_indexed)

lemma mark_step_indexed: "tx_indexed s \<Longrightarrow> tx_indexed (snd (mark_step now c k t as sts st mid (us, s)))"
  by (auto simp: mark_step_def split: option.splits prod.splits intro: update_locked_indexed)

lemma mark_fold_indexed:
  "tx_indexed (snd acc) \<Longrightarrow> tx_indexed (snd (fold (mark_step now c k t as sts st) mids acc))"
proof (induction mids arbitrary: acc)
  case (Cons m ms)
  then show ?case using mark_step_indexed [of "snd acc" now c k t as sts st m "fst acc"] by simp
qed simp

lemma mark_indexed: "tx_indexed s \<Longrightarrow> tx_indexed (snd (mark_transaction_requests now c k t as sts st s))"
  by (simp add: mark_transaction_requests_def mark_fold_indexed)

subsection \<open>Clearing a charger\<close>

lemma filed_remove:
  "filed m k' j \<Longrightarrow> j \<noteq> mid \<Longrightarrow> filed (remove_transaction_index_entry m old mid) k' j"
  by (auto simp: filed_def)

lemma drop_indexed: "tx_indexed s \<Longrightarrow> tx_indexed (drop_transaction_request mid s)"
  by (auto simp: tx_indexed_def drop_transaction_request_def Let_def filed_remove split: option.splits if_splits)

lemma clear_indexed: "tx_indexed s \<Longrightarrow> tx_indexed (clear_requests serial s)"
proof -
  have "tx_indexed s \<Longrightarrow> tx_indexed (fold drop_transaction_request ks s)" for ks
    by (induction ks arbitrary: s) (simp_all add: drop_indexed)
  then show "tx_indexed s \<Longrightarrow> tx_indexed (clear_requests serial s)" by (simp add: clear_requests_def)
qed

subsection \<open>Reachable tables\<close>

text \<open>Every function that writes the table: those of the module and \<open>clear_pending_calls\<close>.\<close>

inductive tx_reach :: "tx_state \<Rightarrow> bool" where
  tx_init: "tx_reach init_tx_state"
| tx_register: "tx_reach s \<Longrightarrow> tx_reach (register_transaction_request now mid md s)"
| tx_update: "tx_reach s \<Longrightarrow> tx_reach (snd (update_transaction_request now mid u s))"
| tx_mark: "tx_reach s \<Longrightarrow> tx_reach (snd (mark_transaction_requests now c k t as sts st s))"
| tx_clear: "tx_reach s \<Longrightarrow> tx_reach (clear_requests serial s)"

lemma tx_reach_indexed: "tx_reach s \<Longrightarrow> tx_indexed s"
proof (induction rule: tx_reach.induct)
  case tx_init
  show ?case by (simp add: tx_indexed_def init_tx_state_def)
qed (simp_all add: register_indexed update_indexed mark_indexed clear_indexed)

subsection \<open>Search\<close>

lemma set_request_candidates:
  "set (request_candidates c k t s) =
     (case normalize_transaction_id t of None \<Rightarrow> {}
      | Some x \<Rightarrow> (if x = [] then {} else set (index_ids (requests_by_transaction s) x))) \<union>
     (if c = [] then {} else set (index_ids (requests_by_connector s) (identity_key c k))) \<union>
     (if k = PNone \<and> normalize_transaction_id t = None then set (dkeys (transaction_requests s)) else {})"
  by (auto simp: request_candidates_def Let_def index_ids_def transaction_connector_key_def
      split: option.splits if_splits)

text \<open>A request the filters select is among the candidates.\<close>

lemma match_is_candidate:
  assumes s: "tx_indexed s" and e: "dget (transaction_requests s) mid = Some e"
    and m: "request_matches c k t as sts e" and c: "c \<noteq> []"
    and t: "normalize_transaction_id t \<noteq> Some []"
  shows "mid \<in> set (request_candidates c k t s)"
proof (cases "normalize_transaction_id t")
  case (Some x)
  then show ?thesis using s e m t
    by (auto simp: set_request_candidates tx_indexed_def filed_def request_matches_def)
next
  case None
  show ?thesis
  proof (cases "k = PNone")
    case True
    then show ?thesis using e None by (simp add: set_request_candidates set_dkeys_iff)
  next
    case False
    with m c have "entry_connector_key e = Some (identity_key c k)"
      by (auto simp: request_matches_def entry_connector_key_def entry_charger_def por_def
          transaction_connector_key_def identity_key_def)
    then have "mid \<in> set (index_ids (requests_by_connector s) (identity_key c k))"
      using s e by (auto simp: tx_indexed_def filed_def)
    then show ?thesis using c by (simp add: set_request_candidates)
  qed
qed

definition action_list :: "string option \<Rightarrow> string list" where
  "action_list action = (case action of None \<Rightarrow> [] | Some a \<Rightarrow> (if a = [] then [] else [a]))"

lemma set_map_filter_lookup:
  "set (List.map_filter (\<lambda>m. case f m of None \<Rightarrow> None | Some e \<Rightarrow> (if P e then Some (m, e) else None)) xs) =
     {(m, e). m \<in> set xs \<and> f m = Some e \<and> P e}"
  by (induction xs) (auto simp: List.map_filter_simps split: option.splits)

lemma set_find_requests:
  "set (find_transaction_requests c k t action sts s) =
     {(mid, e). mid \<in> set (request_candidates c k t s) \<and> dget (transaction_requests s) mid = Some e \<and>
        e \<noteq> [] \<and> request_matches c k t (action_list action) sts e}"
  by (simp add: find_transaction_requests_def action_list_def [symmetric] Let_def set_map_filter_lookup)

definition demo_table :: tx_state where
  "demo_table = register_transaction_request (PTime 7 ''t7'') ''m2''
     [(''charger_id'', PStr ''CP2''), (''action'', PStr ''RequestStopTransaction'')]
     (register_transaction_request (PTime 5 ''t5'') ''m1''
       [(''charger_id'', PStr ''CP1''), (''action'', PStr ''RequestStartTransaction'')] init_tx_state)"

lemma demo_table_reach: "tx_reach demo_table"
  unfolding demo_table_def by (intro tx_reach.intros)

lemma demo_table_requests:
  "transaction_requests demo_table =
     [(''m1'', [(''charger_id'', PStr ''CP1''), (''action'', PStr ''RequestStartTransaction''),
                (''status'', PStr ''requested''), (''status_at'', PTime 5 ''t5'')]),
      (''m2'', [(''charger_id'', PStr ''CP2''), (''action'', PStr ''RequestStopTransaction''),
                (''status'', PStr ''requested''), (''status_at'', PTime 7 ''t7'')])]"
  by (simp add: demo_table_def register_transaction_request_def init_tx_state_def Let_def
      setdefault_def dset_def)

text \<open>
  C7: after any sequence of registrations, updates, marks and clearings of a charger's calls, a search for
  a charger (with a serial number, and with a transaction id that is not blank when one is given)
  returns exactly the requests the filters select among all of them, newest first: no request is
  missed because an index was out of date.
\<close>

theorem find_transaction_requests_exact:
  assumes "tx_reach s" and "c \<noteq> []" and "normalize_transaction_id t \<noteq> Some []"
  shows "set (find_transaction_requests c k t action sts s) =
           {(mid, e). dget (transaction_requests s) mid = Some e \<and>
              request_matches c k t (action_list action) sts e} \<and>
         sorted_wrt (\<lambda>a b. request_time (snd b) \<le> request_time (snd a))
           (find_transaction_requests c k t action sts s)"
proof
  have s: "tx_indexed s" using assms(1) by (rule tx_reach_indexed)
  then have "e \<noteq> []" if "dget (transaction_requests s) mid = Some e" for mid e
    using that by (simp add: tx_indexed_def)
  then show "set (find_transaction_requests c k t action sts s) =
      {(mid, e). dget (transaction_requests s) mid = Some e \<and>
         request_matches c k t (action_list action) sts e}"
    using match_is_candidate [OF s _ _ assms(2,3)] by (auto simp: set_find_requests)
qed (simp add: find_transaction_requests_def Let_def sort_desc_sorted)

theorem find_transaction_requests_exact_witness:
  "map fst (find_transaction_requests ''CP1'' PNone PNone (Some ''RequestStartTransaction'') [''requested'']
     demo_table) \<noteq> [] \<and>
   \<not> (''m2'' \<in> set (map fst (find_transaction_requests ''CP1'' PNone PNone None [] demo_table)))"
proof -
  have t: "normalize_transaction_id PNone \<noteq> Some []" by (simp add: normalize_transaction_id_def)
  note f = find_transaction_requests_exact [OF demo_table_reach _ t, of "''CP1''" PNone, THEN conjunct1]
  have "set (find_transaction_requests ''CP1'' PNone PNone (Some ''RequestStartTransaction'') [''requested'']
      demo_table) \<noteq> {}"
    by (subst f) (auto simp: demo_table_requests request_matches_def normalize_transaction_id_def
        action_list_def intro!: exI [of _ "''m1''"])
  moreover have "''m2'' \<notin> fst ` set (find_transaction_requests ''CP1'' PNone PNone None [] demo_table)"
    by (subst f) (auto simp: demo_table_requests request_matches_def)
  ultimately show ?thesis by auto
qed

subsection \<open>Marking\<close>

definition mark_update :: "pyval \<Rightarrow> pyval \<Rightarrow> string \<Rightarrow> tx_update" where
  "mark_update k t status = \<lparr>tu_status = Some status, tu_connector_id = k,
     tu_transaction_id = t, tu_ocpp_transaction_id = PNone\<rparr>"

text \<open>The entry a mark leaves behind; its connector and transaction already match.\<close>

lemma move_connector_same:
  "c = PNone \<or> connector_slug (jget e ''connector_id'') = connector_slug c \<Longrightarrow>
     move_connector mid c (e, m) = (e, m)"
  by (auto simp: move_connector_def)

lemma retag_transaction_same:
  "normalize_transaction_id t = None \<or> normalize_transaction_id t = entry_tx_key e \<Longrightarrow>
     retag_transaction mid t PNone (e, m) = (e, m)"
  by (auto simp: retag_transaction_def Let_def split: option.splits)

lemma mark_entry:
  assumes "request_matches c k t as sts e" and "normalize_transaction_id t \<noteq> Some []"
  shows "fst (update_transaction_request_locked now mid e (mark_update k t st) s) =
     set_entry_status now (Some st) e"
proof -
  let ?e = "set_entry_status now (Some st) e"
  have "move_connector mid k (?e, m) = (?e, m)" for m
    using assms(1) by (intro move_connector_same) (auto simp: request_matches_def)
  moreover have "retag_transaction mid t PNone (?e, m) = (?e, m)" for m
    using assms by (intro retag_transaction_same) (auto simp: request_matches_def split: option.splits)
  ultimately show ?thesis
    by (simp add: update_transaction_request_locked_def mark_update_def)
qed

lemma mark_step_lookup:
  assumes "normalize_transaction_id t \<noteq> Some []"
  shows "dget (transaction_requests (snd (mark_step now c k t as sts st mid (us, s)))) j =
     (case dget (transaction_requests s) j of
        None \<Rightarrow> None
      | Some e \<Rightarrow> Some (if j = mid \<and> e \<noteq> [] \<and> request_matches c k t as sts e
                       then set_entry_status now (Some st) e else e))"
proof (cases "\<exists>e. dget (transaction_requests s) mid = Some e \<and> e \<noteq> [] \<and> request_matches c k t as sts e")
  case True
  then obtain e where e: "dget (transaction_requests s) mid = Some e" "e \<noteq> []"
      "request_matches c k t as sts e" by blast
  obtain e' s' where u: "update_transaction_request_locked now mid e (mark_update k t st) s = (e', s')"
    by fastforce
  have "e' = set_entry_status now (Some st) e"
    using mark_entry [OF e(3) assms, of now mid st s] u by simp
  then show ?thesis using e update_locked_requests [OF u] u
    by (auto simp: mark_step_def mark_update_def split: option.splits)
next
  case False
  then have "mark_step now c k t as sts st mid (us, s) = (us, s)"
    by (auto simp: mark_step_def split: option.splits)
  then show ?thesis using False by (auto split: option.splits)
qed

lemma mark_fold_lookup:
  assumes t: "normalize_transaction_id t \<noteq> Some []"
  shows "distinct mids \<Longrightarrow>
    dget (transaction_requests (snd (fold (mark_step now c k t as sts st) mids acc))) j =
     (case dget (transaction_requests (snd acc)) j of
        None \<Rightarrow> None
      | Some e \<Rightarrow> Some (if j \<in> set mids \<and> e \<noteq> [] \<and> request_matches c k t as sts e
                       then set_entry_status now (Some st) e else e))"
proof (induction mids arbitrary: acc)
  case Nil
  then show ?case by (simp split: option.splits)
next
  case (Cons m ms)
  have "dget (transaction_requests (snd (mark_step now c k t as sts st m acc))) j =
     (case dget (transaction_requests (snd acc)) j of
        None \<Rightarrow> None
      | Some e \<Rightarrow> Some (if j = m \<and> e \<noteq> [] \<and> request_matches c k t as sts e
                       then set_entry_status now (Some st) e else e))"
    using mark_step_lookup [OF t, of now c k as sts st m "fst acc" "snd acc" j] by simp
  then show ?case using Cons by (auto split: option.splits)
qed

lemma request_candidates_distinct: "distinct (request_candidates c k t s)"
  by (simp add: request_candidates_def Let_def)

text \<open>
  Marking changes the status and its timestamp of exactly the requests the filters select, and
  leaves every other request, and every other field, as it was.
\<close>

lemma mark_transaction_requests_exact:
  assumes "tx_reach s" and "c \<noteq> []" and "normalize_transaction_id t \<noteq> Some []"
  shows "dget (transaction_requests (snd (mark_transaction_requests now c k t as sts st s))) mid =
     map_option (\<lambda>e. if request_matches c k t as sts e then set_entry_status now (Some st) e else e)
       (dget (transaction_requests s) mid)"
proof -
  have s: "tx_indexed s" using assms(1) by (rule tx_reach_indexed)
  then have "e \<noteq> []" if "dget (transaction_requests s) mid = Some e" for e
    using that by (simp add: tx_indexed_def)
  then show ?thesis
    using match_is_candidate [OF s _ _ assms(2,3)]
    by (auto simp: mark_transaction_requests_def
        mark_fold_lookup [OF assms(3) request_candidates_distinct] split: option.splits)
qed

lemma mark_transaction_requests_exact_witness:
  "map_option (\<lambda>e. jget e ''status'') (dget (transaction_requests (snd (mark_transaction_requests
      (PTime 9 ''t9'') ''CP1'' PNone PNone [] [''requested''] ''accepted'' demo_table))) ''m1'') =
    Some (PStr ''accepted'')"
proof -
  have t: "normalize_transaction_id PNone \<noteq> Some []" by (simp add: normalize_transaction_id_def)
  show ?thesis
    using mark_transaction_requests_exact [OF demo_table_reach _ t, of "''CP1''"]
    by (simp add: demo_table_requests request_matches_def normalize_transaction_id_def
        set_entry_status_def)
qed

end
