(* ===== verification/PendingCallsProps.thy ===== *)
theory PendingCallsProps
  imports PendingCalls TxRequestsProps
begin

text \<open>
  What callers rely on: the metadata registered for a call is what its reply pops (stated as the
  interface \<open>call_registry\<close>), the timeout notice is logged at most once, a waiting thread gets the
  recorded reply, and a disconnecting charger takes exactly its own calls along.
\<close>

subsection \<open>Frames\<close>

lemma set_redis_frame [simp]:
  "pending_calls (set_redis r s) = pending_calls s" "call_events (set_redis r s) = call_events s"
  "call_results (set_redis r s) = call_results s" "call_handles (set_redis r s) = call_handles s"
  "live_timers (set_redis r s) = live_timers s" "log_lines (set_redis r s) = log_lines s"
  "events_set (set_redis r s) = events_set s" "txs (set_redis r s) = txs s"
  "monitoring_report_requests (set_redis r s) = monitoring_report_requests s"
  "charging_profile_reports (st (set_redis r s)) = charging_profile_reports (st s)"
  "redis (st (set_redis r s)) = Some r"
  by (simp_all add: set_redis_def)

definition same_memory :: "('c, 't, 'r) ocpp_store \<Rightarrow> ('c, 't, 'r) ocpp_store \<Rightarrow> bool" where
  "same_memory s s' = (pending_calls s' = pending_calls s \<and> call_events s' = call_events s \<and>
     call_results s' = call_results s \<and> call_handles s' = call_handles s \<and>
     live_timers s' = live_timers s \<and> log_lines s' = log_lines s \<and> events_set s' = events_set s \<and>
     txs s' = txs s \<and> monitoring_report_requests s' = monitoring_report_requests s \<and>
     charging_profile_reports (st s') = charging_profile_reports (st s))"

lemma same_memory_store [simp]: "same_memory s (store_json_redis env k d s)"
  by (auto simp: same_memory_def store_json_redis_def split: option.splits)

lemma same_memory_load [simp]: "same_memory s (snd (load_json_redis env k s))"
  by (auto simp: same_memory_def load_json_redis_def split: option.splits prod.splits)

lemma same_memory_clear [simp]: "same_memory s (clear_pending_redis env k s)"
  by (auto simp: same_memory_def clear_pending_redis_def split: option.splits prod.splits)

lemmas mirror_defs = store_pending_metadata_redis_def store_pending_result_redis_def
  load_pending_metadata_redis_def load_pending_result_redis_def

lemmas mirror_frame [simp] =
  same_memory_store [unfolded same_memory_def] same_memory_load [unfolded same_memory_def]
  same_memory_clear [unfolded same_memory_def]

lemma load_json_frame:
  "load_json_redis env k s = (d, s') \<Longrightarrow> pending_calls s' = pending_calls s \<and>
     call_events s' = call_events s \<and> call_results s' = call_results s \<and>
     call_handles s' = call_handles s \<and> live_timers s' = live_timers s \<and>
     log_lines s' = log_lines s \<and> events_set s' = events_set s \<and> txs s' = txs s"
  by (auto simp: load_json_redis_def split: option.splits prod.splits)

lemma cancel_handle_frame [simp]:
  "pending_calls (cancel_handle m s) = pending_calls s" "call_events (cancel_handle m s) = call_events s"
  "call_results (cancel_handle m s) = call_results s" "log_lines (cancel_handle m s) = log_lines s"
  "events_set (cancel_handle m s) = events_set s" "st (cancel_handle m s) = st s"
  "txs (cancel_handle m s) = txs s"
  "monitoring_report_requests (cancel_handle m s) = monitoring_report_requests s"
  by (auto simp: cancel_handle_def split: option.splits)

subsection \<open>The registry of outstanding calls\<close>

locale call_registry =
  fixes known :: "string \<Rightarrow> 's \<Rightarrow> obj option"
    and register :: "string \<Rightarrow> obj \<Rightarrow> 's \<Rightarrow> 's"
    and pop :: "string \<Rightarrow> 's \<Rightarrow> obj option \<times> 's"
  assumes known_register: "known m (register n md s) = (if m = n then Some md else known m s)"
    and pop_known: "known m s = Some md \<Longrightarrow> fst (pop m s) = Some md"
    and known_pop: "known m (snd (pop n s)) = (if m = n then None else known m s)"
begin

text \<open>A history of registrations (\<open>Some\<close>) and replies (\<open>None\<close>).\<close>

fun step :: "string \<times> obj option \<Rightarrow> 's \<Rightarrow> 's" where
  "step (m, Some md) s = register m md s"
| "step (m, None) s = snd (pop m s)"

lemma known_step: "fst p \<noteq> m \<Longrightarrow> known m (step p s) = known m s"
  by (cases p; cases "snd p") (auto simp: known_register known_pop)

lemma known_history: "m \<notin> fst ` set h \<Longrightarrow> known m (fold step h s) = known m s"
  by (induction h arbitrary: s) (auto simp: known_step)

lemma reply_pops_own_call:
  "m \<notin> fst ` set h \<Longrightarrow> fst (pop m (fold step h (register m md s))) = Some md"
  by (rule pop_known) (simp add: known_history known_register)

lemma popped_unknown: "m \<notin> fst ` set h \<Longrightarrow> known m (fold step h (snd (pop m s))) = None"
  by (simp add: known_history known_pop)

end

lemma pending_calls_register [simp]:
  "pending_calls (register_pending_call env m md s) = dset m md (pending_calls s)"
  by (simp add: register_pending_call_def mirror_defs Let_def)

lemma pending_calls_pop [simp]:
  "pending_calls (snd (pop_pending_call env m s)) = ddel m (pending_calls s)"
  by (auto simp: pop_pending_call_def mirror_defs Let_def split: option.splits prod.splits
      dest: load_json_frame)

lemma fst_pop_pending:
  "dget (pending_calls s) m = Some md \<Longrightarrow> fst (pop_pending_call env m s) = Some md"
  by (simp add: pop_pending_call_def Let_def)

interpretation calls: call_registry "\<lambda>m s. dget (pending_calls s) m"
    "register_pending_call env" "pop_pending_call env" for env :: "'r redis_env"
  by unfold_locales (simp_all add: fst_pop_pending)

subsection \<open>Histories of operations\<close>

datatype call_op =
    RegisterCall string obj
  | PopCall string
  | RecordResult string call_outcome
  | WaitStart string
  | WaitFinish string nat
  | ArmTimer call_timer
  | TrackTimer string nat
  | ScheduleTimeout call_timer
  | FireTimer nat
  | ClearCharger string
  | RestoreCharger string

fun run_op :: "'r redis_env \<Rightarrow> call_op \<Rightarrow> ('c, 't, 'r) ocpp_store \<Rightarrow> ('c, 't, 'r) ocpp_store" where
  "run_op env (RegisterCall m md) s = register_pending_call env m md s"
| "run_op env (PopCall m) s = snd (pop_pending_call env m s)"
| "run_op env (RecordResult m co) s = record_pending_call_result env m co s"
| "run_op env (WaitStart m) s = snd (wait_for_pending_call_start env m s)"
| "run_op env (WaitFinish m e) s = snd (wait_for_pending_call_finish env m e s)"
| "run_op env (ArmTimer t) s = snd (arm_call_timer t s)"
| "run_op env (TrackTimer m h) s = track_call_timer m h s"
| "run_op env (ScheduleTimeout t) s = schedule_call_timeout t s"
| "run_op env (FireTimer h) s = fire_timer h s"
| "run_op env (ClearCharger c) s = clear_pending_calls env c s"
| "run_op env (RestoreCharger c) s = snd (restore_pending_calls env c s)"

lemma pending_calls_record [simp]:
  "pending_calls (record_pending_call_result env m co s) = pending_calls s"
  by (simp add: record_pending_call_result_def mirror_defs Let_def split: option.split)

lemma pending_calls_wait_start [simp]:
  "pending_calls (snd (wait_for_pending_call_start env m s)) = pending_calls s"
  by (auto simp: wait_for_pending_call_start_def mirror_defs split: option.splits prod.splits
      dest: load_json_frame)

lemma pending_calls_wait_finish [simp]:
  "pending_calls (snd (wait_for_pending_call_finish env m e s)) = pending_calls s"
  by (auto simp: wait_for_pending_call_finish_def mirror_defs split: option.splits prod.splits
      dest: load_json_frame)

lemma pending_calls_timers [simp]:
  "pending_calls (snd (arm_call_timer t s)) = pending_calls s"
  "pending_calls (track_call_timer m h s) = pending_calls s"
  "pending_calls (schedule_call_timeout t s) = pending_calls s"
  by (simp_all add: arm_call_timer_def track_call_timer_def schedule_call_timeout_def Let_def)

lemma notify_timeout_pending:
  "dget (pending_calls (notify_timeout t s)) m = dget (pending_calls s) m \<or>
   (\<exists>md. dget (pending_calls s) m = Some md \<and> m = ct_message_id t \<and>
      dget (pending_calls (notify_timeout t s)) m = Some (dset ''timeout_notice_sent'' (PBool True) md))"
  by (auto simp: notify_timeout_def Let_def split: option.splits)

lemma fire_timer_pending:
  "dget (pending_calls (fire_timer h s)) m = dget (pending_calls s) m \<or>
   (\<exists>md. dget (pending_calls s) m = Some md \<and>
      dget (pending_calls (fire_timer h s)) m = Some (dset ''timeout_notice_sent'' (PBool True) md))"
  using notify_timeout_pending [of _ "s\<lparr>live_timers := ddel h (live_timers s)\<rparr>" m]
  by (auto simp: fire_timer_def split: option.splits)

lemma pending_calls_clear_one [simp]:
  "pending_calls (clear_one_call env k s) = ddel k (pending_calls s)"
  by (simp add: clear_one_call_def)

lemma pending_calls_clear_fold:
  "dget (pending_calls (fold (clear_one_call env) ks s)) m =
     (if m \<in> set ks then None else dget (pending_calls s) m)"
  by (induction ks arbitrary: s) auto

lemma pending_calls_clear:
  "dget (pending_calls (clear_pending_calls env c s)) m =
     (if m \<in> set (charger_calls c (pending_calls s)) then None else dget (pending_calls s) m)"
  by (simp add: clear_pending_calls_def Let_def pending_calls_clear_fold)

lemma charger_calls_dwf:
  "dwf d \<Longrightarrow> m \<in> set (charger_calls c d) \<longleftrightarrow> (\<exists>md. dget d m = Some md \<and> jget md ''charger_id'' = PStr c)"
  by (auto simp: charger_calls_def dget_mem_iff [symmetric] image_iff)

lemma restore_keys_pending:
  "dget (pending_calls (snd (restore_keys env c ks rs s))) m =
     (case dget (pending_calls s) m of
        Some md \<Rightarrow> Some md
      | None \<Rightarrow> dget (pending_calls (snd (restore_keys env c ks rs s))) m)"
proof (induction env c ks rs s rule: restore_keys.induct)
  case (1 env serial restored s)
  then show ?case by (simp split: option.split)
next
  case (2 env serial key keys restored s)
  then show ?case
    by (simp add: Let_def split: option.split prod.split)
qed

lemma dwf_notify: "dwf (pending_calls s) \<Longrightarrow> dwf (pending_calls (notify_timeout t s))"
  by (auto simp: notify_timeout_def Let_def split: option.splits)

lemma dwf_fire: "dwf (pending_calls s) \<Longrightarrow> dwf (pending_calls (fire_timer h s))"
  by (auto simp: fire_timer_def intro: dwf_notify split: option.splits)

lemma dwf_clear: "dwf (pending_calls s) \<Longrightarrow> dwf (pending_calls (clear_pending_calls env c s))"
proof -
  have "dwf (pending_calls s) \<Longrightarrow> dwf (pending_calls (fold (clear_one_call env) ks s))" for ks
    by (induction ks arbitrary: s) auto
  then show "dwf (pending_calls s) \<Longrightarrow> dwf (pending_calls (clear_pending_calls env c s))"
    by (simp add: clear_pending_calls_def Let_def)
qed

lemma dwf_restore_keys:
  "dwf (pending_calls s) \<Longrightarrow> dwf (pending_calls (snd (restore_keys env c ks rs s)))"
  by (induction env c ks rs s rule: restore_keys.induct)
    (auto simp: Let_def split: option.split prod.split)

lemma dwf_restore:
  "dwf (pending_calls s) \<Longrightarrow> dwf (pending_calls (snd (restore_pending_calls env c s)))"
  by (auto simp: restore_pending_calls_def dwf_restore_keys split: option.split prod.split)

lemma dwf_run_op: "dwf (pending_calls s) \<Longrightarrow> dwf (pending_calls (run_op env op s))"
  by (cases op) (simp_all add: dwf_fire dwf_clear dwf_restore)

text \<open>Operations that leave the call \<open>m\<close> of charger \<open>c\<close> outstanding.\<close>

fun spares :: "string \<Rightarrow> string \<Rightarrow> call_op \<Rightarrow> bool" where
  "spares m c (RegisterCall n md) = (n \<noteq> m)"
| "spares m c (PopCall n) = (n \<noteq> m)"
| "spares m c (ClearCharger d) = (d \<noteq> c)"
| "spares m c op = True"

definition outstanding :: "string \<Rightarrow> string \<Rightarrow> obj \<Rightarrow> ('c, 't, 'r) ocpp_store \<Rightarrow> bool" where
  "outstanding m c md s = (dwf (pending_calls s) \<and> (\<exists>md'. dget (pending_calls s) m = Some md' \<and>
     (\<forall>k. k \<noteq> ''timeout_notice_sent'' \<longrightarrow> jget md' k = jget md k)))"

lemma restore_keeps:
  "dget (pending_calls s) m = Some md \<Longrightarrow>
     dget (pending_calls (snd (restore_pending_calls env c s))) m = Some md"
  by (auto simp: restore_pending_calls_def restore_keys_pending split: option.split prod.split)

lemma outstanding_run_op:
  assumes o: "outstanding m c md s" and op: "spares m c op" and c: "jget md ''charger_id'' = PStr c"
  shows "outstanding m c md (run_op env op s)"
proof -
  from o have dwf: "dwf (pending_calls (run_op env op s))" by (simp add: outstanding_def dwf_run_op)
  from o obtain md' where md': "dget (pending_calls s) m = Some md'"
    and same: "\<forall>k. k \<noteq> ''timeout_notice_sent'' \<longrightarrow> jget md' k = jget md k"
    by (auto simp: outstanding_def)
  have "\<exists>md''. dget (pending_calls (run_op env op s)) m = Some md'' \<and>
      (md'' = md' \<or> md'' = dset ''timeout_notice_sent'' (PBool True) md')"
  proof (cases op)
    case (ClearCharger d)
    then have "m \<notin> set (charger_calls d (pending_calls s))"
      using o op md' same c by (auto simp: outstanding_def charger_calls_dwf)
    with ClearCharger md' show ?thesis by (simp add: pending_calls_clear)
  next
    case (FireTimer h)
    with md' fire_timer_pending [of h s m] show ?thesis by auto
  qed (use md' op in \<open>auto simp: restore_keeps\<close>)
  with dwf same show ?thesis by (auto simp: outstanding_def)
qed

lemma outstanding_history:
  "outstanding m c md s \<Longrightarrow> \<forall>op \<in> set ops. spares m c op \<Longrightarrow> jget md ''charger_id'' = PStr c \<Longrightarrow>
     outstanding m c md (fold (run_op env) ops s)"
  by (induction ops arbitrary: s) (auto simp: outstanding_run_op)

text \<open>
  C1: whatever other calls are registered, answered, waited for, timed out or restored, and whatever
  chargers disconnect, the reply to a call pops the metadata registered with it (a timeout notice
  may have set its flag), whatever Redis answers.
\<close>

theorem reply_pops_registered_metadata:
  assumes "dwf (pending_calls s)" and "jget md ''charger_id'' = PStr c"
    and "\<forall>op \<in> set ops. spares m c op"
  shows "\<exists>md'. fst (pop_pending_call env m (fold (run_op env) ops (register_pending_call env m md s))) = Some md' \<and>
     (\<forall>k. k \<noteq> ''timeout_notice_sent'' \<longrightarrow> jget md' k = jget md k)"
proof -
  have "outstanding m c md (register_pending_call env m md s)"
    using assms(1) by (simp add: outstanding_def)
  from outstanding_history [OF this assms(3,2), of env] obtain md' where
    "dget (pending_calls (fold (run_op env) ops (register_pending_call env m md s))) m = Some md'"
    and "\<forall>k. k \<noteq> ''timeout_notice_sent'' \<longrightarrow> jget md' k = jget md k"
    by (auto simp: outstanding_def)
  then show ?thesis using calls.pop_known by blast
qed

definition no_redis_env :: "unit redis_env" where
  "no_redis_env = \<lparr>env_client = no_redis, env_dumps = (\<lambda>_. None), env_loads = (\<lambda>_. None)\<rparr>"

theorem reply_pops_registered_metadata_witness:
  "\<exists>md'. fst (pop_pending_call no_redis_env ''m1'' (fold (run_op no_redis_env)
       [RegisterCall ''m2'' [(''charger_id'', PStr ''CP2'')], PopCall ''m2'', ClearCharger ''CP2'', FireTimer 0]
       (register_pending_call no_redis_env ''m1'' [(''charger_id'', PStr ''CP1''), (''action'', PStr ''Reset'')]
         (init_ocpp_store None :: (nat, nat, unit) ocpp_store)))) = Some md' \<and>
     jget md' ''action'' = PStr ''Reset''"
proof -
  let ?md = "[(''charger_id'', PStr ''CP1''), (''action'', PStr ''Reset'')]"
  have "\<exists>md'. fst (pop_pending_call no_redis_env ''m1'' (fold (run_op no_redis_env)
       [RegisterCall ''m2'' [(''charger_id'', PStr ''CP2'')], PopCall ''m2'', ClearCharger ''CP2'', FireTimer 0]
       (register_pending_call no_redis_env ''m1'' ?md
         (init_ocpp_store None :: (nat, nat, unit) ocpp_store)))) = Some md' \<and>
     (\<forall>k. k \<noteq> ''timeout_notice_sent'' \<longrightarrow> jget md' k = jget ?md k)"
    by (rule reply_pops_registered_metadata [of _ _ "''CP1''"]) (simp_all add: init_ocpp_store_def)
  then show ?thesis by force
qed

subsection \<open>Timeout notices\<close>

text \<open>No timer can log for \<open>m\<close>: it is not outstanding, or its notice has been given.\<close>

definition quiet :: "string \<Rightarrow> ('c, 't, 'r) ocpp_store \<Rightarrow> bool" where
  "quiet m s = (\<forall>md. dget (pending_calls s) m = Some md \<longrightarrow> truthy (jget md ''timeout_notice_sent''))"

fun reopens :: "string \<Rightarrow> call_op \<Rightarrow> bool" where
  "reopens m (RegisterCall n md) = (n = m)"
| "reopens m (RestoreCharger c) = True"
| "reopens m op = False"

lemma quiet_run_op:
  assumes q: "quiet m s" and op: "\<not> reopens m op"
  shows "quiet m (run_op env op s)"
proof (cases op)
  case (FireTimer h)
  then show ?thesis using q fire_timer_pending [of h s m] by (auto simp: quiet_def)
qed (use q op in \<open>auto simp: quiet_def pending_calls_clear\<close>)

lemma quiet_history:
  "quiet m s \<Longrightarrow> \<forall>op \<in> set ops. \<not> reopens m op \<Longrightarrow> quiet m (fold (run_op env) ops s)"
  by (induction ops arbitrary: s) (auto simp: quiet_run_op)

lemma quiet_notify: "quiet (ct_message_id t) s \<Longrightarrow> log_lines (notify_timeout t s) = log_lines s"
  by (auto simp: notify_timeout_def quiet_def Let_def split: option.splits)

lemma quiet_fire:
  "quiet m s \<Longrightarrow> dget (live_timers s) h = Some t \<Longrightarrow> ct_message_id t = m \<Longrightarrow>
     log_lines (fire_timer h s) = log_lines s"
  by (simp add: fire_timer_def quiet_notify quiet_def)

lemma notice_quiets:
  "log_lines (notify_timeout t s) \<noteq> log_lines s \<Longrightarrow> quiet (ct_message_id t) (notify_timeout t s)"
  by (auto simp: notify_timeout_def quiet_def Let_def split: option.splits if_splits)

lemma fired_notice_quiets:
  "dget (live_timers s) h = Some t \<Longrightarrow> log_lines (fire_timer h s) \<noteq> log_lines s \<Longrightarrow>
     quiet (ct_message_id t) (fire_timer h s)"
  using notice_quiets [of t "s\<lparr>live_timers := ddel h (live_timers s)\<rparr>"] by (simp add: fire_timer_def)

lemma pop_quiets: "quiet m (snd (pop_pending_call env m s))"
  by (simp add: quiet_def)

text \<open>
  C16: once a call has been answered, or its timeout notice has been logged, no timer logs a notice
  for it again: not the ones that were already running, not ones armed later, not ones whose handle
  was lost, until the message id is registered or restored anew.
\<close>

theorem timeout_notice_at_most_once:
  assumes "s1 = snd (pop_pending_call env m s) \<or>
      (\<exists>h0 t0. dget (live_timers s) h0 = Some t0 \<and> ct_message_id t0 = m \<and> s1 = fire_timer h0 s \<and>
         log_lines s1 \<noteq> log_lines s)"
    and "\<forall>op \<in> set ops. \<not> reopens m op"
    and "dget (live_timers (fold (run_op env) ops s1)) h = Some t" and "ct_message_id t = m"
  shows "log_lines (fire_timer h (fold (run_op env) ops s1)) = log_lines (fold (run_op env) ops s1)"
proof -
  have "quiet m s1" using assms(1) pop_quiets fired_notice_quiets by blast
  then show ?thesis using quiet_fire [OF quiet_history [OF _ assms(2)] assms(3,4)] by blast
qed

definition reset_timer :: call_timer where
  "reset_timer = \<lparr>ct_message_id = ''m1'', ct_action = None, ct_log_key = Some ''CP1'',
     ct_log_type = ''charger'', ct_message = None\<rparr>"

definition timed_store :: "(nat, nat, unit) ocpp_store" where
  "timed_store = fold (run_op no_redis_env)
     [RegisterCall ''m1'' [(''action'', PStr ''Reset'')], ArmTimer reset_timer, ArmTimer reset_timer]
     (init_ocpp_store None)"

lemmas timed_store_eval = timed_store_def reset_timer_def init_ocpp_store_def register_pending_call_def
  arm_call_timer_def fire_timer_def notify_timeout_def timeout_target_def timeout_label_def given_def
  cancel_handle_def store_pending_metadata_redis_def store_json_redis_def init_store_def Let_def
  dset_def ddel_def por_def

theorem timeout_notice_at_most_once_witness:
  "log_lines (fire_timer 1 (fire_timer 0 timed_store)) = [(PStr ''CP1'', ''Reset request timed out'', ''charger'')]"
proof -
  have one: "log_lines (fire_timer 0 timed_store) = [(PStr ''CP1'', ''Reset request timed out'', ''charger'')]"
    by (simp add: timed_store_eval)
  have live: "dget (live_timers timed_store) 0 = Some reset_timer" "log_lines timed_store = []"
    "dget (live_timers (fire_timer 0 timed_store)) 1 = Some reset_timer" "ct_message_id reset_timer = ''m1''"
    by (simp_all add: timed_store_eval)
  show ?thesis
    using timeout_notice_at_most_once [of "fire_timer 0 timed_store" no_redis_env "''m1''" timed_store "[]" 1]
      one live by fastforce
qed

subsection \<open>Waiting for a reply\<close>

fun touches_reply :: "string \<Rightarrow> call_op \<Rightarrow> bool" where
  "touches_reply m (RegisterCall n md) = (n = m)"
| "touches_reply m (RecordResult n co) = (n = m)"
| "touches_reply m (WaitFinish n e) = (n = m)"
| "touches_reply m (ClearCharger c) = True"
| "touches_reply m (RestoreCharger c) = True"
| "touches_reply m op = False"

lemma call_events_frame [simp]:
  "call_events (snd (pop_pending_call env n s)) = call_events s"
  "call_events (snd (wait_for_pending_call_start env n s)) = call_events s"
  "call_events (snd (arm_call_timer t s)) = call_events s"
  "call_events (track_call_timer n h s) = call_events s"
  "call_events (schedule_call_timeout t s) = call_events s"
  "call_events (notify_timeout t s) = call_events s"
  "call_events (fire_timer h s) = call_events s"
  by (auto simp: pop_pending_call_def wait_for_pending_call_start_def arm_call_timer_def
      track_call_timer_def schedule_call_timeout_def notify_timeout_def fire_timer_def mirror_defs Let_def
      split: option.splits prod.splits dest: load_json_frame)

lemma call_events_register:
  "dget (call_events (register_pending_call env n md s)) m =
     (if m = n then Some (next_event s) else dget (call_events s) m)"
  by (simp add: register_pending_call_def mirror_defs Let_def)

lemma call_events_record:
  "dget (call_events (record_pending_call_result env n co s)) m =
     (if m = n then None else dget (call_events s) m)"
  by (simp add: record_pending_call_result_def mirror_defs Let_def split: option.split)

lemma call_events_wait_finish:
  "m \<noteq> n \<Longrightarrow> dget (call_events (snd (wait_for_pending_call_finish env n e s))) m = dget (call_events s) m"
  by (auto simp: wait_for_pending_call_finish_def mirror_defs split: option.splits prod.splits
      dest: load_json_frame)

lemma call_events_run_op:
  "\<not> touches_reply m op \<Longrightarrow> dget (call_events (run_op env op s)) m = dget (call_events s) m"
  by (cases op) (auto simp: call_events_register call_events_record call_events_wait_finish)

lemma call_events_history:
  "\<forall>op \<in> set ops. \<not> touches_reply m op \<Longrightarrow>
     dget (call_events (fold (run_op env) ops s)) m = dget (call_events s) m"
  by (induction ops arbitrary: s) (auto simp: call_events_run_op)

lemma record_sets_event:
  assumes "dget (call_events s) m = Some e"
  shows "e \<in> set (events_set (record_pending_call_result env m co s)) \<and>
     dget (call_results (record_pending_call_result env m co s)) m = Some (result_entry co)"
  using assms by (simp add: record_pending_call_result_def mirror_defs Let_def)

text \<open>
  C29: a thread that waits for a registered call blocks on that call's event, and when the reply is
  recorded, whatever happened to other calls in between, the wait succeeds with exactly that reply
  and hands it out once.
\<close>

theorem waiter_gets_recorded_reply:
  assumes "\<forall>op \<in> set ops. \<not> touches_reply m op"
  shows "case wait_for_pending_call_start env m (register_pending_call env m md s) of (phase, s1) \<Rightarrow>
      \<exists>e. phase = WaitOn e \<and>
        (case wait_for_pending_call_finish env m e
                (record_pending_call_result env m co (fold (run_op env) ops s1)) of
           (reply, s2) \<Rightarrow> reply = Some (result_entry co) \<and> dget (call_results s2) m = None)"
proof -
  let ?s0 = "register_pending_call env m md s"
  have ev: "dget (call_events ?s0) m = Some (next_event s)" by (simp add: call_events_register)
  have "dget (call_results ?s0) m = None"
    by (simp add: register_pending_call_def mirror_defs Let_def)
  with ev have start: "wait_for_pending_call_start env m ?s0 = (WaitOn (next_event s), ?s0)"
    by (simp add: wait_for_pending_call_start_def)
  have "dget (call_events (fold (run_op env) ops ?s0)) m = Some (next_event s)"
    using call_events_history [OF assms, of env ?s0] ev by simp
  from record_sets_event [OF this, of env co] show ?thesis
    by (simp add: start wait_for_pending_call_finish_def)
qed

definition accepted_reply :: call_outcome where
  "accepted_reply = \<lparr>co_metadata = [(''action'', PStr ''Reset'')], co_success = True,
     co_payload = PDict [(''status'', PStr ''Accepted'')], co_error_code = PNone,
     co_error_description = PNone, co_error_details = PNone\<rparr>"

theorem waiter_gets_recorded_reply_witness:
  "case wait_for_pending_call_start no_redis_env ''m1'' (register_pending_call no_redis_env ''m1'' []
       (init_ocpp_store None :: (nat, nat, unit) ocpp_store)) of (phase, s1) \<Rightarrow>
      \<exists>e. phase = WaitOn e \<and>
        (case wait_for_pending_call_finish no_redis_env ''m1'' e
                (record_pending_call_result no_redis_env ''m1'' accepted_reply
                  (fold (run_op no_redis_env) [RegisterCall ''m2'' [], PopCall ''m1''] s1)) of
           (reply, s2) \<Rightarrow> reply = Some (result_entry accepted_reply) \<and> dget (call_results s2) ''m1'' = None)"
  by (rule waiter_gets_recorded_reply) simp

subsection \<open>Replies mirrored to Redis\<close>

text \<open>A Redis server that never fails, as a dictionary (expiry left out).\<close>

definition dict_redis :: "((string, string) dict) redis_client" where
  "dict_redis = \<lparr>rc_sadd_scard = (\<lambda>_ _ _ r. (None, r)), rc_srem = (\<lambda>_ _ r. (False, r)),
     rc_set = (\<lambda>k v _ r. (True, dset k v r)), rc_get = (\<lambda>k r. (Some (dget r k), r)),
     rc_delete = (\<lambda>k r. (True, ddel k r)), 
     rc_scan = (\<lambda>p r. (Some (filter (\<lambda>k. py_startswith k (takeWhile (\<lambda>c. c \<noteq> CHR ''*'') p)) (dkeys r)), r))\<rparr>"

lemma result_key_not_metadata_key [simp]: "pending_result_key m \<noteq> pending_metadata_key n"
  by (simp add: pending_result_key_def pending_metadata_key_def)

text \<open>
  With Redis configured a reply taken from memory is handed out a second time: the in-memory
  path of the wait leaves the Redis copy in place, so the next wait for the id returns that copy
  and only the third one finds nothing.
\<close>

lemma reply_delivered_twice_with_redis:
  assumes "env_client env = dict_redis" and "redis (st s) = Some r"
    and "env_dumps env (result_entry co) = Some raw" and "raw \<noteq> []" and "env_loads env raw = Some copy"
  shows "case wait_for_pending_call_start env m (record_pending_call_result env m co s) of (first, s1) \<Rightarrow>
    (case wait_for_pending_call_start env m s1 of (second, s2) \<Rightarrow>
       first = WaitDone (Some (result_entry co)) \<and> second = WaitDone (Some copy) \<and>
       fst (wait_for_pending_call_start env m s2) = WaitDone None)"
proof -
  let ?s = "record_pending_call_result env m co s"
  have mem: "dget (call_results ?s) m = Some (result_entry co)" "dget (call_events ?s) m = None"
    by (simp_all add: record_pending_call_result_def mirror_defs Let_def split: option.split)
  have red: "redis (st ?s) = Some (dset (pending_result_key m) raw r)"
    using assms by (simp add: record_pending_call_result_def mirror_defs store_json_redis_def
        set_redis_def dict_redis_def Let_def split: option.split)
  show ?thesis
    using assms mem red
    by (simp add: wait_for_pending_call_start_def load_pending_result_redis_def load_json_redis_def
        clear_pending_redis_def set_redis_def dict_redis_def)
qed

definition text_env :: "((string, string) dict) redis_env" where
  "text_env = \<lparr>env_client = dict_redis, env_dumps = (\<lambda>_. Some ''{}''),
     env_loads = (\<lambda>_. Some (result_entry accepted_reply))\<rparr>"

lemma reply_delivered_twice_with_redis_witness:
  "case wait_for_pending_call_start text_env ''m1'' (record_pending_call_result text_env ''m1'' accepted_reply
       (init_ocpp_store (Some []) :: (nat, nat, (string, string) dict) ocpp_store)) of (first, s1) \<Rightarrow>
    (case wait_for_pending_call_start text_env ''m1'' s1 of (second, s2) \<Rightarrow>
       first = WaitDone (Some (result_entry accepted_reply)) \<and>
       second = WaitDone (Some (result_entry accepted_reply)) \<and>
       fst (wait_for_pending_call_start text_env ''m1'' s2) = WaitDone None)"
  by (rule reply_delivered_twice_with_redis [where r = "[]" and raw = "''{}''"])
    (simp_all add: text_env_def init_ocpp_store_def init_store_def)

subsection \<open>A charger disconnects\<close>

lemma clear_one_frame [simp]:
  "call_events (clear_one_call env k s) = ddel k (call_events s)"
  "call_results (clear_one_call env k s) = ddel k (call_results s)"
  "txs (clear_one_call env k s) = txs s"
  "monitoring_report_requests (clear_one_call env k s) = monitoring_report_requests s"
  "charging_profile_reports (st (clear_one_call env k s)) = charging_profile_reports (st s)"
  by (simp_all add: clear_one_call_def)

lemma clear_pending_calls_requests: "txs (clear_pending_calls env serial s) = clear_requests serial (txs s)"
proof -
  have "txs (fold (clear_one_call env) ks s) = txs s" for ks
    by (induction ks arbitrary: s) simp_all
  then show ?thesis by (simp add: clear_pending_calls_def Let_def)
qed

lemma clear_fold_frame [simp]:
  "dget (call_events (fold (clear_one_call env) ks s)) m = (if m \<in> set ks then None else dget (call_events s) m)"
  "dget (call_results (fold (clear_one_call env) ks s)) m = (if m \<in> set ks then None else dget (call_results s) m)"
  "txs (fold (clear_one_call env) ks s) = txs s"
  "monitoring_report_requests (fold (clear_one_call env) ks s) = monitoring_report_requests s"
  "charging_profile_reports (st (fold (clear_one_call env) ks s)) = charging_profile_reports (st s)"
  by (induction ks arbitrary: s) auto

lemma drop_request_lookup:
  "dget (transaction_requests (fold drop_transaction_request ms s)) j =
     (if j \<in> set ms then None else dget (transaction_requests s) j)"
proof (induction ms arbitrary: s)
  case (Cons m ms)
  have "dget (transaction_requests (drop_transaction_request m s)) j =
      (if j = m then None else dget (transaction_requests s) j)" for j
    by (auto simp: drop_transaction_request_def Let_def split: option.split)
  then show ?case using Cons by auto
qed simp

definition of_charger :: "string \<Rightarrow> obj \<Rightarrow> bool" where
  "of_charger c md = (jget md ''charger_id'' = PStr c)"

definition without :: "string \<Rightarrow> obj option \<Rightarrow> obj option" where
  "without c v = (case v of None \<Rightarrow> None | Some md \<Rightarrow> (if of_charger c md then None else Some md))"

lemma charger_calls_without:
  "dwf d \<Longrightarrow> (if m \<in> set (charger_calls c d) then None else dget d m) = without c (dget d m)"
  by (auto simp: charger_calls_dwf without_def of_charger_def split: option.split)

lemma stale_monitoring:
  "dwf (d :: (int, obj) dict) \<Longrightarrow>
     (if i \<in> set (map fst (filter (\<lambda>kv. jget (snd kv) ''charger_id'' = PStr c) d)) then None else dget d i) =
     without c (dget d i)"
  by (cases "dget d i") (auto simp: without_def of_charger_def image_iff dget_mem_iff
      intro: dget_SomeD)

text \<open>
  When a charger disconnects exactly its calls, their events and replies, its monitoring-report
  and transaction requests and its reported profiles go; everything of other chargers stays, and
  the transaction-request indices remain complete.
\<close>

lemma clear_pending_calls_exact:
  assumes "dwf (pending_calls s)" and "dwf (monitoring_report_requests s)"
    and "dwf (transaction_requests (txs s))" and "tx_indexed (txs s)"
  shows "let s' = clear_pending_calls env c s;
             mine = (\<exists>md. dget (pending_calls s) m = Some md \<and> of_charger c md)
    in dget (pending_calls s') m = without c (dget (pending_calls s) m) \<and>
       dget (call_events s') m = (if mine then None else dget (call_events s) m) \<and>
       dget (call_results s') m = (if mine then None else dget (call_results s) m) \<and>
       dget (monitoring_report_requests s') i = without c (dget (monitoring_report_requests s) i) \<and>
       dget (transaction_requests (txs s')) m = without c (dget (transaction_requests (txs s)) m) \<and>
       dget (charging_profile_reports (st s')) d =
         (if d = c then None else dget (charging_profile_reports (st s)) d) \<and>
       tx_indexed (txs s')"
proof -
  have mine: "m \<in> set (charger_calls c (pending_calls s)) \<longleftrightarrow>
      (\<exists>md. dget (pending_calls s) m = Some md \<and> of_charger c md)"
    using assms(1) by (simp add: charger_calls_dwf of_charger_def)
  have "dget (pending_calls (clear_pending_calls env c s)) m = without c (dget (pending_calls s) m)"
    using charger_calls_without [OF assms(1), of m c] by (simp only: pending_calls_clear)
  moreover have "dget (transaction_requests (txs (clear_pending_calls env c s))) m =
      without c (dget (transaction_requests (txs s)) m)"
    using charger_calls_without [OF assms(3), of m c]
    by (simp add: clear_pending_calls_requests clear_requests_def drop_request_lookup)
  moreover have "dget (monitoring_report_requests (clear_pending_calls env c s)) i =
      without c (dget (monitoring_report_requests s) i)"
    using stale_monitoring [OF assms(2), of i c]
    by (simp only: clear_pending_calls_def Let_def clear_fold_frame dget_ddel_all) simp
  ultimately show ?thesis
    using assms(4)
    by (simp add: clear_pending_calls_def Let_def clear_indexed mine)
qed

lemma clear_pending_calls_exact_witness:
  "dget (pending_calls (clear_pending_calls no_redis_env ''CP1''
     (register_pending_call no_redis_env ''m2'' [(''charger_id'', PStr ''CP2'')]
       (register_pending_call no_redis_env ''m1'' [(''charger_id'', PStr ''CP1'')]
         (init_ocpp_store None :: (nat, nat, unit) ocpp_store))))) ''m1'' = None"
proof -
  let ?s = "register_pending_call no_redis_env ''m2'' [(''charger_id'', PStr ''CP2'')]
       (register_pending_call no_redis_env ''m1'' [(''charger_id'', PStr ''CP1'')]
         (init_ocpp_store None :: (nat, nat, unit) ocpp_store))"
  have frame: "monitoring_report_requests ?s = []" "txs ?s = init_tx_state" "dwf (pending_calls ?s)"
    by (simp_all add: init_ocpp_store_def register_pending_call_def mirror_defs Let_def)
  then show ?thesis
    using clear_pending_calls_exact [of ?s no_redis_env "''CP1''" "''m1''"]
      tx_reach_indexed [OF tx_init]
    by (simp add: Let_def without_def of_charger_def init_tx_state_def)
qed

subsection \<open>Restoring calls\<close>

definition restorable :: "string \<Rightarrow> obj \<Rightarrow> bool" where
  "restorable c md = (py_lower (py_str (por (jget md ''charger_id'') (PStr []))) = py_lower c \<and> py_lower c \<noteq> [])"

definition restore_sound ::
  "string \<Rightarrow> ('c, 't, 'r) ocpp_store \<Rightarrow> string list \<Rightarrow> string list \<times> ('c, 't, 'r) ocpp_store \<Rightarrow> bool" where
  "restore_sound c s rs res =
     (set rs \<subseteq> set (fst res) \<and>
      (\<forall>m md. dget (pending_calls (snd res)) m = Some md \<longrightarrow>
         dget (pending_calls s) m = Some md \<or>
         dget (pending_calls s) m = None \<and> m \<in> set (fst res) \<and> restorable c md))"

lemma restore_sound_refl: "restore_sound c s rs (rs, set_redis r s)" "restore_sound c s rs (rs, s)"
  by (simp_all add: restore_sound_def)

lemma restore_sound_read: "restore_sound c (set_redis r s) rs res \<Longrightarrow> restore_sound c s rs res"
  by (simp add: restore_sound_def)

lemma restore_sound_add:
  "dget (pending_calls s) m = None \<Longrightarrow> restorable c md \<Longrightarrow>
   restore_sound c (register_pending_call env m md (set_redis r s)) (rs @ [m]) res \<Longrightarrow>
   restore_sound c s rs res"
  by (auto simp: restore_sound_def split: if_splits)

lemma restore_keys_sound: "restore_sound c s rs (restore_keys env c ks rs s)"
proof (induction env c ks rs s rule: restore_keys.induct)
  case (1 env serial restored s)
  then show ?case by (simp add: restore_sound_refl)
next
  case (2 env serial key keys restored s)
  show ?case
  proof (cases "redis (st s)")
    case None
    then show ?thesis by (simp add: restore_sound_refl)
  next
    case (Some r)
    obtain reply r1 where get: "rc_get (env_client env) key r = (reply, r1)" by fastforce
    show ?thesis
    proof (cases reply)
      case None
      then show ?thesis using Some get by (simp add: restore_sound_refl)
    next
      case (Some rep)
      note IH = 2 [OF \<open>redis (st s) = Some r\<close> get [symmetric] Some refl refl]
      define M where "M = (case rep of Some raw \<Rightarrow> (if raw = [] then None else env_loads env raw) | None \<Rightarrow> None)"
      let ?mid = "after_last_colon key"
      show ?thesis
      proof (cases M)
        case None
        then show ?thesis
          using IH(1) [folded M_def] \<open>redis (st s) = Some r\<close> get Some
          by (simp add: M_def [symmetric] restore_sound_read)
      next
        case (Some md)
        have eq: "restore_keys env serial (key # keys) restored s =
            (if restorable serial md \<and> dget (pending_calls s) ?mid = None
             then restore_keys env serial keys (restored @ [?mid]) (register_pending_call env ?mid md (set_redis r1 s))
             else restore_keys env serial keys restored (set_redis r1 s))"
          using Some \<open>redis (st s) = Some r\<close> get \<open>reply = Some rep\<close>
          by (auto simp: M_def [symmetric] restorable_def Let_def)
        show ?thesis
          unfolding eq
          using IH(2) [folded M_def, OF Some refl refl] IH(3) [folded M_def, OF Some refl refl]
          by (auto simp: restorable_def intro: restore_sound_read restore_sound_add)
      qed
    qed
  qed
qed

text \<open>
  Restoring a charger's calls after a restart never replaces a call that is already outstanding;
  every call it adds is reported in its result and was stored for that charger.
\<close>

lemma restore_adds_only_own_absent_calls:
  assumes "dget (pending_calls (snd (restore_pending_calls env c s))) m = Some md"
  shows "dget (pending_calls s) m = Some md \<or>
     dget (pending_calls s) m = None \<and> m \<in> set (fst (restore_pending_calls env c s)) \<and> restorable c md"
proof -
  have "restore_sound c s [] (restore_pending_calls env c s)"
    by (auto simp: restore_pending_calls_def restore_sound_refl
        intro: restore_keys_sound restore_sound_read split: option.split prod.split)
  then show ?thesis using assms by (simp add: restore_sound_def)
qed

definition restore_env :: "((string, string) dict) redis_env" where
  "restore_env = \<lparr>env_client = dict_redis, env_dumps = (\<lambda>_. Some ''{}''),
     env_loads = (\<lambda>_. Some [(''charger_id'', PStr ''cp1'')])\<rparr>"

lemma restore_adds_only_own_absent_calls_witness:
  "fst (restore_pending_calls restore_env ''CP1''
     (init_ocpp_store (Some [(''ocpp:pending:m1'', ''{}'')]) :: (nat, nat, (string, string) dict) ocpp_store)) = [''m1''] \<and>
   restorable ''CP1'' [(''charger_id'', PStr ''cp1'')]"
proof -
  let ?s = "init_ocpp_store (Some [(''ocpp:pending:m1'', ''{}'')]) :: (nat, nat, (string, string) dict) ocpp_store"
  have lower: "py_lower ''cp1'' = ''cp1''" "py_lower ''CP1'' = ''cp1''" by code_simp+
  have "fst (restore_pending_calls restore_env ''CP1'' ?s) = [''m1''] \<and>
      dget (pending_calls (snd (restore_pending_calls restore_env ''CP1'' ?s))) ''m1'' =
        Some [(''charger_id'', PStr ''cp1'')]"
    by (simp add: restore_pending_calls_def restore_env_def dict_redis_def init_ocpp_store_def
        init_store_def pending_metadata_key_def dkeys_def set_redis_def Let_def por_def
        lower after_last_colon_def)
  moreover have "dget (pending_calls ?s) ''m1'' = None" by (simp add: init_ocpp_store_def)
  ultimately show ?thesis
    using restore_adds_only_own_absent_calls [of restore_env "''CP1''" ?s "''m1''"] by auto
qed

end
