(* ===== verification/CallResultsProps.thy ===== *)
theory CallResultsProps
  imports CallResults PendingCallsProps
begin

text \<open>
  Every result handler completes its call: it records exactly one reply, under the call's own id,
  with the payload received.  Only the handlers that convert numbers or times can raise, and then nothing is
  recorded.
\<close>

subsection \<open>Completing a call\<close>

definition keeps_metadata :: "obj \<Rightarrow> obj \<Rightarrow> bool" where
  "keeps_metadata md md' = (\<forall>k. k \<notin> {''status'', ''status_info'', ''monitoring_base'', ''monitoring_level''} \<longrightarrow>
     jget md' k = jget md k)"

definition completes ::
  "call_ctx \<Rightarrow> ('c, 't, 'r) world \<Rightarrow> (pyexn + bool) \<times> ('c, 't, 'r) world \<Rightarrow> bool" where
  "completes ctx w res =
     (fst res = Inr True \<and>
      (\<exists>md. keeps_metadata (cc_metadata ctx) md \<and>
        call_results (hw_store (snd res)) =
          dset (cc_message_id ctx) (result_entry (ok_outcome md (cc_payload ctx))) (call_results (hw_store w))))"

text \<open>A conversion that overflows or a date the parser rejects.\<close>

definition conversion_error :: "'r handler_env \<Rightarrow> pyexn \<Rightarrow> bool" where
  "conversion_error env e \<longleftrightarrow> e = OverflowError \<or> (\<exists>v. he_parse_timestamp env v = Inl e)"

definition raises ::
  "'r handler_env \<Rightarrow> ('c, 't, 'r) world \<Rightarrow> (pyexn + bool) \<times> ('c, 't, 'r) world \<Rightarrow> bool" where
  "raises env w res = ((\<exists>e. fst res = Inl e \<and> conversion_error env e) \<and>
     call_results (hw_store (snd res)) = call_results (hw_store w))"

lemma conversion_error_overflow [simp]: "conversion_error env OverflowError"
  by (simp add: conversion_error_def)

lemma call_results_record [simp]:
  "call_results (record_pending_call_result env m co s) = dset m (result_entry co) (call_results s)"
  by (simp add: record_pending_call_result_def mirror_defs Let_def split: option.split)

lemma keeps_metadata_refl [simp]: "keeps_metadata md md"
  by (simp add: keeps_metadata_def)

lemma completes_finish_with:
  "keeps_metadata (cc_metadata ctx) md \<Longrightarrow> call_results (hw_store w1) = call_results (hw_store w) \<Longrightarrow>
     completes ctx w (finish_with md env ctx w1)"
  by (auto simp: completes_def finish_with_def)

lemma completes_finish:
  "call_results (hw_store w1) = call_results (hw_store w) \<Longrightarrow> completes ctx w (finish env ctx w1)"
  by (simp add: finish_def completes_finish_with)

lemma assign_configuration_store [simp]: "hw_store (assign_configuration conf w) = hw_store w"
  by (simp add: assign_configuration_def)

lemma call_results_followup [simp]:
  "call_results (register_triggered_followup c a k lk t s) = call_results s"
  by (simp add: register_triggered_followup_def Let_def)

lemma call_results_pop_monitoring [simp]:
  "call_results (snd (pop_monitoring_report_request i s)) = call_results s"
  by (simp add: pop_monitoring_report_request_def)

lemma mark_request_results [simp]: "call_results (hw_store (mark_request env m rs t w)) = call_results (hw_store w)"
  by (simp add: mark_request_def)

lemma store_variables_store [simp]: "hw_store (store_variables f rs ctx w) = hw_store w"
  by (auto simp: store_variables_def split: prod.split option.split)

lemma certificate_log_results [simp]:
  "call_results (hw_store (certificate_log l ctx w)) = call_results (hw_store w)"
  by (simp add: certificate_log_def)

lemma keeps_status_metadata:
  "keeps_metadata md md' \<Longrightarrow> keeps_metadata md (status_metadata s i md')"
  by (auto simp: keeps_metadata_def status_metadata_def Let_def)

lemma keeps_monitoring_keys:
  "keeps_metadata md (dset ''monitoring_base'' v md)" "keeps_metadata md (dset ''monitoring_level'' v md)"
  by (auto simp: keeps_metadata_def)

lemma guarded_int_Inl: "guarded_int v = Inl e \<Longrightarrow> e = OverflowError"
  by (auto simp: guarded_int_def split: sum.splits pyexn.splits)

subsection \<open>The handlers that cannot raise\<close>

named_theorems handler_completes

lemma status_log_completes [handler_completes]: "completes ctx w (status_log_result label env ctx w)"
  unfolding status_log_result_def by (rule completes_finish) simp

lemmas status_handler_defs = handle_unpublish_firmware_result_def handle_remote_start_transaction_result_def
  handle_remote_stop_transaction_result_def handle_set_charging_profile_result_def handle_reset_result_def
  handle_clear_display_message_result_def handle_customer_information_result_def
  handle_get_base_report_result_def handle_get_charging_profiles_result_def
  handle_get_display_messages_result_def handle_get_report_result_def handle_set_display_message_result_def

lemma change_configuration_completes [handler_completes]:
  "completes ctx w (handle_change_configuration_result env ctx w)"
  unfolding handle_change_configuration_result_def Let_def by (rule completes_finish) simp

lemma data_transfer_completes [handler_completes]: "completes ctx w (handle_data_transfer_result env ctx w)"
  unfolding handle_data_transfer_result_def Let_def by (simp add: completes_finish)

lemma clear_cache_completes [handler_completes]: "completes ctx w (handle_clear_cache_result env ctx w)"
  unfolding handle_clear_cache_result_def Let_def by (rule completes_finish) simp

lemma get_configuration_completes [handler_completes]:
  "completes ctx w (handle_get_configuration_result env ctx w)"
  unfolding handle_get_configuration_result_def Let_def by (rule completes_finish) simp

lemma trigger_message_completes [handler_completes]:
  "completes ctx w (handle_trigger_message_result env ctx w)"
  unfolding handle_trigger_message_result_def Let_def by (rule completes_finish) simp

lemma get_log_completes [handler_completes]: "completes ctx w (handle_get_log_result env ctx w)"
  unfolding handle_get_log_result_def Let_def by (rule completes_finish) simp

lemma get_diagnostics_completes [handler_completes]:
  "completes ctx w (handle_get_diagnostics_result env ctx w)"
  unfolding handle_get_diagnostics_result_def Let_def by (rule completes_finish) simp

lemma firmware_completes [handler_completes]: "completes ctx w (firmware_result env ctx w)"
  unfolding firmware_result_def Let_def by (rule completes_finish) simp

lemma reserve_now_completes [handler_completes]: "completes ctx w (handle_reserve_now_result env ctx w)"
  unfolding handle_reserve_now_result_def Let_def by (rule completes_finish) simp

lemma cancel_reservation_completes [handler_completes]:
  "completes ctx w (handle_cancel_reservation_result env ctx w)"
  unfolding handle_cancel_reservation_result_def Let_def by (rule completes_finish) simp

lemma request_start_completes [handler_completes]:
  "completes ctx w (handle_request_start_transaction_result env ctx w)"
  unfolding handle_request_start_transaction_result_def Let_def by (rule completes_finish) simp

lemma request_stop_completes [handler_completes]:
  "completes ctx w (handle_request_stop_transaction_result env ctx w)"
  unfolding handle_request_stop_transaction_result_def Let_def by (rule completes_finish) simp

lemma transaction_status_completes [handler_completes]:
  "completes ctx w (handle_get_transaction_status_result env ctx w)"
  unfolding handle_get_transaction_status_result_def Let_def by (rule completes_finish) simp

lemma clear_profile_completes [handler_completes]:
  "completes ctx w (handle_clear_charging_profile_result env ctx w)"
  unfolding handle_clear_charging_profile_result_def Let_def by (rule completes_finish) simp

lemma change_availability_completes [handler_completes]:
  "completes ctx w (handle_change_availability_result env ctx w)"
  unfolding handle_change_availability_result_def by (rule completes_finish) simp

lemma unlock_connector_completes [handler_completes]:
  "completes ctx w (handle_unlock_connector_result env ctx w)"
  unfolding handle_unlock_connector_result_def Let_def
  by (rule completes_finish_with) (simp_all add: keeps_status_metadata)

lemma monitoring_setting_completes [handler_completes]:
  "completes ctx w (handle_set_monitoring_base_result env ctx w)"
  "completes ctx w (handle_set_monitoring_level_result env ctx w)"
  unfolding handle_set_monitoring_base_result_def handle_set_monitoring_level_result_def
    monitoring_setting_result_def Let_def
  by (rule completes_finish_with; simp add: keeps_status_metadata keeps_monitoring_keys)+

lemma variables_complete [handler_completes]:
  "completes ctx w (handle_get_variables_result env ctx w)"
  "completes ctx w (handle_set_variables_result env ctx w)"
  by (auto simp: handle_get_variables_result_def handle_set_variables_result_def Let_def
      intro: completes_finish split: option.split)

lemma clear_monitoring_completes [handler_completes]:
  "completes ctx w (handle_clear_variable_monitoring_result env ctx w)"
  unfolding handle_clear_variable_monitoring_result_def Let_def by (rule completes_finish) simp

lemma network_profile_cases:
  "completes ctx w (handle_set_network_profile_result env ctx w) \<or>
   raises env w (handle_set_network_profile_result env ctx w)"
  by (auto simp: handle_set_network_profile_result_def Let_def raises_def conversion_error_def
      intro: completes_finish split: sum.split)

lemma certificates_complete [handler_completes]:
  "completes ctx w (handle_install_certificate_result env ctx w)"
  "completes ctx w (handle_delete_certificate_result env ctx w)"
  "completes ctx w (handle_certificate_signed_result env ctx w)"
  "completes ctx w (handle_get_installed_certificate_ids_result env ctx w)"
  unfolding handle_install_certificate_result_def handle_delete_certificate_result_def
    handle_certificate_signed_result_def handle_get_installed_certificate_ids_result_def Let_def
  by (rule completes_finish; simp)+

subsection \<open>The handlers that convert numbers and times\<close>

definition CONVERTING_ACTIONS :: "string list" where
  "CONVERTING_ACTIONS = [''GetCompositeSchedule'', ''GetLocalListVersion'', ''GetMonitoringReport'',
     ''SendLocalList'', ''SetNetworkProfile'', ''SetVariableMonitoring'']"

lemma raisesI: "call_results (hw_store w1) = call_results (hw_store w) \<Longrightarrow> raises env w (Inl OverflowError, w1)"
  by (simp add: raises_def)

lemma send_local_list_cases:
  "completes ctx w (handle_send_local_list_result env ctx w) \<or>
   raises env w (handle_send_local_list_result env ctx w)"
proof (cases "guarded_int (por (por (reply ctx ''currentLocalListVersion'') (reply ctx ''listVersion''))
                               (meta ctx ''list_version''))")
  case (Inl e)
  with guarded_int_Inl [OF Inl] show ?thesis
    by (simp add: handle_send_local_list_result_def Let_def raises_def)
next
  case (Inr v)
  then show ?thesis by (simp add: handle_send_local_list_result_def Let_def completes_finish)
qed

lemma local_list_version_cases:
  "completes ctx w (handle_get_local_list_version_result env ctx w) \<or>
   raises env w (handle_get_local_list_version_result env ctx w)"
proof (cases "guarded_int (reply ctx ''listVersion'')")
  case (Inl e)
  with guarded_int_Inl [OF Inl] show ?thesis
    by (simp add: handle_get_local_list_version_result_def Let_def raises_def split: option.split)
next
  case (Inr v)
  then show ?thesis
    by (simp add: handle_get_local_list_version_result_def Let_def completes_finish split: option.split)
qed

lemma monitoring_report_cases:
  "completes ctx w (handle_get_monitoring_report_result env ctx w) \<or>
   raises env w (handle_get_monitoring_report_result env ctx w)"
  by (auto simp: handle_get_monitoring_report_result_def Let_def
      intro: completes_finish raisesI dest: guarded_int_Inl split: sum.split option.split)

lemma projection_period_Inl: "projection_period e = Inl x \<Longrightarrow> x = OverflowError"
  by (cases e; cases "guarded_int (jget (as_obj e) ''startPeriod'')")
    (auto simp: projection_period_def as_obj_def dest: guarded_int_Inl)

lemma emap_projection_Inl: "emap projection_period es = Inl x \<Longrightarrow> x = OverflowError"
proof (induction es)
  case (Cons e es)
  then show ?case
    by (cases "projection_period e"; cases "emap projection_period es")
      (auto dest: projection_period_Inl)
qed simp

lemma projection_periods_Inl: "projection_periods v = Inl x \<Longrightarrow> x = OverflowError"
  by (cases "emap projection_period (case list_items v of None \<Rightarrow> [] | Some es \<Rightarrow> es)")
    (auto simp: projection_periods_def dest: emap_projection_Inl split: option.splits)

lemma composite_schedule_cases:
  "completes ctx w (handle_get_composite_schedule_result env ctx w) \<or>
   raises env w (handle_get_composite_schedule_result env ctx w)"
proof -
  let ?parsed = "ebind (he_parse_timestamp env (reply ctx ''scheduleStart'')) (\<lambda>start. case reply ctx ''chargingSchedule'' of
      PDict sp \<Rightarrow>
        ebind (guarded_int (jget sp ''duration'')) (\<lambda>duration.
          ebind (projection_periods (jget sp ''chargingSchedulePeriod'')) (\<lambda>periods.
            Inr (start, duration, text_field (jget sp ''chargingRateUnit''), periods)))
    | _ \<Rightarrow> Inr (start, None, [], []))"
  have err: "conversion_error env x" if "?parsed = Inl x" for x
    using that by (cases "reply ctx ''chargingSchedule''")
      (auto simp: ebind_case conversion_error_def dest: guarded_int_Inl projection_periods_Inl split: sum.splits)
  show ?thesis
  proof (cases ?parsed)
    case (Inl x)
    then have "handle_get_composite_schedule_result env ctx w = (Inl x, w)"
      by (simp add: handle_get_composite_schedule_result_def Let_def)
    then show ?thesis using err [OF Inl] by (simp add: raises_def)
  next
    case (Inr p)
    obtain b d u ps where "p = (b, d, u, ps)" by (cases p) auto
    with Inr show ?thesis
      by (simp add: handle_get_composite_schedule_result_def Let_def completes_finish)
  qed
qed

lemma monitor_lookup_Inl: "monitor_lookup e ms l = Inl x \<Longrightarrow> x = OverflowError"
  by (induction e ms l rule: monitor_lookup.induct)
    (auto dest: guarded_int_Inl split: pyval.splits sum.splits option.splits)

lemma requested_monitors_Inl: "requested_monitors es l = Inl x \<Longrightarrow> x = OverflowError"
  by (induction es l rule: requested_monitors.induct)
    (auto simp: ebind_case dest: monitor_lookup_Inl split: pyval.splits sum.splits option.splits)

lemma store_monitors_Inl: "fst (store_monitors c l es d) = Inl x \<Longrightarrow> x = OverflowError"
  by (induction c l es d rule: store_monitors.induct)
    (auto dest: guarded_int_Inl split: pyval.splits sum.splits option.splits)

lemma set_monitoring_cases:
  "completes ctx w (handle_set_variable_monitoring_result env ctx w) \<or>
   raises env w (handle_set_variable_monitoring_result env ctx w)"
proof (cases "list_items (reply ctx ''setMonitoringResult'')")
  case None
  then show ?thesis by (simp add: handle_set_variable_monitoring_result_def completes_finish)
next
  case (Some results)
  let ?req = "requested_monitors (case list_items (meta ctx ''set_monitoring_data'') of
      None \<Rightarrow> [] | Some es \<Rightarrow> es) []"
  show ?thesis
  proof (cases ?req)
    case (Inl e)
    with Some requested_monitors_Inl [OF Inl] show ?thesis
      by (simp add: handle_set_variable_monitoring_result_def raises_def)
  next
    case (Inr lookup)
    obtain c d where rc: "result_charger ctx w = (c, d)" by fastforce
    show ?thesis
    proof (cases c)
      case None
      then show ?thesis using Some Inr rc
        by (simp add: handle_set_variable_monitoring_result_def completes_finish)
    next
      case (Some charger)
      obtain r d' where sm: "store_monitors charger lookup results d = (r, d')" by fastforce
      with store_monitors_Inl [of charger lookup results d] have "r = Inl x \<Longrightarrow> x = OverflowError" for x
        by simp
      then show ?thesis
        using Some Inr rc sm \<open>list_items (reply ctx ''setMonitoringResult'') = Some results\<close>
        by (cases r) (simp_all add: handle_set_variable_monitoring_result_def completes_finish raises_def)
    qed
  qed
qed

subsection \<open>The registry\<close>

lemmas handler_aliases = handle_update_firmware_result_def handle_publish_firmware_result_def

lemma registry_completes:
  "list_all (\<lambda>(a, h). \<forall>env ctx w. completes ctx w (h env ctx w) \<or>
     (a \<in> set CONVERTING_ACTIONS \<and> raises env w (h env ctx w))) CALL_RESULT_HANDLER_REGISTRY"
  unfolding CALL_RESULT_HANDLER_REGISTRY_def
  by (simp only: list.pred_inject prod.case, intro conjI allI)
    (simp_all add: handler_completes status_handler_defs handler_aliases CONVERTING_ACTIONS_def
      send_local_list_cases local_list_version_cases monitoring_report_cases composite_schedule_cases
      set_monitoring_cases network_profile_cases)

lemma registry_handler:
  assumes "map_of CALL_RESULT_HANDLER_REGISTRY a = Some h"
  shows "completes ctx w (h env ctx w) \<or> (a \<in> set CONVERTING_ACTIONS \<and> raises env w (h env ctx w))"
  using registry_completes map_of_SomeD [OF assms] by (force simp: list_all_iff)

text \<open>
  Whatever the charger puts into its reply, the handler of every action the server can send
  records exactly one reply, under the call's message id, with that payload and the call's
  metadata, and reports the call as handled; the six actions whose replies carry numbers or
  times may instead raise, and then record nothing.
\<close>

lemma every_result_completes_its_call:
  assumes "map_of CALL_RESULT_HANDLER_REGISTRY a = Some h"
  shows "completes ctx w (h env ctx w) \<or> (a \<in> set CONVERTING_ACTIONS \<and> raises env w (h env ctx w))"
  using assms by (rule registry_handler)

definition plain_env :: "unit handler_env" where
  "plain_env = \<lparr>he_redis = no_redis_env, he_now = PTime 1000 ''2024-01-01 00:00:00+00:00'',
     he_parse_timestamp = (\<lambda>_. Inr PNone), he_entries_applied = (\<lambda>_. 0), he_configuration = (\<lambda>_. PNone)\<rparr>"

definition plain_world :: "db \<Rightarrow> (nat, nat, unit) world" where
  "plain_world d = \<lparr>hw_store = init_ocpp_store None, hw_db = d, hw_calls = [], hw_captures = [],
     hw_charger_id = Some ''CP1'', hw_charger = None, hw_aggregate_charger = None\<rparr>"

definition reply_ctx :: "obj \<Rightarrow> obj \<Rightarrow> call_ctx" where
  "reply_ctx md payload = \<lparr>cc_message_id = ''m1'', cc_metadata = md, cc_payload = payload,
     cc_log_key = PStr ''CP1''\<rparr>"

lemma every_result_completes_its_call_witness:
  "fst (handle_reset_result plain_env (reply_ctx [] [(''status'', PStr ''Accepted'')]) (plain_world [])) = Inr True"
proof -
  have "map_of (CALL_RESULT_HANDLER_REGISTRY :: (string \<times> (nat, nat, unit) handler) list) ''Reset'' =
      Some handle_reset_result"
    by (simp add: CALL_RESULT_HANDLER_REGISTRY_def)
  from every_result_completes_its_call [OF this, of "reply_ctx [] [(''status'', PStr ''Accepted'')]"
      "plain_world []" plain_env]
  show ?thesis by (simp add: CONVERTING_ACTIONS_def completes_def)
qed

subsection \<open>What the replies leave in the database\<close>

lemma hw_db_finish [simp]:
  "hw_db (snd (finish env ctx w)) = hw_db w" "hw_db (snd (finish_with md env ctx w)) = hw_db w"
  by (simp_all add: finish_def finish_with_def)

lemma with_db_if: "hw_db (if c then with_db f w else w) = (if c then f (hw_db w) else hw_db w)"
  by simp

text \<open>
  The reply to ReserveNow confirms the reservation exactly when the charger accepted it, with
  the time of the reply; any other answer clears an earlier confirmation, and no other row changes.
\<close>

lemma reserve_now_confirms_iff_accepted:
  assumes "dget (hw_db w) (''CPReservation'', pk) = Some row" and "truthy pk"
    and "meta ctx ''reservation_pk'' = pk"
  shows "let d = hw_db (snd (handle_reserve_now_result env ctx w));
             accepted = (py_casefold (reply_status ctx) = ''accepted'')
    in (\<exists>row'. dget d (''CPReservation'', pk) = Some row' \<and>
         jget row' ''evcs_confirmed'' = PBool accepted \<and>
         jget row' ''evcs_confirmed_at'' = (if accepted then he_now env else PNone) \<and>
         jget row' ''evcs_status'' = PStr (reply_status ctx)) \<and>
       (k \<noteq> (''CPReservation'', pk) \<longrightarrow> dget d k = dget (hw_db w) k)"
  using assms
  by (auto simp: handle_reserve_now_result_def Let_def jget_set_fields)

lemma reserve_now_confirms_iff_accepted_witness:
  "\<exists>row'. dget (hw_db (snd (handle_reserve_now_result plain_env
      (reply_ctx [(''reservation_pk'', PInt 7)] [(''status'', PStr ''Rejected'')])
      (plain_world [((''CPReservation'', PInt 7), [(''evcs_confirmed'', PBool True)])])))) (''CPReservation'', PInt 7) =
        Some row' \<and> jget row' ''evcs_confirmed'' = PBool False"
proof -
  have "py_casefold (py_strip ''Rejected'') \<noteq> ''accepted''" by code_simp
  then show ?thesis
    using reserve_now_confirms_iff_accepted [of
        "plain_world [((''CPReservation'', PInt 7), [(''evcs_confirmed'', PBool True)])]" "PInt 7"
        "[(''evcs_confirmed'', PBool True)]"
        "reply_ctx [(''reservation_pk'', PInt 7)] [(''status'', PStr ''Rejected'')]" plain_env]
    by (auto simp: plain_world_def reply_ctx_def meta_def reply_status_def reply_def Let_def)
qed

text \<open>
  A firmware deployment's completion time is set by the first terminal status and never moves
  afterwards; a status that is not terminal does not set it.
\<close>

lemma firmware_completion_time_stable:
  assumes "dget d (''CPFirmwareDeployment'', pk) = Some row" and "truthy now"
  shows "\<exists>row'. dget (firmware_mark_status now status info response pk d) (''CPFirmwareDeployment'', pk) = Some row' \<and>
     jget row' ''status'' = PStr status \<and>
     (truthy (jget row ''completed_at'') \<longrightarrow> jget row' ''completed_at'' = jget row ''completed_at'') \<and>
     (status \<in> set TERMINAL_STATUSES \<longrightarrow> truthy (jget row' ''completed_at'')) \<and>
     (status \<notin> set TERMINAL_STATUSES \<longrightarrow> jget row' ''completed_at'' = jget row ''completed_at'')"
  using assms
  by (cases response) (simp_all add: firmware_mark_status_def db_get_def jget_set_fields)

lemma firmware_completion_time_stable_witness:
  "\<exists>row'. dget (firmware_mark_status (PTime 9 ''t9'') ''Downloading'' [] None (PInt 3)
      [((''CPFirmwareDeployment'', PInt 3), [(''status'', PStr ''Installed''), (''completed_at'', PTime 5 ''t5'')])])
      (''CPFirmwareDeployment'', PInt 3) = Some row' \<and> jget row' ''completed_at'' = PTime 5 ''t5''"
  using firmware_completion_time_stable [of
      "[((''CPFirmwareDeployment'', PInt 3), [(''status'', PStr ''Installed''), (''completed_at'', PTime 5 ''t5'')])]"
      "PInt 3" _ "PTime 9 ''t9''" "''Downloading''" "[]" None]
  by fastforce

end
