(* ===== verification/DispatchProps.thy ===== *)
theory DispatchProps
  imports Dispatch CallResultsProps
begin

text \<open>
  From the frame to the waiting thread: every CALLERROR of a known call is recorded even when its
  handler raises, a CALLRESULT is recorded unless its handler raises, unknown ids change nothing,
  background forwarding stays within its limit, and the frames that make the dispatcher raise.
\<close>

subsection \<open>Error handlers\<close>

definition fails ::
  "err_ctx \<Rightarrow> ('c, 't, 'r) world \<Rightarrow> pyexn + ('c, 't, 'r) world \<Rightarrow> bool" where
  "fails ctx w res =
     (\<forall>w'. res = Inr w' \<longrightarrow> (\<exists>md. keeps_metadata (ec_metadata ctx) md \<and>
        call_results (hw_store w') =
          dset (ec_message_id ctx) (result_entry (fail_outcome md ctx)) (call_results (hw_store w))))"

lemma fails_Inl [simp]: "fails ctx w (Inl e)"
  by (simp add: fails_def)

lemma fails_ebind: "(\<And>x. m = Inr x \<Longrightarrow> fails ctx w (f x)) \<Longrightarrow> fails ctx w (ebind m f)"
  by (cases m) simp_all

lemma fails_with:
  "keeps_metadata (ec_metadata ctx) md \<Longrightarrow> call_results (hw_store w1) = call_results (hw_store w) \<Longrightarrow>
     fails ctx w (Inr (fail_with md env ctx w1))"
  by (auto simp: fails_def fail_with_def)

lemma fails_fail: "call_results (hw_store w1) = call_results (hw_store w) \<Longrightarrow> fails ctx w (Inr (fail env ctx w1))"
  by (simp add: fail_def fails_with)

lemma err_log_results [simp]: "call_results (hw_store (err_log l ps ctx w)) = call_results (hw_store w)"
  by (simp add: err_log_def)

lemma fails_log_and_fail:
  "call_results (hw_store w1) = call_results (hw_store w) \<Longrightarrow> fails ctx w (log_and_fail l ps env ctx w1)"
  by (simp add: log_and_fail_def fails_fail)

lemmas fails_intros = fails_ebind fails_fail fails_log_and_fail

lemma monitoring_setting_fails: "fails ctx w (handle_set_monitoring_base_error env ctx w)"
    "fails ctx w (handle_set_monitoring_level_error env ctx w)"
  by (auto simp: handle_set_monitoring_base_error_def handle_set_monitoring_level_error_def
      monitoring_setting_error_def Let_def intro!: fails_with keeps_monitoring_keys)

lemma network_profile_fails: "fails ctx w (handle_set_network_profile_error env ctx w)"
  by (auto simp: handle_set_network_profile_error_def Let_def intro!: fails_intros split: option.split)

lemma get_log_fails: "fails ctx w (handle_get_log_error env ctx w)"
  by (auto simp: handle_get_log_error_def Let_def intro!: fails_intros)

lemma data_transfer_fails: "fails ctx w (handle_data_transfer_error env ctx w)"
  by (auto simp: handle_data_transfer_error_def Let_def intro!: fails_intros)

lemma reservation_fails: "fails ctx w (handle_reservation_error label env ctx w)"
  by (auto simp: handle_reservation_error_def Let_def intro!: fails_intros)

lemma clear_profile_fails: "fails ctx w (handle_clear_charging_profile_error env ctx w)"
  by (auto simp: handle_clear_charging_profile_error_def Let_def intro!: fails_intros)

lemma certificate_fails: "fails ctx w (certificate_error a env ctx w)"
  by (auto simp: certificate_error_def intro!: fails_intros)

lemma firmware_fails: "fails ctx w (firmware_error label env ctx w)"
  by (auto simp: firmware_error_def Let_def intro!: fails_intros)

lemmas plain_error_defs = handle_change_configuration_error_def handle_clear_cache_error_def
  handle_get_configuration_error_def handle_trigger_message_error_def
  handle_remote_start_transaction_error_def handle_remote_stop_transaction_error_def
  handle_request_start_transaction_error_def handle_request_stop_transaction_error_def
  handle_get_transaction_status_error_def handle_reset_error_def handle_change_availability_error_def
  handle_unlock_connector_error_def handle_clear_display_message_error_def
  handle_customer_information_error_def handle_get_base_report_error_def
  handle_get_display_messages_error_def handle_get_report_error_def handle_set_display_message_error_def
  handle_get_composite_schedule_error_def handle_unpublish_firmware_error_def
  handle_get_diagnostics_error_def handle_set_charging_profile_error_def
  handle_get_charging_profiles_error_def

lemmas error_aliases = handle_update_firmware_error_def handle_publish_firmware_error_def
  handle_reserve_now_error_def handle_cancel_reservation_error_def handle_install_certificate_error_def
  handle_delete_certificate_error_def handle_certificate_signed_error_def
  handle_get_installed_certificate_ids_error_def

lemma plain_errors_fail:
  "list_all (\<lambda>h. \<forall>env ctx w. fails ctx w (h env ctx w))
     [handle_change_configuration_error, handle_clear_cache_error, handle_get_configuration_error,
      handle_trigger_message_error, handle_remote_start_transaction_error,
      handle_remote_stop_transaction_error, handle_request_start_transaction_error,
      handle_request_stop_transaction_error, handle_get_transaction_status_error, handle_reset_error,
      handle_change_availability_error, handle_unlock_connector_error, handle_clear_display_message_error,
      handle_customer_information_error, handle_get_base_report_error, handle_get_display_messages_error,
      handle_get_report_error, handle_set_display_message_error, handle_get_composite_schedule_error,
      handle_unpublish_firmware_error, handle_get_diagnostics_error, handle_set_charging_profile_error,
      handle_get_charging_profiles_error]"
  by (simp only: list.pred_inject, intro conjI allI TrueI;
      simp only: plain_error_defs Let_def; intro fails_intros; simp)

lemmas plain_fails = plain_errors_fail [simplified]

lemma error_registry_fails:
  "list_all (\<lambda>(a, h). \<forall>env ctx w. fails ctx w (h env ctx w)) CALL_ERROR_HANDLERS"
  by (simp add: CALL_ERROR_HANDLERS_def plain_fails error_aliases monitoring_setting_fails network_profile_fails
      get_log_fails data_transfer_fails reservation_fails clear_profile_fails certificate_fails
      firmware_fails)

lemma dispatch_call_error_cases:
  obtains "dispatch_call_error a env ctx w = (False, w)"
  | w' md where "dispatch_call_error a env ctx w = (True, w')" "keeps_metadata (ec_metadata ctx) md"
      "call_results (hw_store w') =
         dset (ec_message_id ctx) (result_entry (fail_outcome md ctx)) (call_results (hw_store w))"
proof (cases "\<exists>s h w'. a = PStr s \<and> s \<noteq> [] \<and> map_of CALL_ERROR_HANDLERS s = Some h \<and> h env ctx w = Inr w'")
  case True
  then obtain s h w' where sh: "a = PStr s" "s \<noteq> []"
    and h: "map_of CALL_ERROR_HANDLERS s = Some h" and w': "h env ctx w = Inr w'"
    by blast
  from map_of_SomeD [OF h] error_registry_fails have "fails ctx w (h env ctx w)"
    by (force simp: list_all_iff)
  with w' sh h that(2) show ?thesis by (auto simp: fails_def dispatch_call_error_def)
next
  case False
  then have "dispatch_call_error a env ctx w = (False, w)"
    by (auto simp: dispatch_call_error_def split: pyval.split option.split sum.split)
  then show ?thesis by (rule that(1))
qed

subsection \<open>Replies reach the waiting thread\<close>

lemma pop_call_known:
  assumes "dget (pending_calls (hw_store (cn_world c))) mid = Some md"
  obtains c1 where "pop_call env mid c = (Some md, c1)" "conn_charger_id c1 = conn_charger_id c"
    "call_results (hw_store (cn_world c1)) = call_results (hw_store (cn_world c))"
    "dget (pending_calls (hw_store (cn_world c1))) mid = None" "cn_tasks c1 = cn_tasks c"
    "cn_forwarded c1 = cn_forwarded c" "cn_store_key c1 = cn_store_key c"
proof -
  let ?p = "pop_pending_call (he_redis (ce_handlers env)) mid (hw_store (cn_world c))"
  have "fst ?p = Some md" using assms by (rule calls.pop_known)
  moreover have "call_results (snd ?p) = call_results (hw_store (cn_world c))"
    by (auto simp: pop_pending_call_def mirror_defs Let_def split: option.splits prod.splits
        dest: load_json_frame)
  moreover have "dget (pending_calls (snd ?p)) mid = None" by simp
  ultimately show ?thesis
    by (intro that [of "c\<lparr>cn_world := (cn_world c)\<lparr>hw_store := snd ?p\<rparr>\<rparr>"])
      (simp_all add: pop_call_def conn_charger_id_def case_prod_beta)
qed

lemma forward_reply_frame [simp]:
  "cn_world (dispatch_forward_reply m raw c) = cn_world c"
  by (simp add: dispatch_forward_reply_def Let_def)

lemma record_on_results [simp]:
  "call_results (hw_store (cn_world (record_on env m co c))) =
     dset m (result_entry co) (call_results (hw_store (cn_world c)))"
  by (simp add: record_on_def)

text \<open>
  C3: a CALLERROR for an outstanding call ends, when it comes from the charger the call was made to,
  with the failure recorded under the call's id, with the code, description and details received,
  whatever these are and also when the action has no handler or its handler raises.  On the connection of
  another charger it is not recorded and the call is no longer outstanding.  In neither case does the
  dispatcher raise.
\<close>

theorem call_error_always_recorded:
  assumes "dget (pending_calls (hw_store (cn_world c))) mid = Some md" and "md \<noteq> []"
  shows "case handle_call_error env mid err descr dets raw c of (r, c') \<Rightarrow>
      r = Inr () \<and>
      (if other_charger md (conn_charger_id c)
       then call_results (hw_store (cn_world c')) = call_results (hw_store (cn_world c)) \<and>
            dget (pending_calls (hw_store (cn_world c'))) mid = None
       else \<exists>md' ctx. keeps_metadata md md' \<and> ec_code ctx = err \<and>
         ec_description ctx = descr \<and> ec_details ctx = dets \<and>
         dget (call_results (hw_store (cn_world c'))) mid = Some (result_entry (fail_outcome md' ctx)))"
proof (cases "other_charger md (conn_charger_id c)")
  case True
  obtain c1 where "pop_call env mid c = (Some md, c1)" "conn_charger_id c1 = conn_charger_id c"
    "call_results (hw_store (cn_world c1)) = call_results (hw_store (cn_world c))"
    "dget (pending_calls (hw_store (cn_world c1))) mid = None"
    using pop_call_known [OF assms(1)] by metis
  then show ?thesis using True by (simp add: handle_call_error_def)
next
  case False
  obtain c1 where c1: "pop_call env mid c = (Some md, c1)" "conn_charger_id c1 = conn_charger_id c"
    using pop_call_known [OF assms(1)] by metis
  let ?ctx = "\<lparr>ec_message_id = mid, ec_metadata = md, ec_code = err, ec_description = descr,
    ec_details = dets, ec_log_key = call_log_key md c1\<rparr>"
  obtain handled w where d: "dispatch_call_error (jget md ''action'') (ce_handlers env) ?ctx (cn_world c1) = (handled, w)"
    by fastforce
  define c3 where "c3 = (case raw of None \<Rightarrow> c1\<lparr>cn_world := w\<rparr>
    | Some t \<Rightarrow> dispatch_forward_reply (PStr mid) t (c1\<lparr>cn_world := w\<rparr>))"
  have w: "cn_world c3 = w" by (simp add: c3_def split: option.split)
  have eq: "handle_call_error env mid err descr dets raw c =
      (Inr (), if handled then c3 else record_on env mid (fail_outcome md ?ctx) c3)"
    using assms(2) False c1 d by (simp add: handle_call_error_def Let_def c3_def)
  obtain md' where md': "keeps_metadata md md'"
    "dget (call_results (hw_store (cn_world (snd (handle_call_error env mid err descr dets raw c))))) mid =
       Some (result_entry (fail_outcome md' ?ctx))"
  proof (cases rule: dispatch_call_error_cases [of "jget md ''action''" "ce_handlers env" ?ctx "cn_world c1"])
    case 1
    then have "\<not> handled" using d by simp
    then show ?thesis by (intro that [of md]) (simp_all add: eq)
  next
    case (2 w' md')
    then show ?thesis using d by (intro that [of md']) (simp_all add: eq w)
  qed
  then show ?thesis using False unfolding eq by (auto intro!: exI [of _ md'] exI [of _ ?ctx])
qed

lemma dispatch_call_result_unknown:
  "(\<And>s. a = PStr s \<Longrightarrow> s = [] \<or> map_of (CALL_RESULT_HANDLER_REGISTRY :: (string \<times> ('c, 't, 'r) handler) list) s = None) \<Longrightarrow>
     dispatch_call_result a env ctx (w :: ('c, 't, 'r) world) = (Inr False, w)"
  by (cases a) (auto simp: dispatch_call_result_def)

lemma dispatch_call_result_cases:
  fixes w :: "('c, 't, 'r) world"
  obtains "dispatch_call_result a env ctx w = (Inr False, w)"
  | "completes ctx w (dispatch_call_result a env ctx w)"
  | s where "a = PStr s" "s \<in> set CONVERTING_ACTIONS" "raises env w (dispatch_call_result a env ctx w)"
proof (cases "\<exists>s h. a = PStr s \<and> s \<noteq> [] \<and>
    map_of (CALL_RESULT_HANDLER_REGISTRY :: (string \<times> ('c, 't, 'r) handler) list) s = Some h")
  case True
  then obtain s h where s: "a = PStr s" "s \<noteq> []"
    and h: "map_of (CALL_RESULT_HANDLER_REGISTRY :: (string \<times> ('c, 't, 'r) handler) list) s = Some h"
    by blast
  have d: "dispatch_call_result a env ctx w = h env ctx w"
    using s h by (simp add: dispatch_call_result_def)
  from registry_handler [OF h, of ctx w env] show ?thesis
  proof (elim disjE conjE)
    assume "completes ctx w (h env ctx w)"
    then show ?thesis by (intro that(2)) (simp only: d)
  next
    assume "s \<in> set CONVERTING_ACTIONS" "raises env w (h env ctx w)"
    then show ?thesis by (intro that(3) [OF s(1)]) (simp_all only: d)
  qed
next
  case False
  then have "dispatch_call_result a env ctx w = (Inr False, w)"
    by (intro dispatch_call_result_unknown) auto
  then show ?thesis by (rule that(1))
qed


subsection \<open>A small connection\<close>

definition plain_conn_env :: "(nat, nat, unit) conn_env" where
  "plain_conn_env = \<lparr>ce_handlers = plain_env, ce_loads = (\<lambda>_. None), ce_dumps = (\<lambda>_. ''{}''),
     ce_router = (\<lambda>_. None), ce_assign_connector = (\<lambda>_ c. (Inr (), c))\<rparr>"

definition plain_conn :: "(string, obj) dict \<Rightarrow> (nat, nat, unit) conn" where
  "plain_conn calls = \<lparr>cn_world = (plain_world [])\<lparr>hw_store := (init_ocpp_store None)\<lparr>pending_calls := calls\<rparr>\<rparr>,
     cn_store_key = ''CP1#1'', cn_sent = [], cn_forwarded = [], cn_tasks = [], cn_meta = PNone\<rparr>"

lemma plain_conn_simps [simp]:
  "pending_calls (hw_store (cn_world (plain_conn calls))) = calls"
  "call_results (hw_store (cn_world (plain_conn calls))) = []"
  "conn_charger_id (plain_conn calls) = ''CP1''" "triggered_followups (hw_store (cn_world (plain_conn calls))) = []"
  by (simp_all add: plain_conn_def conn_charger_id_def plain_world_def init_ocpp_store_def)

lemma other_charger_None [simp]: "jget md ''charger_id'' = PNone \<Longrightarrow> \<not> other_charger md cid"
  by (simp add: other_charger_def Let_def)

theorem call_error_always_recorded_witness:
  "fst (handle_call_error plain_conn_env ''m1'' (PInt 5) PNone PNone None
     (plain_conn [(''m1'', [(''action'', PStr ''ClearCache'')])])) = Inr ()"
  using call_error_always_recorded [where c = "plain_conn [(''m1'', [(''action'', PStr ''ClearCache'')])]"
      and mid = "''m1''" and md = "[(''action'', PStr ''ClearCache'')]" and env = plain_conn_env
      and err = "PInt 5" and descr = PNone and dets = PNone and raw = None]
  by (simp add: case_prod_beta)


subsection \<open>Replies that get lost\<close>

text \<open>
  A GetLocalListVersion reply whose version is an infinite number, which Python's JSON parser
  accepts, raises out of the dispatcher: the call is no longer outstanding and no reply is ever
  recorded for the thread waiting on it, unlike a CALLERROR whose handler raises.
\<close>

lemma infinite_version_loses_reply:
  assumes "dget (pending_calls (hw_store (cn_world c))) mid = Some md"
    and "jget md ''action'' = PStr ''GetLocalListVersion''"
    and "\<not> other_charger md (conn_charger_id c)"
    and "jget (as_obj payload) ''listVersion'' = PFloat PosInf txt"
  shows "case handle_call_result env mid payload raw c of (r, c') \<Rightarrow>
      r = Inl OverflowError \<and> dget (pending_calls (hw_store (cn_world c'))) mid = None \<and>
      call_results (hw_store (cn_world c')) = call_results (hw_store (cn_world c))"
proof -
  from assms(2) have ne: "md \<noteq> []" by auto
  obtain c1 where c1: "pop_call env mid c = (Some md, c1)" "conn_charger_id c1 = conn_charger_id c"
    "call_results (hw_store (cn_world c1)) = call_results (hw_store (cn_world c))"
    "dget (pending_calls (hw_store (cn_world c1))) mid = None"
    using pop_call_known [OF assms(1)] by metis
  show ?thesis
    using assms(2,3,4) ne c1
    by (auto simp: handle_call_result_def Let_def dispatch_call_result_def CALL_RESULT_HANDLER_REGISTRY_def
        handle_get_local_list_version_result_def reply_def guarded_int_def split: option.split)
qed

lemma infinite_version_loses_reply_witness:
  "fst (handle_call_result plain_conn_env ''m1'' (PDict [(''listVersion'', PFloat PosInf ''inf'')]) None
     (plain_conn [(''m1'', [(''action'', PStr ''GetLocalListVersion'')])])) = Inl OverflowError"
  using infinite_version_loses_reply [of "plain_conn [(''m1'', [(''action'', PStr ''GetLocalListVersion'')])]"
      "''m1''" "[(''action'', PStr ''GetLocalListVersion'')]"
      "PDict [(''listVersion'', PFloat PosInf ''inf'')]" "''inf''" plain_conn_env None]
  by (simp add: case_prod_beta as_obj_def)

text \<open>
  A reply that arrives on another charger's connection is ignored, but the call it names is
  taken off the outstanding calls, so the real charger's reply finds nothing and is dropped as well.
\<close>

lemma foreign_reply_consumes_call:
  assumes "dget (pending_calls (hw_store (cn_world c))) mid = Some md"
    and "other_charger md (conn_charger_id c)"
  shows "case handle_call_result env mid payload raw c of (r, c') \<Rightarrow>
      r = Inr () \<and> dget (pending_calls (hw_store (cn_world c'))) mid = None \<and>
      call_results (hw_store (cn_world c')) = call_results (hw_store (cn_world c)) \<and>
      cn_forwarded c' = cn_forwarded c"
proof -
  obtain c1 where "pop_call env mid c = (Some md, c1)" "conn_charger_id c1 = conn_charger_id c"
    "call_results (hw_store (cn_world c1)) = call_results (hw_store (cn_world c))"
    "dget (pending_calls (hw_store (cn_world c1))) mid = None" "cn_forwarded c1 = cn_forwarded c"
    using pop_call_known [OF assms(1)] by metis
  then show ?thesis using assms(2) by (simp add: handle_call_result_def)
qed

lemma foreign_reply_consumes_call_witness:
  "dget (pending_calls (hw_store (cn_world (snd (handle_call_result plain_conn_env ''m1'' (PDict []) None
     (plain_conn [(''m1'', [(''charger_id'', PStr ''CP2'')])])))))) ''m1'' = None"
proof -
  have "other_charger [(''charger_id'', PStr ''CP2'')] ''CP1''" by code_simp
  then show ?thesis
    using foreign_reply_consumes_call [of "plain_conn [(''m1'', [(''charger_id'', PStr ''CP2'')])]" "''m1''"
        "[(''charger_id'', PStr ''CP2'')]" plain_conn_env "PDict []" None]
    by (simp add: case_prod_beta)
qed

text \<open>
  A CALL whose payload is not an object is never answered: the dispatcher guards the connector
  hint against it and then reads the connector id from the same value unguarded.
\<close>

lemma non_object_payload_raises:
  assumes "dget (triggered_followups (hw_store (cn_world c))) (conn_charger_id c) = None"
    and "\<not> is_dict payload"
  shows "handle_call_message env [PInt 2, mid, PStr a, payload] raw c = (Inl AttributeError, c)"
  using assms
  by (simp add: handle_call_message_def Let_def frame_item_def log_triggered_follow_up_def
      consume_triggered_followup_def)

lemma non_object_payload_raises_witness:
  "handle_call_message plain_conn_env [PInt 2, PStr ''m9'', PStr ''Heartbeat'', PList []] ''raw'' (plain_conn []) =
     (Inl AttributeError, plain_conn [])"
  by (rule non_object_payload_raises) (simp_all add: is_dict_def)

subsection \<open>Background forwarding\<close>

datatype conn_step =
    ResultFrame string pyval "string option"
  | ErrorFrame string pyval pyval pyval "string option"
  | TaskEnds nat

fun run_conn_step :: "('c, 't, 'r) conn_env \<Rightarrow> conn_step \<Rightarrow> ('c, 't, 'r) conn \<Rightarrow> ('c, 't, 'r) conn" where
  "run_conn_step env (ResultFrame mid p raw) c = snd (handle_call_result env mid p raw c)"
| "run_conn_step env (ErrorFrame mid e d x raw) c = snd (handle_call_error env mid e d x raw c)"
| "run_conn_step env (TaskEnds i) c = finish_task i c"

lemma forward_reply_bound:
  "length (cn_tasks c) \<le> 32 \<Longrightarrow> length (cn_tasks (dispatch_forward_reply m raw c)) \<le> 32"
proof -
  have "length (filter (\<lambda>t. \<not> ft_done t) (cn_tasks c)) \<le> length (cn_tasks c)"
    by (rule length_filter_le)
  then show "length (cn_tasks c) \<le> 32 \<Longrightarrow> length (cn_tasks (dispatch_forward_reply m raw c)) \<le> 32"
    by (auto simp: dispatch_forward_reply_def Let_def MAX_BACKGROUND_FORWARD_REPLY_TASKS_def simp del: length_filter_le)
qed

lemma pop_call_tasks: "pop_call env mid c = (md, c1) \<Longrightarrow> cn_tasks c1 = cn_tasks c"
  by (auto simp: pop_call_def split: prod.splits)

lemma record_on_tasks [simp]: "cn_tasks (record_on env mid co c) = cn_tasks c"
  by (simp add: record_on_def)

lemma run_conn_step_bound:
  assumes "length (cn_tasks c) \<le> 32"
  shows "length (cn_tasks (run_conn_step env stp c)) \<le> 32"
proof (cases stp)
  case (ResultFrame mid p raw)
  obtain md c1 where p: "pop_call env mid c = (md, c1)" by fastforce
  with assms pop_call_tasks [OF p] show ?thesis unfolding ResultFrame
    by (auto simp: handle_call_result_def Let_def forward_reply_bound
        split: option.split prod.split sum.split)
next
  case (ErrorFrame mid e d x raw)
  obtain md c1 where p: "pop_call env mid c = (md, c1)" by fastforce
  with assms pop_call_tasks [OF p] show ?thesis unfolding ErrorFrame
    by (auto simp: handle_call_error_def Let_def forward_reply_bound
        split: option.split prod.split)
next
  case (TaskEnds i)
  with assms show ?thesis by (simp add: finish_task_def)
qed

text \<open>
  However many replies arrive and whenever their forwarding ends, a connection never holds more
  than 32 background forwarding tasks.
\<close>

lemma background_forwarding_bounded:
  assumes "cn_tasks c = []"
  shows "length (cn_tasks (fold (run_conn_step env) steps c)) \<le> MAX_BACKGROUND_FORWARD_REPLY_TASKS"
proof -
  have "length (cn_tasks c) \<le> 32 \<Longrightarrow> length (cn_tasks (fold (run_conn_step env) steps c)) \<le> 32" for c
    by (induction steps arbitrary: c) (auto simp: run_conn_step_bound)
  then show ?thesis using assms by (simp add: MAX_BACKGROUND_FORWARD_REPLY_TASKS_def)
qed

lemma background_forwarding_bounded_witness:
  "length (cn_tasks (fold (run_conn_step plain_conn_env) [ResultFrame ''m1'' PNone (Some ''raw''), TaskEnds 0]
     (plain_conn [(''m1'', [(''action'', PStr ''Reset'')])]))) \<le> 32"
  using background_forwarding_bounded [of "plain_conn [(''m1'', [(''action'', PStr ''Reset'')])]" plain_conn_env
      "[ResultFrame ''m1'' PNone (Some ''raw''), TaskEnds 0]"]
  by (simp add: MAX_BACKGROUND_FORWARD_REPLY_TASKS_def plain_conn_def)

end
