(* ===== verification/Sha256.thy ===== *)
theory Sha256
  imports PyValues "HOL-Library.Word"
begin

text \<open>
  \<open>hashlib.sha256(text.encode("utf-8")).hexdigest()\<close>, which the alert code uses to shorten keys and
  messages: the UTF-8 bytes of a text, the padding, the message schedule and the compression on
  32-bit words, and the digest as hexadecimal digits.
\<close>

unbundle bit_operations_syntax

type_synonym word32 = "32 word"

subsection \<open>Bytes\<close>

text \<open>A code point below 128 is one byte of UTF-8, the others of Latin-1 are two.\<close>

definition utf8_bytes :: "string \<Rightarrow> nat list" where
  "utf8_bytes s = concat (map (\<lambda>c. let n = code c in if n < 128 then [n] else [192 + n div 64, 128 + n mod 64]) s)"

definition be_bytes :: "nat \<Rightarrow> nat \<Rightarrow> nat list" where
  "be_bytes k n = map (\<lambda>i. n div 256 ^ i mod 256) (rev [0..<k])"

definition sha_pad :: "nat list \<Rightarrow> nat list" where
  "sha_pad bs =
     (let zeros = (119 - length bs mod 64) mod 64
      in bs @ [128] @ replicate zeros 0 @ be_bytes 8 (8 * length bs))"

fun words_of :: "nat list \<Rightarrow> word32 list" where
  "words_of (a # b # c # d # bs) =
     (word_of_nat (((a * 256 + b) * 256 + c) * 256 + d) :: word32) # words_of bs"
| "words_of _ = []"

subsection \<open>The compression function\<close>

text \<open>
  The constants are the first 32 bits of the fractional parts of roots of the first primes: cube roots
  for the rounds, square roots for the initial state. \<open>root_bits e n b 0\<close> finds the integer \<open>e\<close>-th root
  of \<open>n\<close> bit by bit from bit \<open>b - 1\<close> down; the roots of numbers below 400, scaled by \<open>2 ^ 32\<close>, have at most
  37 bits.
\<close>

fun root_bits :: "nat \<Rightarrow> nat \<Rightarrow> nat \<Rightarrow> nat \<Rightarrow> nat" where
  "root_bits e n 0 r = r"
| "root_bits e n (Suc b) r = root_bits e n b (if (r + 2 ^ b) ^ e \<le> n then r + 2 ^ b else r)"

definition root_fraction :: "nat \<Rightarrow> nat \<Rightarrow> word32" where
  "root_fraction e p = word_of_nat (root_bits e (p * 2 ^ (32 * e)) 37 0)"

definition primes_below :: "nat \<Rightarrow> nat list" where
  "primes_below n = filter (\<lambda>p. \<forall>d\<in>set [2..<p]. p mod d \<noteq> 0) [2..<n]"

definition sha_k :: "word32 list" where
  "sha_k = map (root_fraction 3) (primes_below 312)"

definition sha_init :: "word32 list" where
  "sha_init = map (root_fraction 2) [2, 3, 5, 7, 11, 13, 17, 19]"

definition rotr :: "nat \<Rightarrow> word32 \<Rightarrow> word32" where
  "rotr n x = (drop_bit n x OR push_bit (32 - n) x)"

definition schedule_word :: "word32 list \<Rightarrow> word32" where
  "schedule_word w =
     (let n = length w;
          x = w ! (n - 15); y = w ! (n - 2);
          s0 = rotr 7 x XOR rotr 18 x XOR drop_bit 3 x;
          s1 = rotr 17 y XOR rotr 19 y XOR drop_bit 10 y
      in w ! (n - 16) + s0 + w ! (n - 7) + s1)"

definition sha_schedule :: "word32 list \<Rightarrow> word32 list" where
  "sha_schedule block = ((\<lambda>w. w @ [schedule_word w]) ^^ 48) block"

fun sha_round :: "word32 list \<Rightarrow> word32 \<times> word32 \<Rightarrow> word32 list" where
  "sha_round [a, b, c, d, e, f, g, h] (k, w) =
     (let s1 = rotr 6 e XOR rotr 11 e XOR rotr 25 e;
          ch = (e AND f) XOR (NOT e AND g);
          t1 = h + s1 + ch + k + w;
          s0 = rotr 2 a XOR rotr 13 a XOR rotr 22 a;
          maj = (a AND b) XOR (a AND c) XOR (b AND c);
          t2 = s0 + maj
      in [t1 + t2, a, b, c, d + t1, e, f, g])"
| "sha_round st kw = st"

definition sha_block :: "word32 list \<Rightarrow> word32 list \<Rightarrow> word32 list" where
  "sha_block st block = map2 (+) st (fold (\<lambda>kw s. sha_round s kw) (zip sha_k (sha_schedule block)) st)"

function sha_blocks :: "word32 list \<Rightarrow> word32 list \<Rightarrow> word32 list" where
  "sha_blocks st ws = (if length ws < 16 then st else sha_blocks (sha_block st (take 16 ws)) (drop 16 ws))"
  by pat_completeness auto
termination
  by (relation "measure (\<lambda>(s, w). length w)") auto

declare sha_blocks.simps [simp del]

definition hex_digits :: "nat list \<Rightarrow> string" where
  "hex_digits bs = concat (map (\<lambda>b. [hex_digit (b div 16), hex_digit (b mod 16)]) bs)"

definition sha256_hex :: "string \<Rightarrow> string" where
  "sha256_hex s =
     hex_digits (concat (map (\<lambda>w. be_bytes 4 (unat w)) (sha_blocks sha_init (words_of (sha_pad (utf8_bytes s))))))"

subsection \<open>The length of a digest\<close>

lemma length_be_bytes [simp]: "length (be_bytes k n) = k"
  by (simp add: be_bytes_def)

lemma length_sha_round: "length st = 8 \<Longrightarrow> length (sha_round st kw) = 8"
  by (cases "(st, kw)" rule: sha_round.cases) (auto simp: Let_def)

lemma length_sha_rounds: "length st = 8 \<Longrightarrow> length (fold (\<lambda>kw s. sha_round s kw) kws st) = 8"
  by (induction kws arbitrary: st) (auto simp: length_sha_round)

lemma length_sha_blocks: "length st = 8 \<Longrightarrow> length (sha_blocks st ws) = 8"
proof (induction st ws rule: sha_blocks.induct)
  case (1 st ws)
  then show ?case
    by (simp add: sha_blocks.simps [of st ws] sha_block_def length_sha_rounds)
qed

lemma length_hex_digits: "length (hex_digits bs) = 2 * length bs"
  by (induction bs) (auto simp: hex_digits_def)

lemma length_sha256_hex [simp]: "length (sha256_hex s) = 64"
proof -
  have "sum_list (map length (map (\<lambda>w. be_bytes 4 (unat w)) ws)) = 4 * length ws" for ws :: "word32 list"
    by (induction ws) auto
  moreover have "length (sha_blocks sha_init (words_of (sha_pad (utf8_bytes s)))) = 8"
    by (rule length_sha_blocks) (simp add: sha_init_def)
  ultimately show ?thesis
    by (simp only: sha256_hex_def length_hex_digits length_concat)
qed

end
