(* ===== verification/SecurityAlerts.thy ===== *)
theory SecurityAlerts
  imports Sha256
begin

text \<open>
  Charger faults as security alerts: \<open>sync_charger_error_security_event\<close> with its helpers
  (\<open>apps/ocpp/consumers/csms/persistence.py\<close>) and the two operations of \<open>SecurityAlertEvent\<close>
  (\<open>apps/ops/models.py\<close>).  The table is unique in its key, so it is a dictionary.  Times are
  instants, one clock reading serves a whole call, and the link to the charger list is a constant of
  the deployment (\<open>link\<close>).
\<close>

subsection \<open>The table\<close>

record alert =
  al_severity :: string
  al_message :: string
  al_detail :: string
  al_count :: nat
  al_last :: int
  al_url :: string
  al_active :: bool

type_synonym alerts = "(string, alert) dict"

text \<open>
  \<open>_sanitize_remediation_url\<close>: a link with a scheme other than HTTP, or without one but with a host, is
  replaced.  The scheme is that of \<open>urlparse\<close>, which drops leading control characters and spaces, and
  tabs and line breaks anywhere.
\<close>

definition is_scheme_letter :: "char \<Rightarrow> bool" where
  "is_scheme_letter c = (let n = code c in (65 \<le> n \<and> n \<le> 90) \<or> (97 \<le> n \<and> n \<le> 122))"

definition url_scheme :: "string \<Rightarrow> string" where
  "url_scheme s =
     (case py_partition CHR '':'' (filter (\<lambda>c. code c \<notin> {9, 10, 13}) (dropWhile (\<lambda>c. code c \<le> 32) s)) of
        (_, None) \<Rightarrow> []
      | (a, Some _) \<Rightarrow>
          (if a \<noteq> [] \<and> is_scheme_letter (hd a) \<and>
              list_all (\<lambda>c. is_scheme_letter c \<or> is_ascii_digit c \<or> c \<in> set ''+-.'') a
           then py_lower a else []))"

definition sanitize_remediation_url :: "string \<Rightarrow> string" where
  "sanitize_remediation_url url =
     (let candidate = py_strip url; scheme = url_scheme candidate in
      if candidate = [] then ''/admin/''
      else if scheme = [] then (if py_startswith candidate ''//'' then ''/admin/'' else candidate)
      else if scheme \<in> {''http'', ''https''} then candidate
      else ''/admin/'')"

definition record_occurrence ::
  "string \<Rightarrow> string \<Rightarrow> string \<Rightarrow> string \<Rightarrow> string \<Rightarrow> int \<Rightarrow> alerts \<Rightarrow> alerts" where
  "record_occurrence key message detail severity url occurred_at t =
     (case dget t key of
        None \<Rightarrow> dset key \<lparr>al_severity = severity, al_message = message, al_detail = detail, al_count = 1,
                         al_last = occurred_at, al_url = sanitize_remediation_url url, al_active = True\<rparr> t
      | Some a \<Rightarrow> dset key (a\<lparr>al_severity := severity, al_message := message, al_detail := detail,
                              al_url := sanitize_remediation_url url, al_count := al_count a + 1,
                              al_last := max (al_last a) occurred_at, al_active := True\<rparr>) t)"

definition clear_occurrence :: "string \<Rightarrow> int option \<Rightarrow> alerts \<Rightarrow> alerts" where
  "clear_occurrence key occurred_at t =
     (case dget t key of
        None \<Rightarrow> t
      | Some a \<Rightarrow>
          (if al_active a
           then dset key (a\<lparr>al_active := False,
                            al_last := (case occurred_at of None \<Rightarrow> al_last a | Some x \<Rightarrow> max (al_last a) x)\<rparr>) t
           else t))"

subsection \<open>Keys and messages\<close>

definition connector_label :: "pyval \<Rightarrow> string" where
  "connector_label connector = (if connector = PNone then ''aggregate'' else py_str connector)"

definition security_event_key :: "string \<Rightarrow> pyval \<Rightarrow> string" where
  "security_event_key charger_id connector =
     (let label = connector_label connector;
          key = ''ocpp-charger-'' @ charger_id @ ''-'' @ label @ ''-error''
      in if length key \<le> 255 then key
         else ''ocpp-charger-'' @ take 40 (sha256_hex charger_id) @ ''-'' @ take 16 (sha256_hex label) @ ''-error'')"

definition SECURITY_ALERT_MESSAGE_MAX_LENGTH :: nat where
  "SECURITY_ALERT_MESSAGE_MAX_LENGTH = 255"

definition truncate_security_alert_message :: "string \<Rightarrow> string" where
  "truncate_security_alert_message message =
     (if length message \<le> SECURITY_ALERT_MESSAGE_MAX_LENGTH then message
      else let suffix = '' [sha256:'' @ take 12 (sha256_hex message) @ '']''
           in take (SECURITY_ALERT_MESSAGE_MAX_LENGTH - length suffix) message @ suffix)"

subsection \<open>A status report\<close>

definition is_error_report :: "string \<Rightarrow> string \<Rightarrow> bool" where
  "is_error_report status error_code =
     (py_casefold (py_strip status) = ''faulted'' \<or>
      (py_strip error_code \<noteq> [] \<and> py_casefold (py_strip error_code) \<noteq> ''noerror''))"

definition or_else :: "string \<Rightarrow> string \<Rightarrow> string" where
  "or_else s d = (if s \<noteq> [] then s else d)"

definition alert_detail :: "string \<Rightarrow> pyval \<Rightarrow> string \<Rightarrow> string \<Rightarrow> string" where
  "alert_detail charger_id connector status error_code =
     ''charger_id='' @ charger_id @ ''; connector='' @ connector_label connector @
     ''; status='' @ or_else (py_strip status) ''Unknown'' @
     ''; error_code='' @ or_else (py_strip error_code) ''None''"

definition alert_message :: "string \<Rightarrow> pyval \<Rightarrow> string \<Rightarrow> string" where
  "alert_message charger_id connector status =
     truncate_security_alert_message
       (''OCPP charger '' @ charger_id @ '' connector '' @ connector_label connector @
        '' reported '' @ or_else (py_strip status) ''Unknown'' @ ''.'')"

definition sync_charger_error_security_event ::
  "string \<Rightarrow> int \<Rightarrow> string \<Rightarrow> pyval \<Rightarrow> string \<Rightarrow> string \<Rightarrow> int option \<Rightarrow> alerts \<Rightarrow> alerts" where
  "sync_charger_error_security_event link now charger_id connector status error_code timestamp t =
     (let key = security_event_key charger_id connector;
          existing = dget t key;
          active = (case existing of None \<Rightarrow> False | Some a \<Rightarrow> al_active a)
      in if \<not> is_error_report status error_code
         then (if active then clear_occurrence key timestamp t else t)
         else let detail = alert_detail charger_id connector status error_code;
                  message = alert_message charger_id connector status;
                  event_timestamp = (case timestamp of None \<Rightarrow> now | Some x \<Rightarrow> x)
              in case existing of
                   None \<Rightarrow> record_occurrence key message detail ''error'' link event_timestamp t
                 | Some a \<Rightarrow>
                     (if al_active a \<and> al_last a = event_timestamp
                      then dset key (a\<lparr>al_severity := ''error'', al_message := message, al_detail := detail,
                                       al_url := or_else (al_url a) ''/admin/ocpp/charger/''\<rparr>) t
                      else if \<not> al_active a \<and> event_timestamp < al_last a then t
                      else record_occurrence key message detail ''error'' link event_timestamp t))"

subsection \<open>Columns\<close>

text \<open>
  Keys and messages fit their columns of 255 characters, however long the charger's serial, the
  connector it names and the status it reports are.
\<close>

lemma alert_texts_fit_columns:
  "length (security_event_key charger_id connector) \<le> 255 \<and>
   length (alert_message charger_id connector status) \<le> 255"
proof -
  have "length (truncate_security_alert_message m) \<le> 255" for m
    by (cases "length m \<le> 255")
      (simp_all add: truncate_security_alert_message_def SECURITY_ALERT_MESSAGE_MAX_LENGTH_def)
  then show ?thesis by (simp add: security_event_key_def Let_def alert_message_def)
qed

subsection \<open>Histories of reports\<close>

record report =
  rp_charger :: string
  rp_connector :: pyval
  rp_status :: string
  rp_code :: string
  rp_time :: int

definition rp_key :: "report \<Rightarrow> string" where
  "rp_key r = security_event_key (rp_charger r) (rp_connector r)"

definition rp_error :: "report \<Rightarrow> bool" where
  "rp_error r = is_error_report (rp_status r) (rp_code r)"

definition apply_report :: "string \<Rightarrow> int \<Rightarrow> report \<Rightarrow> alerts \<Rightarrow> alerts" where
  "apply_report link now r =
     sync_charger_error_security_event link now (rp_charger r) (rp_connector r) (rp_status r) (rp_code r)
       (Some (rp_time r))"

definition alarm :: "string \<Rightarrow> alerts \<Rightarrow> bool" where
  "alarm k t = (case dget t k of None \<Rightarrow> False | Some a \<Rightarrow> al_active a)"

lemmas report_defs = apply_report_def sync_charger_error_security_event_def rp_key_def rp_error_def

lemma apply_report_other: "rp_key r \<noteq> k \<Longrightarrow> dget (apply_report link now r t) k = dget t k"
  by (auto simp: report_defs Let_def record_occurrence_def clear_occurrence_def split: option.split)

lemma apply_report_quiet:
  "rp_key r = k \<Longrightarrow> \<not> rp_error r \<Longrightarrow> dget (apply_report link now r t) k =
     map_option (\<lambda>a. if al_active a then a\<lparr>al_active := False, al_last := max (al_last a) (rp_time r)\<rparr> else a) (dget t k)"
  by (auto simp: report_defs Let_def clear_occurrence_def split: option.split)

lemma apply_report_fault:
  assumes "rp_key r = k" "rp_error r"
  shows "\<exists>a'. dget (apply_report link now r t) k = Some a' \<and>
    (case dget t k of
       None \<Rightarrow> al_active a' \<and> al_last a' = rp_time r
     | Some a \<Rightarrow>
         (if \<not> al_active a \<and> rp_time r < al_last a then a' = a
          else al_active a' \<and> al_last a' = max (al_last a) (rp_time r)))"
  using assms
  by (auto simp: report_defs Let_def record_occurrence_def split: option.split)

lemma history_other:
  "\<forall>r \<in> set rs. rp_key r \<noteq> k \<Longrightarrow> dget (fold (apply_report link now) rs t) k = dget t k"
  by (induction rs arbitrary: t) (auto simp: apply_report_other)

definition tracks :: "string \<Rightarrow> report list \<Rightarrow> alerts \<Rightarrow> bool" where
  "tracks k seen t =
     (case dget t k of
        None \<Rightarrow> \<forall>r \<in> set seen. \<not> rp_error r
      | Some a \<Rightarrow> seen \<noteq> [] \<and> (al_active a \<longleftrightarrow> rp_error (last seen)) \<and> al_last a \<le> rp_time (last seen))"

lemma tracks_bound: "tracks k seen t \<Longrightarrow> dget t k = Some a \<Longrightarrow>
    \<forall>q \<in> set seen. rp_time q \<le> x \<Longrightarrow> al_last a \<le> x"
  by (auto simp: tracks_def intro: order_trans dest: last_in_set)

lemma tracks_step:
  assumes t: "tracks k seen t" and r: "rp_key r = k" and later: "\<forall>q \<in> set seen. rp_time q \<le> rp_time r"
  shows "tracks k (seen @ [r]) (apply_report link now r t)"
proof (cases "rp_error r")
  case False
  then show ?thesis
    using t r tracks_bound [OF t _ later] apply_report_quiet [OF r False, of link now t]
    by (cases "dget t k") (auto simp: tracks_def)
next
  case True
  obtain a' where a': "dget (apply_report link now r t) k = Some a'"
    and c: "case dget t k of None \<Rightarrow> al_active a' \<and> al_last a' = rp_time r
      | Some a \<Rightarrow> (if \<not> al_active a \<and> rp_time r < al_last a then a' = a
                 else al_active a' \<and> al_last a' = max (al_last a) (rp_time r))"
    using apply_report_fault [OF r True, of link now t] by blast
  show ?thesis
  proof (cases "dget t k")
    case None
    then show ?thesis using a' c True by (simp add: tracks_def)
  next
    case (Some a)
    then show ?thesis using tracks_bound [OF t Some later] a' c True by (simp add: tracks_def)
  qed
qed

lemma tracks_history:
  "dget t k = None \<Longrightarrow> sorted_wrt (\<lambda>q r. rp_time q \<le> rp_time r) (filter (\<lambda>r. rp_key r = k) rs) \<Longrightarrow>
     tracks k (filter (\<lambda>r. rp_key r = k) rs) (fold (apply_report link now) rs t)"
proof (induction rs rule: rev_induct)
  case Nil
  then show ?case by (simp add: tracks_def)
next
  case (snoc r rs)
  then show ?case
    by (cases "rp_key r = k")
      (auto simp: sorted_wrt_append apply_report_other intro!: tracks_step, simp add: tracks_def apply_report_other)
qed

text \<open>
  C25: as long as the reports of one charger and connector arrive in the order of their times, its
  alert is active exactly when the last of them was a fault, whatever other chargers report in
  between.
\<close>

theorem alert_tracks_last_report:
  assumes "dget t k = None"
    and "sorted_wrt (\<lambda>q r. rp_time q \<le> rp_time r) (filter (\<lambda>r. rp_key r = k) rs)"
  shows "alarm k (fold (apply_report link now) rs t) \<longleftrightarrow>
    (filter (\<lambda>r. rp_key r = k) rs \<noteq> [] \<and> rp_error (last (filter (\<lambda>r. rp_key r = k) rs)))"
proof -
  let ?seen = "filter (\<lambda>r. rp_key r = k) rs"
  have tr: "tracks k ?seen (fold (apply_report link now) rs t)" by (rule tracks_history [OF assms])
  show ?thesis
  proof (cases "dget (fold (apply_report link now) rs t) k")
    case None
    then have "\<forall>r \<in> set ?seen. \<not> rp_error r" using tr by (simp only: tracks_def option.case)
    then have "?seen \<noteq> [] \<Longrightarrow> \<not> rp_error (last ?seen)" using last_in_set by blast
    then show ?thesis using None by (auto simp: alarm_def)
  next
    case (Some a)
    then show ?thesis using tr by (auto simp only: tracks_def alarm_def option.case)
  qed
qed

definition demo_fault :: "int \<Rightarrow> report" where
  "demo_fault t = \<lparr>rp_charger = ''CP'', rp_connector = PInt 1, rp_status = ''Faulted'', rp_code = ''GroundFailure'', rp_time = t\<rparr>"

definition demo_recovery :: "int \<Rightarrow> report" where
  "demo_recovery t = \<lparr>rp_charger = ''CP'', rp_connector = PInt 1, rp_status = ''Available'', rp_code = ''NoError'', rp_time = t\<rparr>"

lemma demo_reports [simp]:
  "rp_key (demo_fault t) = security_event_key ''CP'' (PInt 1)" "rp_key (demo_recovery t) = security_event_key ''CP'' (PInt 1)"
  "rp_time (demo_fault t) = t" "rp_time (demo_recovery t) = t"
  "rp_error (demo_fault t)" "\<not> rp_error (demo_recovery t)"
proof -
  have "is_error_report ''Faulted'' ''GroundFailure''" "\<not> is_error_report ''Available'' ''NoError''"
    by code_simp+
  then show "rp_error (demo_fault t)" "\<not> rp_error (demo_recovery t)"
    by (simp_all add: rp_error_def demo_fault_def demo_recovery_def)
qed (simp_all add: rp_key_def demo_fault_def demo_recovery_def)

theorem alert_tracks_last_report_witness:
  "alarm (security_event_key ''CP'' (PInt 1)) (fold (apply_report [] 0) [demo_fault 5, demo_recovery 7, demo_fault 7] [])"
  using alert_tracks_last_report [of "[]" "security_event_key ''CP'' (PInt 1)" "[demo_fault 5, demo_recovery 7, demo_fault 7]" "[]" 0]
  by simp

text \<open>
  A cleared alert is immune to faults from before it was cleared: replayed reports that are older
  than its last change leave its row as it is, in any number and between any reports of others.
\<close>

lemma stale_reports_never_reopen:
  assumes "dget t k = Some a" "\<not> al_active a"
    and "\<forall>r \<in> set rs. rp_key r = k \<longrightarrow> rp_time r < al_last a"
  shows "dget (fold (apply_report link now) rs t) k = Some a"
  using assms(1,3)
proof (induction rs arbitrary: t)
  case (Cons r rs)
  have "dget (apply_report link now r t) k = Some a"
  proof (cases "rp_key r = k")
    case True
    then show ?thesis
      using Cons.prems assms(2) apply_report_quiet [of r k link now t] apply_report_fault [of r k link now t]
      by (cases "rp_error r") auto
  qed (simp add: apply_report_other Cons.prems)
  then show ?case using Cons by simp
qed simp

lemma stale_reports_never_reopen_witness:
  "\<exists>a. dget (fold (apply_report [] 0) [demo_fault 5, demo_recovery 7] []) (security_event_key ''CP'' (PInt 1)) = Some a \<and>
     dget (fold (apply_report [] 0) [demo_fault 6, demo_fault 5]
       (fold (apply_report [] 0) [demo_fault 5, demo_recovery 7] [])) (security_event_key ''CP'' (PInt 1)) = Some a"
proof -
  let ?k = "security_event_key ''CP'' (PInt 1)" and ?t = "apply_report [] 0 (demo_fault 5) []"
  obtain a where a: "dget ?t ?k = Some a" "al_active a" "al_last a = 5"
    using apply_report_fault [of "demo_fault 5" ?k "[]" 0 "[]"] by auto
  have b: "dget (apply_report [] 0 (demo_recovery 7) ?t) ?k = Some (a\<lparr>al_active := False, al_last := 7\<rparr>)"
    using apply_report_quiet [of "demo_recovery 7" ?k "[]" 0 ?t] a by simp
  then show ?thesis
    using stale_reports_never_reopen [OF b, of "[demo_fault 6, demo_fault 5]" "[]" 0] by simp
qed

lemma report_monotone:
  assumes "dget t k = Some a"
  shows "\<exists>a'. dget (apply_report link now r t) k = Some a' \<and> al_last a \<le> al_last a' \<and> al_count a \<le> al_count a'"
  using assms
  by (auto simp: report_defs Let_def record_occurrence_def clear_occurrence_def split: option.split)

text \<open>
  Alerts are never lost and their history only grows: in every sequence of reports an alert's row
  stays, and neither the time of its last change nor its number of occurrences decreases.
\<close>

lemma alert_history_grows:
  assumes "dget t k = Some a"
  shows "\<exists>a'. dget (fold (apply_report link now) rs t) k = Some a' \<and>
    al_last a \<le> al_last a' \<and> al_count a \<le> al_count a'"
  using assms
proof (induction rs arbitrary: t a)
  case (Cons r rs)
  from report_monotone [OF Cons.prems, of link now r] obtain b where
    b: "dget (apply_report link now r t) k = Some b" "al_last a \<le> al_last b" "al_count a \<le> al_count b" by blast
  from Cons.IH [OF b(1)] b(2,3) show ?case by fastforce
qed simp

text \<open>
  Recoveries are not checked for their age: a recovery that is older than the fault clears the
  alert although the charger's latest word is the fault.
\<close>

lemma late_recovery_clears_newer_fault:
  assumes "dget t (rp_key f) = None" "rp_error f" "\<not> rp_error q" "rp_key q = rp_key f" "rp_time q < rp_time f"
  shows "alarm (rp_key f) (apply_report link now f t) \<and>
    \<not> alarm (rp_key f) (fold (apply_report link now) [f, q] t)"
proof -
  from apply_report_fault [OF refl assms(2), of link now t] assms(1) obtain a where
    a: "dget (apply_report link now f t) (rp_key f) = Some a" "al_active a" by auto
  moreover have "\<not> alarm (rp_key f) (apply_report link now q (apply_report link now f t))"
    using apply_report_quiet [OF assms(4,3), of link now "apply_report link now f t"] a
    by (simp add: alarm_def)
  ultimately show ?thesis by (simp add: alarm_def)
qed

lemma late_recovery_clears_newer_fault_witness:
  "alarm (rp_key (demo_fault 9)) (apply_report [] 0 (demo_fault 9) []) \<and>
   \<not> alarm (rp_key (demo_fault 9)) (fold (apply_report [] 0) [demo_fault 9, demo_recovery 4] [])"
  by (rule late_recovery_clears_newer_fault) simp_all

subsection \<open>One key per connector\<close>

lemma append_sep_inj:
  assumes "c \<notin> set l" "c \<notin> set l'" "s @ c # l = s' @ c # l'"
  shows "s = s' \<and> l = l'"
proof -
  have cut: "takeWhile (\<lambda>x. x \<noteq> c) (rev (s @ c # l)) = rev l" if "c \<notin> set l" for s l
    using that by (simp add: takeWhile_append takeWhile_tail)
  have "rev l = rev l'" using cut [OF assms(1), of s] cut [OF assms(2), of s'] assms(3) by simp
  then show ?thesis using assms(3) by simp
qed

definition plain_connector :: "pyval \<Rightarrow> bool" where
  "plain_connector v = (v = PNone \<or> (\<exists>i \<ge> 0. v = PInt i))"

lemma plain_label: "plain_connector v \<Longrightarrow> CHR ''-'' \<notin> set (connector_label v)"
  using nat_str_digits sign_not_digit
  by (auto simp: plain_connector_def connector_label_def int_str_def list_all_iff)

lemma label_nat: "0 \<le> i \<Longrightarrow> connector_label (PInt i) = nat_str i"
  by (simp add: connector_label_def int_str_def)

lemma nat_str_not_aggregate: "0 \<le> i \<Longrightarrow> nat_str i \<noteq> ''aggregate''"
proof
  assume "0 \<le> i" "nat_str i = ''aggregate''"
  moreover have "\<not> is_ascii_digit CHR ''a''" by (simp add: is_ascii_digit_def code_def Let_def)
  ultimately show False using nat_str_digits [of i] by simp
qed

lemma plain_label_inj:
  assumes "plain_connector v" "plain_connector w" "connector_label v = connector_label w"
  shows "v = w"
proof -
  have none: "connector_label PNone = ''aggregate''" by (simp add: connector_label_def)
  have inj: "i = j" if "0 \<le> i" "0 \<le> j" "nat_str i = nat_str j" for i j
    using that int_str_inj [of i j] by (simp add: int_str_def)
  show ?thesis
    using assms nat_str_not_aggregate
    by (auto simp: plain_connector_def label_nat none dest: inj) metis
qed

text \<open>
  Two chargers or connectors never share an alert while their keys are short enough to be written
  out: the key determines the serial and the connector, whatever characters the serial has.
\<close>

lemma alert_keys_separate:
  assumes "plain_connector v" "plain_connector w"
    and "length (''ocpp-charger-'' @ c @ ''-'' @ connector_label v @ ''-error'') \<le> 255"
    and "length (''ocpp-charger-'' @ d @ ''-'' @ connector_label w @ ''-error'') \<le> 255"
  shows "security_event_key c v = security_event_key d w \<longleftrightarrow> c = d \<and> v = w"
proof
  assume eq: "security_event_key c v = security_event_key d w"
  have "security_event_key c v = ''ocpp-charger-'' @ c @ ''-'' @ connector_label v @ ''-error''"
    "security_event_key d w = ''ocpp-charger-'' @ d @ ''-'' @ connector_label w @ ''-error''"
    by (simp_all only: security_event_key_def Let_def assms(3,4) if_True)
  with eq have "c @ ''-'' @ connector_label v @ ''-error'' = d @ ''-'' @ connector_label w @ ''-error''"
    by (simp only: same_append_eq)
  then have "(c @ ''-'' @ connector_label v) @ ''-error'' = (d @ ''-'' @ connector_label w) @ ''-error''"
    by (simp only: append_assoc)
  then have "c @ ''-'' @ connector_label v = d @ ''-'' @ connector_label w"
    by (simp only: append_same_eq)
  then have "c @ CHR ''-'' # connector_label v = d @ CHR ''-'' # connector_label w"
    by (simp only: append_Cons append_Nil)
  then have "c = d \<and> connector_label v = connector_label w"
    by (rule append_sep_inj [OF plain_label [OF assms(1)] plain_label [OF assms(2)]])
  then show "c = d \<and> v = w" using plain_label_inj [OF assms(1,2)] by blast
qed simp

end
