(* ===== verification/SessionLog.thy ===== *)
theory SessionLog
  imports HandlerWorld
begin

text \<open>
  Log buffers, log names and session files: the writing half of \<open>apps/ocpp/store/logs.py\<close>.  Files
  are texts under paths relative to the log directory.  Opening a file for writing or creating a
  folder may fail with \<open>OSError\<close>; the environment says which paths are affected.  A clock reading is
  an argument, already formatted.  The lock file of \<open>start_session_lock\<close> is one flag; the task that
  touches it again every minute changes nothing else.
\<close>

subsection \<open>State\<close>

datatype log_type = ChargerLog | SimulatorLog

datatype os_error = OSError

record session =
  se_transaction :: int
  se_path :: string
  se_buffer :: "string list"
  se_first :: bool

record log_state =
  ls_logs :: "log_type \<Rightarrow> (string, string list) dict"
  ls_names :: "log_type \<Rightarrow> (string, string) dict"
  ls_history :: "(string, session) dict"
  ls_files :: "(string, string) dict"
  ls_lock :: bool

record disk_env =
  de_writable :: "string \<Rightarrow> bool"
  de_folder :: "string \<Rightarrow> bool"

definition init_logs :: log_state where
  "init_logs = \<lparr>ls_logs = (\<lambda>_. []), ls_names = (\<lambda>_. []), ls_history = [], ls_files = [], ls_lock = False\<rparr>"

definition MAX_IN_MEMORY_LOG_ENTRIES :: nat where "MAX_IN_MEMORY_LOG_ENTRIES = 1000"
definition SESSION_LOG_BUFFER_LIMIT :: nat where "SESSION_LOG_BUFFER_LIMIT = 16"

definition file_text :: "string \<Rightarrow> (string, string) dict \<Rightarrow> string" where
  "file_text path fs = (case dget fs path of None \<Rightarrow> [] | Some t \<Rightarrow> t)"

definition append_file :: "string \<Rightarrow> string \<Rightarrow> (string, string) dict \<Rightarrow> (string, string) dict" where
  "append_file path t fs = dset path (file_text path fs @ t) fs"

subsection \<open>Names and paths\<close>

definition word_char :: "char \<Rightarrow> bool" where
  "word_char c =
     (let n = code c in (48 \<le> n \<and> n \<le> 57) \<or> (65 \<le> n \<and> n \<le> 90) \<or> n = 95 \<or> (97 \<le> n \<and> n \<le> 122) \<or>
        n \<in> {170, 178, 179, 181, 185, 186, 188, 189, 190} \<or> (192 \<le> n \<and> n \<noteq> 215 \<and> n \<noteq> 247))"

definition safe_name :: "string \<Rightarrow> string" where
  "safe_name = map (\<lambda>c. if word_char c \<or> c = CHR ''.'' \<or> c = CHR ''-'' then c else CHR ''_'')"

definition same_key :: "string \<Rightarrow> string \<Rightarrow> bool" where
  "same_key a b = (py_lower a = py_lower b)"

definition register_log_name :: "string \<Rightarrow> string \<Rightarrow> log_type \<Rightarrow> log_state \<Rightarrow> log_state" where
  "register_log_name cid name t s =
     (let names = ls_names s t;
          key = (case filter (\<lambda>k. same_key k cid) (dkeys names) of [] \<Rightarrow> cid | k # _ \<Rightarrow> k)
      in s\<lparr>ls_names := (ls_names s)(t := dset key name names)\<rparr>)"

definition before_separator :: "string \<Rightarrow> string" where
  "before_separator cid = takeWhile (\<lambda>c. c \<noteq> CHR ''#'') cid"

definition charger_log_basename :: "string \<Rightarrow> string" where
  "charger_log_basename cid = safe_name (before_separator cid)"

definition log_type_name :: "log_type \<Rightarrow> string" where
  "log_type_name t = (case t of ChargerLog \<Rightarrow> ''charger'' | SimulatorLog \<Rightarrow> ''simulator'')"

definition name_of :: "string \<Rightarrow> log_type \<Rightarrow> log_state \<Rightarrow> string" where
  "name_of cid t s = (case dget (ls_names s t) cid of None \<Rightarrow> cid | Some n \<Rightarrow> n)"

definition log_file_path :: "string \<Rightarrow> log_type \<Rightarrow> log_state \<Rightarrow> string" where
  "log_file_path cid t s =
     log_type_name t @ ''.'' @
     (if t = ChargerLog then charger_log_basename cid else safe_name (name_of cid t s)) @ ''.log''"

definition session_folder :: "string \<Rightarrow> log_state \<Rightarrow> string" where
  "session_folder cid s = ''sessions/'' @ safe_name (name_of cid ChargerLog s)"

definition session_path :: "string \<Rightarrow> string \<Rightarrow> int \<Rightarrow> log_state \<Rightarrow> string" where
  "session_path cid date tx_id s = session_folder cid s @ ''/'' @ date @ ''_'' @ int_str tx_id @ ''.json''"

subsection \<open>Log lines\<close>

definition append_memory_log :: "string \<Rightarrow> string \<Rightarrow> log_type \<Rightarrow> log_state \<Rightarrow> string \<times> log_state" where
  "append_memory_log cid entry t s =
     (let buffers = ls_logs s t;
          key = (case filter (\<lambda>k. same_key k cid) (dkeys buffers) of [] \<Rightarrow> cid | k # _ \<Rightarrow> k);
          buffer = (case dget buffers key of None \<Rightarrow> [] | Some b \<Rightarrow> b)
      in (key, s\<lparr>ls_logs := (ls_logs s)(t :=
                   dset key (push_bounded MAX_IN_MEMORY_LOG_ENTRIES entry buffer) buffers)\<rparr>))"

definition write_log_file ::
  "disk_env \<Rightarrow> string \<Rightarrow> string \<Rightarrow> log_type \<Rightarrow> log_state \<Rightarrow> os_error option \<times> log_state" where
  "write_log_file env cid entry t s =
     (let path = log_file_path cid t s
      in if de_writable env path
         then (None, s\<lparr>ls_files := append_file path (entry @ [char_of (10 :: nat)]) (ls_files s)\<rparr>)
         else (Some OSError, s))"

definition add_log_line ::
  "disk_env \<Rightarrow> string \<Rightarrow> string \<Rightarrow> string \<Rightarrow> log_type \<Rightarrow> log_state \<Rightarrow> os_error option \<times> log_state" where
  "add_log_line env timestamp cid entry t s =
     (let line = timestamp @ '' '' @ entry
      in case append_memory_log cid line t s of (key, s1) \<Rightarrow> write_log_file env key line t s1)"

subsection \<open>Sessions\<close>

fun flush_text :: "bool \<Rightarrow> string list \<Rightarrow> string" where
  "flush_text first [] = []"
| "flush_text first (raw # raws) =
     (if first then [] else '','') @ [char_of (10 :: nat)] @ ''  '' @ raw @ flush_text False raws"

definition flush_session_buffer ::
  "disk_env \<Rightarrow> session \<Rightarrow> (string, string) dict \<Rightarrow> os_error option \<times> session \<times> (string, string) dict" where
  "flush_session_buffer env sess fs =
     (if se_buffer sess = [] then (None, sess, fs)
      else if \<not> de_writable env (se_path sess) then (Some OSError, sess, fs)
      else (None, sess\<lparr>se_buffer := [], se_first := False\<rparr>,
            append_file (se_path sess) (flush_text (se_first sess) (se_buffer sess)) fs))"

definition finalize_session ::
  "disk_env \<Rightarrow> session \<Rightarrow> (string, string) dict \<Rightarrow> os_error option \<times> (string, string) dict" where
  "finalize_session env sess fs =
     (case flush_session_buffer env sess fs of
        (Some e, sess1, fs1) \<Rightarrow> (Some e, fs1)
      | (None, sess1, fs1) \<Rightarrow>
          (if de_writable env (se_path sess1)
           then (None, append_file (se_path sess1)
                  ((if se_first sess1 then [] else [char_of (10 :: nat)]) @ '']'' @ [char_of (10 :: nat)]) fs1)
           else (Some OSError, fs1)))"

definition start_session_log ::
  "disk_env \<Rightarrow> string \<Rightarrow> string \<Rightarrow> int \<Rightarrow> log_state \<Rightarrow> os_error option \<times> log_state" where
  "start_session_log env date cid tx_id s =
     (let s1 = (case dget (ls_history s) cid of
                  None \<Rightarrow> s
                | Some existing \<Rightarrow>
                    s\<lparr>ls_history := ddel cid (ls_history s),
                      ls_files := snd (finalize_session env existing (ls_files s))\<rparr>);
          folder = session_folder cid s1;
          path = session_path cid date tx_id s1
      in if \<not> de_folder env folder then (Some OSError, s1)
         else let s2 = s1\<lparr>ls_history := dset cid \<lparr>se_transaction = tx_id, se_path = path, se_buffer = [],
                              se_first = True\<rparr> (ls_history s1)\<rparr>
              in if de_writable env path then (None, s2\<lparr>ls_files := dset path ''['' (ls_files s2)\<rparr>)
                 else (Some OSError, s2))"

definition json_nullable :: "string option \<Rightarrow> string" where
  "json_nullable v = (case v of None \<Rightarrow> ''null'' | Some t \<Rightarrow> json_string t)"

definition session_payload :: "string \<Rightarrow> string option \<Rightarrow> string" where
  "session_payload timestamp message =
     ''{'' @ json_string ''timestamp'' @ '': '' @ json_string timestamp @ '', '' @
     json_string ''message'' @ '': '' @ json_nullable message @ ''}''"

definition add_session_message ::
  "disk_env \<Rightarrow> string \<Rightarrow> string \<Rightarrow> string option \<Rightarrow> log_state \<Rightarrow> os_error option \<times> log_state" where
  "add_session_message env timestamp cid message s =
     (case dget (ls_history s) cid of
        None \<Rightarrow> (None, s)
      | Some sess \<Rightarrow>
          (let sess1 = sess\<lparr>se_buffer := se_buffer sess @ [session_payload timestamp message]\<rparr>
           in if length (se_buffer sess1) \<ge> SESSION_LOG_BUFFER_LIMIT
              then (case flush_session_buffer env sess1 (ls_files s) of
                      (e, sess2, fs) \<Rightarrow>
                        (e, s\<lparr>ls_history := dset cid sess2 (ls_history s), ls_files := fs\<rparr>))
              else (None, s\<lparr>ls_history := dset cid sess1 (ls_history s)\<rparr>)))"

definition end_session_log :: "disk_env \<Rightarrow> string \<Rightarrow> log_state \<Rightarrow> os_error option \<times> log_state" where
  "end_session_log env cid s =
     (case dget (ls_history s) cid of
        None \<Rightarrow> (None, s)
      | Some sess \<Rightarrow>
          (case finalize_session env sess (ls_files s) of
             (e, fs) \<Rightarrow> (e, s\<lparr>ls_history := ddel cid (ls_history s), ls_files := fs\<rparr>)))"

definition start_session_lock :: "log_state \<Rightarrow> log_state" where
  "start_session_lock s = s\<lparr>ls_lock := True\<rparr>"

definition stop_session_lock :: "log_state \<Rightarrow> log_state" where
  "stop_session_lock s = s\<lparr>ls_lock := False\<rparr>"

subsection \<open>GetLog captures\<close>

definition start_log_capture ::
  "disk_env \<Rightarrow> string \<Rightarrow> string \<Rightarrow> pyval \<Rightarrow> int \<Rightarrow> string option \<Rightarrow> log_state \<Rightarrow>
     (os_error + string) \<times> log_state" where
  "start_log_capture env date serial connector request_id name s =
     (let base_key = identity_key serial connector;
          capture_key = base_key @ ''-log-'' @ int_str request_id;
          label = (case name of
                     Some n \<Rightarrow> (if n \<noteq> [] then n else name_of base_key ChargerLog s @ ''-log-'' @ int_str request_id)
                   | None \<Rightarrow> name_of base_key ChargerLog s @ ''-log-'' @ int_str request_id)
      in case start_session_log env date capture_key request_id
                (register_log_name capture_key label ChargerLog s) of
           (None, s1) \<Rightarrow> (Inr capture_key, s1)
         | (Some e, s1) \<Rightarrow> (Inl e, s1))"

definition append_log_capture ::
  "disk_env \<Rightarrow> string \<Rightarrow> string \<Rightarrow> string option \<Rightarrow> log_state \<Rightarrow> os_error option \<times> log_state" where
  "append_log_capture env timestamp capture_key message s = add_session_message env timestamp capture_key message s"

definition finalize_log_capture :: "disk_env \<Rightarrow> string \<Rightarrow> log_state \<Rightarrow> os_error option \<times> log_state" where
  "finalize_log_capture env capture_key s = end_session_log env capture_key s"

end
