(* ===== verification/AuthPolicy.thy ===== *)
theory AuthPolicy
  imports ChargerIdentity
begin

text \<open>
  Who may charge: \<open>RfidMixin._evaluate_authorization_policy\<close> and the side effects of its decision
  (\<open>apps/ocpp/consumers/base/rfid.py\<close>), with \<open>CustomerAccount.can_authorize\<close>
  (\<open>apps/energy/models/billing.py\<close>).  Feature flags are parameters.  Account amounts are decimal
  columns; only the sign of the purchasable energy is used, which decimal rounding of the quotient
  does not change within the column widths.
\<close>

subsection \<open>Accounts and tags\<close>

record account =
  ac_pk :: int
  ac_service_account :: bool
  ac_balance_kw :: rat
  ac_balance_mxn :: rat
  ac_tariff_price :: "rat option option"

definition potential_purchase_kw :: "account \<Rightarrow> rat" where
  "potential_purchase_kw a =
     (case ac_tariff_price a of
        None \<Rightarrow> 0
      | Some None \<Rightarrow> 0
      | Some (Some price) \<Rightarrow>
          (if price \<le> 0 then 0 else if ac_balance_mxn a \<le> 0 then 0 else ac_balance_mxn a / price))"

definition can_authorize :: "account \<Rightarrow> bool" where
  "can_authorize a =
     (if ac_service_account a then True
      else if ac_balance_kw a > 0 then True
      else potential_purchase_kw a > 0)"

record tag =
  tg_rfid :: string
  tg_allowed :: bool
  tg_released :: bool
  tg_discovered_via_ocpp :: bool
  tg_last_seen_on :: pyval

subsection \<open>The decision\<close>

datatype auth_status = AuthAccepted | AuthInvalid

record decision =
  ad_status :: auth_status
  ad_reason :: string
  ad_policy :: string
  ad_should_mark_seen :: bool
  ad_should_auto_enroll :: bool
  ad_log_unlinked_rfid :: bool

definition decide :: "auth_status \<Rightarrow> string \<Rightarrow> string \<Rightarrow> bool \<Rightarrow> bool \<Rightarrow> bool \<Rightarrow> decision" where
  "decide status reason policy seen enroll unlinked =
     \<lparr>ad_status = status, ad_reason = reason, ad_policy = policy, ad_should_mark_seen = seen,
      ad_should_auto_enroll = enroll, ad_log_unlinked_rfid = unlinked\<rparr>"

record auth_flags =
  af_policy :: string
  af_fallback :: bool
  af_energy_accounts :: bool
  af_credits_required :: bool

definition evaluate_authorization_policy ::
  "auth_flags \<Rightarrow> string \<Rightarrow> account option \<Rightarrow> tag option \<Rightarrow> bool \<Rightarrow> decision" where
  "evaluate_authorization_policy f id_tag account tag tag_created =
     (let policy = af_policy f; seen = (id_tag \<noteq> []) in
      if policy = ''open''
      then decide AuthAccepted ''open_policy_insecure_compatibility_mode'' policy seen seen False
      else case account of
        Some a \<Rightarrow>
          (if af_energy_accounts f \<and> \<not> af_credits_required f
           then decide AuthAccepted ''account_authorized_credits_not_required'' policy seen False False
           else if can_authorize a
             then decide AuthAccepted ''account_authorized'' policy seen False False
           else decide AuthInvalid ''account_not_authorized'' policy seen False False)
      | None \<Rightarrow>
          (if af_energy_accounts f
           then decide AuthInvalid ''account_required_by_feature'' policy seen False False
           else if policy = ''allowlist''
             then (case tag of
                     Some t \<Rightarrow>
                       (if id_tag \<noteq> [] \<and> \<not> tag_created \<and> tg_allowed t
                        then decide AuthAccepted ''allowlist_tag_authorized'' policy True False True
                        else decide AuthInvalid ''allowlist_tag_not_authorized'' policy seen False False)
                   | None \<Rightarrow> decide AuthInvalid ''allowlist_tag_not_authorized'' policy seen False False)
           else (case tag of
                   Some t \<Rightarrow>
                     (if af_fallback f \<and> policy = ''strict'' \<and> id_tag \<noteq> [] \<and> \<not> tag_created \<and>
                         tg_allowed t \<and> tg_released t
                      then decide AuthAccepted ''rfid_fallback_account_authorized'' policy True True True
                      else decide AuthInvalid ''strict_account_required'' policy seen False False)
                 | None \<Rightarrow> decide AuthInvalid ''strict_account_required'' policy seen False False)))"

subsection \<open>Side effects\<close>

text \<open>\<open>scan\<close> is \<open>RFID.register_scan\<close>, used when no tag row is at hand.\<close>

definition ensure_rfid_seen ::
  "(string \<Rightarrow> tag \<times> bool) \<Rightarrow> pyval \<Rightarrow> string \<Rightarrow> tag option \<Rightarrow> bool \<Rightarrow> bool \<Rightarrow> tag option" where
  "ensure_rfid_seen scan now id_tag tag tag_created auto_enroll =
     (if id_tag = [] then None
      else let (current, created) = (case tag of Some t \<Rightarrow> (t, tag_created) | None \<Rightarrow> scan (py_upper id_tag));
               t1 = current\<lparr>tg_last_seen_on := now\<rparr>;
               t2 = (if auto_enroll \<and> \<not> tg_allowed t1 then t1\<lparr>tg_allowed := True\<rparr> else t1);
               t3 = (if auto_enroll \<and> \<not> tg_released t2 then t2\<lparr>tg_released := True\<rparr> else t2);
               t4 = (if auto_enroll \<and> created \<and> \<not> tg_discovered_via_ocpp t3
                     then t3\<lparr>tg_discovered_via_ocpp := True\<rparr> else t3)
           in Some t4)"

text \<open>
  \<open>fallback\<close> is the fallback account, which is a service account once it has been resolved.  The
  last component tells whether the tag was attached to it.
\<close>

definition resolve_fallback_account :: "account \<Rightarrow> account" where
  "resolve_fallback_account a = (if ac_service_account a then a else a\<lparr>ac_service_account := True\<rparr>)"

definition bind_fallback_account_for_decision ::
  "account \<Rightarrow> decision \<Rightarrow> tag option \<Rightarrow> account option \<Rightarrow> account option \<times> bool" where
  "bind_fallback_account_for_decision fallback d tag account =
     (if ad_reason d = ''rfid_fallback_account_authorized'' \<and> tag \<noteq> None
      then (Some (resolve_fallback_account fallback), True)
      else (account, False))"

definition apply_rfid_authorization_side_effects ::
  "(string \<Rightarrow> tag \<times> bool) \<Rightarrow> account \<Rightarrow> pyval \<Rightarrow> string \<Rightarrow> decision \<Rightarrow> tag option \<Rightarrow> bool \<Rightarrow>
     account option \<Rightarrow> tag option \<times> account option \<times> bool" where
  "apply_rfid_authorization_side_effects scan fallback now id_tag d tag tag_created account =
     (let tag' = (if id_tag \<noteq> [] \<and> ad_should_mark_seen d
                  then (case ensure_rfid_seen scan now id_tag tag tag_created (ad_should_auto_enroll d) of
                          Some t \<Rightarrow> Some t | None \<Rightarrow> tag)
                  else tag)
      in (tag', bind_fallback_account_for_decision fallback d tag' account))"

subsection \<open>Properties\<close>

text \<open>The rule the code implements, in one formula.\<close>

definition may_charge :: "auth_flags \<Rightarrow> string \<Rightarrow> account option \<Rightarrow> tag option \<Rightarrow> bool \<Rightarrow> bool" where
  "may_charge f id_tag account tag tag_created =
     (af_policy f = ''open'' \<or>
      (\<exists>a. account = Some a \<and> (can_authorize a \<or> (af_energy_accounts f \<and> \<not> af_credits_required f))) \<or>
      (account = None \<and> \<not> af_energy_accounts f \<and> id_tag \<noteq> [] \<and> \<not> tag_created \<and>
       (\<exists>t. tag = Some t \<and> tg_allowed t \<and>
          (af_policy f = ''allowlist'' \<or> (af_policy f = ''strict'' \<and> af_fallback f \<and> tg_released t)))))"

lemma decision_accepted_iff:
  "ad_status (evaluate_authorization_policy f id_tag account tag tag_created) = AuthAccepted \<longleftrightarrow>
     may_charge f id_tag account tag tag_created"
  by (auto simp: evaluate_authorization_policy_def may_charge_def decide_def Let_def split: option.split)

text \<open>
  Authorization is accepted exactly under the stated rule; the decision names the policy it was
  taken under, marks the tag as seen exactly when a tag was presented, and enrols it only under
  the open policy or for the fallback account.
\<close>

lemma authorization_decision_rule:
  "let d = evaluate_authorization_policy f id_tag account tag tag_created
   in (ad_status d = AuthAccepted \<longleftrightarrow> may_charge f id_tag account tag tag_created) \<and>
      ad_policy d = af_policy f \<and> (ad_should_mark_seen d \<longleftrightarrow> id_tag \<noteq> []) \<and>
      (ad_should_auto_enroll d \<longrightarrow> af_policy f = ''open'' \<or> ad_reason d = ''rfid_fallback_account_authorized'')"
  by (auto simp: evaluate_authorization_policy_def may_charge_def decide_def Let_def
      split: option.split)

lemma authorization_decision_rule_witness:
  "ad_status (evaluate_authorization_policy \<lparr>af_policy = ''strict'', af_fallback = False,
      af_energy_accounts = False, af_credits_required = False\<rparr> ''ABCD'' None None False) = AuthInvalid"
  using authorization_decision_rule [of "\<lparr>af_policy = ''strict'', af_fallback = False,
      af_energy_accounts = False, af_credits_required = False\<rparr>" "''ABCD''" None None False]
  by (cases "ad_status (evaluate_authorization_policy \<lparr>af_policy = ''strict'', af_fallback = False,
      af_energy_accounts = False, af_credits_required = False\<rparr> ''ABCD'' None None False)")
    (simp_all add: may_charge_def Let_def)

text \<open>
  Presenting a blocked tag never unblocks it, unless the charger runs the open policy; and an
  account is attached to a tag only when the decision accepted it and no account was linked.
\<close>

lemma blocked_tag_stays_blocked:
  assumes "af_policy f \<noteq> ''open''" and "\<not> tg_allowed t"
    and d: "d = evaluate_authorization_policy f id_tag account (Some t) tag_created"
  shows "case apply_rfid_authorization_side_effects scan fallback now id_tag d (Some t) tag_created account of
      (tag', account', bound) \<Rightarrow>
        (\<exists>t'. tag' = Some t' \<and> \<not> tg_allowed t' \<and> tg_released t' = tg_released t) \<and> account' = account \<and> \<not> bound"
proof -
  have "\<not> ad_should_auto_enroll d" "ad_reason d \<noteq> ''rfid_fallback_account_authorized''"
    using assms by (auto simp: evaluate_authorization_policy_def decide_def Let_def split: option.splits)
  then show ?thesis using assms(2)
    by (auto simp: apply_rfid_authorization_side_effects_def ensure_rfid_seen_def Let_def
        bind_fallback_account_for_decision_def)
qed

lemma blocked_tag_stays_blocked_witness:
  "snd (snd (apply_rfid_authorization_side_effects (\<lambda>c. (undefined, True)) \<lparr>ac_pk = 1, ac_service_account = True,
      ac_balance_kw = 0, ac_balance_mxn = 0, ac_tariff_price = None\<rparr> PNone ''AB''
     (evaluate_authorization_policy \<lparr>af_policy = ''strict'', af_fallback = True, af_energy_accounts = False,
      af_credits_required = False\<rparr> ''AB'' None (Some \<lparr>tg_rfid = ''AB'', tg_allowed = False, tg_released = True,
        tg_discovered_via_ocpp = False, tg_last_seen_on = PNone\<rparr>) False)
     (Some \<lparr>tg_rfid = ''AB'', tg_allowed = False, tg_released = True,
        tg_discovered_via_ocpp = False, tg_last_seen_on = PNone\<rparr>) False None)) = False"
  using blocked_tag_stays_blocked [of "\<lparr>af_policy = ''strict'', af_fallback = True, af_energy_accounts = False,
      af_credits_required = False\<rparr>" "\<lparr>tg_rfid = ''AB'', tg_allowed = False, tg_released = True,
        tg_discovered_via_ocpp = False, tg_last_seen_on = PNone\<rparr>" _ "''AB''" None False
      "\<lambda>c. (undefined, True)" "\<lparr>ac_pk = 1, ac_service_account = True,
      ac_balance_kw = 0, ac_balance_mxn = 0, ac_tariff_price = None\<rparr>" PNone, OF _ _ refl]
  by (simp add: case_prod_beta)

text \<open>
  An account can authorize exactly when it is a service account, holds energy credit, or has
  money and a tariff with a positive price to buy some.
\<close>

lemma can_authorize_iff:
  "can_authorize a \<longleftrightarrow> ac_service_account a \<or> ac_balance_kw a > 0 \<or>
     (ac_balance_mxn a > 0 \<and> (\<exists>price. ac_tariff_price a = Some (Some price) \<and> price > 0))"
  by (auto simp: can_authorize_def potential_purchase_kw_def split: option.splits)

end
