(* ===== verification/ConnectorAssign.thy ===== *)
theory ConnectorAssign
  imports SessionLog AuthPolicy
begin

text \<open>
  Which charger row and which store key a connection speaks for: \<open>CSMSConsumer._assign_connector\<close>
  (\<open>apps/ocpp/consumers/csms/consumer.py\<close>), called with the connector named by every CALL, and
  \<open>_register_log_names_for_identity\<close> (\<open>apps/ocpp/consumers/base/identity.py\<close>).  Model objects the
  consumer holds are identified with their rows.  What leaves the process (consumption messages,
  header references, node refresh, meter rows) is recorded as effects.
\<close>

subsection \<open>The consumer\<close>

datatype tx_effect =
    StartConsumption int
  | UpdateConsumption int
  | CancelConsumption
  | MeterEntries pyval "int option" int
  | RefreshManagerNode pyval
  | ConsoleReference
  | CloseConsumer nat
  | SaveTag tag
  | BindTag tag
  | CloseSelf "nat option"
  | AcceptSelf "string option"
  | SyncForwarded
  | KeepForwarder
  | ClearForwarder

record 'r tx_conn =
  tc_store :: "(nat, int, 'r) ocpp_store"
  tc_logs :: log_state
  tc_db :: db
  tc_self :: nat
  tc_charger_id :: string
  tc_store_key :: string
  tc_connector :: "int option"
  tc_charger :: "pyval option"
  tc_aggregate :: "pyval option"
  tc_station :: "pyval option"
  tc_path :: pyval
  tc_client_ip :: string
  tc_header_ref :: bool
  tc_effects :: "tx_effect list"

definition effect :: "tx_effect \<Rightarrow> 'r tx_conn \<Rightarrow> 'r tx_conn" where
  "effect e c = c\<lparr>tc_effects := tc_effects c @ [e]\<rparr>"

definition on_state :: "((nat, int, 'r) store_state \<Rightarrow> (nat, int, 'r) store_state) \<Rightarrow> 'r tx_conn \<Rightarrow> 'r tx_conn" where
  "on_state f c = c\<lparr>tc_store := (tc_store c)\<lparr>st := f (st (tc_store c))\<rparr>\<rparr>"

definition on_logs :: "(log_state \<Rightarrow> log_state) \<Rightarrow> 'r tx_conn \<Rightarrow> 'r tx_conn" where
  "on_logs f c = c\<lparr>tc_logs := f (tc_logs c)\<rparr>"

definition on_db :: "(db \<Rightarrow> db) \<Rightarrow> 'r tx_conn \<Rightarrow> 'r tx_conn" where
  "on_db f c = c\<lparr>tc_db := f (tc_db c)\<rparr>"

definition log_line :: "string \<Rightarrow> string \<Rightarrow> 'r tx_conn \<Rightarrow> 'r tx_conn" where
  "log_line key entry c =
     c\<lparr>tc_store := (tc_store c)\<lparr>log_lines := log_lines (tc_store c) @ [(PStr key, entry, ''charger'')]\<rparr>\<rparr>"

definition active_tx :: "string \<Rightarrow> 'r tx_conn \<Rightarrow> int option" where
  "active_tx key c = dget (transactions (st (tc_store c))) key"

subsection \<open>Log names\<close>

definition register_log_names_for_identity ::
  "string \<Rightarrow> int option \<Rightarrow> string \<Rightarrow> log_state \<Rightarrow> log_state" where
  "register_log_names_for_identity charger_id connector_id display_name s =
     (if charger_id = [] then s
      else let friendly = (if display_name \<noteq> [] then display_name else charger_id);
               s1 = register_log_name (identity_key charger_id (opt_int connector_id)) friendly ChargerLog s
           in if connector_id = None
              then register_log_name charger_id friendly ChargerLog
                     (register_log_name (pending_key charger_id) friendly ChargerLog s1)
              else s1)"

subsection \<open>Moving to another key\<close>

text \<open>\<open>store.reassign_identity\<close> on all tables, the session and log tables included.\<close>

definition move_identity :: "string \<Rightarrow> string \<Rightarrow> 'r tx_conn \<Rightarrow> 'r tx_conn" where
  "move_identity old_key new_key c =
     (if old_key = new_key \<or> old_key = [] then c
      else on_logs (\<lambda>s. s\<lparr>ls_history := rename_key old_key new_key (ls_history s),
                          ls_logs := (\<lambda>t. rename_key old_key new_key (ls_logs s t)),
                          ls_names := (\<lambda>t. rename_key old_key new_key (ls_names s t))\<rparr>)
             (on_state (\<lambda>s. fst (snd (reassign_identity old_key new_key (s, [] :: (string, unit) dict list)))) c))"

definition take_key :: "string \<Rightarrow> 'r tx_conn \<Rightarrow> 'r tx_conn" where
  "take_key new_key c =
     (if tc_store_key c = new_key then c
      else let c1 = (case dget (connections (st (tc_store c))) new_key of
                       None \<Rightarrow> c
                     | Some other \<Rightarrow> (if other \<noteq> tc_self c then effect (CloseConsumer other) c else c));
               c2 = move_identity (tc_store_key c) new_key c1;
               c3 = on_state (\<lambda>s. s\<lparr>connections := dset new_key (tc_self c2) (connections s)\<rparr>) c2
           in on_logs (\<lambda>s. s\<lparr>ls_logs := (ls_logs s)(ChargerLog := setdefault new_key [] (ls_logs s ChargerLog))\<rparr>) c3)"

subsection \<open>Rows\<close>

definition charger_field :: "pyval option \<Rightarrow> string \<Rightarrow> 'r tx_conn \<Rightarrow> pyval" where
  "charger_field pk field c =
     (case pk of None \<Rightarrow> PNone
      | Some k \<Rightarrow> (case db_get ''Charger'' k (tc_db c) of None \<Rightarrow> PNone | Some row \<Rightarrow> jget row field))"

definition find_charger :: "pyval \<Rightarrow> 'r tx_conn \<Rightarrow> pyval option" where
  "find_charger connector_id c =
     db_first ''Charger'' (has_fields [(''charger_id'', PStr (tc_charger_id c)), (''connector_id'', connector_id)]) (tc_db c)"

definition ensure_station :: "'r tx_conn \<Rightarrow> 'r tx_conn" where
  "ensure_station c =
     (case tc_station c of
        Some _ \<Rightarrow> c
      | None \<Rightarrow>
          (case db_get_or_create ''ChargingStation'' [(''station_id'', PStr (tc_charger_id c))]
                  [(''last_path'', tc_path c)] (tc_db c) of
             (pk, _, d) \<Rightarrow> c\<lparr>tc_station := Some pk, tc_db := d\<rparr>))"

definition opt_pk :: "pyval option \<Rightarrow> pyval" where
  "opt_pk v = (case v of None \<Rightarrow> PNone | Some k \<Rightarrow> k)"

definition name_or_id :: "pyval option \<Rightarrow> 'r tx_conn \<Rightarrow> string" where
  "name_or_id pk c = py_str (por (charger_field pk ''name'' c) (charger_field pk ''charger_id'' c))"

subsection \<open>The assignment\<close>

definition parse_connector :: "pyval \<Rightarrow> pyexn + int option option" where
  "parse_connector connector =
     (if connector = PNone \<or> connector = PStr [] \<or> connector = PStr ''-'' then Inr (Some None)
      else case py_int connector of
             Inr i \<Rightarrow> Inr (Some (if i = 0 then None else Some i))
           | Inl OverflowError \<Rightarrow> Inl OverflowError
           | Inl _ \<Rightarrow> Inr None)"

definition assign_aggregate :: "'r tx_conn \<Rightarrow> 'r tx_conn" where
  "assign_aggregate c =
     (let c1 = ensure_station c;
          aggregate = find_charger PNone c1;
          c2 = c1\<lparr>tc_aggregate := aggregate, tc_charger := aggregate\<rparr>;
          new_key = identity_key (tc_charger_id c2) PNone;
          c3 = on_logs (register_log_names_for_identity (tc_charger_id c2) None (tc_charger_id c2)) (take_key new_key c2);
          c4 = c3\<lparr>tc_store_key := new_key, tc_connector := None\<rparr>
      in if \<not> tc_header_ref c4 \<and> tc_client_ip c4 \<noteq> []
         then effect ConsoleReference c4\<lparr>tc_header_ref := True\<rparr> else c4)"

definition select_connector_row :: "int \<Rightarrow> 'r tx_conn \<Rightarrow> 'r tx_conn" where
  "select_connector_row i c =
     (case find_charger (PInt i) c of
        Some pk \<Rightarrow>
          (let c1 = c\<lparr>tc_charger := Some pk\<rparr>;
               c2 = (if tc_station c1 \<noteq> None \<and> charger_field (Some pk) ''charging_station'' c1 \<noteq> opt_pk (tc_station c1)
                     then on_db (db_save ''Charger'' pk [(''charging_station'', opt_pk (tc_station c1))]) c1 else c1)
           in effect (RefreshManagerNode pk) c2)
      | None \<Rightarrow>
          (case db_create ''Charger'' [(''charger_id'', PStr (tc_charger_id c)), (''connector_id'', PInt i),
                  (''last_path'', tc_path c), (''charging_station'', opt_pk (tc_station c))] (tc_db c) of
             (pk, d) \<Rightarrow> effect (RefreshManagerNode pk) (c\<lparr>tc_charger := Some pk, tc_db := d\<rparr>)))"

definition assign_connector_value :: "int \<Rightarrow> 'r tx_conn \<Rightarrow> 'r tx_conn" where
  "assign_connector_value i c =
     (if tc_charger c \<noteq> None \<and> tc_connector c = Some i \<and> charger_field (tc_charger c) ''connector_id'' c = PInt i
      then c
      else let c1 = select_connector_row i (ensure_station c);
               new_key = identity_key (tc_charger_id c1) (PInt i);
               c2 = take_key new_key c1;
               aggregate_name = (if tc_aggregate c2 \<noteq> None then name_or_id (tc_aggregate c2) c2 else []);
               c3 = on_logs (register_log_names_for_identity (tc_charger_id c2) (Some i) (name_or_id (tc_charger c2) c2)) c2;
               c4 = on_logs (register_log_names_for_identity (tc_charger_id c2) None
                      (if aggregate_name \<noteq> [] then aggregate_name else tc_charger_id c2)) c3
           in c4\<lparr>tc_store_key := new_key, tc_connector := Some i\<rparr>)"

definition assign_connector :: "pyval \<Rightarrow> 'r tx_conn \<Rightarrow> (pyexn + unit) \<times> 'r tx_conn" where
  "assign_connector connector c =
     (case parse_connector connector of
        Inl e \<Rightarrow> (Inl e, c)
      | Inr None \<Rightarrow> (Inr (), c)
      | Inr (Some None) \<Rightarrow> (Inr (), assign_aggregate c)
      | Inr (Some (Some i)) \<Rightarrow> (Inr (), assign_connector_value i c))"

end
