(* ===== verification/TxEvents.thy ===== *)
theory TxEvents
  imports ConnectorAssign
begin

text \<open>
  Charging sessions: \<open>LegacyTransactionHandlersMixin\<close> of
  \<open>apps/ocpp/consumers/base/legacy_transactions.py\<close> (StartTransaction and StopTransaction of OCPP 1.6,
  TransactionEvent of OCPP 2.x), \<open>_ensure_ocpp_transaction_identifier\<close>, and the session reset when a
  connector becomes available (\<open>csms/handlers/availability.py\<close>).  The RFID registry, the customer
  account of a tag, the feature flags with the charger's resolved policy, and the time parser, which raises
  on a date that does not exist, are
  the environment of a call.  A transaction object is its row, and session files can be written.
  Meter samples and consumption messages are effects.
\<close>

subsection \<open>Environment and results\<close>

datatype tx_error = IntegrityError | PyError pyexn

record tx_env =
  te_now :: pyval
  te_parse_timestamp :: "pyval \<Rightarrow> pyexn + pyval"
  te_date :: string
  te_stamp :: string
  te_scan :: "string \<Rightarrow> tag \<times> bool"
  te_account :: "string \<Rightarrow> account option"
  te_flags :: auth_flags
  te_fallback :: account

type_synonym 'r tx_result = "(tx_error + obj) \<times> 'r tx_conn"

definition sound_disk :: disk_env where
  "sound_disk = \<lparr>de_writable = (\<lambda>_. True), de_folder = (\<lambda>_. True)\<rparr>"

definition extract_vehicle_identifier :: "obj \<Rightarrow> string \<times> string" where
  "extract_vehicle_identifier payload =
     (let read = (\<lambda>v. if v \<noteq> PNone then py_strip (py_str v) else []);
          vid = read (jget payload ''vid''); vin = read (jget payload ''vin'')
      in (if vid = [] \<and> vin \<noteq> [] then vin else vid, vin))"

subsection \<open>Rows\<close>

definition tx_row :: "int \<Rightarrow> 'r tx_conn \<Rightarrow> obj" where
  "tx_row pk c = (case db_get ''Transaction'' (PInt pk) (tc_db c) of None \<Rightarrow> [] | Some row \<Rightarrow> row)"

definition save_tx :: "int \<Rightarrow> obj \<Rightarrow> 'r tx_conn \<Rightarrow> 'r tx_conn" where
  "save_tx pk cols c = on_db (db_save ''Transaction'' (PInt pk) cols) c"

definition pk_int :: "pyval \<Rightarrow> int" where
  "pk_int v = (case v of PInt i \<Rightarrow> i | _ \<Rightarrow> 0)"

definition create_tx :: "obj \<Rightarrow> 'r tx_conn \<Rightarrow> int \<times> 'r tx_conn" where
  "create_tx cols c =
     (case db_create ''Transaction'' cols (tc_db c) of (pk, d) \<Rightarrow> (pk_int pk, c\<lparr>tc_db := d\<rparr>))"

text \<open>\<open>create(pk=...)\<close> forces an insert.\<close>

definition create_tx_with_pk :: "int \<Rightarrow> obj \<Rightarrow> 'r tx_conn \<Rightarrow> (tx_error + int) \<times> 'r tx_conn" where
  "create_tx_with_pk pk cols c =
     (if db_get ''Transaction'' (PInt pk) (tc_db c) \<noteq> None then (Inl IntegrityError, c)
      else (Inr pk, on_db (dset (''Transaction'', PInt pk) cols) c))"

definition tx_by_pk :: "int \<Rightarrow> 'r tx_conn \<Rightarrow> int option" where
  "tx_by_pk pk c =
     (case db_get ''Transaction'' (PInt pk) (tc_db c) of
        None \<Rightarrow> None
      | Some row \<Rightarrow> (if jget row ''charger'' = opt_pk (tc_charger c) then Some pk else None))"

definition get_by_ocpp_id :: "string \<Rightarrow> 'r tx_conn \<Rightarrow> int option" where
  "get_by_ocpp_id ocpp_id c =
     (if ocpp_id = [] then None
      else map_option pk_int
        (db_first ''Transaction''
          (has_fields [(''charger'', opt_pk (tc_charger c)), (''ocpp_transaction_id'', PStr ocpp_id)]) (tc_db c)))"

definition ensure_ocpp_transaction_identifier :: "int \<Rightarrow> string option \<Rightarrow> 'r tx_conn \<Rightarrow> 'r tx_conn" where
  "ensure_ocpp_transaction_identifier pk ocpp_id c =
     (let normalized = (case ocpp_id of None \<Rightarrow> [] | Some s \<Rightarrow> py_strip s);
          current = jget (tx_row pk c) ''ocpp_transaction_id''
      in if normalized \<noteq> [] \<and> current \<noteq> PStr normalized
         then save_tx pk [(''ocpp_transaction_id'', PStr normalized)] c
         else if truthy current then c
         else save_tx pk [(''ocpp_transaction_id'', PStr (int_str pk))] c)"

subsection \<open>Shared steps\<close>

definition file_tx :: "int \<Rightarrow> 'r tx_conn \<Rightarrow> 'r tx_conn" where
  "file_tx pk c = on_state (\<lambda>s. s\<lparr>transactions := dset (tc_store_key c) pk (transactions s)\<rparr>) c"

definition take_tx :: "'r tx_conn \<Rightarrow> int option \<times> 'r tx_conn" where
  "take_tx c =
     (active_tx (tc_store_key c) c,
      on_state (\<lambda>s. s\<lparr>transactions := ddel (tc_store_key c) (transactions s)\<rparr>) c)"

definition open_session :: "tx_env \<Rightarrow> int \<Rightarrow> bool \<Rightarrow> string option \<Rightarrow> 'r tx_conn \<Rightarrow> 'r tx_conn" where
  "open_session env pk lock text_data c =
     on_logs (\<lambda>s0.
       let s1 = snd (start_session_log sound_disk (te_date env) (tc_store_key c) pk s0);
           s2 = (if lock then start_session_lock s1 else s1)
       in snd (add_session_message sound_disk (te_stamp env) (tc_store_key c) text_data s2)) c"

definition close_session :: "'r tx_conn \<Rightarrow> 'r tx_conn" where
  "close_session c =
     on_logs (\<lambda>s. stop_session_lock (snd (end_session_log sound_disk (tc_store_key c) s))) c"

definition log_unlinked_rfid :: "string \<Rightarrow> string \<Rightarrow> string \<Rightarrow> 'r tx_conn \<Rightarrow> 'r tx_conn" where
  "log_unlinked_rfid rfid reason policy c =
     (let masked = (if length rfid > 4
                    then replicate (length rfid - 4) CHR ''*'' @ drop (length rfid - 4) rfid else ''****'');
          message = ''Authorized RFID '' @ masked @ '' on charger '' @ tc_charger_id c @
            '' without linked customer account (policy='' @ policy @ '', reason='' @ reason @ '')''
      in c\<lparr>tc_store := (tc_store c)\<lparr>log_lines := log_lines (tc_store c) @
            [(PStr (pending_key (tc_charger_id c)), message, ''charger'')]\<rparr>\<rparr>)"

text \<open>
  The attempt names the charger's row.  Without one the code raises here; the handlers that call it have
  then raised before, so this definition is only used on connections that have a charger.\<close>

definition record_rfid_attempt ::
  "string \<Rightarrow> string \<Rightarrow> account option \<Rightarrow> int option \<Rightarrow> decision \<Rightarrow> 'r tx_conn \<Rightarrow> 'r tx_conn" where
  "record_rfid_attempt rfid status account transaction d c =
     (let normalized = py_upper (py_strip rfid)
      in if normalized = [] then c
         else on_db (\<lambda>db. snd (db_create ''RFIDAttempt''
           [(''rfid'', PStr normalized), (''status'', PStr status),
            (''authenticated'', PBool (status = ''accepted'')), (''source'', PStr ''ocpp''),
            (''payload'', PDict [(''authorization_policy'', PStr (ad_policy d)),
               (''authorization_reason'', PStr (ad_reason d)), (''rfid'', PStr normalized)]),
            (''charger'', opt_pk (tc_charger c)),
            (''account'', case account of None \<Rightarrow> PNone | Some a \<Rightarrow> PInt (ac_pk a)),
            (''transaction'', opt_int transaction)] db)) c)"

definition authorize ::
  "tx_env \<Rightarrow> string \<Rightarrow> 'r tx_conn \<Rightarrow> decision \<times> tag option \<times> account option \<times> 'r tx_conn" where
  "authorize env id_tag c =
     (let (tag, created) = (if id_tag = [] then (None, False)
                            else case te_scan env id_tag of (t, b) \<Rightarrow> (Some t, b));
          account = (if id_tag = [] then None else te_account env id_tag);
          d = evaluate_authorization_policy (te_flags env) id_tag account tag created;
          (tag', account', bound) = apply_rfid_authorization_side_effects (te_scan env) (te_fallback env)
            (te_now env) id_tag d tag created account;
          c1 = (if id_tag \<noteq> [] \<and> ad_should_mark_seen d
                then (case tag' of None \<Rightarrow> c | Some t \<Rightarrow> effect (SaveTag t) c) else c);
          c2 = (if bound then (case tag' of None \<Rightarrow> c1 | Some t \<Rightarrow> effect (BindTag t) c1) else c1)
      in (d, tag', account', c2))"

definition warn_unlinked :: "decision \<Rightarrow> tag option \<Rightarrow> account option \<Rightarrow> 'r tx_conn \<Rightarrow> 'r tx_conn" where
  "warn_unlinked d tag account c =
     (case tag of
        None \<Rightarrow> c
      | Some t \<Rightarrow>
          (if ad_log_unlinked_rfid d \<and> account = None
           then log_unlinked_rfid (tg_rfid t) (ad_reason d) (ad_policy d) c else c))"

definition account_pk :: "account option \<Rightarrow> pyval" where
  "account_pk a = (case a of None \<Rightarrow> PNone | Some x \<Rightarrow> PInt (ac_pk x))"

definition token_info :: "string \<Rightarrow> decision \<Rightarrow> pyval" where
  "token_info status d =
     PDict [(''status'', PStr status), (''authorizationPolicy'', PStr (ad_policy d)), (''reason'', PStr (ad_reason d))]"

subsection \<open>StartTransaction\<close>

definition add_message :: "tx_env \<Rightarrow> string option \<Rightarrow> 'r tx_conn \<Rightarrow> 'r tx_conn" where
  "add_message env text_data c =
     on_logs (\<lambda>s. snd (add_session_message sound_disk (te_stamp env) (tc_store_key c) text_data s)) c"

definition begin_tx ::
  "tx_env \<Rightarrow> int \<Rightarrow> string option \<Rightarrow> string option \<Rightarrow> 'r tx_conn \<Rightarrow> 'r tx_conn" where
  "begin_tx env pk ocpp_id text_data c =
     effect (StartConsumption pk)
       (open_session env pk True text_data (file_tx pk (ensure_ocpp_transaction_identifier pk ocpp_id c)))"

definition rejected_row ::
  "tx_env \<Rightarrow> string \<Rightarrow> account option \<Rightarrow> decision \<Rightarrow> pyval \<Rightarrow> pyval \<Rightarrow> obj \<Rightarrow> 'r tx_conn \<Rightarrow> obj" where
  "rejected_row env id_tag account d connector start extra c =
     [(''charger'', opt_pk (tc_charger c)), (''account'', account_pk account), (''rfid'', PStr id_tag),
      (''connector_id'', connector), (''start_time'', start), (''received_start_time'', te_now env),
      (''authorization_status'', PStr ''rejected''), (''authorization_reason'', PStr (ad_reason d)),
      (''rejected_at'', te_now env)] @ extra"

definition accepted_row :: "tx_env \<Rightarrow> string \<Rightarrow> account option \<Rightarrow> obj \<Rightarrow> pyval \<Rightarrow> 'r tx_conn \<Rightarrow> obj" where
  "accepted_row env id_tag account payload stamp c =
     (case extract_vehicle_identifier payload of (vid, vin) \<Rightarrow>
        [(''charger'', opt_pk (tc_charger c)), (''account'', account_pk account),
         (''rfid'', PStr id_tag), (''vid'', PStr vid), (''vin'', PStr vin),
         (''connector_id'', jget payload ''connectorId''), (''meter_start'', jget payload ''meterStart''),
         (''start_time'', por stamp (te_now env)),
         (''received_start_time'', te_now env), (''authorization_status'', PStr ''accepted'')])"

definition start_authorized ::
  "tx_env \<Rightarrow> obj \<Rightarrow> string \<Rightarrow> string option \<Rightarrow> 'r tx_conn \<Rightarrow> 'r tx_result" where
  "start_authorized env payload id_tag text_data c =
     (case authorize env id_tag c of
        (d, tag, account, c1) \<Rightarrow>
          (case assign_connector (jget payload ''connectorId'') c1 of
             (Inl e, c2) \<Rightarrow> (Inl (PyError e), c2)
           | (Inr _, c2) \<Rightarrow>
               (if ad_status d = AuthAccepted
                then let c3 = warn_unlinked d tag account c2
                     in (case te_parse_timestamp env (jget payload ''timestamp'') of
                           Inl e \<Rightarrow> (Inl (PyError e), c3)
                         | Inr stamp \<Rightarrow>
                             (let (pk, c4) = create_tx (accepted_row env id_tag account payload stamp c3) c3;
                                  c5 = begin_tx env pk None text_data c4
                              in (Inr [(''transactionId'', PInt pk), (''idTagInfo'', token_info ''Accepted'' d)],
                                  record_rfid_attempt id_tag ''accepted'' account (Some pk) d c5)))
                else let c3 = snd (create_tx
                           (rejected_row env id_tag account d (jget payload ''connectorId'') (te_now env) [] c2) c2)
                     in (Inr [(''idTagInfo'', token_info ''Invalid'' d)],
                         record_rfid_attempt id_tag ''rejected'' account None d c3))))"

definition handle_start_transaction :: "tx_env \<Rightarrow> obj \<Rightarrow> string option \<Rightarrow> 'r tx_conn \<Rightarrow> 'r tx_result" where
  "handle_start_transaction env payload text_data c =
     (case (if \<not> truthy (jget payload ''idTag'') then Some []
            else case jget payload ''idTag'' of PStr s \<Rightarrow> Some s | _ \<Rightarrow> None) of
        None \<Rightarrow> (Inl (PyError AttributeError), c)
      | Some id_tag \<Rightarrow>
          (if tc_charger c = None then (Inl (PyError AttributeError), c)
           else start_authorized env payload id_tag text_data c))"

subsection \<open>StopTransaction\<close>

definition vehicle_cols :: "obj \<Rightarrow> obj" where
  "vehicle_cols payload =
     (case extract_vehicle_identifier payload of (vid, vin) \<Rightarrow>
        (if vid \<noteq> [] then [(''vid'', PStr vid)] else []) @ (if vin \<noteq> [] then [(''vin'', PStr vin)] else []))"

definition stop_cols :: "pyval \<Rightarrow> string \<Rightarrow> obj \<Rightarrow> pyval \<Rightarrow> pyval \<Rightarrow> obj" where
  "stop_cols meter_stop reason vehicle stop_time received =
     (if meter_stop \<noteq> PNone then [(''meter_stop'', meter_stop)] else []) @
     (if reason \<noteq> [] then [(''stop_reason'', PStr reason)] else []) @ vehicle @
     [(''stop_time'', stop_time), (''received_stop_time'', received)]"

text \<open>Which transaction is stopped: the filed one, the charger's row with that key, or a new row.\<close>

definition stopped_tx :: "tx_env \<Rightarrow> obj \<Rightarrow> 'r tx_conn \<Rightarrow> (tx_error + int option) \<times> 'r tx_conn" where
  "stopped_tx env payload c =
     (case take_tx c of (filed, c1) \<Rightarrow>
        (if filed \<noteq> None \<or> jget payload ''transactionId'' = PNone then (Inr filed, c1)
         else case py_int (jget payload ''transactionId'') of
                Inl e \<Rightarrow> (Inl (PyError e), c1)
              | Inr i \<Rightarrow>
                  (case tx_by_pk i c1 of
                     Some pk \<Rightarrow> (Inr (Some pk), c1)
                   | None \<Rightarrow>
                       (case create_tx_with_pk i
                           [(''charger'', opt_pk (tc_charger c1)), (''start_time'', te_now env),
                            (''received_start_time'', te_now env),
                            (''meter_start'', por (jget payload ''meterStart'') (jget payload ''meterStop'')),
                            (''vid'', PStr (fst (extract_vehicle_identifier payload))),
                            (''vin'', PStr (snd (extract_vehicle_identifier payload))),
                            (''authorization_status'', PStr ''accepted'')] c1 of
                          (Inl e, c2) \<Rightarrow> (Inl e, c2)
                        | (Inr pk, c2) \<Rightarrow> (Inr (Some pk), c2)))))"

definition finish_stop :: "tx_env \<Rightarrow> string option \<Rightarrow> 'r tx_conn \<Rightarrow> 'r tx_result" where
  "finish_stop env text_data c =
     (let c1 = effect CancelConsumption c; c2 = (if given text_data then add_message env text_data c1 else c1)
      in (Inr [(''idTagInfo'', PDict [(''status'', PStr ''Accepted'')])], close_session c2))"

definition handle_stop_transaction :: "tx_env \<Rightarrow> obj \<Rightarrow> string option \<Rightarrow> 'r tx_conn \<Rightarrow> 'r tx_result" where
  "handle_stop_transaction env payload text_data c =
     (case stopped_tx env payload c of
        (Inl e, c1) \<Rightarrow> (Inl e, c1)
      | (Inr None, c1) \<Rightarrow> finish_stop env text_data c1
      | (Inr (Some pk), c1) \<Rightarrow>
          (let c2 = ensure_ocpp_transaction_identifier pk (Some (py_str (jget payload ''transactionId''))) c1
           in case te_parse_timestamp env (jget payload ''timestamp'') of
                Inl e \<Rightarrow> (Inl (PyError e), c2)
              | Inr stamp \<Rightarrow>
                  finish_stop env text_data
                    (effect (UpdateConsumption pk)
                      (save_tx pk
                        (stop_cols (jget payload ''meterStop'') (take 64 (text_field (jget payload ''reason'')))
                          (vehicle_cols payload) (por stamp (te_now env)) (te_now env)) c2))))"

subsection \<open>TransactionEvent\<close>

record tx_event =
  te_type :: string
  te_info :: obj
  te_ocpp_id :: string
  te_time :: pyval
  te_id_tag :: string

text \<open>An absent or empty value counts as an empty object; anything else must be one.\<close>

definition dict_or_empty :: "pyval \<Rightarrow> tx_error + obj" where
  "dict_or_empty v =
     (if \<not> truthy v then Inr [] else case v of PDict d \<Rightarrow> Inr d | _ \<Rightarrow> Inl (PyError AttributeError))"

definition event_id_tag :: "pyval \<Rightarrow> string" where
  "event_id_tag v = (if \<not> truthy v then [] else case v of PDict d \<Rightarrow> text_field (jget d ''idToken'') | _ \<Rightarrow> [])"

definition transaction_notification :: "tx_event \<Rightarrow> int option \<Rightarrow> 'r tx_conn \<Rightarrow> obj" where
  "transaction_notification ev pk c =
     [(''charger_id'', PStr (if tc_charger_id c \<noteq> [] then tc_charger_id c else tc_store_key c)),
      (''connector_id'', PStr (connector_slug (opt_int (tc_connector c)))),
      (''event_type'', PStr (te_type ev)), (''timestamp'', te_time ev), (''transaction_pk'', opt_int pk),
      (''ocpp_transaction_id'', if te_ocpp_id ev \<noteq> [] then PStr (te_ocpp_id ev)
         else case pk of None \<Rightarrow> PNone | Some k \<Rightarrow> jget (tx_row k c) ''ocpp_transaction_id'')] @
     (if dget (te_info ev) ''meterStart'' \<noteq> None then [(''meter_start'', jget (te_info ev) ''meterStart'')] else []) @
     (if dget (te_info ev) ''meterStop'' \<noteq> None then [(''meter_stop'', jget (te_info ev) ''meterStop'')] else [])"

definition notify_event :: "tx_event \<Rightarrow> int option \<Rightarrow> 'r tx_conn \<Rightarrow> 'r tx_conn" where
  "notify_event ev pk c = on_state (record_transaction_event (transaction_notification ev pk c)) c"

definition meter_entries :: "obj \<Rightarrow> int \<Rightarrow> 'r tx_conn \<Rightarrow> 'r tx_conn" where
  "meter_entries payload pk c = effect (MeterEntries (jget payload ''meterValue'') (tc_connector c) pk) c"

definition on_txs :: "(tx_state \<Rightarrow> tx_state) \<Rightarrow> 'r tx_conn \<Rightarrow> 'r tx_conn" where
  "on_txs f c = c\<lparr>tc_store := (tc_store c)\<lparr>txs := f (txs (tc_store c))\<rparr>\<rparr>"

definition requests_started :: "tx_env \<Rightarrow> tx_event \<Rightarrow> (string \<times> obj) list \<Rightarrow> 'r tx_conn \<Rightarrow> 'r tx_conn" where
  "requests_started env ev requests c =
     on_txs (fold (\<lambda>request s. snd (update_transaction_request (te_now env) (fst request)
       \<lparr>tu_status = Some ''started'', tu_connector_id = PNone,
        tu_transaction_id = (if te_ocpp_id ev \<noteq> [] then PStr (te_ocpp_id ev) else PNone),
        tu_ocpp_transaction_id = PNone\<rparr> s)) requests) c"

definition event_accepted_row ::
  "tx_env \<Rightarrow> tx_event \<Rightarrow> account option \<Rightarrow> obj \<Rightarrow> 'r tx_conn \<Rightarrow> obj" where
  "event_accepted_row env ev account payload c =
     (case extract_vehicle_identifier payload of (vid, vin) \<Rightarrow>
        [(''charger'', opt_pk (tc_charger c)), (''account'', account_pk account),
         (''rfid'', PStr (te_id_tag ev)), (''vid'', PStr vid), (''vin'', PStr vin),
         (''connector_id'', opt_int (tc_connector c)), (''meter_start'', jget (te_info ev) ''meterStart''),
         (''start_time'', te_time ev), (''received_start_time'', te_now env),
         (''ocpp_transaction_id'', PStr (te_ocpp_id ev)), (''authorization_status'', PStr ''accepted'')])"

definition event_started ::
  "tx_env \<Rightarrow> obj \<Rightarrow> tx_event \<Rightarrow> string option \<Rightarrow> 'r tx_conn \<Rightarrow> 'r tx_result" where
  "event_started env payload ev text_data c =
     (let requests = find_transaction_requests (tc_charger_id c) (opt_int (tc_connector c)) PNone
            (Some ''RequestStartTransaction'') [''accepted'', ''requested''] (txs (tc_store c));
          (d, tag, account, c1) = authorize env (te_id_tag ev) c
      in if ad_status d = AuthAccepted
         then let c2 = warn_unlinked d tag account (requests_started env ev requests c1);
                  (pk, c3) = create_tx (event_accepted_row env ev account payload c2) c2;
                  c4 = meter_entries payload pk (begin_tx env pk (Some (te_ocpp_id ev)) text_data c3);
                  c5 = notify_event ev (Some pk) c4
              in (Inr [(''idTokenInfo'', token_info ''Accepted'' d)],
                  record_rfid_attempt (te_id_tag ev) ''accepted'' account (Some pk) d c5)
         else let c2 = snd (create_tx
                    (rejected_row env (te_id_tag ev) account d (opt_int (tc_connector c1)) (te_time ev)
                      [(''ocpp_transaction_id'', PStr (te_ocpp_id ev))] c1) c1)
              in (Inr [(''idTokenInfo'', token_info ''Invalid'' d)],
                  record_rfid_attempt (te_id_tag ev) ''rejected'' account None d c2))"

text \<open>The lookups after the table: the identifier, then, when it is all digits, the row key.\<close>

definition lookup_tx :: "string \<Rightarrow> 'r tx_conn \<Rightarrow> tx_error + int option" where
  "lookup_tx ocpp_id c =
     (case get_by_ocpp_id ocpp_id c of
        Some pk \<Rightarrow> Inr (Some pk)
      | None \<Rightarrow>
          (if py_isdigit ocpp_id
           then (case int_of_str ocpp_id of
                   None \<Rightarrow> Inl (PyError ValueError)
                 | Some i \<Rightarrow> Inr (tx_by_pk i c))
           else Inr None))"

definition event_row :: "tx_event \<Rightarrow> pyval \<Rightarrow> 'r tx_conn \<Rightarrow> obj" where
  "event_row ev received c =
     [(''charger'', opt_pk (tc_charger c)), (''connector_id'', opt_int (tc_connector c)),
      (''start_time'', te_time ev), (''received_start_time'', received),
      (''ocpp_transaction_id'', PStr (te_ocpp_id ev)), (''authorization_status'', PStr ''accepted'')]"

definition requests_completed :: "tx_env \<Rightarrow> string \<Rightarrow> 'r tx_conn \<Rightarrow> 'r tx_conn" where
  "requests_completed env reference c =
     on_txs (\<lambda>s.
       let mark = (\<lambda>action statuses s. snd (mark_transaction_requests (te_now env) (tc_charger_id c)
             (opt_int (tc_connector c)) (PStr reference) [action] statuses ''completed'' s))
       in mark ''RequestStopTransaction'' [''accepted'', ''requested'']
            (mark ''RequestStartTransaction'' [''started'', ''accepted'', ''requested''] s)) c"

definition event_ended :: "tx_env \<Rightarrow> obj \<Rightarrow> tx_event \<Rightarrow> 'r tx_conn \<Rightarrow> 'r tx_result" where
  "event_ended env payload ev c =
     (case take_tx c of (filed, c1) \<Rightarrow>
        (case (if filed \<noteq> None then Inr filed else lookup_tx (te_ocpp_id ev) c1) of
           Inl e \<Rightarrow> (Inl e, c1)
         | Inr found \<Rightarrow>
             (case (case found of Some pk \<Rightarrow> (pk, c1) | None \<Rightarrow> create_tx (event_row ev (te_time ev) c1) c1) of
                (pk, c2) \<Rightarrow>
                  (let c3 = ensure_ocpp_transaction_identifier pk (Some (te_ocpp_id ev)) c2;
                       c4 = save_tx pk (stop_cols (jget (te_info ev) ''meterStop'')
                              (take 64 (text_field (jget payload ''triggerReason''))) (vehicle_cols payload)
                              (te_time ev) (te_now env)) c3;
                       c5 = notify_event ev (Some pk) (meter_entries payload pk c4);
                       c6 = effect CancelConsumption (effect (UpdateConsumption pk) c5);
                       stored = jget (tx_row pk c6) ''ocpp_transaction_id'';
                       reference = (if te_ocpp_id ev \<noteq> [] then te_ocpp_id ev
                                    else if truthy stored then py_str stored else int_str pk)
                   in (Inr [], close_session (requests_completed env reference c6))))))"

definition event_updated :: "tx_env \<Rightarrow> obj \<Rightarrow> tx_event \<Rightarrow> string option \<Rightarrow> 'r tx_conn \<Rightarrow> 'r tx_result" where
  "event_updated env payload ev text_data c =
     (case (case active_tx (tc_store_key c) c of
              Some pk \<Rightarrow> Inr (Some pk) | None \<Rightarrow> lookup_tx (te_ocpp_id ev) c) of
        Inl e \<Rightarrow> (Inl e, c)
      | Inr found \<Rightarrow>
          (case (case found of
                   Some pk \<Rightarrow> (pk, c)
                 | None \<Rightarrow> (case create_tx (event_row ev (te_now env) c) c of
                     (pk, c1) \<Rightarrow> (pk, file_tx pk (open_session env pk False text_data c1)))) of
             (pk, c2) \<Rightarrow>
               (Inr [], notify_event ev (Some pk)
                  (meter_entries payload pk (ensure_ocpp_transaction_identifier pk (Some (te_ocpp_id ev)) c2)))))"

definition handle_transaction_event :: "tx_env \<Rightarrow> obj \<Rightarrow> string option \<Rightarrow> 'r tx_conn \<Rightarrow> 'r tx_result" where
  "handle_transaction_event env payload text_data c =
     (case dict_or_empty (jget payload ''transactionInfo'') of
        Inl e \<Rightarrow> (Inl e, c)
      | Inr info \<Rightarrow>
          (case dict_or_empty (jget payload ''evse'') of
             Inl e \<Rightarrow> (Inl e, c)
           | Inr evse \<Rightarrow>
               (case assign_connector (case dget evse ''connectorId'' of Some v \<Rightarrow> v | None \<Rightarrow> jget evse ''id'') c of
                  (Inl e, c1) \<Rightarrow> (Inl (PyError e), c1)
                | (Inr _, c1) \<Rightarrow>
                    (case te_parse_timestamp env (jget payload ''timestamp'') of
                       Inl e \<Rightarrow> (Inl (PyError e), c1)
                     | Inr stamp \<Rightarrow>
                         (let ev = \<lparr>te_type = py_lower (text_field (jget payload ''eventType'')), te_info = info,
                                te_ocpp_id = text_field (jget info ''transactionId''),
                                te_time = (if stamp = PNone then te_now env else stamp),
                                te_id_tag = event_id_tag (jget payload ''idToken'')\<rparr>
                          in if te_type ev = ''started''
                             then (if tc_charger c1 = None then (Inl (PyError AttributeError), c1)
                                   else event_started env payload ev text_data c1)
                             else if te_type ev = ''ended'' then event_ended env payload ev c1
                             else if te_type ev = ''updated'' then event_updated env payload ev text_data c1
                             else (Inr [], c1))))))"

subsection \<open>A connector that becomes available\<close>

definition handle_available_status_transition :: "int option \<Rightarrow> 'r tx_conn \<Rightarrow> 'r tx_conn" where
  "handle_available_status_transition connector_value c =
     (case connector_value of
        None \<Rightarrow> c
      | Some _ \<Rightarrow>
          (case take_tx c of
             (None, c1) \<Rightarrow> c1
           | (Some _, c1) \<Rightarrow> close_session (effect CancelConsumption c1)))"

end
