(* ===== verification/StatusReports.thy ===== *)
theory StatusReports
  imports SecurityAlerts TxEvents
begin

text \<open>
  StatusNotification: \<open>StatusHandlersMixin\<close> (\<open>apps/ocpp/consumers/csms/handlers/status.py\<close>) with the
  records it writes (\<open>apps/ocpp/consumers/csms/persistence.py\<close>) and the availability state that
  follows (\<open>csms/handlers/availability.py\<close>).  The clock, the datetime parser of Django with the
  server's time zone and the text of a time are the environment; Django's integer column turns a
  filter value into an integer by \<open>int\<close>.
\<close>

subsection \<open>The payload\<close>

text \<open>\<open>value if value is not None else default\<close>\<close>

definition not_none :: "pyval \<Rightarrow> pyval \<Rightarrow> pyval" where
  "not_none v d = (if v \<noteq> PNone then v else d)"

definition status_connector :: "obj \<Rightarrow> pyval" where
  "status_connector d =
     not_none (jget d ''connectorId'')
       (not_none (case jget d ''evse'' of
                    PDict e \<Rightarrow> not_none (jget e ''connectorId'') (jget e ''id'')
                  | _ \<Rightarrow> PNone)
         (jget d ''evseId''))"

definition set_present :: "string \<Rightarrow> pyval \<Rightarrow> obj \<Rightarrow> obj" where
  "set_present k v d = (if v \<noteq> PNone then dset k v d else d)"

definition normalized_status_notification_payload :: "pyval \<Rightarrow> obj" where
  "normalized_status_notification_payload payload =
     (let d = as_obj payload;
          n1 = set_present ''connectorId'' (status_connector d) d;
          n2 = set_present ''status'' (not_none (jget d ''status'') (jget d ''connectorStatus'')) n1;
          n3 = (if jget n2 ''errorCode'' = PNone \<and> jget d ''connectorStatus'' \<noteq> PNone
                then dset ''errorCode'' (PStr ''NoError'') n2 else n2)
      in case jget d ''statusInfo'' of
           PDict info \<Rightarrow>
             (let n4 = (if truthy (jget n3 ''info'') then n3 else dset ''info'' (jget info ''additionalInfo'') n3)
              in if truthy (jget n4 ''vendorId'') then n4
                 else dset ''vendorId'' (jget info ''reasonCode'') n4)
         | _ \<Rightarrow> n3)"

subsection \<open>Rows\<close>

text \<open>The value an integer column is compared with; \<open>None\<close> asks for null.\<close>

definition connector_filter :: "pyval \<Rightarrow> pyexn + pyval" where
  "connector_filter v = (if v = PNone then Inr PNone else ebind (py_int v) (\<lambda>i. Inr (PInt i)))"

definition named_row :: "pyval \<Rightarrow> 'r tx_conn \<Rightarrow> pyexn + pyval option" where
  "named_row connector c = ebind (connector_filter connector) (\<lambda>v. Inr (find_charger v c))"

definition other_row :: "pyval \<Rightarrow> pyval \<Rightarrow> 'r tx_conn \<Rightarrow> pyval option" where
  "other_row v primary c =
     (case filter (\<lambda>pk. pk \<noteq> primary)
             (db_pks ''Charger'' (has_fields [(''charger_id'', PStr (tc_charger_id c)), (''connector_id'', v)]) (tc_db c)) of
        [] \<Rightarrow> None | pk # _ \<Rightarrow> Some pk)"

definition write_status :: "pyval option \<Rightarrow> obj \<Rightarrow> 'r tx_conn \<Rightarrow> 'r tx_conn" where
  "write_status target cols c =
     (case target of None \<Rightarrow> c | Some pk \<Rightarrow> on_db (db_save ''Charger'' pk cols) c)"

definition update_status_notification_records ::
  "pyval \<Rightarrow> obj \<Rightarrow> 'r tx_conn \<Rightarrow> (pyexn + unit) \<times> 'r tx_conn" where
  "update_status_notification_records connector cols c =
     (case (if connector = PNone then Inr (tc_aggregate c) else named_row connector c) of
        Inl e \<Rightarrow> (Inl e, c)
      | Inr target \<Rightarrow>
          (case tc_charger c of
             None \<Rightarrow> (Inl AttributeError, write_status target cols c)
           | Some primary \<Rightarrow>
               (let chosen = (if target = None \<and> \<not> truthy (charger_field (Some primary) ''connector_id'' c)
                              then Some primary else target);
                    c1 = write_status chosen cols c
                in case connector_filter connector of
                     Inl e \<Rightarrow> (Inl e, c1)
                   | Inr v \<Rightarrow> (Inr (), write_status (other_row v primary c1) cols c1))))"

definition update_availability_state_records :: "int option \<Rightarrow> string \<Rightarrow> pyval \<Rightarrow> 'r tx_conn \<Rightarrow> 'r tx_conn" where
  "update_availability_state_records connector state timestamp c =
     on_db (db_update_where ''Charger''
       (has_fields [(''charger_id'', PStr (tc_charger_id c)), (''connector_id'', opt_int connector)])
       [(''availability_state'', PStr state), (''availability_state_updated_at'', timestamp)]) c"

definition sync_availability_state_from_status :: "string \<Rightarrow> pyval \<Rightarrow> int option \<Rightarrow> 'r tx_conn \<Rightarrow> 'r tx_conn" where
  "sync_availability_state_from_status status timestamp connector c =
     (case availability_state_from_status status of
        None \<Rightarrow> c
      | Some state \<Rightarrow> update_availability_state_records connector state timestamp c)"

subsection \<open>The handlers\<close>

record status_env =
  se_now :: int
  se_parse :: "string \<Rightarrow> pyexn + int option"
  se_text :: "int \<Rightarrow> string"
  se_link :: string

definition time_value :: "status_env \<Rightarrow> int \<Rightarrow> pyval" where
  "time_value env t = PTime t (se_text env t)"

text \<open>\<open>(payload.get(key) or "").strip()\<close>\<close>

definition stripped_field :: "pyval \<Rightarrow> pyexn + string" where
  "stripped_field v =
     (if \<not> truthy v then Inr [] else case v of PStr s \<Rightarrow> Inr (py_strip s) | _ \<Rightarrow> Inl AttributeError)"

definition status_timestamp :: "status_env \<Rightarrow> pyval \<Rightarrow> pyexn + int" where
  "status_timestamp env raw =
     (if \<not> truthy raw then Inr (se_now env)
      else case raw of
             PStr s \<Rightarrow> ebind (se_parse env s) (\<lambda>t. Inr (case t of None \<Rightarrow> se_now env | Some x \<Rightarrow> x))
           | _ \<Rightarrow> Inl TypeError)"

definition status_columns :: "status_env \<Rightarrow> obj \<Rightarrow> string \<Rightarrow> string \<Rightarrow> int \<Rightarrow> obj" where
  "status_columns env d status error_code timestamp =
     (let vendor = filter (\<lambda>kv. truthy (snd kv)) [(''info'', jget d ''info''), (''vendorId'', jget d ''vendorId'')]
      in [(''last_status'', PStr status), (''last_error_code'', PStr error_code),
          (''last_status_vendor_info'', if vendor = [] then PNone else PDict vendor),
          (''last_status_timestamp'', time_value env timestamp)])"

text \<open>\<open>json.dumps(..., sort_keys=True)\<close> escapes every character outside printable ASCII.\<close>

definition ascii_json :: "string \<Rightarrow> string" where
  "ascii_json s =
     concat (map (\<lambda>c. if code c < 127 then [c]
                      else [char_of (92 :: nat)] @ ''u00'' @ [hex_digit (code c div 16), hex_digit (code c mod 16)]) s)"

definition log_status :: "obj \<Rightarrow> 'r tx_conn \<Rightarrow> (pyexn + unit) \<times> 'r tx_conn" where
  "log_status d c =
     (case json_text (PDict d) of
        None \<Rightarrow> (Inl TypeError, c)
      | Some js \<Rightarrow>
          (Inr (), c\<lparr>tc_store := (tc_store c)\<lparr>log_lines := log_lines (tc_store c) @
             [(PStr (tc_store_key c), ''StatusNotification processed: '' @ ascii_json js, ''charger'')]\<rparr>\<rparr>))"

definition record_status ::
  "status_env \<Rightarrow> obj \<Rightarrow> string \<Rightarrow> string \<Rightarrow> int \<Rightarrow> 'r tx_conn \<times> alerts \<Rightarrow> (tx_error + obj) \<times> 'r tx_conn \<times> alerts" where
  "record_status env d status error_code timestamp w =
     (case update_status_notification_records (jget d ''connectorId'')
             (status_columns env d status error_code timestamp) (fst w) of
        (Inl e, c1) \<Rightarrow> (Inl (PyError e), c1, snd w)
      | (Inr _, c1) \<Rightarrow>
          (let alerts1 = sync_charger_error_security_event (se_link env) (se_now env) (tc_charger_id c1)
                           (jget d ''connectorId'') status error_code (Some timestamp) (snd w);
               c2 = (if py_lower status = ''available''
                     then handle_available_status_transition (tc_connector c1) c1 else c1)
           in case log_status d c2 of
                (Inl e, c3) \<Rightarrow> (Inl (PyError e), c3, alerts1)
              | (Inr _, c3) \<Rightarrow>
                  (Inr [], sync_availability_state_from_status status (time_value env timestamp) (tc_connector c3) c3,
                   alerts1)))"

definition handle_status_notification ::
  "status_env \<Rightarrow> pyval \<Rightarrow> 'r tx_conn \<times> alerts \<Rightarrow> (tx_error + obj) \<times> 'r tx_conn \<times> alerts" where
  "handle_status_notification env payload w =
     (let d = normalized_status_notification_payload payload
      in case assign_connector (jget d ''connectorId'') (fst w) of
           (Inl e, c1) \<Rightarrow> (Inl (PyError e), c1, snd w)
         | (Inr _, c1) \<Rightarrow>
             (case ebind (stripped_field (jget d ''status'')) (\<lambda>status.
                   ebind (stripped_field (jget d ''errorCode'')) (\<lambda>error_code.
                   ebind (status_timestamp env (jget d ''timestamp'')) (\<lambda>timestamp.
                     Inr (status, error_code, timestamp)))) of
                Inl e \<Rightarrow> (Inl (PyError e), c1, snd w)
              | Inr (status, error_code, timestamp) \<Rightarrow> record_status env d status error_code timestamp (c1, snd w)))"

text \<open>A heartbeat marks every row of the charger.\<close>

definition handle_heartbeat :: "status_env \<Rightarrow> (int \<Rightarrow> string) \<Rightarrow> 'r tx_conn \<Rightarrow> obj \<times> 'r tx_conn" where
  "handle_heartbeat env utc_text c =
     ([(''currentTime'', PStr (utc_text (se_now env)))],
      on_db (db_update_where ''Charger'' (has_fields [(''charger_id'', PStr (tc_charger_id c))])
        [(''last_heartbeat'', time_value env (se_now env))]) c)"

end
