(* ===== verification/ConsumerBase.thy ===== *)
theory ConsumerBase
  imports StatusReports
begin

text \<open>
  What the notification handlers of \<open>CSMSConsumer\<close> share: aware timestamps and how they are read
  (\<open>apps/ocpp/utils/time.py\<close>), tolerant integers, \<open>Decimal(str(value))\<close>, and the log line of a
  notification.  A timestamp is an instant with the offset it was written in; \<open>isoformat\<close> depends on
  both.  Django's parser, with the server's time zone for naive values, and the two renderings are the
  environment.
\<close>

record timestamp =
  ts_instant :: int
  ts_offset :: int

record consumer_env =
  ne_now :: timestamp
  ne_parse :: "string \<Rightarrow> pyexn + timestamp option"
  ne_iso :: "timestamp \<Rightarrow> string"
  ne_str :: "timestamp \<Rightarrow> string"

subsection \<open>Reading fields\<close>

definition parse_ocpp_timestamp :: "consumer_env \<Rightarrow> pyval \<Rightarrow> pyexn + timestamp option" where
  "parse_ocpp_timestamp env v = (if \<not> truthy v then Inr None else ne_parse env (py_str v))"

definition parse_optional_int :: "pyval \<Rightarrow> pyexn + int option" where
  "parse_optional_int v =
     (if v = PNone then Inr None
      else case py_int v of
             Inr i \<Rightarrow> Inr (Some i)
           | Inl OverflowError \<Rightarrow> Inl OverflowError
           | Inl _ \<Rightarrow> Inr None)"

text \<open>The database hands every stored time back in UTC.\<close>

definition in_utc :: "timestamp \<Rightarrow> timestamp" where
  "in_utc t = t\<lparr>ts_offset := 0\<rparr>"

text \<open>
  \<open>decimal.Decimal(text)\<close>: underscores are ignored; infinities and both kinds of NaN are numbers.
\<close>

datatype pydecimal = DFin rat | DInf bool | DNaN

definition decimal_of_str :: "string \<Rightarrow> pydecimal option" where
  "decimal_of_str s =
     (case signed_part (filter (\<lambda>c. c \<noteq> CHR ''_'') (py_strip s)) of (neg, body) \<Rightarrow>
        (let w = py_lower body in
         if w = ''inf'' \<or> w = ''infinity'' then Some (DInf neg)
         else if py_startswith w ''nan'' \<and> list_all is_ascii_digit (drop 3 w) then Some DNaN
         else if py_startswith w ''snan'' \<and> list_all is_ascii_digit (drop 4 w) then Some DNaN
         else map_option (\<lambda>q. DFin (if neg then - q else q)) (decimal_value body)))"

definition decimal_float :: "pydecimal \<Rightarrow> pfloat" where
  "decimal_float d =
     (case d of
        DFin q \<Rightarrow> (case round_double q of Some v \<Rightarrow> Fin v | None \<Rightarrow> (if q < 0 then NegInf else PosInf))
      | DInf neg \<Rightarrow> (if neg then NegInf else PosInf)
      | DNaN \<Rightarrow> NaN)"

text \<open>\<open>value <= 0\<close> on floats is false for NaN; on decimals it raises, which \<open>None\<close> stands for.\<close>

definition float_le_zero :: "pfloat \<Rightarrow> bool" where
  "float_le_zero f = (case f of Fin q \<Rightarrow> q \<le> 0 | NegInf \<Rightarrow> True | PosInf \<Rightarrow> False | NaN \<Rightarrow> False)"

definition decimal_le_zero :: "pydecimal \<Rightarrow> bool option" where
  "decimal_le_zero d = (case d of DFin q \<Rightarrow> Some (q \<le> 0) | DInf neg \<Rightarrow> Some neg | DNaN \<Rightarrow> None)"

text \<open>\<open>==\<close> on the values a payload is made of: a NaN equals nothing, dictionaries ignore order.\<close>

fun py_eq :: "pyval \<Rightarrow> pyval \<Rightarrow> bool" where
  "py_eq (PFloat a x) (PFloat b y) = (a = b \<and> a \<noteq> NaN)"
| "py_eq (PList xs) (PList ys) = (length xs = length ys \<and> list_all (\<lambda>(x, y). x y) (zip (map py_eq xs) ys))"
| "py_eq (PDict a) (PDict b) =
     (length a = length b \<and>
      list_all (\<lambda>(k, eq). case dget b k of None \<Rightarrow> False | Some v \<Rightarrow> eq v) (map (\<lambda>kv. (fst kv, py_eq (snd kv))) a))"
| "py_eq a b = (a = b)"

subsection \<open>The log line of a notification\<close>

text \<open>\<open>json.dumps(value, separators=...)\<close> before characters beyond ASCII are escaped.\<close>

fun json_dump :: "string \<Rightarrow> string \<Rightarrow> pyval \<Rightarrow> string option" where
  "json_dump sep colon (PList vs) =
     map_option (\<lambda>xs. ''['' @ py_join sep xs @ '']'') (those (map (json_dump sep colon) vs))"
| "json_dump sep colon (PDict kvs) =
     map_option (\<lambda>xs. ''{'' @ py_join sep xs @ ''}'')
       (those (map (\<lambda>kv. map_option (\<lambda>x. json_string (fst kv) @ colon @ x) (json_dump sep colon (snd kv))) kvs))"
| "json_dump sep colon v = json_text v"

definition json_compact :: "pyval \<Rightarrow> string option" where
  "json_compact v = map_option ascii_json (json_dump '','' '':'' v)"

definition json_dumps :: "pyval \<Rightarrow> string option" where
  "json_dumps v = map_option ascii_json (json_dump '', '' '': '' v)"

definition notification_text :: "string \<Rightarrow> pyval \<Rightarrow> string" where
  "notification_text label payload =
     (if \<not> truthy payload then label
      else let text = (case json_compact payload of Some t \<Rightarrow> t | None \<Rightarrow> py_str payload)
           in if text \<noteq> [] \<and> text \<noteq> ''{}'' then label @ '': '' @ text else label)"

definition log_ocpp201_notification :: "string \<Rightarrow> pyval \<Rightarrow> 'r tx_conn \<Rightarrow> 'r tx_conn" where
  "log_ocpp201_notification label payload c = log_line (tc_store_key c) (notification_text label payload) c"

subsection \<open>Basic facts\<close>

lemma log_line_frame [simp]:
  "tc_db (log_line k e c) = tc_db c" "tc_charger (log_line k e c) = tc_charger c"
  "tc_aggregate (log_line k e c) = tc_aggregate c" "tc_charger_id (log_line k e c) = tc_charger_id c"
  "tc_store_key (log_line k e c) = tc_store_key c" "tc_connector (log_line k e c) = tc_connector c"
  "st (tc_store (log_line k e c)) = st (tc_store c)" "tc_effects (log_line k e c) = tc_effects c"
  "tc_logs (log_line k e c) = tc_logs c"
  "log_lines (tc_store (log_line k e c)) = log_lines (tc_store c) @ [(PStr k, e, ''charger'')]"
  by (simp_all add: log_line_def)

lemma on_state_frame [simp]:
  "tc_db (on_state f c) = tc_db c" "tc_charger (on_state f c) = tc_charger c"
  "tc_aggregate (on_state f c) = tc_aggregate c" "tc_charger_id (on_state f c) = tc_charger_id c"
  "tc_store_key (on_state f c) = tc_store_key c" "tc_connector (on_state f c) = tc_connector c"
  "st (tc_store (on_state f c)) = f (st (tc_store c))" "tc_effects (on_state f c) = tc_effects c"
  "log_lines (tc_store (on_state f c)) = log_lines (tc_store c)"
  by (simp_all add: on_state_def)

lemma on_db_frame [simp]:
  "tc_db (on_db f c) = f (tc_db c)" "tc_charger (on_db f c) = tc_charger c"
  "tc_aggregate (on_db f c) = tc_aggregate c" "tc_charger_id (on_db f c) = tc_charger_id c"
  "tc_store_key (on_db f c) = tc_store_key c" "tc_connector (on_db f c) = tc_connector c"
  "tc_store (on_db f c) = tc_store c" "tc_effects (on_db f c) = tc_effects c"
  by (simp_all add: on_db_def)

lemma in_utc_idem [simp]: "in_utc (in_utc t) = in_utc t"
  by (simp add: in_utc_def)

lemma parse_optional_int_Inl: "parse_optional_int v = Inl e \<Longrightarrow> e = OverflowError"
  by (auto simp: parse_optional_int_def split: if_splits sum.splits pyexn.splits)

lemma parse_optional_int_simps [simp]:
  "parse_optional_int PNone = Inr None" "parse_optional_int (PInt i) = Inr (Some i)"
  by (simp_all add: parse_optional_int_def)

end
