(* ===== verification/Metering.thy ===== *)
theory Metering
  imports ConsumerBase
begin

text \<open>
  Meter values: the MeterValues handler (\<open>consumers/csms/handlers/metering.py\<close>),
  \<open>_store_meter_values\<close> and \<open>_process_meter_value_entries\<close> of \<open>consumers/csms/consumer.py\<close>, and the unit
  conversion of \<open>models/charger.py\<close>.  Django's \<open>parse_datetime\<close> is a parameter.  The rows of
  \<open>MeterValue\<close> and the decimal columns of transactions and chargers stand beside the connection.  Until
  the samples of a message are saved they are in an accumulator; an exception leaves only what was
  saved before.
\<close>

subsection \<open>Decimal arithmetic\<close>

text \<open>
  A result of \<open>decimal\<close> arithmetic has at most 28 significant digits; ties go to the even digit.  The
  exponent of the first digit is found from the lengths of numerator and denominator.
\<close>

datatype meter_error = Transactional tx_error | InvalidOperation | DecimalOverflow

function decimal_digits :: "int \<Rightarrow> int" where
  "decimal_digits n = (if n \<le> 0 then 0 else 1 + decimal_digits (n div 10))"
  by pat_completeness auto
termination
  by (relation "measure nat") auto

declare decimal_digits.simps [simp del]

definition unit_exponent :: "rat \<Rightarrow> int" where
  "unit_exponent a =
     (let (p, d) = quotient_of a; e = decimal_digits p - decimal_digits d - 28
      in if a / pow10 e < 10 ^ 28 then e else e + 1)"

definition decimal_result :: "rat \<Rightarrow> meter_error + rat" where
  "decimal_result q =
     (if q = 0 then Inr 0
      else let e = unit_exponent \<bar>q\<bar>; k = max e (- 1000026); n = round_half_even (\<bar>q\<bar> / pow10 k)
           in if 999972 < e \<or> e = 999972 \<and> n = 10 ^ 28 then Inl DecimalOverflow
              else Inr (if q < 0 then - (of_int n * pow10 k) else of_int n * pow10 k))"

text \<open>A signalling NaN is told apart by its text; arithmetic on it raises.\<close>

definition is_signalling :: "string \<Rightarrow> bool" where
  "is_signalling s = py_startswith (py_lower (snd (signed_part (filter (\<lambda>c. c \<noteq> CHR ''_'') (py_strip s))))) ''snan''"

definition decimal_map :: "(rat \<Rightarrow> rat) \<Rightarrow> bool \<Rightarrow> pydecimal \<Rightarrow> meter_error + pydecimal" where
  "decimal_map f signalling d =
     (if signalling then Inl InvalidOperation
      else case d of DFin q \<Rightarrow> ebind (decimal_result (f q)) (\<lambda>r. Inr (DFin r)) | _ \<Rightarrow> Inr d)"

definition normalize_energy_value :: "bool \<Rightarrow> pydecimal \<Rightarrow> pyval \<Rightarrow> pyval \<Rightarrow> meter_error + pydecimal" where
  "normalize_energy_value signalling energy unit default_unit =
     (case por (por unit default_unit) (PStr ''kW'') of
        PStr u \<Rightarrow> (if py_lower u \<in> {''w'', ''wh''} then decimal_map (\<lambda>q. q / 1000) signalling energy else Inr energy)
      | _ \<Rightarrow> Inl (Transactional (PyError AttributeError)))"

text \<open>\<open>int(val * Decimal("1000"))\<close>\<close>

definition watt_hours :: "bool \<Rightarrow> pydecimal \<Rightarrow> meter_error + int" where
  "watt_hours signalling d =
     ebind (decimal_map (\<lambda>q. q * 1000) signalling d) (\<lambda>r.
       case r of
         DFin q \<Rightarrow> Inr (rat_trunc q)
       | DInf neg \<Rightarrow> Inl (Transactional (PyError OverflowError))
       | DNaN \<Rightarrow> Inl (Transactional (PyError ValueError)))"

subsection \<open>Samples\<close>

record meter_value =
  mv_charger :: pyval
  mv_connector :: "int option"
  mv_transaction :: "int option"
  mv_timestamp :: pyval
  mv_context :: pyval
  mv_fields :: "(string, pydecimal) dict"

record meter_env =
  me_tx :: tx_env
  me_parse_datetime :: "pyval \<Rightarrow> pyexn + pyval"

text \<open>
  What is gathered from a message: rows, the transaction's \<open>meter_start\<close> as it stands, the columns to
  save, the last temperature; \<open>ma_context\<close> and \<open>ma_values\<close> belong to the current entry.
\<close>

record meter_acc =
  ma_context :: pyval
  ma_values :: "(string, pydecimal) dict"
  ma_readings :: "meter_value list"
  ma_start :: pyval
  ma_ints :: obj
  ma_decimals :: "(string, pydecimal) dict"
  ma_temperature :: "(pydecimal \<times> pyval) option"

definition sample_field :: "pyval \<Rightarrow> string option" where
  "sample_field measurand =
     (if measurand = PStr [] \<or> measurand = PStr ''Energy.Active.Import.Register'' then Some ''energy''
      else if measurand = PStr ''Voltage'' then Some ''voltage''
      else if measurand = PStr ''Current.Import'' then Some ''current_import''
      else if measurand = PStr ''Current.Offered'' then Some ''current_offered''
      else if measurand = PStr ''Temperature'' then Some ''temperature''
      else if measurand = PStr ''SoC'' then Some ''soc''
      else None)"

definition boundary_suffix :: "pyval \<Rightarrow> string option" where
  "boundary_suffix ctx =
     (if ctx = PStr ''Transaction.Begin'' then Some ''start''
      else if ctx = PStr ''Transaction.End'' then Some ''stop'' else None)"

text \<open>A sample at the begin or the end of a transaction becomes a column of the transaction.\<close>

definition boundary_sample ::
  "string \<Rightarrow> string \<Rightarrow> bool \<Rightarrow> pydecimal \<Rightarrow> meter_acc \<Rightarrow> meter_error + meter_acc" where
  "boundary_sample suffix field signalling val a =
     (if field = ''energy''
      then ebind (watt_hours signalling val) (\<lambda>wh.
        Inr (a\<lparr>ma_ints := dset (''meter_'' @ suffix) (PInt wh) (ma_ints a),
               ma_start := if suffix = ''start'' then PInt wh else ma_start a\<rparr>))
      else Inr (a\<lparr>ma_decimals := dset (field @ ''_'' @ suffix) val (ma_decimals a)\<rparr>))"

text \<open>Any other sample is a column of the entry's row; the first energy is the start of the transaction.\<close>

definition interim_sample ::
  "bool \<Rightarrow> string \<Rightarrow> bool \<Rightarrow> pydecimal \<Rightarrow> meter_acc \<Rightarrow> meter_error + meter_acc" where
  "interim_sample in_tx field signalling val a =
     (let a1 = a\<lparr>ma_values := dset field val (ma_values a)\<rparr> in
      if in_tx \<and> field = ''energy'' \<and> ma_start a = PNone
      then case watt_hours signalling val of
             Inr wh \<Rightarrow> Inr (a1\<lparr>ma_start := PInt wh, ma_ints := dset ''meter_start'' (PInt wh) (ma_ints a)\<rparr>)
           | Inl (Transactional (PyError TypeError)) \<Rightarrow> Inr a1
           | Inl (Transactional (PyError ValueError)) \<Rightarrow> Inr a1
           | Inl e \<Rightarrow> Inl e
      else Inr a1)"

definition default_of :: "obj \<Rightarrow> string \<Rightarrow> pyval \<Rightarrow> pyval" where
  "default_of d k v = (case dget d k of Some x \<Rightarrow> x | None \<Rightarrow> v)"

text \<open>\<open>unit_of\<close> is the charger's unit, \<open>None\<close> when the connection has no charger.\<close>

definition meter_sample :: "pyval option \<Rightarrow> bool \<Rightarrow> pyval \<Rightarrow> meter_acc \<Rightarrow> meter_error + meter_acc" where
  "meter_sample unit_of in_tx sv a =
     (case sv of
        PDict d \<Rightarrow>
          (let reading = py_str (jget d ''value''); signalling = is_signalling reading in
           case decimal_of_str reading of
             None \<Rightarrow> Inr a
           | Some val \<Rightarrow>
               (let a1 = a\<lparr>ma_context := default_of d ''context'' (por (ma_context a) (PStr []))\<rparr>;
                    measurand = default_of d ''measurand'' (PStr []); unit = default_of d ''unit'' (PStr []) in
                if unit_of = None \<and> \<not> truthy unit then Inl (Transactional (PyError AttributeError))
                else case sample_field measurand of
                       None \<Rightarrow> Inr a1
                     | Some field \<Rightarrow>
                         ebind (if field = ''energy''
                                then (case unit_of of
                                        None \<Rightarrow> Inl (Transactional (PyError AttributeError))
                                      | Some u \<Rightarrow> normalize_energy_value signalling val (por unit u) u)
                                else Inr val) (\<lambda>val'.
                           let a2 = (if field = ''temperature'' then a1\<lparr>ma_temperature := Some (val', unit)\<rparr> else a1) in
                           case (if in_tx then boundary_suffix (ma_context a2) else None) of
                             Some suffix \<Rightarrow> boundary_sample suffix field signalling val' a2
                           | None \<Rightarrow> interim_sample in_tx field signalling val' a2)))
      | _ \<Rightarrow> Inr a)"

subsection \<open>Entries\<close>

fun efold :: "('x \<Rightarrow> 's \<Rightarrow> 'e + 's) \<Rightarrow> 'x list \<Rightarrow> 's \<Rightarrow> 'e + 's" where
  "efold f [] s = Inr s"
| "efold f (x # xs) s = ebind (f x s) (efold f xs)"

text \<open>\<open>for item in value\<close>: the keys of a dictionary, the characters of a text.\<close>

definition py_iter :: "pyval \<Rightarrow> meter_error + pyval list" where
  "py_iter v =
     (case v of
        PList vs \<Rightarrow> Inr vs
      | PDict d \<Rightarrow> Inr (map (\<lambda>kv. PStr (fst kv)) d)
      | PStr s \<Rightarrow> Inr (map (\<lambda>c. PStr [c]) s)
      | _ \<Rightarrow> Inl (Transactional (PyError TypeError)))"

definition entry_row :: "pyval \<Rightarrow> int option \<Rightarrow> int option \<Rightarrow> pyval \<Rightarrow> meter_acc \<Rightarrow> meter_value" where
  "entry_row charger connector tx ts a =
     \<lparr>mv_charger = charger, mv_connector = connector, mv_transaction = tx, mv_timestamp = ts,
      mv_context = ma_context a, mv_fields = ma_values a\<rparr>"

definition finish_entry :: "pyval \<Rightarrow> int option \<Rightarrow> int option \<Rightarrow> pyval \<Rightarrow> meter_acc \<Rightarrow> meter_acc" where
  "finish_entry charger connector tx ts a =
     (if ma_values a \<noteq> [] \<and> boundary_suffix (ma_context a) = None
      then a\<lparr>ma_readings := ma_readings a @ [entry_row charger connector tx ts a]\<rparr> else a)"

definition meter_entry ::
  "meter_env \<Rightarrow> pyval option \<Rightarrow> pyval \<Rightarrow> int option \<Rightarrow> int option \<Rightarrow> pyval \<Rightarrow> meter_acc \<Rightarrow> meter_error + meter_acc" where
  "meter_entry env unit_of charger connector tx mv a =
     (case mv of
        PDict d \<Rightarrow>
          ebind (case me_parse_datetime env (jget d ''timestamp'') of Inl e \<Rightarrow> Inl (Transactional (PyError e)) | Inr t \<Rightarrow> Inr t) (\<lambda>ts.
          ebind (py_iter (default_of d ''sampledValue'' (PList []))) (\<lambda>svs.
          ebind (efold (meter_sample unit_of (tx \<noteq> None)) svs (a\<lparr>ma_context := PStr [], ma_values := []\<rparr>)) (\<lambda>a1.
            Inr (finish_entry charger connector tx ts a1))))
      | _ \<Rightarrow> Inl (Transactional (PyError AttributeError)))"

subsection \<open>Saving\<close>

record 'r meter_world =
  mw_conn :: "'r tx_conn"
  mw_values :: "meter_value list"
  mw_decimals :: "(int \<times> string, pydecimal) dict"
  mw_temperature :: "(pyval, pydecimal \<times> pyval) dict"

definition on_conn :: "('r tx_conn \<Rightarrow> 'r tx_conn) \<Rightarrow> 'r meter_world \<Rightarrow> 'r meter_world" where
  "on_conn f w = w\<lparr>mw_conn := f (mw_conn w)\<rparr>"

text \<open>\<open>bulk_create\<close>: all rows or none; charger and timestamp must not be null.\<close>

definition bulk_create :: "meter_value list \<Rightarrow> 'r meter_world \<Rightarrow> (meter_error + unit) \<times> 'r meter_world" where
  "bulk_create rows w =
     (if list_ex (\<lambda>r. mv_timestamp r = PNone \<or> mv_charger r = PNone) rows
      then (Inl (Transactional IntegrityError), w)
      else (Inr (), w\<lparr>mw_values := mw_values w @ rows\<rparr>))"

definition save_samples :: "int option \<Rightarrow> meter_acc \<Rightarrow> 'r meter_world \<Rightarrow> 'r meter_world" where
  "save_samples tx a w =
     (case tx of
        None \<Rightarrow> w
      | Some pk \<Rightarrow>
          on_conn (save_tx pk (ma_ints a))
            (w\<lparr>mw_decimals := fold (\<lambda>kv. dset (pk, fst kv) (snd kv)) (ma_decimals a) (mw_decimals w)\<rparr>))"

text \<open>Another row of the station with that connector makes the database refuse the new number.\<close>

definition set_charger_connector :: "pyval \<Rightarrow> int \<Rightarrow> 'r meter_world \<Rightarrow> (meter_error + unit) \<times> 'r meter_world" where
  "set_charger_connector pk i w =
     (if find_charger (PInt i) (mw_conn w) \<notin> {None, Some pk} then (Inl (Transactional IntegrityError), w)
      else (Inr (), on_conn (on_db (db_save ''Charger'' pk [(''connector_id'', PInt i)])) w))"

definition save_temperature :: "pyval \<Rightarrow> meter_acc \<Rightarrow> 'r meter_world \<Rightarrow> 'r meter_world" where
  "save_temperature pk a w =
     (case ma_temperature a of None \<Rightarrow> w | Some t \<Rightarrow> w\<lparr>mw_temperature := dset pk t (mw_temperature w)\<rparr>)"

definition finish_entries :: "int option \<Rightarrow> int option \<Rightarrow> meter_acc \<Rightarrow> 'r meter_world \<Rightarrow> (meter_error + unit) \<times> 'r meter_world" where
  "finish_entries connector tx a w =
     (case bulk_create (ma_readings a) w of
        (Inl e, w1) \<Rightarrow> (Inl e, w1)
      | (Inr _, w1) \<Rightarrow>
          (let w2 = save_samples tx a w1 in
           case tc_charger (mw_conn w2) of
             None \<Rightarrow> (if connector \<noteq> None \<or> ma_temperature a \<noteq> None
                      then (Inl (Transactional (PyError AttributeError)), w2) else (Inr (), w2))
           | Some pk \<Rightarrow>
               (case (case connector of
                        Some i \<Rightarrow> (if truthy (charger_field (Some pk) ''connector_id'' (mw_conn w2)) then (Inr (), w2)
                                   else set_charger_connector pk i w2)
                      | None \<Rightarrow> (Inr (), w2)) of
                  (Inl e, w3) \<Rightarrow> (Inl e, w3)
                | (Inr _, w3) \<Rightarrow> (Inr (), save_temperature pk a w3))))"

definition tx_start :: "int option \<Rightarrow> 'r tx_conn \<Rightarrow> pyval" where
  "tx_start tx c = (case tx of None \<Rightarrow> PNone | Some pk \<Rightarrow> jget (tx_row pk c) ''meter_start'')"

definition process_meter_value_entries ::
  "meter_env \<Rightarrow> pyval \<Rightarrow> int option \<Rightarrow> int option \<Rightarrow> 'r meter_world \<Rightarrow> (meter_error + unit) \<times> 'r meter_world" where
  "process_meter_value_entries env meter_values connector tx w =
     (let c = mw_conn w;
          unit_of = (case tc_charger c of None \<Rightarrow> None | Some pk \<Rightarrow> Some (charger_field (Some pk) ''energy_unit'' c));
          a = \<lparr>ma_context = PStr [], ma_values = [], ma_readings = [], ma_start = tx_start tx c, ma_ints = [],
               ma_decimals = [], ma_temperature = None\<rparr>
      in case ebind (if truthy meter_values then py_iter meter_values else Inr [])
                (\<lambda>mvs. efold (meter_entry env unit_of (opt_pk (tc_charger c)) connector tx) mvs a) of
           Inl e \<Rightarrow> (Inl e, w)
         | Inr a' \<Rightarrow> finish_entries connector tx a' w)"

subsection \<open>The handler\<close>

definition optional_int :: "pyval \<Rightarrow> meter_error + int option" where
  "optional_int v =
     (case parse_optional_int v of Inl e \<Rightarrow> Inl (Transactional (PyError e)) | Inr i \<Rightarrow> Inr i)"

text \<open>The transaction a message names: the filed one when it fits, else the charger's row, else a new row.\<close>

definition needs_lookup :: "pyval \<Rightarrow> int option \<Rightarrow> int option \<Rightarrow> 'r tx_conn \<Rightarrow> bool" where
  "needs_lookup tx_id tx_pk filed c =
     (case tx_pk of
        Some i \<Rightarrow> filed \<noteq> Some i
      | None \<Rightarrow> (case filed of None \<Rightarrow> True
                 | Some pk \<Rightarrow> jget (tx_row pk c) ''ocpp_transaction_id'' \<noteq> PStr (py_str tx_id)))"

definition create_metered_tx ::
  "meter_env \<Rightarrow> string \<Rightarrow> int option \<Rightarrow> string option \<Rightarrow> 'r tx_conn \<Rightarrow> (meter_error + int) \<times> 'r tx_conn" where
  "create_metered_tx env ocpp_id tx_pk text_data c =
     (let row = [(''charger'', opt_pk (tc_charger c)), (''ocpp_transaction_id'', PStr ocpp_id),
                 (''start_time'', te_now (me_tx env)), (''authorization_status'', PStr ''accepted'')]
      in case (case tx_pk of
                 None \<Rightarrow> (case create_tx row c of (pk, c1) \<Rightarrow> (Inr pk, c1))
               | Some i \<Rightarrow> create_tx_with_pk i row c) of
           (Inl e, c1) \<Rightarrow> (Inl (Transactional e), c1)
         | (Inr pk, c1) \<Rightarrow> (Inr pk, open_session (me_tx env) pk False text_data c1))"

definition metered_tx ::
  "meter_env \<Rightarrow> pyval \<Rightarrow> int option \<Rightarrow> string option \<Rightarrow> 'r tx_conn \<Rightarrow> (meter_error + int option) \<times> 'r tx_conn" where
  "metered_tx env tx_id tx_pk text_data c =
     (let filed = active_tx (tc_store_key c) c in
      if tx_id = PNone then (Inr filed, c)
      else let found = (if needs_lookup tx_id tx_pk filed c
                        then (case tx_pk of Some i \<Rightarrow> tx_by_pk i c | None \<Rightarrow> get_by_ocpp_id (py_str tx_id) c)
                        else filed)
           in case (case found of
                      Some pk \<Rightarrow> (Inr (Some pk), c)
                    | None \<Rightarrow>
                        (if py_strip (py_str tx_id) = [] then (Inr None, c)
                         else case create_metered_tx env (py_strip (py_str tx_id)) tx_pk text_data c of
                                (Inl e, c1) \<Rightarrow> (Inl e, c1)
                              | (Inr pk, c1) \<Rightarrow> (Inr (Some pk), c1))) of
                (Inl e, c1) \<Rightarrow> (Inl e, c1)
              | (Inr None, c1) \<Rightarrow> (Inr None, c1)
              | (Inr (Some pk), c1) \<Rightarrow> (Inr (Some pk), file_tx pk c1))"

definition store_meter_values ::
  "meter_env \<Rightarrow> obj \<Rightarrow> string option \<Rightarrow> 'r meter_world \<Rightarrow> (meter_error + unit) \<times> 'r meter_world" where
  "store_meter_values env payload text_data w =
     (case optional_int (jget payload ''connectorId'') of
        Inl e \<Rightarrow> (Inl e, w)
      | Inr connector \<Rightarrow>
          (case assign_connector (opt_int connector) (mw_conn w) of
             (Inl e, c1) \<Rightarrow> (Inl (Transactional (PyError e)), w\<lparr>mw_conn := c1\<rparr>)
           | (Inr _, c1) \<Rightarrow>
               (let tx_id = jget payload ''transactionId'' in
                case optional_int tx_id of
                  Inl e \<Rightarrow> (Inl e, w\<lparr>mw_conn := c1\<rparr>)
                | Inr tx_pk \<Rightarrow>
                    (case metered_tx env tx_id tx_pk text_data c1 of
                       (Inl e, c2) \<Rightarrow> (Inl e, w\<lparr>mw_conn := c2\<rparr>)
                     | (Inr tx, c2) \<Rightarrow>
                         (let c3 = (case tx of
                                      None \<Rightarrow> c2
                                    | Some pk \<Rightarrow> ensure_ocpp_transaction_identifier pk
                                        (if truthy tx_id then Some (py_str tx_id) else None) c2)
                          in process_meter_value_entries env (jget payload ''meterValue'') connector tx (w\<lparr>mw_conn := c3\<rparr>))))))"

definition normalized_meter_values_payload :: "pyval \<Rightarrow> obj" where
  "normalized_meter_values_payload payload =
     (let d = as_obj payload in
      if jget d ''connectorId'' \<noteq> PNone then d
      else let from_evse = (case jget d ''evse'' of
                              PDict e \<Rightarrow> (if jget e ''connectorId'' \<noteq> PNone then jget e ''connectorId'' else jget e ''id'')
                            | _ \<Rightarrow> PNone);
               connector = (if from_evse \<noteq> PNone then from_evse else jget d ''evseId'')
           in if connector \<noteq> PNone then dset ''connectorId'' connector d else d)"

definition handle_meter_values ::
  "meter_env \<Rightarrow> pyval \<Rightarrow> string option \<Rightarrow> 'r meter_world \<Rightarrow> (meter_error + obj) \<times> 'r meter_world" where
  "handle_meter_values env payload text_data w =
     (let d = normalized_meter_values_payload payload in
      case store_meter_values env d text_data w of
        (Inl e, w1) \<Rightarrow> (Inl e, w1)
      | (Inr _, w1) \<Rightarrow>
          (case tc_charger (mw_conn w1) of
             None \<Rightarrow> (Inl (Transactional (PyError AttributeError)), w1)
           | Some pk \<Rightarrow> (Inr [], on_conn (on_db (db_save ''Charger'' pk [(''last_meter_values'', PDict d)])) w1)))"

end
