(* ===== verification/TxEventsProps.thy ===== *)
theory TxEventsProps
  imports TxEvents
begin

text \<open>
  What charging sessions promise: a session follows its connection through every connector
  assignment, a start is accepted exactly under the authorization rule, only accepted transactions
  are ever active, and a stop closes the session that was started.  Two sessions on one websocket
  break this, which is proved as well.
\<close>

subsection \<open>Frames\<close>

abbreviation tx_table :: "'r tx_conn \<Rightarrow> (string, int) dict" where
  "tx_table c \<equiv> transactions (st (tc_store c))"

lemma step_frames [simp]:
  "tx_table (effect e c) = tx_table c" "tc_db (effect e c) = tc_db c"
  "tc_store_key (effect e c) = tc_store_key c" "tc_charger (effect e c) = tc_charger c"
  "tc_connector (effect e c) = tc_connector c" "tc_charger_id (effect e c) = tc_charger_id c"
  "tx_table (on_logs f c) = tx_table c" "tc_db (on_logs f c) = tc_db c"
  "tc_store_key (on_logs f c) = tc_store_key c" "tc_charger (on_logs f c) = tc_charger c"
  "tc_connector (on_logs f c) = tc_connector c" "tc_charger_id (on_logs f c) = tc_charger_id c"
  "tc_db (on_state g c) = tc_db c" "tc_store_key (on_state g c) = tc_store_key c"
  "tc_charger (on_state g c) = tc_charger c" "tc_connector (on_state g c) = tc_connector c"
  "tc_charger_id (on_state g c) = tc_charger_id c" "tx_table (on_state g c) = transactions (g (st (tc_store c)))"
  "tx_table (on_db h c) = tx_table c" "tc_db (on_db h c) = h (tc_db c)"
  "tc_store_key (on_db h c) = tc_store_key c" "tc_charger (on_db h c) = tc_charger c"
  "tc_connector (on_db h c) = tc_connector c" "tc_charger_id (on_db h c) = tc_charger_id c"
  "tx_table (on_txs k c) = tx_table c" "tc_db (on_txs k c) = tc_db c"
  "tc_store_key (on_txs k c) = tc_store_key c" "tc_charger (on_txs k c) = tc_charger c"
  "tc_connector (on_txs k c) = tc_connector c" "tc_charger_id (on_txs k c) = tc_charger_id c"
  "tc_aggregate (effect e c) = tc_aggregate c" "tc_aggregate (on_logs f c) = tc_aggregate c"
  "tc_aggregate (on_state g c) = tc_aggregate c" "tc_self (effect e c) = tc_self c"
  by (simp_all add: effect_def on_logs_def on_state_def on_db_def on_txs_def)

definition tx_rows :: "'r tx_conn \<Rightarrow> pyval \<Rightarrow> obj option" where
  "tx_rows c k = dget (tc_db c) (''Transaction'', k)"

lemma tx_rows_frames [simp]:
  "tx_rows (effect e c) = tx_rows c" "tx_rows (on_logs f c) = tx_rows c"
  "tx_rows (on_state g c) = tx_rows c" "tx_rows (on_txs k c) = tx_rows c"
  by (simp_all add: tx_rows_def fun_eq_iff)

lemma tx_row_rows: "tx_row pk c = (case tx_rows c (PInt pk) of None \<Rightarrow> [] | Some row \<Rightarrow> row)"
  by (simp add: tx_row_def tx_rows_def db_get_def)

lemma db_next_pk_step:
  "fold (\<lambda>row m. case fst row of (n, PInt i) \<Rightarrow> (if n = model then max m (i + 1) else m) | _ \<Rightarrow> m) d m \<ge> m"
  by (induction d arbitrary: m)
    (auto split: prod.splits pyval.splits intro: order_trans [OF max.cobounded1])

lemma db_next_pk_greater:
  assumes "((model, PInt i), row) \<in> set d"
  shows "i < db_next_pk model d"
proof -
  have "((model, PInt i), row) \<in> set d \<Longrightarrow>
     i < fold (\<lambda>row m. case fst row of (n, PInt i) \<Rightarrow> (if n = model then max m (i + 1) else m) | _ \<Rightarrow> m) d m" for m
  proof (induction d arbitrary: m)
    case (Cons r d)
    then show ?case
      using db_next_pk_step [where model = model and d = d and m = "max m (i + 1)"] by (auto split: prod.splits pyval.splits)
  qed simp
  then show ?thesis using assms by (simp add: db_next_pk_def)
qed

lemma db_next_pk_fresh: "dget d (model, PInt (db_next_pk model d)) = None"
  using db_next_pk_greater [of model "db_next_pk model d"] by (metis dget_SomeD less_irrefl not_None_eq)

lemma db_create_rows:
  "db_create model cols d = (pk, d') \<Longrightarrow>
     pk = PInt (db_next_pk model d) \<and> dget d (model, pk) = None \<and> (\<forall>k. dget d' k = (if k = (model, pk) then Some cols else dget d k))"
  using db_next_pk_fresh [of d model] by (auto simp: db_create_def Let_def)

lemma create_tx_rows:
  "create_tx cols c = (pk, c') \<Longrightarrow>
     tx_rows c (PInt pk) = None \<and> tx_rows c' = (tx_rows c)(PInt pk := Some cols) \<and> tx_table c' = tx_table c \<and>
     tc_store_key c' = tc_store_key c \<and> tc_charger c' = tc_charger c \<and> tc_connector c' = tc_connector c"
  using db_create_rows [of "''Transaction''" cols "tc_db c"]
  by (auto simp: create_tx_def tx_rows_def fun_eq_iff pk_int_def split: prod.splits)

lemma save_tx_rows [simp]:
  "tx_rows (save_tx pk cols c) = (tx_rows c)(PInt pk := map_option (set_fields cols) (tx_rows c (PInt pk)))"
  "tx_table (save_tx pk cols c) = tx_table c" "tc_store_key (save_tx pk cols c) = tc_store_key c"
  "tc_charger (save_tx pk cols c) = tc_charger c" "tc_connector (save_tx pk cols c) = tc_connector c"
  by (auto simp: save_tx_def tx_rows_def fun_eq_iff)

lemma ensure_identifier_frame [simp]:
  "tx_table (ensure_ocpp_transaction_identifier pk i c) = tx_table c"
  "tc_store_key (ensure_ocpp_transaction_identifier pk i c) = tc_store_key c"
  "tc_charger (ensure_ocpp_transaction_identifier pk i c) = tc_charger c"
  "tc_connector (ensure_ocpp_transaction_identifier pk i c) = tc_connector c"
  by (simp_all add: ensure_ocpp_transaction_identifier_def Let_def)

text \<open>Every row but the named one is kept, and of that one only the identifier changes.\<close>

lemma ensure_identifier_rows:
  "k \<noteq> PInt pk \<Longrightarrow> tx_rows (ensure_ocpp_transaction_identifier pk i c) k = tx_rows c k"
  "(tx_rows (ensure_ocpp_transaction_identifier pk i c) (PInt pk) = None) = (tx_rows c (PInt pk) = None)"
  "col \<noteq> ''ocpp_transaction_id'' \<Longrightarrow>
     jget (tx_row pk (ensure_ocpp_transaction_identifier pk i c)) col = jget (tx_row pk c) col"
  by (auto simp: ensure_ocpp_transaction_identifier_def Let_def tx_row_rows jget_set_fields split: option.split)

subsection \<open>Connector assignment\<close>

lemma db_get_or_create_other:
  "model \<noteq> other \<Longrightarrow> dget (snd (snd (db_get_or_create model lookup defaults d))) (other, k) = dget d (other, k)"
  by (auto simp: db_get_or_create_def db_create_def Let_def split: option.split)

lemma ensure_station_frame [simp]:
  "tx_rows (ensure_station c) = tx_rows c" "tx_table (ensure_station c) = tx_table c"
  "tc_store_key (ensure_station c) = tc_store_key c" "tc_charger_id (ensure_station c) = tc_charger_id c"
  using db_get_or_create_other [of "''ChargingStation''" "''Transaction''"]
  by (auto simp: ensure_station_def tx_rows_def fun_eq_iff case_prod_beta split: option.split)

lemma select_row_frame [simp]:
  "tx_rows (select_connector_row i c) = tx_rows c" "tx_table (select_connector_row i c) = tx_table c"
  "tc_store_key (select_connector_row i c) = tc_store_key c"
  "tc_charger_id (select_connector_row i c) = tc_charger_id c"
  by (auto simp: select_connector_row_def tx_rows_def fun_eq_iff Let_def db_create_def split: option.split)

lemma move_identity_frame [simp]:
  "tx_rows (move_identity old new c) = tx_rows c" "tc_store_key (move_identity old new c) = tc_store_key c"
  "tc_self (move_identity old new c) = tc_self c" "tc_charger_id (move_identity old new c) = tc_charger_id c"
  by (simp_all add: move_identity_def on_logs_def on_state_def tx_rows_def fun_eq_iff)

lemma move_identity_tx:
  "tx_table (move_identity old new c) =
     (if old = new \<or> old = [] then tx_table c else rename_key old new (tx_table c))"
  by (simp add: move_identity_def reassign_identity_def on_logs_def on_state_def)

lemma take_key_frame [simp]:
  "tx_rows (take_key new c) = tx_rows c" "tc_store_key (take_key new c) = tc_store_key c"
  "tc_charger_id (take_key new c) = tc_charger_id c"
  by (simp_all add: take_key_def Let_def split: option.split)

lemma take_key_tx:
  "tc_store_key c \<noteq> [] \<Longrightarrow>
     tx_table (take_key new c) =
       (if tc_store_key c = new then tx_table c else rename_key (tc_store_key c) new (tx_table c))"
  by (auto simp: take_key_def Let_def move_identity_tx split: option.split)

lemma rename_key_follows: "dget d old = Some v \<Longrightarrow> dget (rename_key old new d) new = Some v"
  by (simp add: rename_key_def)

lemma take_key_follows:
  "tc_store_key c \<noteq> [] \<Longrightarrow> active_tx (tc_store_key c) c = Some pk \<Longrightarrow> active_tx new (take_key new c) = Some pk"
  by (auto simp: active_tx_def take_key_tx rename_key_follows)

lemma tc_update_frames [simp]:
  "active_tx k (c\<lparr>tc_store_key := a, tc_connector := b\<rparr>) = active_tx k c"
  "active_tx k (c\<lparr>tc_header_ref := h\<rparr>) = active_tx k c"
  "active_tx k (c\<lparr>tc_aggregate := x, tc_charger := y\<rparr>) = active_tx k c"
  "active_tx k (effect e c) = active_tx k c" "active_tx k (on_logs f c) = active_tx k c"
  "tx_rows (c\<lparr>tc_store_key := a, tc_connector := b\<rparr>) = tx_rows c"
  "tx_rows (c\<lparr>tc_header_ref := h\<rparr>) = tx_rows c"
  "tx_rows (c\<lparr>tc_aggregate := x, tc_charger := y\<rparr>) = tx_rows c"
  by (simp_all add: active_tx_def tx_rows_def fun_eq_iff)

lemma assign_aggregate_frame:
  assumes "tc_store_key c \<noteq> []"
  shows "tx_rows (assign_aggregate c) = tx_rows c" "tc_store_key (assign_aggregate c) \<noteq> []"
    "active_tx (tc_store_key c) c = Some pk \<Longrightarrow>
       active_tx (tc_store_key (assign_aggregate c)) (assign_aggregate c) = Some pk"
  using assms take_key_follows [of "(ensure_station c)\<lparr>tc_aggregate := a, tc_charger := a\<rparr>" pk for a]
  by (auto simp: assign_aggregate_def Let_def active_tx_def)

lemma assign_value_frame:
  assumes "tc_store_key c \<noteq> []"
  shows "tx_rows (assign_connector_value i c) = tx_rows c" "tc_store_key (assign_connector_value i c) \<noteq> []"
    "active_tx (tc_store_key c) c = Some pk \<Longrightarrow>
       active_tx (tc_store_key (assign_connector_value i c)) (assign_connector_value i c) = Some pk"
  using assms take_key_follows [of "select_connector_row i (ensure_station c)" pk]
  by (auto simp: assign_connector_value_def Let_def active_tx_def)

lemma assign_frame:
  assumes "tc_store_key c \<noteq> []"
  shows "tx_rows (snd (assign_connector h c)) = tx_rows c \<and> tc_store_key (snd (assign_connector h c)) \<noteq> [] \<and>
    (active_tx (tc_store_key c) c = Some pk \<longrightarrow>
       active_tx (tc_store_key (snd (assign_connector h c))) (snd (assign_connector h c)) = Some pk)"
  using assms assign_aggregate_frame [of c] assign_value_frame [of c]
  by (auto simp: assign_connector_def split: sum.split option.split)

definition assign_all :: "pyval list \<Rightarrow> 'r tx_conn \<Rightarrow> 'r tx_conn" where
  "assign_all hints c = fold (\<lambda>h c. snd (assign_connector h c)) hints c"

lemma assign_all_frame:
  "tc_store_key c \<noteq> [] \<Longrightarrow>
     tx_rows (assign_all hints c) = tx_rows c \<and> tc_store_key (assign_all hints c) \<noteq> [] \<and>
     (active_tx (tc_store_key c) c = Some pk \<longrightarrow>
        active_tx (tc_store_key (assign_all hints c)) (assign_all hints c) = Some pk)"
proof (induction hints arbitrary: c)
  case Nil
  then show ?case by (simp add: assign_all_def)
next
  case (Cons h hints)
  note f = assign_frame [OF Cons.prems, of h pk]
  show ?case
    using Cons.IH [of "snd (assign_connector h c)"] f by (auto simp: assign_all_def)
qed

subsection \<open>Starting\<close>

definition active_pks :: "'r tx_conn \<Rightarrow> int set" where
  "active_pks c = {pk. \<exists>key. active_tx key c = Some pk}"

lemma active_pks_table: "tx_table c = tx_table c' \<Longrightarrow> active_pks c = active_pks c'"
  by (simp add: active_pks_def active_tx_def)

lemma rename_key_values: "dget (rename_key old new d) k = Some v \<Longrightarrow> \<exists>k'. dget d k' = Some v"
  by (auto simp: rename_key_def split: option.splits if_splits)

lemma take_key_pks: "tc_store_key c \<noteq> [] \<Longrightarrow> active_pks (take_key new c) \<subseteq> active_pks c"
  using rename_key_values by (fastforce simp: active_pks_def active_tx_def take_key_tx split: if_splits)

lemma assign_pks:
  assumes "tc_store_key c \<noteq> []"
  shows "active_pks (snd (assign_connector h c)) \<subseteq> active_pks c"
proof -
  have "active_pks (assign_aggregate c) \<subseteq> active_pks c"
    using assms take_key_pks [of "(ensure_station c)\<lparr>tc_aggregate := a, tc_charger := a\<rparr>" for a]
    by (auto simp: assign_aggregate_def Let_def active_pks_def active_tx_def)
  moreover have "active_pks (assign_connector_value i c) \<subseteq> active_pks c" for i
    using assms take_key_pks [of "select_connector_row i (ensure_station c)"]
    by (auto simp: assign_connector_value_def Let_def active_pks_def active_tx_def)
  ultimately show ?thesis
    by (auto simp: assign_connector_def split: sum.split option.split)
qed

lemma warn_frame [simp]:
  "tx_rows (warn_unlinked d tag account c) = tx_rows c" "tx_table (warn_unlinked d tag account c) = tx_table c"
  "tc_store_key (warn_unlinked d tag account c) = tc_store_key c"
  "tc_charger (warn_unlinked d tag account c) = tc_charger c"
  "tc_connector (warn_unlinked d tag account c) = tc_connector c"
  by (simp_all add: warn_unlinked_def log_unlinked_rfid_def tx_rows_def fun_eq_iff split: option.split)

lemma attempt_frame [simp]:
  "tx_rows (record_rfid_attempt rfid status account t d c) = tx_rows c"
  "tx_table (record_rfid_attempt rfid status account t d c) = tx_table c"
  "tc_store_key (record_rfid_attempt rfid status account t d c) = tc_store_key c"
  by (auto simp: record_rfid_attempt_def Let_def tx_rows_def fun_eq_iff db_create_def)

lemma authorize_frame:
  assumes "authorize env id_tag c = (d, tag, account, c1)"
  shows "tx_rows c1 = tx_rows c" "tx_table c1 = tx_table c" "tc_store_key c1 = tc_store_key c"
    "tc_charger c1 = tc_charger c" "tc_connector c1 = tc_connector c" "tc_charger_id c1 = tc_charger_id c"
  using assms
  by (auto simp: authorize_def Let_def split: prod.splits if_splits option.splits)

lemma authorize_decision:
  "id_tag \<noteq> [] \<Longrightarrow> te_scan env id_tag = (t, created) \<Longrightarrow> authorize env id_tag c = (d, tag, account, c1) \<Longrightarrow>
     (ad_status d = AuthAccepted) = may_charge (te_flags env) id_tag (te_account env id_tag) (Some t) created"
  by (auto simp: authorize_def Let_def decision_accepted_iff [symmetric] split: prod.splits)

lemma begin_tx_frame:
  "tx_table (begin_tx env pk i text c) = dset (tc_store_key c) pk (tx_table c)"
  "tc_store_key (begin_tx env pk i text c) = tc_store_key c"
  "k \<noteq> PInt pk \<Longrightarrow> tx_rows (begin_tx env pk i text c) k = tx_rows c k"
  "col \<noteq> ''ocpp_transaction_id'' \<Longrightarrow> jget (tx_row pk (begin_tx env pk i text c)) col = jget (tx_row pk c) col"
  "(tx_rows (begin_tx env pk i text c) (PInt pk) = None) = (tx_rows c (PInt pk) = None)"
  using ensure_identifier_rows [where pk = pk and i = i and c = c]
  by (auto simp: begin_tx_def open_session_def file_tx_def on_state_def [of _ c] tx_row_rows)

lemma accepted_row_cols:
  "jget (accepted_row env id_tag account payload stamp c) ''authorization_status'' = PStr ''accepted''"
  "jget (accepted_row env id_tag account payload stamp c) ''rfid'' = PStr id_tag"
  "jget (accepted_row env id_tag account payload stamp c) ''meter_start'' = jget payload ''meterStart''"
  by (simp_all add: accepted_row_def split: prod.split)

lemma start_accepted:
  assumes "handle_start_transaction env payload text c = (Inr resp, c')" "jget payload ''idTag'' = PStr id_tag" "id_tag \<noteq> []"
    and "authorize env id_tag c = (d, tag, account, c1)" "ad_status d = AuthAccepted"
  obtains c2 pk c4 stamp where "assign_connector (jget payload ''connectorId'') c1 = (Inr (), c2)"
    "create_tx (accepted_row env id_tag account payload stamp (warn_unlinked d tag account c2)) (warn_unlinked d tag account c2) = (pk, c4)"
    "jget resp ''transactionId'' = PInt pk"
    "c' = record_rfid_attempt id_tag ''accepted'' account (Some pk) d (begin_tx env pk None text c4)"
  using assms
  by (auto simp: handle_start_transaction_def start_authorized_def Let_def split: if_splits prod.splits sum.splits)

lemma start_rejected:
  assumes "handle_start_transaction env payload text c = (Inr resp, c')" "jget payload ''idTag'' = PStr id_tag" "id_tag \<noteq> []"
    and "authorize env id_tag c = (d, tag, account, c1)" "ad_status d \<noteq> AuthAccepted"
  obtains c2 pk c4 row where "assign_connector (jget payload ''connectorId'') c1 = (Inr (), c2)"
    "create_tx row c2 = (pk, c4)" "jget row ''authorization_status'' = PStr ''rejected''"
    "jget resp ''transactionId'' = PNone"
    "c' = record_rfid_attempt id_tag ''rejected'' account None d c4"
proof -
  obtain r c2 where b: "assign_connector (jget payload ''connectorId'') c1 = (r, c2)"
    by (metis surj_pair)
  let ?row = "rejected_row env id_tag account d (jget payload ''connectorId'') (te_now env) [] c2"
  obtain pk c4 where "create_tx ?row c2 = (pk, c4)" by (metis surj_pair)
  moreover have "jget ?row ''authorization_status'' = PStr ''rejected''" by (simp add: rejected_row_def)
  ultimately show thesis
    using assms b
    by (intro that [of c2 ?row pk c4])
      (auto simp: handle_start_transaction_def start_authorized_def Let_def split: if_splits sum.splits)
qed

text \<open>
  C11: a StartTransaction that is answered is accepted exactly under the authorization rule.  Accepted,
  the answer names a new row, which becomes the active transaction of the connection, is marked as
  accepted for the presented tag, and is the only row touched.  Otherwise no transaction becomes
  active and the only new row is marked as rejected.
\<close>

theorem start_transaction_outcome:
  assumes "tc_store_key c \<noteq> []" "handle_start_transaction env payload text c = (Inr resp, c')"
    and "jget payload ''idTag'' = PStr id_tag" "id_tag \<noteq> []" "te_scan env id_tag = (tag, created)"
  shows "if may_charge (te_flags env) id_tag (te_account env id_tag) (Some tag) created
    then \<exists>pk. jget resp ''transactionId'' = PInt pk \<and> tx_rows c (PInt pk) = None \<and>
           active_tx (tc_store_key c') c' = Some pk \<and>
           jget (tx_row pk c') ''authorization_status'' = PStr ''accepted'' \<and>
           jget (tx_row pk c') ''rfid'' = PStr id_tag \<and> (\<forall>k. k \<noteq> PInt pk \<longrightarrow> tx_rows c' k = tx_rows c k)
    else jget resp ''transactionId'' = PNone \<and> active_pks c' \<subseteq> active_pks c \<and>
         (\<forall>k row. tx_rows c' k = Some row \<longrightarrow>
            tx_rows c k = Some row \<or> jget row ''authorization_status'' = PStr ''rejected'')"
proof -
  obtain d t account c1 where a: "authorize env id_tag c = (d, t, account, c1)"
    by (cases "authorize env id_tag c")
  note fa = authorize_frame [OF a] and dec = authorize_decision [OF assms(4,5) a]
  have c1: "tc_store_key c1 \<noteq> []" using assms(1) fa by simp
  show ?thesis
  proof (cases "ad_status d = AuthAccepted")
    case True
    obtain c2 pk c4 stamp where s: "assign_connector (jget payload ''connectorId'') c1 = (Inr (), c2)"
      and cr: "create_tx (accepted_row env id_tag account payload stamp (warn_unlinked d t account c2)) (warn_unlinked d t account c2) = (pk, c4)"
      and resp: "jget resp ''transactionId'' = PInt pk"
      and c': "c' = record_rfid_attempt id_tag ''accepted'' account (Some pk) d (begin_tx env pk None text c4)"
      by (rule start_accepted [OF assms(2-4) a True])
    have rows: "tx_rows c2 = tx_rows c" using assign_frame [OF c1, of "jget payload ''connectorId''"] s fa by simp
    note r = create_tx_rows [OF cr]
    have row4: "tx_row pk c4 = accepted_row env id_tag account payload stamp (warn_unlinked d t account c2)"
      using r by (simp add: tx_row_rows)
    have "tx_row pk c' = tx_row pk (begin_tx env pk None text c4)"
      by (simp add: c' tx_row_rows)
    then have "jget (tx_row pk c') ''authorization_status'' = PStr ''accepted''" "jget (tx_row pk c') ''rfid'' = PStr id_tag"
      by (simp_all add: begin_tx_frame row4 accepted_row_cols)
    moreover have "active_tx (tc_store_key c') c' = Some pk"
      by (simp add: active_tx_def c' begin_tx_frame)
    moreover have "\<forall>k. k \<noteq> PInt pk \<longrightarrow> tx_rows c' k = tx_rows c k"
      using r rows by (simp add: c' begin_tx_frame)
    moreover have "tx_rows c (PInt pk) = None" using r rows by simp
    ultimately have "\<exists>pk. jget resp ''transactionId'' = PInt pk \<and> tx_rows c (PInt pk) = None \<and>
           active_tx (tc_store_key c') c' = Some pk \<and>
           jget (tx_row pk c') ''authorization_status'' = PStr ''accepted'' \<and>
           jget (tx_row pk c') ''rfid'' = PStr id_tag \<and> (\<forall>k. k \<noteq> PInt pk \<longrightarrow> tx_rows c' k = tx_rows c k)"
      using resp by blast
    then show ?thesis using True dec by simp
  next
    case False
    obtain c2 pk c4 row where s: "assign_connector (jget payload ''connectorId'') c1 = (Inr (), c2)"
      and cr: "create_tx row c2 = (pk, c4)" and row: "jget row ''authorization_status'' = PStr ''rejected''"
      and resp: "jget resp ''transactionId'' = PNone"
      and c': "c' = record_rfid_attempt id_tag ''rejected'' account None d c4"
      by (rule start_rejected [OF assms(2-4) a False])
    have rows: "tx_rows c2 = tx_rows c" using assign_frame [OF c1, of "jget payload ''connectorId''"] s fa by simp
    have "active_pks c2 \<subseteq> active_pks c"
      using assign_pks [OF c1, of "jget payload ''connectorId''"] s active_pks_table [OF fa(2)] by simp
    moreover note r = create_tx_rows [OF cr]
    moreover have "active_pks c' = active_pks c2"
      using r by (intro active_pks_table) (simp add: c')
    moreover have "\<forall>k row'. tx_rows c' k = Some row' \<longrightarrow>
        tx_rows c k = Some row' \<or> jget row' ''authorization_status'' = PStr ''rejected''"
      using r rows row by (auto simp: c' split: if_splits)
    ultimately show ?thesis
      using False dec resp by simp
  qed
qed

subsection \<open>Stopping\<close>

lemma stop_cols_set:
  "jget (set_fields (stop_cols m reason (vehicle_cols p) stop received) row) ''stop_time'' = stop"
  "m \<noteq> PNone \<Longrightarrow> jget (set_fields (stop_cols m reason (vehicle_cols p) stop received) row) ''meter_stop'' = m"
  "col \<notin> {''meter_stop'', ''stop_reason'', ''vid'', ''vin'', ''stop_time'', ''received_stop_time''} \<Longrightarrow>
     jget (set_fields (stop_cols m reason (vehicle_cols p) stop received) row) col = jget row col"
  by (subst jget_set_fields; auto simp: stop_cols_def vehicle_cols_def dget_def split: prod.split option.split)+

lemma close_session_frame [simp]:
  "tx_rows (close_session c) = tx_rows c" "tx_table (close_session c) = tx_table c"
  "tc_store_key (close_session c) = tc_store_key c"
  by (simp_all add: close_session_def)

lemma add_message_frame [simp]:
  "tx_rows (add_message env t c) = tx_rows c" "tx_table (add_message env t c) = tx_table c"
  "tc_store_key (add_message env t c) = tc_store_key c"
  by (simp_all add: add_message_def)

lemma take_tx_frame:
  "take_tx c = (t, c1) \<Longrightarrow>
     t = active_tx (tc_store_key c) c \<and> tx_rows c1 = tx_rows c \<and> tc_store_key c1 = tc_store_key c \<and>
     tc_charger c1 = tc_charger c \<and> tc_connector c1 = tc_connector c \<and>
     tx_table c1 = ddel (tc_store_key c) (tx_table c)"
  by (auto simp: take_tx_def)

lemma finish_stop_frame [simp]:
  "tx_rows (snd (finish_stop env text c)) = tx_rows c" "tx_table (snd (finish_stop env text c)) = tx_table c"
  "tc_store_key (snd (finish_stop env text c)) = tc_store_key c"
  "fst (finish_stop env text c) = Inr [(''idTagInfo'', PDict [(''status'', PStr ''Accepted'')])]"
  by (simp_all add: finish_stop_def Let_def)

lemma finish_stop_result:
  "finish_stop env text c = (x, c') \<Longrightarrow> x = Inr [(''idTagInfo'', PDict [(''status'', PStr ''Accepted'')])] \<and>
     tx_rows c' = tx_rows c \<and> tx_table c' = tx_table c \<and> tc_store_key c' = tc_store_key c"
  using finish_stop_frame [of env "text" c] by simp

text \<open>With a date that does not exist the transaction is taken out of the table and its row is not stopped.\<close>

lemma stop_active:
  assumes "active_tx (tc_store_key c) c = Some pk" "handle_stop_transaction env payload text c = (r, c')"
    and "tx_rows c (PInt pk) \<noteq> None"
  shows "case te_parse_timestamp env (jget payload ''timestamp'') of
      Inr stamp \<Rightarrow> r = Inr [(''idTagInfo'', PDict [(''status'', PStr ''Accepted'')])] \<and>
        jget (tx_row pk c') ''stop_time'' = por stamp (te_now env) \<and>
        (jget payload ''meterStop'' \<noteq> PNone \<longrightarrow> jget (tx_row pk c') ''meter_stop'' = jget payload ''meterStop'')
    | Inl e \<Rightarrow> r = Inl (PyError e) \<and> jget (tx_row pk c') ''stop_time'' = jget (tx_row pk c) ''stop_time'' \<and>
        jget (tx_row pk c') ''meter_stop'' = jget (tx_row pk c) ''meter_stop''" (is ?stopped)
    and "jget (tx_row pk c') ''rfid'' = jget (tx_row pk c) ''rfid''" (is ?tag)
    and "\<forall>k. k \<noteq> PInt pk \<longrightarrow> tx_rows c' k = tx_rows c k"
    and "active_tx (tc_store_key c') c' = None"
proof -
  obtain t c1 where t: "take_tx c = (t, c1)" by (cases "take_tx c")
  note f = take_tx_frame [OF t]
  have st: "stopped_tx env payload c = (Inr (Some pk), c1)"
    using f assms(1) by (simp add: stopped_tx_def t)
  let ?i = "Some (py_str (jget payload ''transactionId''))"
  let ?e = "ensure_ocpp_transaction_identifier pk ?i c1"
  let ?cols = "\<lambda>stamp. stop_cols (jget payload ''meterStop'') (take 64 (text_field (jget payload ''reason'')))
     (vehicle_cols payload) (por stamp (te_now env)) (te_now env)"
  have row1: "tx_row pk c1 = tx_row pk c" using f by (simp add: tx_row_rows)
  have some: "tx_rows ?e (PInt pk) \<noteq> None"
    using ensure_identifier_rows(2) [of pk ?i c1] f assms(3) by simp
  have cases: "(\<exists>e. te_parse_timestamp env (jget payload ''timestamp'') = Inl e \<and> r = Inl (PyError e) \<and> c' = ?e) \<or>
      (\<exists>stamp. te_parse_timestamp env (jget payload ''timestamp'') = Inr stamp \<and>
         r = Inr [(''idTagInfo'', PDict [(''status'', PStr ''Accepted'')])] \<and>
         tx_rows c' = tx_rows (save_tx pk (?cols stamp) ?e) \<and> tx_table c' = tx_table ?e \<and> tc_store_key c' = tc_store_key ?e)"
  proof (cases "te_parse_timestamp env (jget payload ''timestamp'')")
    case (Inl e)
    then show ?thesis using assms(2) by (simp add: handle_stop_transaction_def st Let_def)
  next
    case (Inr stamp)
    have "finish_stop env text (effect (UpdateConsumption pk) (save_tx pk (?cols stamp) ?e)) = (r, c')"
      using assms(2) Inr by (simp add: handle_stop_transaction_def st Let_def)
    from finish_stop_result [OF this] show ?thesis using Inr by simp
  qed
  show ?stopped ?tag
  proof -
    have col: "jget (tx_row pk ?e) col = jget (tx_row pk c) col" if "col \<noteq> ''ocpp_transaction_id''" for col
      using ensure_identifier_rows(3) [OF that, of pk ?i c1] row1 by simp
    have row: "tx_row pk c' = set_fields (?cols stamp) (tx_row pk ?e)"
      if "tx_rows c' = tx_rows (save_tx pk (?cols stamp) ?e)" for stamp
      using that some by (auto simp: tx_row_rows)
    show ?stopped ?tag
      using cases by (auto simp: row col stop_cols_set)
  qed
  show "\<forall>k. k \<noteq> PInt pk \<longrightarrow> tx_rows c' k = tx_rows c k"
    using f cases by (auto simp: ensure_identifier_rows)
  show "active_tx (tc_store_key c') c' = None"
    using f cases by (auto simp: active_tx_def)
qed

lemma start_accepted_state:
  assumes "tc_store_key c \<noteq> []" "handle_start_transaction env payload text c = (Inr resp, c')"
    and "jget payload ''idTag'' = PStr id_tag" "id_tag \<noteq> []" "jget resp ''transactionId'' = PInt pk"
  shows "tc_store_key c' \<noteq> [] \<and> active_tx (tc_store_key c') c' = Some pk \<and> tx_rows c (PInt pk) = None \<and>
    tx_rows c' (PInt pk) \<noteq> None \<and> jget (tx_row pk c') ''rfid'' = PStr id_tag \<and>
    jget (tx_row pk c') ''meter_start'' = jget payload ''meterStart'' \<and>
    (\<forall>k. k \<noteq> PInt pk \<longrightarrow> tx_rows c' k = tx_rows c k)"
proof -
  obtain d t account c1 where a: "authorize env id_tag c = (d, t, account, c1)"
    by (cases "authorize env id_tag c")
  note fa = authorize_frame [OF a]
  have c1: "tc_store_key c1 \<noteq> []" using assms(1) fa by simp
  have acc: "ad_status d = AuthAccepted"
  proof (rule ccontr)
    assume "ad_status d \<noteq> AuthAccepted"
    from start_rejected [OF assms(2-4) a this] show False using assms(5) by (metis pyval.distinct(3))
  qed
  obtain c2 pk' c4 stamp where s: "assign_connector (jget payload ''connectorId'') c1 = (Inr (), c2)"
    and cr: "create_tx (accepted_row env id_tag account payload stamp (warn_unlinked d t account c2)) (warn_unlinked d t account c2) = (pk', c4)"
    and resp: "jget resp ''transactionId'' = PInt pk'"
    and c': "c' = record_rfid_attempt id_tag ''accepted'' account (Some pk') d (begin_tx env pk' None text c4)"
    by (rule start_accepted [OF assms(2-4) a acc])
  have pk: "pk' = pk" using resp assms(5) by simp
  note r = create_tx_rows [OF cr [unfolded pk]]
  have as: "tx_rows c2 = tx_rows c" "tc_store_key c2 \<noteq> []"
    using assign_frame [OF c1, of "jget payload ''connectorId''"] s fa by simp_all
  have row4: "tx_row pk c4 = accepted_row env id_tag account payload stamp (warn_unlinked d t account c2)"
    using r by (simp add: tx_row_rows)
  have "tx_row pk c' = tx_row pk (begin_tx env pk None text c4)"
    by (simp add: c' pk tx_row_rows)
  then have "jget (tx_row pk c') ''rfid'' = PStr id_tag" "jget (tx_row pk c') ''meter_start'' = jget payload ''meterStart''"
    by (simp_all add: begin_tx_frame row4 accepted_row_cols)
  moreover have "\<forall>k. k \<noteq> PInt pk \<longrightarrow> tx_rows c' k = tx_rows c k" "tx_rows c' (PInt pk) \<noteq> None" "tx_rows c (PInt pk) = None"
    using r as by (simp_all add: c' pk begin_tx_frame)
  moreover have "tc_store_key c' \<noteq> []" "active_tx (tc_store_key c') c' = Some pk"
    using r as by (simp_all add: active_tx_def c' pk begin_tx_frame)
  ultimately show ?thesis by blast
qed

text \<open>
  C21: a session is closed by its stop.  After an accepted start, whatever connectors the following
  messages on the websocket name, a StopTransaction whose time can be read is accepted and stops the row
  of that start: it gets the stop time and the meter reading.  When the time is a date that does not exist,
  so that the parser raises, the stop is not answered and the row gets neither.  In both cases the
  row keeps its tag, no other row changes, and nothing stays active for the connection.  The
  transaction id the charger reports plays no part.
\<close>

theorem stop_closes_started_session:
  assumes "tc_store_key c \<noteq> []" "handle_start_transaction env payload text c = (Inr resp, c1)"
    and "jget payload ''idTag'' = PStr id_tag" "id_tag \<noteq> []" "jget resp ''transactionId'' = PInt pk"
    and "handle_stop_transaction env' payload' text' (assign_all hints c1) = (r, c2)"
  shows "(case te_parse_timestamp env' (jget payload' ''timestamp'') of
      Inr stamp \<Rightarrow> r = Inr [(''idTagInfo'', PDict [(''status'', PStr ''Accepted'')])] \<and>
        jget (tx_row pk c2) ''stop_time'' = por stamp (te_now env') \<and>
        (jget payload' ''meterStop'' \<noteq> PNone \<longrightarrow> jget (tx_row pk c2) ''meter_stop'' = jget payload' ''meterStop'')
    | Inl e \<Rightarrow> r = Inl (PyError e) \<and> jget (tx_row pk c2) ''stop_time'' = jget (tx_row pk c1) ''stop_time'' \<and>
        jget (tx_row pk c2) ''meter_stop'' = jget (tx_row pk c1) ''meter_stop'') \<and>
    jget (tx_row pk c2) ''rfid'' = PStr id_tag \<and> (\<forall>k. k \<noteq> PInt pk \<longrightarrow> tx_rows c2 k = tx_rows c k) \<and>
    active_tx (tc_store_key c2) c2 = None"
proof -
  note s = start_accepted_state [OF assms(1-5)]
  have a: "tx_rows (assign_all hints c1) = tx_rows c1" "active_tx (tc_store_key (assign_all hints c1)) (assign_all hints c1) = Some pk"
    using assign_all_frame [of c1 hints pk] s by auto
  have row: "tx_row pk (assign_all hints c1) = tx_row pk c1" using a by (simp add: tx_row_rows)
  have "tx_rows (assign_all hints c1) (PInt pk) \<noteq> None" using a s by simp
  note st = stop_active [OF a(2) assms(6) this]
  show ?thesis using st(1) unfolding row using st(2-) s a row by auto
qed

subsection \<open>A concrete session\<close>

definition demo_env :: tx_env where
  "demo_env = \<lparr>te_now = PTime 5 ''now'', te_parse_timestamp = (\<lambda>_. Inr PNone), te_date = ''20250101'', te_stamp = ''t'',
     te_scan = (\<lambda>code. (\<lparr>tg_rfid = code, tg_allowed = True, tg_released = False, tg_discovered_via_ocpp = False,
       tg_last_seen_on = PNone\<rparr>, False)), te_account = (\<lambda>_. None),
     te_flags = \<lparr>af_policy = ''allowlist'', af_fallback = False, af_energy_accounts = False, af_credits_required = False\<rparr>,
     te_fallback = \<lparr>ac_pk = 9, ac_service_account = True, ac_balance_kw = 0, ac_balance_mxn = 0, ac_tariff_price = None\<rparr>\<rparr>"

lemma demo_parse [simp]: "te_parse_timestamp demo_env v = Inr PNone"
  by (simp add: demo_env_def)

definition demo_conn :: "unit tx_conn" where
  "demo_conn = \<lparr>tc_store = init_ocpp_store None, tc_logs = init_logs,
     tc_db = [((''Charger'', PInt 1), [(''charger_id'', PStr ''CP''), (''connector_id'', PNone)])],
     tc_self = 0, tc_charger_id = ''CP'', tc_store_key = ''CP#all'', tc_connector = None, tc_charger = Some (PInt 1),
     tc_aggregate = Some (PInt 1), tc_station = None, tc_path = PStr [], tc_client_ip = [], tc_header_ref = True,
     tc_effects = []\<rparr>"

definition demo_start :: "int \<Rightarrow> string \<Rightarrow> obj" where
  "demo_start connector id_tag =
     [(''connectorId'', PInt connector), (''idTag'', PStr id_tag), (''meterStart'', PInt 100)]"

lemma start_answers:
  assumes "tc_charger c \<noteq> None" "jget payload ''idTag'' = PStr id_tag" "id_tag \<noteq> []"
    and "parse_connector (jget payload ''connectorId'') = Inr x"
    and "te_parse_timestamp env (jget payload ''timestamp'') = Inr stamp"
  shows "\<exists>resp c'. handle_start_transaction env payload text c = (Inr resp, c')"
proof -
  obtain d t account c1 where a: "authorize env id_tag c = (d, t, account, c1)"
    by (cases "authorize env id_tag c")
  have "fst (assign_connector (jget payload ''connectorId'') c1) = Inr ()"
    using assms(4) by (auto simp: assign_connector_def split: option.split)
  then obtain c2 where "assign_connector (jget payload ''connectorId'') c1 = (Inr (), c2)"
    by (metis prod.collapse)
  then show ?thesis
    using assms a by (simp add: handle_start_transaction_def start_authorized_def Let_def split: prod.split)
qed

lemma start_transaction_id:
  assumes "handle_start_transaction env payload text c = (Inr resp, c')" "jget payload ''idTag'' = PStr id_tag" "id_tag \<noteq> []"
    and "te_scan env id_tag = (tag, created)"
    and "may_charge (te_flags env) id_tag (te_account env id_tag) (Some tag) created"
  shows "\<exists>pk. jget resp ''transactionId'' = PInt pk"
proof -
  obtain d t account c1 where a: "authorize env id_tag c = (d, t, account, c1)"
    by (cases "authorize env id_tag c")
  have acc: "ad_status d = AuthAccepted"
    using authorize_decision [OF assms(3,4) a] assms(5) by simp
  show ?thesis by (rule start_accepted [OF assms(1-3) a acc]) blast
qed

lemma assign_value_charger: "tc_charger c \<noteq> None \<Longrightarrow> tc_charger (assign_connector_value i c) \<noteq> None"
proof -
  have take: "tc_charger (take_key new c) = tc_charger c" for new and c :: "'a tx_conn"
    by (simp add: take_key_def Let_def move_identity_def split: option.split)
  have sel: "tc_charger (select_connector_row i c) \<noteq> None" for c :: "'a tx_conn"
    by (simp add: select_connector_row_def Let_def db_create_def split: option.split)
  show "tc_charger c \<noteq> None \<Longrightarrow> tc_charger (assign_connector_value i c) \<noteq> None"
    using sel by (simp add: assign_connector_value_def Let_def take)
qed

lemma demo_start_answers:
  assumes "tc_charger c \<noteq> None" "connector \<noteq> 0" "id_tag \<noteq> []" "tc_store_key c \<noteq> []"
  obtains resp c' pk where
    "handle_start_transaction demo_env (demo_start connector id_tag) None c = (Inr resp, c')"
    "jget resp ''transactionId'' = PInt pk" "tc_charger c' \<noteq> None" "tc_store_key c' \<noteq> []"
proof -
  let ?p = "demo_start connector id_tag"
  have p: "jget ?p ''idTag'' = PStr id_tag" "parse_connector (jget ?p ''connectorId'') = Inr (Some (Some connector))"
    using assms(2) by (simp_all add: demo_start_def parse_connector_def)
  obtain resp c' where s: "handle_start_transaction demo_env ?p None c = (Inr resp, c')"
    using start_answers [OF assms(1) p(1) assms(3) p(2) demo_parse] by blast
  have "may_charge (te_flags demo_env) id_tag (te_account demo_env id_tag) (Some (fst (te_scan demo_env id_tag))) False"
    using assms(3) by (simp add: may_charge_def demo_env_def)
  then obtain pk where pk: "jget resp ''transactionId'' = PInt pk"
    using start_transaction_id [OF s p(1) assms(3)] by (auto simp: demo_env_def)
  have key: "tc_store_key c' \<noteq> []" using start_accepted_state [OF assms(4) s p(1) assms(3) pk] by simp
  obtain d t account c1 where a: "authorize demo_env id_tag c = (d, t, account, c1)"
    by (cases "authorize demo_env id_tag c")
  have "ad_status d = AuthAccepted"
    using start_rejected [OF s p(1) assms(3) a] pk by (metis pyval.distinct(3))
  from start_accepted [OF s p(1) assms(3) a this] obtain c2 pk' c4 stamp where
    as: "assign_connector (jget ?p ''connectorId'') c1 = (Inr (), c2)"
    and cr: "create_tx (accepted_row demo_env id_tag account ?p stamp (warn_unlinked d t account c2)) (warn_unlinked d t account c2) = (pk', c4)"
    and c': "c' = record_rfid_attempt id_tag ''accepted'' account (Some pk') d (begin_tx demo_env pk' None None c4)"
    by metis
  have "tc_charger c2 \<noteq> None"
    using as assign_value_charger [of c1 connector] authorize_frame [OF a] assms(1) p(2)
    by (auto simp: assign_connector_def)
  then have "tc_charger c4 \<noteq> None" using create_tx_rows [OF cr] by simp
  moreover have "tc_charger c' = tc_charger c4"
    by (simp add: c' record_rfid_attempt_def begin_tx_def open_session_def file_tx_def Let_def)
  ultimately show thesis using that s pk key by simp
qed

lemma demo_conn_simps [simp]:
  "tc_charger demo_conn = Some (PInt 1)" "tc_store_key demo_conn = ''CP#all''"
  by (simp_all add: demo_conn_def)

theorem start_transaction_outcome_witness:
  "\<exists>resp c' pk. handle_start_transaction demo_env (demo_start 1 ''AA'') None demo_conn = (Inr resp, c') \<and>
     active_tx (tc_store_key c') c' = Some pk \<and> jget (tx_row pk c') ''authorization_status'' = PStr ''accepted''"
proof -
  obtain resp c' where s: "handle_start_transaction demo_env (demo_start 1 ''AA'') None demo_conn = (Inr resp, c')"
    by (rule demo_start_answers [of demo_conn 1 "''AA''"]) simp_all
  have "te_scan demo_env ''AA'' = (fst (te_scan demo_env ''AA''), False)" by (simp add: demo_env_def)
  moreover have "may_charge (te_flags demo_env) ''AA'' (te_account demo_env ''AA'') (Some (fst (te_scan demo_env ''AA''))) False"
    by (simp add: may_charge_def demo_env_def)
  moreover have "jget (demo_start 1 ''AA'') ''idTag'' = PStr ''AA''" by (simp add: demo_start_def)
  ultimately show ?thesis
    using start_transaction_outcome [OF _ s, of "''AA''" "fst (te_scan demo_env ''AA'')" False] s by auto
qed

theorem stop_closes_started_session_witness:
  "\<exists>resp c1 pk. handle_start_transaction demo_env (demo_start 1 ''AA'') None demo_conn = (Inr resp, c1) \<and>
     jget (tx_row pk (snd (handle_stop_transaction demo_env [(''meterStop'', PInt 250)] None
       (assign_all [PNone, PInt 2] c1)))) ''meter_stop'' = PInt 250"
proof -
  obtain resp c1 pk where s: "handle_start_transaction demo_env (demo_start 1 ''AA'') None demo_conn = (Inr resp, c1)"
    and pk: "jget resp ''transactionId'' = PInt pk"
    by (rule demo_start_answers [of demo_conn 1 "''AA''"]) simp_all
  obtain r c2 where r: "handle_stop_transaction demo_env [(''meterStop'', PInt 250)] None (assign_all [PNone, PInt 2] c1) = (r, c2)"
    by (metis surj_pair)
  have "jget (tx_row pk c2) ''meter_stop'' = PInt 250"
    using stop_closes_started_session [OF _ s _ _ pk r, of "''AA''"] by (simp add: demo_start_def)
  then show ?thesis using s r by auto
qed

subsection \<open>Two sessions on one websocket\<close>

text \<open>
  C24: with two starts on one websocket, as a charger with two connectors sends them, a StopTransaction
  whose time can be read stops the later session whatever transaction it names: the row of the first
  start, which the message may name, keeps its state, and the second one is stopped.
\<close>

theorem stop_hits_latest_session:
  assumes "tc_store_key c \<noteq> []" "handle_start_transaction env payload text c = (Inr resp, c1)"
    and "jget payload ''idTag'' = PStr id_tag" "id_tag \<noteq> []" "jget resp ''transactionId'' = PInt pk"
    and "handle_start_transaction env' payload' text' (assign_all hints c1) = (Inr resp', c2)"
    and "jget payload' ''idTag'' = PStr id_tag'" "id_tag' \<noteq> []" "jget resp' ''transactionId'' = PInt pk'"
    and "te_parse_timestamp env'' (jget stop ''timestamp'') = Inr stamp"
    and "handle_stop_transaction env'' stop text'' (assign_all hints' c2) = (r, c3)"
  shows "pk' \<noteq> pk \<and> r = Inr [(''idTagInfo'', PDict [(''status'', PStr ''Accepted'')])] \<and>
    jget (tx_row pk' c3) ''stop_time'' = por stamp (te_now env'') \<and>
    tx_row pk c3 = tx_row pk c1"
proof -
  note s = start_accepted_state [OF assms(1-5)]
  let ?c1 = "assign_all hints c1" and ?c2 = "assign_all hints' c2"
  have a1: "tx_rows ?c1 = tx_rows c1" "tc_store_key ?c1 \<noteq> []"
    using assign_all_frame [of c1 hints] s by auto
  note s' = start_accepted_state [OF a1(2) assms(6-9)]
  have a2: "tx_rows ?c2 = tx_rows c2" "active_tx (tc_store_key ?c2) ?c2 = Some pk'"
    using assign_all_frame [of c2 hints' pk'] s' by auto
  have "tx_rows ?c2 (PInt pk') \<noteq> None" using a2 s' by simp
  note st = stop_active [OF a2(2) assms(11) this]
  have ne: "pk' \<noteq> pk" using s s' a1 by auto
  then have "tx_rows c3 (PInt pk) = tx_rows c1 (PInt pk)" using st(3) a2 s' a1 by simp
  then show ?thesis using st(1) assms(10) ne by (simp add: tx_row_rows)
qed

theorem stop_hits_latest_session_witness:
  "\<exists>resp c1 pk resp' c2 pk' c3.
     handle_start_transaction demo_env (demo_start 1 ''AA'') None demo_conn = (Inr resp, c1) \<and>
     jget resp ''transactionId'' = PInt pk \<and>
     handle_start_transaction demo_env (demo_start 2 ''BB'') None c1 = (Inr resp', c2) \<and>
     jget resp' ''transactionId'' = PInt pk' \<and>
     snd (handle_stop_transaction demo_env [(''transactionId'', PInt pk)] None c2) = c3 \<and>
     tx_row pk c3 = tx_row pk c1 \<and> jget (tx_row pk' c3) ''stop_time'' = PTime 5 ''now''"
proof -
  obtain resp c1 pk where s: "handle_start_transaction demo_env (demo_start 1 ''AA'') None demo_conn = (Inr resp, c1)"
    and pk: "jget resp ''transactionId'' = PInt pk" and ch: "tc_charger c1 \<noteq> None" "tc_store_key c1 \<noteq> []"
    by (rule demo_start_answers [of demo_conn 1 "''AA''"]) simp_all
  obtain resp' c2 pk' where s': "handle_start_transaction demo_env (demo_start 2 ''BB'') None c1 = (Inr resp', c2)"
    and pk': "jget resp' ''transactionId'' = PInt pk'"
    by (rule demo_start_answers [OF ch(1) _ _ ch(2), of 2 "''BB''"]) simp_all
  have nil: "assign_all [] c = c" for c :: "unit tx_conn" by (simp add: assign_all_def)
  obtain r c3 where r: "handle_stop_transaction demo_env [(''transactionId'', PInt pk)] None c2 = (r, c3)"
    by (metis surj_pair)
  have tags: "jget (demo_start 1 ''AA'') ''idTag'' = PStr ''AA''" "jget (demo_start 2 ''BB'') ''idTag'' = PStr ''BB''"
    by (simp_all add: demo_start_def)
  have "tx_row pk c3 = tx_row pk c1" "jget (tx_row pk' c3) ''stop_time'' = PTime 5 ''now''"
    using stop_hits_latest_session [where hints = "[]" and hints' = "[]", OF _ s tags(1) _ pk, unfolded nil,
        OF _ _ s' tags(2) _ pk' demo_parse r]
    by (simp_all add: demo_env_def por_def)
  moreover have "snd (handle_stop_transaction demo_env [(''transactionId'', PInt pk)] None c2) = c3"
    using r by simp
  ultimately show ?thesis using s pk s' pk' by blast
qed

end
