(* ===== verification/MeteringProps.thy ===== *)
theory MeteringProps
  imports Metering TxEventsProps
begin

text \<open>
  Properties of the meter values: units, what a message may change of a session, which samples become
  rows, and where the handler goes wrong.
\<close>

subsection \<open>Exact decimals\<close>

lemma pow10_int: "pow10 e = 10 powi e"
  by (simp add: pow10_def power_int_def divide_simps)

lemma digits_bounds: "0 < n \<Longrightarrow> 0 < decimal_digits n \<and> pow10 (decimal_digits n - 1) \<le> of_int n \<and> of_int n < pow10 (decimal_digits n)"
proof (induction n rule: decimal_digits.induct)
  case (1 n)
  show ?case
  proof (cases "n < 10")
    case True
    then have "decimal_digits n = 1" using 1(2) by (simp add: decimal_digits.simps [of n] decimal_digits.simps [of 0])
    then show ?thesis using True 1(2) by (simp add: pow10_def)
  next
    case False
    define m where "m = n div 10"
    have d: "decimal_digits n = 1 + decimal_digits m" using 1(2) by (simp add: decimal_digits.simps [of n] m_def)
    have m: "0 < decimal_digits m" "pow10 (decimal_digits m - 1) \<le> of_int m" "of_int m < pow10 (decimal_digits m)"
      using 1(1) 1(2) False by (auto simp: m_def)
    have "pow10 (decimal_digits m) = of_int (10 ^ nat (decimal_digits m))" using m(1) by (simp add: pow10_def)
    then have "m < 10 ^ nat (decimal_digits m)" using m(3) by (metis of_int_less_iff)
    then have "n < 10 * 10 ^ nat (decimal_digits m)" by (simp add: m_def)
    then have up: "of_int n < (10 :: rat) * pow10 (decimal_digits m)" using m(1)
      by (metis \<open>pow10 (decimal_digits m) = of_int (10 ^ nat (decimal_digits m))\<close> of_int_less_iff of_int_mult of_int_numeral)
    have "10 * m \<le> n" by (simp add: m_def)
    then have "(10 :: rat) * of_int m \<le> of_int n" by (metis of_int_le_iff of_int_mult of_int_numeral)
    then have low: "10 * pow10 (decimal_digits m - 1) \<le> of_int n" using m(2) by linarith
    have "10 * pow10 (decimal_digits m - 1) = pow10 (decimal_digits m)" "10 * pow10 (decimal_digits m) = pow10 (1 + decimal_digits m)"
      by (simp_all add: pow10_int power_int_add power_int_diff)
    then show ?thesis using d m(1) up low by simp
  qed
qed

text \<open>The first digit of a number divided by its unit is in front of 27 others.\<close>

lemma unit_exponent_low:
  assumes "0 < q"
  shows "10 ^ 27 \<le> q / pow10 (unit_exponent q)"
proof -
  obtain a b where ab: "quotient_of q = (a, b)" by fastforce
  then have b: "0 < b" and q: "q = of_int a / of_int b" by (simp_all add: quotient_of_denom_pos quotient_of_div)
  then have a: "0 < a" using assms by (simp add: zero_less_divide_iff)
  define e where "e = decimal_digits a - decimal_digits b - 28"
  have "pow10 (decimal_digits a - 1) * of_int b \<le> of_int a * pow10 (decimal_digits b)"
    using digits_bounds [OF a] digits_bounds [OF b] a b
    by (intro mult_mono) (auto simp: pow10_int)
  then have "pow10 (decimal_digits a - 1) / pow10 (decimal_digits b) \<le> q"
    using b by (simp add: q field_simps pow10_int)
  then have low: "pow10 (e + 27) \<le> q"
    by (simp add: e_def pow10_int power_int_diff power_int_add field_simps)
  then have first: "10 ^ 27 \<le> q / pow10 e"
    by (simp add: pow10_int power_int_add field_simps)
  show ?thesis
  proof (cases "q / pow10 e < 10 ^ 28")
    case True
    then have "unit_exponent q = e" by (simp add: unit_exponent_def ab e_def Let_def)
    then show ?thesis using first by simp
  next
    case False
    then have "unit_exponent q = e + 1" by (simp add: unit_exponent_def ab e_def Let_def)
    moreover have "q / pow10 (e + 1) = q / pow10 e / 10" by (simp add: pow10_int power_int_add)
    moreover have "10 ^ 27 \<le> q / pow10 e / 10" using False by (simp add: not_less)
    ultimately show ?thesis by metis
  qed
qed

lemma round_int [simp]: "round_half_even (of_int n) = n"
  by (simp add: round_half_even_def Let_def)

text \<open>A number with at most 28 digits is not rounded, and no exponent is out of range.\<close>

lemma decimal_result_exact:
  assumes "\<bar>n\<bar> < 10 ^ 28" "0 \<le> j" "j \<le> 1000"
  shows "decimal_result (of_int n / pow10 j) = Inr (of_int n / pow10 j)"
proof (cases "n = 0")
  case False
  define q where "q = of_int n / pow10 j"
  define e where "e = unit_exponent \<bar>q\<bar>"
  have p: "0 < pow10 i" for i by (simp add: pow10_int)
  have q: "\<bar>q\<bar> = of_int \<bar>n\<bar> / pow10 j" using p [of j] by (simp add: q_def abs_divide)
  have "0 < \<bar>q\<bar>" using False p [of j] by (simp add: q)
  then have "10 ^ 27 \<le> \<bar>q\<bar> / pow10 e" using unit_exponent_low e_def by blast
  moreover have "\<bar>q\<bar> < 10 ^ 28 / pow10 j"
  proof -
    have "(of_int \<bar>n\<bar> :: rat) < of_int (10 ^ 28)" using assms(1) by (simp only: of_int_less_iff)
    then show ?thesis using p [of j] by (simp add: q divide_strict_right_mono)
  qed
  ultimately have "10 ^ 27 * pow10 e < 10 ^ 28 / pow10 j" using p [of e] by (simp add: field_simps)
  then have "pow10 (e + j) < pow10 1" using p [of j] by (simp add: pow10_int power_int_add field_simps)
  then have ej: "e \<le> - j" using power_int_increasing [of 1 "e + j" "10 :: rat"] by (auto simp: pow10_int not_le intro: leI)
  define k where "k = max e (- 1000026)"
  have k: "0 \<le> - j - k" "k \<le> 0" using ej assms by (auto simp: k_def)
  have "\<bar>q\<bar> / pow10 k = of_int (\<bar>n\<bar> * 10 ^ nat (- j - k))"
  proof -
    have "\<bar>q\<bar> / pow10 k = of_int \<bar>n\<bar> * pow10 (- j - k)"
      by (simp add: q pow10_int power_int_diff power_int_minus field_simps)
    then show ?thesis using k by (simp add: pow10_def)
  qed
  then have whole: "of_int (round_half_even (\<bar>q\<bar> / pow10 k)) * pow10 k = \<bar>q\<bar>"
    using p [of k] by (metis nonzero_divide_eq_eq order_less_irrefl round_int)
  have "\<not> 999972 < e" "e \<noteq> 999972" "q \<noteq> 0" using ej assms False p [of j] by (auto simp: q_def)
  then have "decimal_result q = Inr (if q < 0 then - \<bar>q\<bar> else \<bar>q\<bar>)"
    unfolding decimal_result_def Let_def e_def [symmetric] k_def [symmetric] whole by simp
  moreover have "(if q < 0 then - \<bar>q\<bar> else \<bar>q\<bar>) = q" by simp
  ultimately show ?thesis unfolding q_def by metis
qed (simp add: decimal_result_def)

lemma watt_hours_int: "\<bar>n\<bar> < 10 ^ 28 \<Longrightarrow> watt_hours False (DFin (of_int n / 1000)) = Inr n"
proof -
  assume n: "\<bar>n\<bar> < 10 ^ 28"
  have "of_int n / 1000 * 1000 = (of_int n / pow10 0 :: rat)" by (simp add: pow10_def)
  then have "decimal_result (of_int n / 1000 * 1000) = Inr (of_int n)"
    using decimal_result_exact [OF n, of 0] by (simp add: pow10_def)
  moreover have "rat_trunc (of_int n) = n" by (simp add: rat_trunc_def)
  ultimately show ?thesis by (simp add: watt_hours_def decimal_map_def)
qed

lemma to_kwh_int:
  assumes "\<bar>n\<bar> < 10 ^ 28" "u \<noteq> []" "py_lower u \<in> {''w'', ''wh''}"
  shows "normalize_energy_value False (DFin (of_int n)) (PStr u) v = Inr (DFin (of_int n / 1000))"
proof -
  have "decimal_result (of_int n / 1000) = Inr (of_int n / 1000)"
    using decimal_result_exact [OF assms(1), of 3] by (simp add: pow10_def)
  then show ?thesis using assms(2,3) by (auto simp: normalize_energy_value_def decimal_map_def por_def)
qed

lemma watt_hour_sample:
  assumes "dget d ''context'' = Some (PStr ctx)" "boundary_suffix (PStr ctx) = Some suffix"
    and "decimal_of_str (py_str (jget d ''value'')) = Some (DFin (of_int n))" "\<not> is_signalling (py_str (jget d ''value''))"
    and "dget d ''unit'' = Some (PStr u)" "u \<noteq> []" "py_lower u \<in> {''w'', ''wh''}"
    and "dget d ''measurand'' = None \<or> dget d ''measurand'' = Some (PStr ''Energy.Active.Import.Register'')"
    and "\<bar>n\<bar> < 10 ^ 28"
  shows "\<exists>a'. meter_sample (Some charger_unit) True (PDict d) a = Inr a' \<and> ma_context a' = PStr ctx \<and>
    ma_ints a' = dset (''meter_'' @ suffix) (PInt n) (ma_ints a) \<and> ma_values a' = ma_values a \<and>
    ma_readings a' = ma_readings a \<and> ma_decimals a' = ma_decimals a \<and> ma_temperature a' = ma_temperature a"
proof -
  have f: "sample_field (default_of d ''measurand'' (PStr [])) = Some ''energy''"
    using assms(8) by (auto simp: sample_field_def default_of_def)
  have "normalize_energy_value False (DFin (of_int n)) (por (PStr u) charger_unit) charger_unit = Inr (DFin (of_int n / 1000))"
    using to_kwh_int [OF assms(9,6,7)] assms(6) by (simp add: por_def)
  then show ?thesis
    using assms(1-7) f watt_hours_int [OF assms(9)]
    by (simp add: meter_sample_def Let_def default_of_def boundary_sample_def)
qed

subsection \<open>What readings change of a session\<close>

lemma efold_invariant:
  assumes "efold f xs s = Inr s'" "P s" and step: "\<And>x s s'. x \<in> set xs \<Longrightarrow> P s \<Longrightarrow> f x s = Inr s' \<Longrightarrow> P s'"
  shows "P s'"
  using assms(1,2) step
proof (induction xs arbitrary: s)
  case (Cons x xs)
  then obtain t where t: "f x s = Inr t" "efold f xs t = Inr s'" by (auto simp: ebind_Inr_iff)
  have "P t" using Cons.prems(2,3) t(1) by auto
  then show ?case using Cons.IH [OF t(2)] Cons.prems(3) by (meson list.set_intros(2))
qed simp

lemma efold_snoc: "efold f (xs @ [x]) s = ebind (efold f xs s) (f x)"
proof (induction xs arbitrary: s)
  case Nil
  show ?case by (cases "f x s") simp_all
next
  case (Cons y xs)
  then show ?case by (cases "f y s") simp_all
qed

definition sample_context :: "pyval \<Rightarrow> pyval" where
  "sample_context sv = (case sv of PDict d \<Rightarrow> default_of d ''context'' PNone | _ \<Rightarrow> PNone)"

definition samples_of :: "pyval \<Rightarrow> pyval list" where
  "samples_of mv = (case mv of PDict d \<Rightarrow> (case py_iter (default_of d ''sampledValue'' (PList [])) of Inr svs \<Rightarrow> svs | Inl _ \<Rightarrow> []) | _ \<Rightarrow> [])"

definition entries_of :: "pyval \<Rightarrow> pyval list" where
  "entries_of v = (case py_iter v of Inr mvs \<Rightarrow> mvs | Inl _ \<Rightarrow> [])"

text \<open>A message says nothing about one end of a transaction when no sample carries its context.\<close>

definition silent :: "string \<Rightarrow> pyval \<Rightarrow> bool" where
  "silent ctx meter_values \<longleftrightarrow>
     list_all (\<lambda>mv. list_all (\<lambda>sv. sample_context sv \<noteq> PStr ctx) (samples_of mv)) (entries_of meter_values)"

definition keeps_start :: "pyval \<Rightarrow> meter_acc \<Rightarrow> bool" where
  "keeps_start m a \<longleftrightarrow> ma_start a = m \<and> dget (ma_ints a) ''meter_start'' = None \<and> ma_context a \<noteq> PStr ''Transaction.Begin''"

lemma boundary_suffix_simps:
  "boundary_suffix c = Some s \<longleftrightarrow>
     c = PStr ''Transaction.Begin'' \<and> s = ''start'' \<or> c = PStr ''Transaction.End'' \<and> s = ''stop''"
  by (auto simp: boundary_suffix_def)

lemma sample_keeps_start:
  assumes "meter_sample u tx sv a = Inr a'" "keeps_start m a" "m \<noteq> PNone" "sample_context sv \<noteq> PStr ''Transaction.Begin''"
  shows "keeps_start m a'"
proof -
  have ctx: "default_of d ''context'' (por (ma_context a) (PStr [])) \<noteq> PStr ''Transaction.Begin''" if "sv = PDict d" for d
    using assms(2,4) that by (auto simp: sample_context_def default_of_def keeps_start_def por_def split: option.splits)
  have interim: "keeps_start m b'" if "interim_sample tx f q v b = Inr b'" "keeps_start m b" for f q v b b'
    using that assms(3) by (auto simp: interim_sample_def keeps_start_def Let_def split: if_splits)
  have bound: "keeps_start m b'"
    if "boundary_sample s f q v b = Inr b'" "keeps_start m b" "boundary_suffix (ma_context b) = Some s" for s f q v b b'
    using that by (auto simp: boundary_sample_def keeps_start_def boundary_suffix_simps ebind_Inr_iff split: if_splits)
  have start: "keeps_start m (a\<lparr>ma_context := c\<rparr>)" "keeps_start m (a\<lparr>ma_context := c, ma_temperature := t\<rparr>)"
    if "c \<noteq> PStr ''Transaction.Begin''" for c t
    using that assms(2) by (simp_all add: keeps_start_def)
  show ?thesis
    using assms(1,2) ctx start
    by (auto simp: meter_sample_def Let_def ebind_Inr_iff intro: interim bound
        split: pyval.splits option.splits if_splits)
qed

lemma entry_keeps_start:
  assumes "meter_entry env u charger connector tx mv a = Inr a'" "keeps_start m a" "m \<noteq> PNone"
    and "list_all (\<lambda>sv. sample_context sv \<noteq> PStr ''Transaction.Begin'') (samples_of mv)"
  shows "keeps_start m a'"
proof -
  obtain d ts svs a1 where mv: "mv = PDict d" "py_iter (default_of d ''sampledValue'' (PList [])) = Inr svs"
    and a1: "efold (meter_sample u (tx \<noteq> None)) svs (a\<lparr>ma_context := PStr [], ma_values := []\<rparr>) = Inr a1"
    and a': "a' = finish_entry charger connector tx ts a1"
    using assms(1) by (auto simp: meter_entry_def ebind_Inr_iff split: pyval.splits)
  have "keeps_start m (a\<lparr>ma_context := PStr [], ma_values := []\<rparr>)" using assms(2) by (simp add: keeps_start_def)
  then have "keeps_start m a1"
    by (rule efold_invariant [OF a1])
      (use assms(3,4) mv in \<open>auto simp: samples_of_def list_all_iff intro: sample_keeps_start\<close>)
  then show ?thesis unfolding a' by (auto simp: finish_entry_def keeps_start_def)
qed

text \<open>Rows of transactions that have a start keep it.\<close>

definition start_kept :: "'r tx_conn \<Rightarrow> 'r tx_conn \<Rightarrow> bool" where
  "start_kept c c' \<longleftrightarrow>
     (\<forall>pk row. tx_rows c (PInt pk) = Some row \<longrightarrow> jget row ''meter_start'' \<noteq> PNone \<longrightarrow>
        (\<exists>row'. tx_rows c' (PInt pk) = Some row' \<and> jget row' ''meter_start'' = jget row ''meter_start''))"

lemma start_kept_trans: "start_kept c1 c2 \<Longrightarrow> start_kept c2 c3 \<Longrightarrow> start_kept c1 c3"
  unfolding start_kept_def by metis

lemma start_kept_frame: "tx_rows c' = tx_rows c \<Longrightarrow> start_kept c c'"
  by (simp add: start_kept_def)

lemma start_kept_column: "col \<noteq> ''meter_start'' \<Longrightarrow> start_kept c (save_tx pk [(col, v)] c)"
  by (auto simp: start_kept_def jget_set_fields)

lemma start_kept_identifier: "start_kept c (ensure_ocpp_transaction_identifier pk i c)"
  by (auto simp: ensure_ocpp_transaction_identifier_def Let_def start_kept_column start_kept_frame)

lemma assign_rows: "tx_rows (snd (assign_connector h c)) = tx_rows c"
  by (auto simp: assign_connector_def assign_aggregate_def assign_connector_value_def Let_def split: sum.split option.split)

lemma open_session_frame [simp]:
  "tx_rows (open_session env pk lock t c) = tx_rows c" "tc_charger (open_session env pk lock t c) = tc_charger c"
  "tx_table (open_session env pk lock t c) = tx_table c" "tc_store_key (open_session env pk lock t c) = tc_store_key c"
  by (simp_all add: open_session_def)

lemma file_tx_frame [simp]:
  "tx_rows (file_tx pk c) = tx_rows c" "tc_charger (file_tx pk c) = tc_charger c"
  by (simp_all add: file_tx_def)

lemma create_with_pk_rows:
  "create_tx_with_pk pk cols c = (r, c') \<Longrightarrow>
     (r = Inr pk \<and> tx_rows c (PInt pk) = None \<and> tx_rows c' = (tx_rows c)(PInt pk := Some cols) \<and> tc_charger c' = tc_charger c \<and>
        tx_table c' = tx_table c) \<or>
     (r = Inl IntegrityError \<and> c' = c)"
  by (auto simp: create_tx_with_pk_def tx_rows_def db_get_def fun_eq_iff split: if_splits)

text \<open>What becomes of the transactions when the message's one is looked up or created.\<close>

lemma create_metered_rows:
  assumes "create_metered_tx env i tx_pk t c = (r, c')"
  shows "(\<exists>pk cols. r = Inr pk \<and> tx_rows c (PInt pk) = None \<and> tx_rows c' = (tx_rows c)(PInt pk := Some cols) \<and>
      jget cols ''authorization_status'' = PStr ''accepted'' \<and> tc_charger c' = tc_charger c \<and> tx_table c' = tx_table c) \<or>
    (\<exists>e. r = Inl e \<and> c' = c)"
proof -
  let ?row = "[(''charger'', opt_pk (tc_charger c)), (''ocpp_transaction_id'', PStr i),
    (''start_time'', te_now (me_tx env)), (''authorization_status'', PStr ''accepted'')]"
  have acc: "jget ?row ''authorization_status'' = PStr ''accepted''" by simp
  show ?thesis
  proof (cases tx_pk)
    case None
    obtain pk c1 where c1: "create_tx ?row c = (pk, c1)" by fastforce
    have "r = Inr pk \<and> c' = open_session (me_tx env) pk False t c1"
      using assms c1 unfolding create_metered_tx_def None Let_def by auto
    then show ?thesis
      using acc create_tx_rows [OF c1] by (intro disjI1 exI [of _ pk] exI [of _ ?row]) simp
  next
    case (Some k)
    obtain q c1 where c1: "create_tx_with_pk k ?row c = (q, c1)" by fastforce
    consider "q = Inr k" | "q = Inl IntegrityError" "c1 = c" using create_with_pk_rows [OF c1] by blast
    then show ?thesis
    proof cases
      case 1
      then have "r = Inr k \<and> c' = open_session (me_tx env) k False t c1"
        using assms c1 unfolding create_metered_tx_def Some Let_def by auto
      then show ?thesis
        using acc create_with_pk_rows [OF c1] 1 by (intro disjI1 exI [of _ k] exI [of _ ?row]) simp
    next
      case 2
      then show ?thesis using assms c1 unfolding create_metered_tx_def Some Let_def by auto
    qed
  qed
qed

lemma metered_start_kept: "metered_tx env tx_id tx_pk t c = (r, c') \<Longrightarrow> start_kept c c'"
  using create_metered_rows [of env "py_strip (py_str tx_id)" tx_pk t c]
  by (auto simp: metered_tx_def Let_def start_kept_def split: if_splits option.splits sum.splits prod.splits)

lemma on_conn_frame [simp]:
  "mw_conn (on_conn f w) = f (mw_conn w)" "mw_values (on_conn f w) = mw_values w"
  by (simp_all add: on_conn_def)

lemma charger_save_rows [simp]: "tx_rows (on_db (db_save ''Charger'' pk cols) c) = tx_rows c"
  by (simp add: tx_rows_def fun_eq_iff)

lemma bulk_create_frame: "bulk_create rows w = (r, w') \<Longrightarrow> mw_conn w' = mw_conn w \<and> mw_decimals w' = mw_decimals w"
  by (auto simp: bulk_create_def split: if_splits)

lemma set_connector_rows: "tx_rows (mw_conn (snd (set_charger_connector pk i w))) = tx_rows (mw_conn w)"
  by (simp add: set_charger_connector_def)

lemma save_temperature_conn [simp]:
  "mw_conn (save_temperature pk a w) = mw_conn w" "mw_values (save_temperature pk a w) = mw_values w"
  by (simp_all add: save_temperature_def split: option.split)

lemma finish_entries_rows:
  "tx_rows (mw_conn (snd (finish_entries connector tx a w))) \<in>
     {tx_rows (mw_conn w), tx_rows (mw_conn (save_samples tx a w))}"
proof -
  obtain r w1 where b: "bulk_create (ma_readings a) w = (r, w1)" by fastforce
  note f = bulk_create_frame [OF b]
  have s: "tx_rows (mw_conn (save_samples tx a w1)) = tx_rows (mw_conn (save_samples tx a w))"
    using f by (simp add: save_samples_def split: option.split)
  show ?thesis
    using f s set_connector_rows [of _ _ "save_samples tx a w1"]
    by (auto simp: finish_entries_def b Let_def split: sum.split prod.split option.split) (metis snd_conv)+
qed

lemma set_fields_other: "dget cols k = None \<Longrightarrow> jget (set_fields cols row) k = jget row k"
proof (induction cols arbitrary: row)
  case (Cons f fs)
  then show ?case by (cases f) (auto simp: set_fields_def split: if_splits)
qed (simp add: set_fields_def)

lemma items_of_run:
  "ebind (if truthy v then py_iter v else Inr []) (\<lambda>mvs. efold f mvs s) = Inr a \<Longrightarrow>
     \<exists>items. efold f items s = Inr a \<and> (items = [] \<or> py_iter v = Inr items)"
  by (cases "truthy v") (auto simp: ebind_Inr_iff intro: exI [of _ "[]"])

lemma process_start_kept:
  assumes "silent ''Transaction.Begin'' mvs"
  shows "start_kept (mw_conn w) (mw_conn (snd (process_meter_value_entries env mvs connector tx w)))"
proof -
  let ?c = "mw_conn w"
  let ?u = "case tc_charger ?c of None \<Rightarrow> None | Some pk \<Rightarrow> Some (charger_field (Some pk) ''energy_unit'' ?c)"
  let ?a = "\<lparr>ma_context = PStr [], ma_values = [], ma_readings = [], ma_start = tx_start tx ?c, ma_ints = [],
               ma_decimals = [], ma_temperature = None\<rparr>"
  let ?run = "ebind (if truthy mvs then py_iter mvs else Inr [])
                (\<lambda>mvs. efold (meter_entry env ?u (opt_pk (tc_charger ?c)) connector tx) mvs ?a)"
  show ?thesis
  proof (cases ?run)
    case (Inl e)
    then show ?thesis by (simp add: process_meter_value_entries_def Let_def start_kept_frame)
  next
    case (Inr a)
    have "start_kept ?c (mw_conn (save_samples tx a w))"
    proof (cases tx)
      case (Some pk)
      show ?thesis
      proof (cases "tx_start tx ?c = PNone")
        case True
        then show ?thesis using Some by (auto simp: save_samples_def start_kept_def tx_start_def tx_row_rows)
      next
        case False
        obtain items where items: "efold (meter_entry env ?u (opt_pk (tc_charger ?c)) connector tx) items ?a = Inr a"
          "items = [] \<or> py_iter mvs = Inr items"
          using items_of_run [OF Inr] by blast
        have "list_all (\<lambda>sv. sample_context sv \<noteq> PStr ''Transaction.Begin'') (samples_of mv)" if "mv \<in> set items" for mv
          using items(2) assms that by (auto simp: silent_def entries_of_def list_all_iff)
        moreover have "keeps_start (tx_start tx ?c) ?a" by (simp add: keeps_start_def)
        ultimately have "keeps_start (tx_start tx ?c) a"
          using False by (intro efold_invariant [where P = "keeps_start (tx_start tx ?c)", OF items(1)])
            (auto intro: entry_keeps_start)
        then have "dget (ma_ints a) ''meter_start'' = None" by (simp add: keeps_start_def)
        then show ?thesis using Some by (auto simp: save_samples_def start_kept_def set_fields_other)
      qed
    qed (simp add: save_samples_def start_kept_frame)
    then show ?thesis
      using finish_entries_rows [of connector tx a w] Inr
      by (auto simp: process_meter_value_entries_def Let_def start_kept_def)
  qed
qed

lemma store_start_kept:
  assumes "silent ''Transaction.Begin'' (jget p ''meterValue'')"
  shows "start_kept (mw_conn w) (mw_conn (snd (store_meter_values env p t w)))"
proof -
  have step: "start_kept (mw_conn w) (mw_conn (snd (process_meter_value_entries env (jget p ''meterValue'') connector tx
      (w\<lparr>mw_conn := c3\<rparr>))))" if "start_kept (mw_conn w) c3" for connector tx c3
    using start_kept_trans [OF that] process_start_kept [OF assms, of "w\<lparr>mw_conn := c3\<rparr>"] by simp
  have assign: "start_kept (mw_conn w) c1" if "assign_connector h (mw_conn w) = (r, c1)" for h r c1
    using assign_rows [of h "mw_conn w"] that by (simp add: start_kept_frame)
  have tx: "start_kept (mw_conn w) c2"
    if "assign_connector h (mw_conn w) = (r, c1)" "metered_tx env i k t c1 = (q, c2)" for h r c1 i k q c2
    using start_kept_trans [OF assign [OF that(1)] metered_start_kept [OF that(2)]] .
  show ?thesis
    unfolding store_meter_values_def Let_def
    using assign tx start_kept_trans [OF tx start_kept_identifier] step start_kept_frame [of "mw_conn w" "mw_conn w"]
    by (auto split: sum.split prod.split option.split)
qed

lemma normalized_entries: "jget (normalized_meter_values_payload p) ''meterValue'' = jget (as_obj p) ''meterValue''"
  by (simp add: normalized_meter_values_payload_def Let_def)

text \<open>
  C10: The start of a session stays.  Whatever a MeterValues message holds, whichever transaction and
  connector it names and however its handling ends: when no sample in it is marked as the begin of a
  transaction, every transaction that has a start reading keeps it.\<close>
theorem session_start_kept:
  assumes "silent ''Transaction.Begin'' (jget (as_obj payload) ''meterValue'')"
    and "tx_rows (mw_conn w) (PInt pk) = Some row" "jget row ''meter_start'' \<noteq> PNone"
  shows "\<exists>row'. tx_rows (mw_conn (snd (handle_meter_values env payload text_data w))) (PInt pk) = Some row' \<and>
    jget row' ''meter_start'' = jget row ''meter_start''"
proof -
  obtain r w1 where w1: "store_meter_values env (normalized_meter_values_payload payload) text_data w = (r, w1)" by fastforce
  have "start_kept (mw_conn w) (mw_conn w1)"
    using store_start_kept [of "normalized_meter_values_payload payload" w env text_data] assms(1) w1
    by (simp add: normalized_entries)
  moreover have "tx_rows (mw_conn (snd (handle_meter_values env payload text_data w))) = tx_rows (mw_conn w1)"
    by (simp add: handle_meter_values_def Let_def w1 split: sum.split option.split)
  ultimately show ?thesis using assms(2,3) by (simp add: start_kept_def)
qed

subsection \<open>A reading of the whole station\<close>

text \<open>Steps that leave the charger rows, and the one the connection speaks for, as they are.\<close>

definition chargers_kept :: "'r tx_conn \<Rightarrow> 'r tx_conn \<Rightarrow> bool" where
  "chargers_kept c c' \<longleftrightarrow>
     tc_charger c' = tc_charger c \<and> tc_charger_id c' = tc_charger_id c \<and>
     (\<forall>k. dget (tc_db c') (''Charger'', k) = dget (tc_db c) (''Charger'', k)) \<and> (dwf (tc_db c) \<longrightarrow> dwf (tc_db c'))"

lemma chargers_kept_trans: "chargers_kept c1 c2 \<Longrightarrow> chargers_kept c2 c3 \<Longrightarrow> chargers_kept c1 c3"
  by (simp add: chargers_kept_def)

lemma chargers_kept_refl [simp]: "chargers_kept c c"
  by (simp add: chargers_kept_def)

lemma dwf_db_save [simp]: "dwf d \<Longrightarrow> dwf (db_save model pk cols d)"
  by (simp add: db_save_def split: option.split)

lemma chargers_kept_save: "chargers_kept c (save_tx pk cols c)"
  by (simp add: chargers_kept_def save_tx_def)

lemma chargers_kept_identifier: "chargers_kept c (ensure_ocpp_transaction_identifier pk i c)"
  by (auto simp: ensure_ocpp_transaction_identifier_def Let_def chargers_kept_save)

lemma chargers_kept_file: "chargers_kept c (file_tx pk c)"
  by (simp add: chargers_kept_def file_tx_def)

lemma chargers_kept_open: "chargers_kept c (open_session env pk lock t c)"
  by (simp add: chargers_kept_def open_session_def)

lemma chargers_kept_create: "create_tx cols c = (pk, c') \<Longrightarrow> chargers_kept c c'"
  by (auto simp: create_tx_def chargers_kept_def db_create_def Let_def split: prod.splits)

lemma chargers_kept_create_pk: "create_tx_with_pk pk cols c = (r, c') \<Longrightarrow> chargers_kept c c'"
  by (auto simp: create_tx_with_pk_def chargers_kept_def split: if_splits)

lemma chargers_kept_metered: "metered_tx env i k t c = (r, c') \<Longrightarrow> chargers_kept c c'"
proof -
  have new: "chargers_kept c c1" if "create_metered_tx env n k t c = (q, c1)" for n q c1
    using that chargers_kept_trans [OF chargers_kept_create chargers_kept_open]
      chargers_kept_trans [OF chargers_kept_create_pk chargers_kept_open] chargers_kept_create_pk
    by (auto simp: create_metered_tx_def Let_def split: prod.splits sum.splits option.splits)
  show "metered_tx env i k t c = (r, c') \<Longrightarrow> chargers_kept c c'"
    using new chargers_kept_trans [OF new chargers_kept_file] chargers_kept_file
    by (auto simp: metered_tx_def Let_def split: if_splits option.splits sum.splits prod.splits)
qed

lemma chargers_kept_samples: "chargers_kept (mw_conn w) (mw_conn (save_samples tx a w))"
  by (simp add: save_samples_def chargers_kept_save split: option.split)

lemma db_first_none:
  assumes "dwf d"
  shows "db_first model p d = None \<longleftrightarrow> (\<forall>k row. dget d (model, k) = Some row \<longrightarrow> \<not> p row)"
proof -
  have "db_first model p d = None \<longleftrightarrow> db_pks model p d = []" by (simp add: db_first_def split: list.split)
  also have "\<dots> \<longleftrightarrow> (\<forall>r \<in> set d. fst (fst r) = model \<longrightarrow> \<not> p (snd r))"
    by (auto simp: db_pks_def filter_empty_conv)
  also have "\<dots> \<longleftrightarrow> (\<forall>k row. ((model, k), row) \<in> set d \<longrightarrow> \<not> p row)" by force
  finally show ?thesis by (simp add: dget_mem_iff [OF assms])
qed

lemma db_first_some:
  assumes "dwf d" "db_first model p d = Some pk"
  shows "\<exists>row. dget d (model, pk) = Some row \<and> p row"
proof -
  obtain rs where "db_pks model p d = pk # rs" using assms(2) by (auto simp: db_first_def split: list.splits)
  then have "pk \<in> set (db_pks model p d)" by simp
  then have "\<exists>row. ((model, pk), row) \<in> set d \<and> p row" by (force simp: db_pks_def)
  then show ?thesis by (simp add: dget_mem_iff [OF assms(1)])
qed

lemma find_charger_dwf:
  assumes "dwf (tc_db c)"
  shows "find_charger connector c = None \<longleftrightarrow>
      (\<forall>k row. dget (tc_db c) (''Charger'', k) = Some row \<longrightarrow>
         \<not> has_fields [(''charger_id'', PStr (tc_charger_id c)), (''connector_id'', connector)] row)"
    and "find_charger connector c = Some pk \<Longrightarrow>
      \<exists>row. dget (tc_db c) (''Charger'', pk) = Some row \<and>
        has_fields [(''charger_id'', PStr (tc_charger_id c)), (''connector_id'', connector)] row"
  using db_first_none [OF assms] db_first_some [OF assms] by (simp_all add: find_charger_def)

lemma find_charger_kept:
  assumes "chargers_kept c c'" "dwf (tc_db c)"
  shows "find_charger connector c' = None \<longleftrightarrow> find_charger connector c = None"
  using assms find_charger_dwf(1) [of c connector] find_charger_dwf(1) [of c' connector] by (simp add: chargers_kept_def)

lemma take_key_charger [simp]: "tc_db (take_key new c) = tc_db c" "tc_charger (take_key new c) = tc_charger c"
  by (simp_all add: take_key_def Let_def move_identity_def split: option.split)

lemma assign_station:
  assumes "assign_connector (PInt 0) c = (r, c')" "dwf (tc_db c)"
  shows "r = Inr ()" "dwf (tc_db c')" "tc_charger_id c' = tc_charger_id c"
    "tc_charger c' = None \<longleftrightarrow> find_charger PNone c = None"
    "tc_charger c' = Some pk \<Longrightarrow> find_charger PNone c' = Some pk"
    "\<And>k. dget (tc_db c') (''Charger'', k) = dget (tc_db c) (''Charger'', k)"
proof -
  have e: "r = Inr ()" "c' = assign_aggregate c" using assms(1) by (auto simp: assign_connector_def parse_connector_def)
  show "r = Inr ()" by fact
  let ?s = "ensure_station c"
  have db: "tc_db c' = tc_db ?s" "tc_charger_id c' = tc_charger_id ?s" "tc_charger c' = find_charger PNone ?s"
    by (simp_all add: e assign_aggregate_def Let_def)
  have s: "dwf (tc_db ?s)" "\<And>k. dget (tc_db ?s) (''Charger'', k) = dget (tc_db c) (''Charger'', k)"
    using assms(2) db_get_or_create_other [of "''ChargingStation''" "''Charger''"]
    by (auto simp: ensure_station_def db_get_or_create_def db_create_def Let_def split: option.split)
  then show "dwf (tc_db c')" "tc_charger_id c' = tc_charger_id c" using db by simp_all
  show "\<And>k. dget (tc_db c') (''Charger'', k) = dget (tc_db c) (''Charger'', k)" using s db by simp
  show "tc_charger c' = None \<longleftrightarrow> find_charger PNone c = None"
    using db s find_charger_dwf(1) [OF assms(2)] find_charger_dwf(1) [OF s(1)] by simp
  show "tc_charger c' = Some pk \<Longrightarrow> find_charger PNone c' = Some pk"
    using db by (simp add: find_charger_def)
qed

text \<open>What is left of the station's row when the first message is through.\<close>

lemma process_station:
  assumes "process_meter_value_entries env mvs (Some 0) tx w = (Inr (), w')" "find_charger PNone (mw_conn w) = tc_charger (mw_conn w)"
    and "tc_charger (mw_conn w) = Some pk" "dwf (tc_db (mw_conn w))"
  shows "tc_charger (mw_conn w') = Some pk" "tc_charger_id (mw_conn w') = tc_charger_id (mw_conn w)" "dwf (tc_db (mw_conn w'))"
    "dget (tc_db (mw_conn w')) (''Charger'', k) =
      (if k = pk then map_option (set_fields [(''connector_id'', PInt 0)]) (dget (tc_db (mw_conn w)) (''Charger'', k))
       else dget (tc_db (mw_conn w)) (''Charger'', k))"
proof -
  obtain a where a: "finish_entries (Some 0) tx a w = (Inr (), w')"
    using assms(1) by (auto simp: process_meter_value_entries_def Let_def split: sum.splits)
  obtain w1 where b: "bulk_create (ma_readings a) w = (Inr (), w1)"
    using a by (auto simp: finish_entries_def split: prod.splits sum.splits)
  let ?w2 = "save_samples tx a w1"
  have c1: "mw_conn w1 = mw_conn w" using bulk_create_frame [OF b] by simp
  have kept: "chargers_kept (mw_conn w) (mw_conn ?w2)" using chargers_kept_samples [of w1 tx a] by (simp add: c1)
  obtain row where row: "dget (tc_db (mw_conn w)) (''Charger'', pk) = Some row" "jget row ''connector_id'' = PNone"
    using find_charger_dwf(2) [OF assms(4), of PNone pk] assms(2,3) by (auto simp: has_fields_def)
  have "charger_field (Some pk) ''connector_id'' (mw_conn ?w2) = PNone"
    using row kept by (simp add: charger_field_def db_get_def chargers_kept_def)
  then have "w' = save_temperature pk a (on_conn (on_db (db_save ''Charger'' pk [(''connector_id'', PInt 0)])) ?w2)"
    using a kept assms(3)
    by (auto simp: finish_entries_def b Let_def chargers_kept_def set_charger_connector_def split: if_splits prod.splits)
  then have w': "mw_conn w' = on_db (db_save ''Charger'' pk [(''connector_id'', PInt 0)]) (mw_conn ?w2)" by simp
  show "tc_charger (mw_conn w') = Some pk" "tc_charger_id (mw_conn w') = tc_charger_id (mw_conn w)" "dwf (tc_db (mw_conn w'))"
    using kept assms(3,4) by (simp_all add: w' chargers_kept_def)
  show "dget (tc_db (mw_conn w')) (''Charger'', k) =
      (if k = pk then map_option (set_fields [(''connector_id'', PInt 0)]) (dget (tc_db (mw_conn w)) (''Charger'', k))
       else dget (tc_db (mw_conn w)) (''Charger'', k))"
    using kept by (simp add: w' chargers_kept_def)
qed

lemma process_no_charger:
  assumes "tc_charger (mw_conn w) = None"
  shows "tc_charger (mw_conn (snd (process_meter_value_entries env mvs connector tx w))) = None"
proof -
  have "tc_charger (mw_conn (snd (finish_entries connector tx a w))) = None" for a
  proof -
    obtain r w1 where b: "bulk_create (ma_readings a) w = (r, w1)" by fastforce
    have none: "tc_charger (mw_conn w1) = None" using bulk_create_frame [OF b] assms by simp
    then have "tc_charger (mw_conn (save_samples tx a w1)) = None"
      using chargers_kept_samples [of w1 tx a] by (simp add: chargers_kept_def)
    then show ?thesis using none by (simp add: finish_entries_def b Let_def split: sum.split)
  qed
  then show ?thesis using assms by (simp add: process_meter_value_entries_def Let_def split: sum.split)
qed

lemma station_message:
  assumes "assign_connector (PInt 0) (mw_conn w) = (Inr (), c1)" "jget p ''connectorId'' = PInt 0"
  obtains c3 tx where "chargers_kept c1 c3"
    "store_meter_values env p t w = process_meter_value_entries env (jget p ''meterValue'') (Some 0) tx (w\<lparr>mw_conn := c3\<rparr>)"
  | c3 e where "chargers_kept c1 c3" "store_meter_values env p t w = (Inl e, w\<lparr>mw_conn := c3\<rparr>)"
proof -
  have opt: "optional_int (jget p ''connectorId'') = Inr (Some 0)" using assms(2) by (simp add: optional_int_def)
  have a: "assign_connector (opt_int (Some 0)) (mw_conn w) = (Inr (), c1)" using assms(1) by (simp add: opt_int_def)
  show thesis
  proof (cases "optional_int (jget p ''transactionId'')")
    case (Inl e)
    show thesis by (rule that(2) [of c1 e]) (simp_all add: store_meter_values_def opt a Inl Let_def)
  next
    case (Inr k)
    obtain q c2 where q: "metered_tx env (jget p ''transactionId'') k t c1 = (q, c2)" by fastforce
    note kept = chargers_kept_metered [OF q]
    show thesis
    proof (cases q)
      case (Inl e)
      show thesis by (rule that(2) [OF kept, of e]) (simp add: store_meter_values_def opt a \<open>optional_int _ = Inr k\<close> q Inl Let_def)
    next
      case found: (Inr tx)
      define c3 where "c3 = (case tx of None \<Rightarrow> c2 | Some pk \<Rightarrow> ensure_ocpp_transaction_identifier pk
          (if truthy (jget p ''transactionId'') then Some (py_str (jget p ''transactionId'')) else None) c2)"
      have "chargers_kept c1 c3"
        using kept chargers_kept_trans [OF kept chargers_kept_identifier] by (simp add: c3_def split: option.split)
      then show thesis
        by (rule that(1) [of c3 tx]) (simp add: store_meter_values_def opt a \<open>optional_int _ = Inr k\<close> q found Let_def c3_def)
    qed
  qed
qed

lemma station_payload: "jget (as_obj p) ''connectorId'' = PInt 0 \<Longrightarrow> normalized_meter_values_payload p = as_obj p"
  by (simp add: normalized_meter_values_payload_def Let_def)

lemma handle_no_charger:
  assumes "jget (as_obj p) ''connectorId'' = PInt 0" "dwf (tc_db (mw_conn w))" "find_charger PNone (mw_conn w) = None"
  shows "fst (handle_meter_values env p t w) \<noteq> Inr resp"
proof -
  obtain r c1 where c1: "assign_connector (PInt 0) (mw_conn w) = (r, c1)" by fastforce
  note s = assign_station [OF c1 assms(2)]
  have a: "assign_connector (PInt 0) (mw_conn w) = (Inr (), c1)" using c1 s(1) by simp
  have "tc_charger (mw_conn (snd (store_meter_values env (as_obj p) t w))) = None"
  proof (rule station_message [OF a assms(1)])
    fix c3 tx assume k: "chargers_kept c1 c3"
      "store_meter_values env (as_obj p) t w = process_meter_value_entries env (jget (as_obj p) ''meterValue'') (Some 0) tx (w\<lparr>mw_conn := c3\<rparr>)"
    have "tc_charger (mw_conn (w\<lparr>mw_conn := c3\<rparr>)) = None" using k(1) s(4) assms(3) by (simp add: chargers_kept_def)
    from process_no_charger [OF this] show ?thesis unfolding k(2) .
  next
    fix c3 e assume "chargers_kept c1 c3" "store_meter_values env (as_obj p) t w = (Inl e, w\<lparr>mw_conn := c3\<rparr>)"
    then show ?thesis using s(4) assms(3) by (simp add: chargers_kept_def)
  qed
  then show ?thesis
    by (cases "store_meter_values env (as_obj p) t w")
      (auto simp: handle_meter_values_def Let_def station_payload [OF assms(1)] split: sum.split)
qed

text \<open>
  C38: Two readings of the whole station.  A MeterValues message for connector 0, the station itself,
  writes that number into the station's row, which is the row without a connector.  The station is then
  left without such a row: a message for connector 0 that comes next finds none and is not answered,
  whatever it holds.\<close>
theorem second_station_reading_unanswered:
  assumes "handle_meter_values env p t w = (Inr resp, w')"
    and "jget (as_obj p) ''connectorId'' = PInt 0" "jget (as_obj p') ''connectorId'' = PInt 0"
    and rows: "dwf (tc_db (mw_conn w))" and unique: "\<And>k k' row row'.
      dget (tc_db (mw_conn w)) (''Charger'', k) = Some row \<Longrightarrow> dget (tc_db (mw_conn w)) (''Charger'', k') = Some row' \<Longrightarrow>
      has_fields [(''charger_id'', PStr (tc_charger_id (mw_conn w))), (''connector_id'', PNone)] row \<Longrightarrow>
      has_fields [(''charger_id'', PStr (tc_charger_id (mw_conn w))), (''connector_id'', PNone)] row' \<Longrightarrow> k = k'"
  shows "find_charger PNone (mw_conn w') = None \<and> (\<forall>resp'. fst (handle_meter_values env' p' t' w') \<noteq> Inr resp')"
proof -
  let ?id = "PStr (tc_charger_id (mw_conn w))"
  obtain r c1 where c1: "assign_connector (PInt 0) (mw_conn w) = (r, c1)" by fastforce
  note s = assign_station [OF c1 rows]
  have a: "assign_connector (PInt 0) (mw_conn w) = (Inr (), c1)" using c1 s(1) by simp
  obtain w1 pk where w1: "store_meter_values env (as_obj p) t w = (Inr (), w1)" "tc_charger (mw_conn w1) = Some pk"
    and w': "w' = on_conn (on_db (db_save ''Charger'' pk [(''last_meter_values'', PDict (as_obj p))])) w1"
    using assms(1) by (auto simp: handle_meter_values_def Let_def station_payload [OF assms(2)] split: prod.splits sum.splits option.splits)
  obtain c3 tx where c3: "chargers_kept c1 c3"
    "process_meter_value_entries env (jget (as_obj p) ''meterValue'') (Some 0) tx (w\<lparr>mw_conn := c3\<rparr>) = (Inr (), w1)"
    by (rule station_message [OF a assms(2), of env t]) (use w1 in auto)
  have charger: "tc_charger c3 \<noteq> None"
    using process_no_charger [of "w\<lparr>mw_conn := c3\<rparr>" env "jget (as_obj p) ''meterValue''" "Some 0" tx] c3(2) w1(2) by auto
  then obtain k where k: "tc_charger c1 = Some k" "tc_charger c3 = Some k" using c3(1) by (auto simp: chargers_kept_def)
  have dwf: "dwf (tc_db c3)" using c3(1) s(2) by (simp add: chargers_kept_def)
  have "find_charger PNone c3 = Some k"
  proof -
    obtain k' where k': "find_charger PNone c3 = Some k'"
      using find_charger_kept [OF c3(1) s(2), of PNone] s(5) [OF k(1)] by auto
    obtain row row' where "dget (tc_db c3) (''Charger'', k') = Some row" "has_fields [(''charger_id'', PStr (tc_charger_id c3)), (''connector_id'', PNone)] row"
      "dget (tc_db c1) (''Charger'', k) = Some row'" "has_fields [(''charger_id'', PStr (tc_charger_id c1)), (''connector_id'', PNone)] row'"
      using find_charger_dwf(2) [OF dwf k'] find_charger_dwf(2) [OF s(2) s(5) [OF k(1)]] by blast
    then have "k' = k" using unique [of k' row k row'] s(3,6) c3(1) by (simp add: chargers_kept_def)
    then show ?thesis using k' by simp
  qed
  then have p1: "tc_charger (mw_conn w1) = Some k" "tc_charger_id (mw_conn w1) = tc_charger_id c3" "dwf (tc_db (mw_conn w1))"
    "\<And>j. dget (tc_db (mw_conn w1)) (''Charger'', j) =
      (if j = k then map_option (set_fields [(''connector_id'', PInt 0)]) (dget (tc_db c3) (''Charger'', j)) else dget (tc_db c3) (''Charger'', j))"
    using process_station [OF c3(2), of k] k(2) dwf by simp_all
  have dwf': "dwf (tc_db (mw_conn w'))" using p1(3) by (simp add: w')
  have station: "dget (tc_db (mw_conn w)) (''Charger'', k) \<noteq> None \<and>
      (\<forall>row. dget (tc_db (mw_conn w)) (''Charger'', k) = Some row \<longrightarrow> has_fields [(''charger_id'', ?id), (''connector_id'', PNone)] row)"
    using find_charger_dwf(2) [OF s(2) s(5) [OF k(1)]] s(3,6) by auto
  have "find_charger PNone (mw_conn w') = None"
    unfolding find_charger_dwf(1) [OF dwf']
  proof (intro allI impI notI)
    fix j row assume row: "dget (tc_db (mw_conn w')) (''Charger'', j) = Some row"
      "has_fields [(''charger_id'', PStr (tc_charger_id (mw_conn w'))), (''connector_id'', PNone)] row"
    have id: "tc_charger_id (mw_conn w') = tc_charger_id (mw_conn w)" using p1(2) c3(1) s(3) by (simp add: w' chargers_kept_def)
    have same: "dget (tc_db c3) (''Charger'', j) = dget (tc_db (mw_conn w)) (''Charger'', j)" using c3(1) s(6) by (simp add: chargers_kept_def)
    show False
    proof (cases "j = k")
      case True
      then show ?thesis using row p1(1,4) w1(2) same
        by (auto simp: w' has_fields_def jget_set_fields)
    next
      case False
      then have "dget (tc_db (mw_conn w)) (''Charger'', j) = Some row" using row(1) p1(1,4) w1(2) same by (auto simp: w' split: if_splits)
      then show ?thesis using unique [of j row k] station row(2) id False by auto
    qed
  qed
  then show ?thesis using handle_no_charger [OF assms(3) dwf'] by blast
qed

subsection \<open>A transaction that was refused\<close>

definition meter_columns :: "meter_acc \<Rightarrow> bool" where
  "meter_columns a \<longleftrightarrow> dwf (ma_ints a) \<and> set (dkeys (ma_ints a)) \<subseteq> {''meter_start'', ''meter_stop''}"

lemma sample_columns:
  assumes "meter_sample u tx sv a = Inr a'" "meter_columns a"
  shows "meter_columns a'"
proof -
  have interim: "meter_columns b'" if "interim_sample tx f q v b = Inr b'" "meter_columns b" for f q v b b'
    using that by (auto simp: interim_sample_def meter_columns_def Let_def split: if_splits sum.splits meter_error.splits tx_error.splits pyexn.splits)
  have bound: "meter_columns b'"
    if "boundary_sample s f q v b = Inr b'" "meter_columns b" "boundary_suffix c = Some s" for s f q v b b' c
    using that by (auto simp: boundary_sample_def meter_columns_def boundary_suffix_simps ebind_Inr_iff split: if_splits)
  have start: "meter_columns (a\<lparr>ma_context := c\<rparr>)" "meter_columns (a\<lparr>ma_context := c, ma_temperature := t\<rparr>)" for c t
    using assms(2) by (simp_all add: meter_columns_def)
  show ?thesis
    using assms start
    by (auto simp: meter_sample_def Let_def ebind_Inr_iff intro: interim bound
        split: pyval.splits option.splits if_splits)
qed

lemma entry_columns:
  assumes "meter_entry env u charger connector tx mv a = Inr a'" "meter_columns a"
  shows "meter_columns a'"
proof -
  obtain ts svs a1 where a1: "efold (meter_sample u (tx \<noteq> None)) svs (a\<lparr>ma_context := PStr [], ma_values := []\<rparr>) = Inr a1"
    and a': "a' = finish_entry charger connector tx ts a1"
    using assms(1) by (auto simp: meter_entry_def ebind_Inr_iff split: pyval.splits)
  have "meter_columns (a\<lparr>ma_context := PStr [], ma_values := []\<rparr>)" using assms(2) by (simp add: meter_columns_def)
  then have "meter_columns a1" by (rule efold_invariant [OF a1]) (rule sample_columns)
  then show ?thesis unfolding a' by (simp add: finish_entry_def meter_columns_def)
qed

text \<open>Readings change no other column of a transaction, and no transaction becomes or ceases to be active.\<close>

lemma process_other_columns:
  assumes "col \<notin> {''meter_start'', ''meter_stop''}"
  shows "map_option (\<lambda>row. jget row col) (tx_rows (mw_conn (snd (process_meter_value_entries env mvs connector tx w))) k) =
    map_option (\<lambda>row. jget row col) (tx_rows (mw_conn w) k)"
proof -
  let ?c = "mw_conn w"
  let ?u = "case tc_charger ?c of None \<Rightarrow> None | Some pk \<Rightarrow> Some (charger_field (Some pk) ''energy_unit'' ?c)"
  let ?a = "\<lparr>ma_context = PStr [], ma_values = [], ma_readings = [], ma_start = tx_start tx ?c, ma_ints = [],
               ma_decimals = [], ma_temperature = None\<rparr>"
  show ?thesis
  proof (cases "ebind (if truthy mvs then py_iter mvs else Inr [])
                (\<lambda>mvs. efold (meter_entry env ?u (opt_pk (tc_charger ?c)) connector tx) mvs ?a)")
    case (Inl e)
    then show ?thesis by (simp add: process_meter_value_entries_def Let_def)
  next
    case (Inr a)
    obtain items where items: "efold (meter_entry env ?u (opt_pk (tc_charger ?c)) connector tx) items ?a = Inr a"
      using items_of_run [OF Inr] by blast
    have "meter_columns a"
      by (rule efold_invariant [where P = meter_columns, OF items]) (simp add: meter_columns_def dkeys_def, rule entry_columns)
    then have "dget (ma_ints a) col = None" using assms by (auto simp: meter_columns_def dget_None_iff)
    then have "map_option (\<lambda>row. jget row col) (tx_rows (mw_conn (save_samples tx a w)) k) = map_option (\<lambda>row. jget row col) (tx_rows ?c k)"
      by (auto simp: save_samples_def set_fields_other option.map_comp comp_def split: option.split)
    then show ?thesis
      using finish_entries_rows [of connector tx a w] Inr
      by (auto simp: process_meter_value_entries_def Let_def)
  qed
qed

text \<open>The last reading of a message is the one that stays.\<close>

lemma set_fields_dset:
  "dwf cols \<Longrightarrow> jget (set_fields (dset k v cols) row) j = (if j = k then v else jget (set_fields cols row) j)"
  using dwf_dset [of cols k v] by (simp add: dwf_def jget_set_fields)

lemma charger_field_save [simp]: "charger_field ch col (save_tx pk cols c) = charger_field ch col c"
  by (simp add: charger_field_def save_tx_def db_get_def split: option.split)

lemma finish_placed:
  assumes "tc_charger (mw_conn w) = Some ch" "connector = None \<or> truthy (charger_field (Some ch) ''connector_id'' (mw_conn w))"
  shows "finish_entries connector tx a w =
    (case bulk_create (ma_readings a) w of
       (Inl e, w1) \<Rightarrow> (Inl e, w1)
     | (Inr _, w1) \<Rightarrow> (Inr (), save_temperature ch a (save_samples tx a w1)))"
proof -
  obtain r w1 where b: "bulk_create (ma_readings a) w = (r, w1)" by fastforce
  note f = bulk_create_frame [OF b]
  have "tc_charger (mw_conn (save_samples tx a w1)) = Some ch"
    "charger_field (Some ch) ''connector_id'' (mw_conn (save_samples tx a w1)) = charger_field (Some ch) ''connector_id'' (mw_conn w)"
    using f assms(1) by (simp_all add: save_samples_def split: option.split)
  then show ?thesis
    using assms(2) by (auto simp: finish_entries_def b Let_def split: sum.split option.split)
qed

lemma save_samples_values [simp]: "mw_values (save_samples tx a w) = mw_values w"
  by (simp add: save_samples_def split: option.split)

lemma saved_row:
  assumes "tx_rows (mw_conn w) (PInt pk) = Some row"
  shows "tx_row pk (mw_conn (save_samples (Some pk) a w)) = set_fields (ma_ints a) row"
  using assms by (simp add: save_samples_def tx_row_rows)


lemma save_tx_table [simp]: "tx_table (mw_conn (save_samples tx a w)) = tx_table (mw_conn w)"
  by (simp add: save_samples_def split: option.split)

lemma set_connector_table: "tx_table (mw_conn (snd (set_charger_connector pk i w))) = tx_table (mw_conn w)"
  by (simp add: set_charger_connector_def)

lemma finish_entries_table: "tx_table (mw_conn (snd (finish_entries connector tx a w))) = tx_table (mw_conn w)"
proof -
  obtain r w1 where b: "bulk_create (ma_readings a) w = (r, w1)" by fastforce
  show ?thesis
    using bulk_create_frame [OF b] set_connector_table [of _ _ "save_samples tx a w1"]
    by (auto simp: finish_entries_def b Let_def split: sum.split prod.split option.split) (metis snd_conv)+
qed

lemma process_table: "tx_table (mw_conn (snd (process_meter_value_entries env mvs connector tx w))) = tx_table (mw_conn w)"
  by (simp add: process_meter_value_entries_def Let_def finish_entries_table split: sum.split)

lemma handle_table_rows:
  assumes "store_meter_values env (normalized_meter_values_payload p) t w = (r, w1)"
  shows "tx_table (mw_conn (snd (handle_meter_values env p t w))) = tx_table (mw_conn w1)"
    "tx_rows (mw_conn (snd (handle_meter_values env p t w))) = tx_rows (mw_conn w1)"
  by (simp_all add: handle_meter_values_def Let_def assms split: sum.split option.split)

text \<open>
  C39: A refused transaction becomes active.  A StartTransaction that was rejected leaves a row; when a
  MeterValues message of the charger names that row, whatever the readings are, the row is filed as the
  active transaction of the connection, rejected as it is.\<close>
theorem readings_activate_rejected_transaction:
  assumes "tc_charger (mw_conn w) = Some ch" "tc_connector (mw_conn w) = Some i" "i \<noteq> 0"
    and "charger_field (Some ch) ''connector_id'' (mw_conn w) = PInt i"
    and "tx_rows (mw_conn w) (PInt pk) = Some row" "jget row ''authorization_status'' = PStr ''rejected''" "jget row ''charger'' = ch"
    and "jget (as_obj p) ''connectorId'' = PInt i" "jget (as_obj p) ''transactionId'' = PInt pk"
    and "w' = snd (handle_meter_values env p t w)"
  shows "active_tx (tc_store_key (mw_conn w)) (mw_conn w') = Some pk \<and>
    (\<exists>row'. tx_rows (mw_conn w') (PInt pk) = Some row' \<and> jget row' ''authorization_status'' = PStr ''rejected'')"
proof -
  let ?c = "mw_conn w" and ?p = "as_obj p"
  have n: "normalized_meter_values_payload p = ?p" using assms(8) by (simp add: normalized_meter_values_payload_def Let_def)
  have a: "assign_connector (PInt i) ?c = (Inr (), ?c)"
    using assms(1-4) by (simp add: assign_connector_def parse_connector_def assign_connector_value_def)
  have "tx_by_pk pk ?c = Some pk"
    using assms(1,5,7) by (simp add: tx_by_pk_def db_get_def tx_rows_def opt_pk_def)
  then have m: "metered_tx env (PInt pk) (Some pk) t ?c = (Inr (Some pk), file_tx pk ?c)"
    by (simp add: metered_tx_def Let_def needs_lookup_def)
  define c3 where "c3 = ensure_ocpp_transaction_identifier pk (if truthy (PInt pk) then Some (py_str (PInt pk)) else None) (file_tx pk ?c)"
  have s: "store_meter_values env ?p t w =
      process_meter_value_entries env (jget ?p ''meterValue'') (Some i) (Some pk) (w\<lparr>mw_conn := c3\<rparr>)"
    using assms(8,9) a m by (simp add: store_meter_values_def optional_int_def opt_int_def Let_def c3_def)
  obtain r w1 where w1: "process_meter_value_entries env (jget ?p ''meterValue'') (Some i) (Some pk) (w\<lparr>mw_conn := c3\<rparr>) = (r, w1)"
    by fastforce
  note h = handle_table_rows [of env p t w r w1, unfolded n s, OF w1]
  have "tx_table (mw_conn w') = tx_table c3"
    using process_table [of env "jget ?p ''meterValue''" "Some i" "Some pk" "w\<lparr>mw_conn := c3\<rparr>"] w1 h(1) assms(10) by simp
  then have "active_tx (tc_store_key ?c) (mw_conn w') = Some pk"
    by (simp add: active_tx_def c3_def file_tx_def)
  moreover have "map_option (\<lambda>row. jget row ''authorization_status'') (tx_rows (mw_conn w') (PInt pk)) = Some (PStr ''rejected'')"
  proof -
    obtain row3 where row3: "tx_rows c3 (PInt pk) = Some row3"
      using ensure_identifier_rows(2) [of pk _ "file_tx pk ?c"] assms(5) by (fastforce simp: c3_def)
    have "jget (tx_row pk c3) ''authorization_status'' = jget (tx_row pk (file_tx pk ?c)) ''authorization_status''"
      unfolding c3_def by (rule ensure_identifier_rows(3)) simp
    then have "jget row3 ''authorization_status'' = PStr ''rejected''" using row3 assms(5,6) by (simp add: tx_row_rows)
    then show ?thesis
      using process_other_columns [of "''authorization_status''" env "jget ?p ''meterValue''" "Some i" "Some pk" "w\<lparr>mw_conn := c3\<rparr>" "PInt pk"]
        row3 w1 h(2) assms(10) by simp
  qed
  ultimately show ?thesis by auto
qed

subsection \<open>Which readings become rows\<close>

text \<open>A readable sample of a known quantity, converted; \<open>unit_of\<close> is the charger's unit.\<close>

definition reading :: "pyval option \<Rightarrow> pyval \<Rightarrow> (string \<times> pydecimal) option" where
  "reading unit_of sv =
     (case sv of
        PDict d \<Rightarrow>
          (case (decimal_of_str (py_str (jget d ''value'')), sample_field (default_of d ''measurand'' (PStr []))) of
             (Some val, Some field) \<Rightarrow>
               (if field \<noteq> ''energy'' then Some (field, val)
                else case unit_of of
                       None \<Rightarrow> None
                     | Some u \<Rightarrow>
                         (case normalize_energy_value (is_signalling (py_str (jget d ''value''))) val
                                 (por (default_of d ''unit'' (PStr [])) u) u of
                            Inr v \<Rightarrow> Some (field, v) | Inl _ \<Rightarrow> None))
           | _ \<Rightarrow> None)
      | _ \<Rightarrow> None)"

definition measured :: "pyval option \<Rightarrow> pyval list \<Rightarrow> (string, pydecimal) dict" where
  "measured unit_of svs = fold (\<lambda>sv m. case reading unit_of sv of None \<Rightarrow> m | Some (field, v) \<Rightarrow> dset field v m) svs []"

definition readable :: "pyval \<Rightarrow> bool" where
  "readable sv \<longleftrightarrow> (case sv of PDict d \<Rightarrow> decimal_of_str (py_str (jget d ''value'')) \<noteq> None | _ \<Rightarrow> False)"

lemma sample_outcome:
  assumes "meter_sample u tx sv a = Inr a'"
  shows "ma_readings a' = ma_readings a"
    and "\<not> readable sv \<Longrightarrow> a' = a"
    and "readable sv \<Longrightarrow> sample_context sv \<noteq> PNone \<Longrightarrow> ma_context a' = sample_context sv"
    and "sample_context sv \<noteq> PNone \<Longrightarrow> boundary_suffix (sample_context sv) = None \<Longrightarrow>
      ma_values a' = (case reading u sv of None \<Rightarrow> ma_values a | Some (field, v) \<Rightarrow> dset field v (ma_values a))"
proof -
  have interim: "ma_readings b' = ma_readings b \<and> ma_context b' = ma_context b \<and> ma_values b' = dset f v (ma_values b)"
    if "interim_sample x f q v b = Inr b'" for x f q v b b'
    using that by (auto simp: interim_sample_def Let_def split: if_splits sum.splits meter_error.splits tx_error.splits pyexn.splits)
  have bound: "ma_readings b' = ma_readings b \<and> ma_context b' = ma_context b \<and> ma_values b' = ma_values b"
    if "boundary_sample s f q v b = Inr b'" for s f q v b b'
    using that by (auto simp: boundary_sample_def ebind_Inr_iff split: if_splits)
  show "ma_readings a' = ma_readings a"
    using assms by (auto simp: meter_sample_def Let_def ebind_Inr_iff dest!: interim bound split: pyval.splits option.splits if_splits)
  show "\<not> readable sv \<Longrightarrow> a' = a"
    using assms by (auto simp: meter_sample_def Let_def readable_def split: pyval.splits option.splits)
  show "readable sv \<Longrightarrow> sample_context sv \<noteq> PNone \<Longrightarrow> ma_context a' = sample_context sv"
    using assms by (auto simp: meter_sample_def Let_def readable_def sample_context_def default_of_def ebind_Inr_iff
        dest!: interim bound split: pyval.splits option.splits if_splits)
  show "ma_values a' = (case reading u sv of None \<Rightarrow> ma_values a | Some (field, v) \<Rightarrow> dset field v (ma_values a))"
    if "sample_context sv \<noteq> PNone" "boundary_suffix (sample_context sv) = None"
    using assms that by (auto simp: meter_sample_def Let_def reading_def sample_context_def default_of_def ebind_Inr_iff
        dest!: interim bound split: pyval.splits option.splits if_splits)
qed

text \<open>An entry is uniform when its readable samples name one context, the same for all.\<close>

definition entry_context :: "pyval \<Rightarrow> pyval" where
  "entry_context mv = (case filter readable (samples_of mv) of [] \<Rightarrow> PNone | sv # _ \<Rightarrow> sample_context sv)"

definition uniform :: "pyval \<Rightarrow> bool" where
  "uniform mv \<longleftrightarrow>
     list_all (\<lambda>sv. sample_context sv = entry_context mv \<and> entry_context mv \<noteq> PNone) (filter readable (samples_of mv))"

lemma fold_measured:
  "fold (\<lambda>sv m. case reading u sv of None \<Rightarrow> m | Some (field, v) \<Rightarrow> dset field v m) svs m =
   fold (\<lambda>sv m. case reading u sv of None \<Rightarrow> m | Some (field, v) \<Rightarrow> dset field v m) (filter readable svs) m"
proof -
  have "reading u sv = None" if "\<not> readable sv" for sv
    using that by (auto simp: reading_def readable_def split: pyval.splits option.splits)
  then show ?thesis by (induction svs arbitrary: m) auto
qed

lemma samples_outcome:
  assumes "efold (meter_sample u tx) svs a = Inr a'" "\<And>sv. sv \<in> set svs \<Longrightarrow> readable sv \<Longrightarrow> sample_context sv = ctx" "ctx \<noteq> PNone"
  shows "ma_readings a' = ma_readings a \<and> ma_context a' = (if filter readable svs = [] then ma_context a else ctx) \<and>
    (boundary_suffix ctx = None \<longrightarrow>
       ma_values a' = fold (\<lambda>sv m. case reading u sv of None \<Rightarrow> m | Some (field, v) \<Rightarrow> dset field v m) svs (ma_values a)) \<and>
    (filter readable svs = [] \<longrightarrow> ma_values a' = ma_values a)"
  using assms(1,2)
proof (induction svs arbitrary: a)
  case (Cons sv svs)
  obtain b where b: "meter_sample u tx sv a = Inr b" "efold (meter_sample u tx) svs b = Inr a'"
    using Cons.prems(1) by (auto simp: ebind_Inr_iff)
  note o = sample_outcome [OF b(1)]
  have ih: "ma_readings a' = ma_readings b \<and> ma_context a' = (if filter readable svs = [] then ma_context b else ctx) \<and>
    (boundary_suffix ctx = None \<longrightarrow>
       ma_values a' = fold (\<lambda>sv m. case reading u sv of None \<Rightarrow> m | Some (field, v) \<Rightarrow> dset field v m) svs (ma_values b)) \<and>
    (filter readable svs = [] \<longrightarrow> ma_values a' = ma_values b)"
    by (rule Cons.IH [OF b(2)]) (use Cons.prems(2) in simp)
  show ?case
  proof (cases "readable sv")
    case True
    then have "sample_context sv = ctx" using Cons.prems(2) by simp
    then show ?thesis using o(1,3,4) ih True assms(3) by auto
  next
    case False
    then have "reading u sv = None" by (auto simp: reading_def readable_def split: pyval.splits option.splits)
    then show ?thesis using o(2) ih False by simp
  qed
qed simp

definition reading_row ::
  "meter_env \<Rightarrow> pyval option \<Rightarrow> pyval \<Rightarrow> int option \<Rightarrow> int option \<Rightarrow> pyval \<Rightarrow> meter_value" where
  "reading_row env unit_of charger connector tx mv =
     \<lparr>mv_charger = charger, mv_connector = connector, mv_transaction = tx,
      mv_timestamp = (case me_parse_datetime env (jget (as_obj mv) ''timestamp'') of Inr t \<Rightarrow> t | Inl _ \<Rightarrow> PNone),
      mv_context = entry_context mv, mv_fields = measured unit_of (samples_of mv)\<rparr>"

definition interim :: "pyval option \<Rightarrow> pyval \<Rightarrow> bool" where
  "interim unit_of mv \<longleftrightarrow> measured unit_of (samples_of mv) \<noteq> [] \<and> boundary_suffix (entry_context mv) = None"

lemma entry_outcome:
  assumes "meter_entry env u charger connector tx mv a = Inr a'" "uniform mv"
  shows "ma_readings a' = ma_readings a @ (if interim u mv then [reading_row env u charger connector tx mv] else [])"
proof -
  obtain d ts svs a1 where mv: "mv = PDict d" "py_iter (default_of d ''sampledValue'' (PList [])) = Inr svs"
    and ts: "me_parse_datetime env (jget d ''timestamp'') = Inr ts"
    and a1: "efold (meter_sample u (tx \<noteq> None)) svs (a\<lparr>ma_context := PStr [], ma_values := []\<rparr>) = Inr a1"
    and a': "a' = finish_entry charger connector tx ts a1"
    using assms(1) by (auto simp: meter_entry_def ebind_Inr_iff split: pyval.splits sum.splits)
  have svs: "samples_of mv = svs" using mv by (simp add: samples_of_def)
  have obj: "as_obj mv = d" using mv by (simp add: as_obj_def)
  show ?thesis
  proof (cases "filter readable svs = []")
    case True
    have "ma_readings a1 = ma_readings a" "ma_values a1 = []"
      using samples_outcome [OF a1, of "PBool True"] True by (auto simp: filter_empty_conv)
    moreover have "measured u svs = []" using fold_measured [of u svs "[]"] True by (simp add: measured_def)
    ultimately show ?thesis by (simp add: a' finish_entry_def interim_def svs)
  next
    case False
    have ctx: "entry_context mv \<noteq> PNone" "\<And>sv. sv \<in> set svs \<Longrightarrow> readable sv \<Longrightarrow> sample_context sv = entry_context mv"
      using assms(2) False by (auto simp: uniform_def svs list_all_iff filter_empty_conv)
    show ?thesis
      using samples_outcome [OF a1 ctx(2,1)] False ts
      by (auto simp: a' finish_entry_def interim_def svs reading_row_def entry_row_def obj measured_def)
  qed
qed

lemma entries_outcome:
  "efold (meter_entry env u charger connector tx) mvs a = Inr a' \<Longrightarrow> list_all uniform mvs \<Longrightarrow>
     ma_readings a' = ma_readings a @ map (reading_row env u charger connector tx) (filter (interim u) mvs)"
proof (induction mvs arbitrary: a)
  case (Cons mv mvs)
  then obtain b where b: "meter_entry env u charger connector tx mv a = Inr b" "efold (meter_entry env u charger connector tx) mvs b = Inr a'"
    by (auto simp: ebind_Inr_iff)
  then show ?case using entry_outcome [OF b(1)] Cons.IH [OF b(2)] Cons.prems(2) by simp
qed simp

lemma finish_entries_values:
  assumes "finish_entries connector tx a w = (Inr (), w')"
  shows "mw_values w' = mw_values w @ ma_readings a"
proof -
  have set: "set_charger_connector pk i v = (r, v') \<Longrightarrow> mw_values v' = mw_values v" for pk i v r v'
    by (auto simp: set_charger_connector_def split: if_splits)
  obtain w1 where b: "bulk_create (ma_readings a) w = (Inr (), w1)"
    using assms by (auto simp: finish_entries_def split: prod.splits sum.splits)
  then have "mw_values w1 = mw_values w @ ma_readings a" by (auto simp: bulk_create_def split: if_splits)
  then show ?thesis
    using assms by (auto simp: finish_entries_def b Let_def dest!: set split: prod.splits sum.splits option.splits if_splits)
qed

abbreviation unit_of_charger :: "'r tx_conn \<Rightarrow> pyval option" where
  "unit_of_charger c \<equiv> (case tc_charger c of None \<Rightarrow> None | Some pk \<Rightarrow> Some (charger_field (Some pk) ''energy_unit'' c))"

text \<open>
  C9: Which rows a message makes.  When the samples of each entry name one context, the rows that a
  handled message adds are exactly the entries that hold a quantity and do not belong to the begin or
  the end of a transaction, in order, each with its time, its context and for each quantity the last
  sample in kilowatt hours or as it came: nothing is lost, made up or mixed between entries.\<close>
theorem interim_entries_become_rows:
  assumes "process_meter_value_entries env (PList mvs) connector tx w = (Inr (), w')" "list_all uniform mvs"
  shows "mw_values w' = mw_values w @
    map (reading_row env (unit_of_charger (mw_conn w)) (opt_pk (tc_charger (mw_conn w))) connector tx)
      (filter (interim (unit_of_charger (mw_conn w))) mvs)"
proof -
  let ?a = "\<lparr>ma_context = PStr [], ma_values = [], ma_readings = [], ma_start = tx_start tx (mw_conn w), ma_ints = [],
               ma_decimals = [], ma_temperature = None\<rparr>"
  obtain a where a: "ebind (if truthy (PList mvs) then py_iter (PList mvs) else Inr [])
      (\<lambda>mvs. efold (meter_entry env (unit_of_charger (mw_conn w)) (opt_pk (tc_charger (mw_conn w))) connector tx) mvs ?a) = Inr a"
    "finish_entries connector tx a w = (Inr (), w')"
    using assms(1) by (auto simp: process_meter_value_entries_def Let_def split: sum.splits)
  have "efold (meter_entry env (unit_of_charger (mw_conn w)) (opt_pk (tc_charger (mw_conn w))) connector tx) mvs ?a = Inr a"
    using a(1) by (cases mvs) (simp_all add: py_iter_def)
  from entries_outcome [OF this assms(2)] finish_entries_values [OF a(2)] show ?thesis by simp
qed

text \<open>
  C40: Readings that are lost.  When the last readable sample of an entry belongs to the begin or the end
  of a transaction, the entry makes no row, whatever the other samples say they are: the context that
  decides is the last one, not each sample's own.\<close>
theorem late_boundary_loses_readings:
  assumes "process_meter_value_entries env (PList [PDict d]) connector tx w = (Inr (), w')"
    and "dget d ''sampledValue'' = Some (PList (svs @ [sv]))" "readable sv" "boundary_suffix (sample_context sv) \<noteq> None"
  shows "mw_values w' = mw_values w"
proof -
  let ?u = "unit_of_charger (mw_conn w)"
  let ?a = "\<lparr>ma_context = PStr [], ma_values = [], ma_readings = [], ma_start = tx_start tx (mw_conn w), ma_ints = [],
               ma_decimals = [], ma_temperature = None\<rparr>"
  obtain a where a: "meter_entry env ?u (opt_pk (tc_charger (mw_conn w))) connector tx (PDict d) ?a = Inr a"
    and fin: "finish_entries connector tx a w = (Inr (), w')"
    using assms(1) by (auto simp: process_meter_value_entries_def Let_def py_iter_def ebind_Inr_iff split: sum.splits)
  obtain ts b a1 where b: "efold (meter_sample ?u (tx \<noteq> None)) svs (?a\<lparr>ma_context := PStr [], ma_values := []\<rparr>) = Inr b"
    and a1: "meter_sample ?u (tx \<noteq> None) sv b = Inr a1" and a': "a = finish_entry (opt_pk (tc_charger (mw_conn w))) connector tx ts a1"
    using a assms(2) by (auto simp: meter_entry_def default_of_def py_iter_def efold_snoc ebind_Inr_iff)
  have "ma_readings b = []"
    by (rule efold_invariant [where P = "\<lambda>a. ma_readings a = []", OF b]) (simp_all add: sample_outcome(1))
  then have "ma_readings a1 = []" using sample_outcome(1) [OF a1] by simp
  moreover have "sample_context sv \<noteq> PNone" using assms(4) by (rule contrapos_nn) (simp add: boundary_suffix_def)
  then have "ma_context a1 = sample_context sv" using sample_outcome(3) [OF a1 assms(3)] by blast
  ultimately have "ma_readings a = []" using assms(4) by (auto simp: a' finish_entry_def)
  then show ?thesis using finish_entries_values [OF fin] by simp
qed

subsection \<open>Examples\<close>

definition meter_demo_env :: meter_env where
  "meter_demo_env = \<lparr>me_tx = demo_env, me_parse_datetime = (\<lambda>v. Inr (if v = PStr ''t'' then PTime 7 ''t'' else PNone))\<rparr>"

text \<open>Connector 1 of a station, with an accepted transaction 2 and a rejected transaction 3.\<close>

definition meter_demo :: "int option \<Rightarrow> pyval \<Rightarrow> unit meter_world" where
  "meter_demo connector number =
     \<lparr>mw_conn = demo_conn\<lparr>tc_connector := connector, tc_db :=
        [((''Charger'', PInt 1), [(''charger_id'', PStr ''CP''), (''connector_id'', number), (''energy_unit'', PStr ''kW'')]),
         ((''Transaction'', PInt 2), [(''charger'', PInt 1), (''meter_start'', PInt 100), (''authorization_status'', PStr ''accepted'')]),
         ((''Transaction'', PInt 3), [(''charger'', PInt 1), (''authorization_status'', PStr ''rejected'')])]\<rparr>,
      mw_values = [], mw_decimals = [], mw_temperature = []\<rparr>"

definition demo_sample :: "string \<Rightarrow> string \<Rightarrow> pyval" where
  "demo_sample ctx v = PDict [(''value'', PStr v), (''context'', PStr ctx), (''unit'', PStr ''Wh'')]"

definition demo_entry :: "pyval list \<Rightarrow> pyval" where
  "demo_entry samples = PDict [(''timestamp'', PStr ''t''), (''sampledValue'', PList samples)]"

definition demo_acc :: meter_acc where
  "demo_acc = \<lparr>ma_context = PStr [], ma_values = [], ma_readings = [], ma_start = PNone, ma_ints = [], ma_decimals = [], ma_temperature = None\<rparr>"


definition demo_message :: "pyval list \<Rightarrow> pyval \<Rightarrow> pyval" where
  "demo_message entries tx = PDict [(''connectorId'', PInt 1), (''transactionId'', tx), (''meterValue'', PList entries)]"

theorem session_start_kept_witness:
  "\<exists>row'. tx_rows (mw_conn (snd (handle_meter_values meter_demo_env
        (demo_message [demo_entry [demo_sample ''Sample.Periodic'' ''150'', demo_sample ''Transaction.End'' ''900'']] (PInt 2)) None
        (meter_demo (Some 1) (PInt 1))))) (PInt 2) = Some row' \<and>
    jget row' ''meter_start'' = PInt 100"
proof -
  have "silent ''Transaction.Begin'' (jget (as_obj (demo_message [demo_entry [demo_sample ''Sample.Periodic'' ''150'',
      demo_sample ''Transaction.End'' ''900'']] (PInt 2))) ''meterValue'')"
    by (simp add: silent_def demo_message_def demo_entry_def demo_sample_def as_obj_def entries_of_def py_iter_def samples_of_def
        default_of_def sample_context_def)
  moreover have "tx_rows (mw_conn (meter_demo (Some 1) (PInt 1))) (PInt 2) =
      Some [(''charger'', PInt 1), (''meter_start'', PInt 100), (''authorization_status'', PStr ''accepted'')]"
    by (simp add: meter_demo_def tx_rows_def)
  ultimately show ?thesis
    using session_start_kept [of "demo_message [demo_entry [demo_sample ''Sample.Periodic'' ''150'',
      demo_sample ''Transaction.End'' ''900'']] (PInt 2)" "meter_demo (Some 1) (PInt 1)" 2 _ meter_demo_env None]
    by fastforce
qed

definition demo_result :: "pyval list \<Rightarrow> (meter_error + unit) \<times> unit meter_world" where
  "demo_result entries = process_meter_value_entries meter_demo_env (PList entries) (Some 1) (Some 2) (meter_demo (Some 1) (PInt 1))"

lemma demo_results:
  "fst (demo_result [demo_entry [demo_sample ''Sample.Periodic'' ''1500'']]) = Inr ()"
  "fst (demo_result [demo_entry [demo_sample ''Sample.Periodic'' ''1500'', demo_sample ''Transaction.End'' ''1600'']]) = Inr ()"
  by code_simp+

theorem interim_entries_become_rows_witness:
  "list_all uniform [demo_entry [demo_sample ''Sample.Periodic'' ''1500'']] \<and>
   mw_values (snd (demo_result [demo_entry [demo_sample ''Sample.Periodic'' ''1500'']])) =
     [\<lparr>mv_charger = PInt 1, mv_connector = Some 1, mv_transaction = Some 2, mv_timestamp = PTime 7 ''t'',
       mv_context = PStr ''Sample.Periodic'', mv_fields = [(''energy'', DFin (3 / 2))]\<rparr>]"
proof
  let ?mvs = "[demo_entry [demo_sample ''Sample.Periodic'' ''1500'']]"
  show u: "list_all uniform ?mvs" by code_simp
  have "process_meter_value_entries meter_demo_env (PList ?mvs) (Some 1) (Some 2) (meter_demo (Some 1) (PInt 1)) =
      (Inr (), snd (demo_result ?mvs))"
    using demo_results(1) by (simp add: demo_result_def prod_eq_iff)
  from interim_entries_become_rows [OF this u]
  have "mw_values (snd (demo_result ?mvs)) = mw_values (meter_demo (Some 1) (PInt 1)) @
    map (reading_row meter_demo_env (unit_of_charger (mw_conn (meter_demo (Some 1) (PInt 1)))) (opt_pk (tc_charger (mw_conn (meter_demo (Some 1) (PInt 1))))) (Some 1) (Some 2))
      (filter (interim (unit_of_charger (mw_conn (meter_demo (Some 1) (PInt 1))))) ?mvs)" .
  also have "\<dots> = [\<lparr>mv_charger = PInt 1, mv_connector = Some 1, mv_transaction = Some 2, mv_timestamp = PTime 7 ''t'',
       mv_context = PStr ''Sample.Periodic'', mv_fields = [(''energy'', DFin (3 / 2))]\<rparr>]"
    by code_simp
  finally show "mw_values (snd (demo_result ?mvs)) = [\<lparr>mv_charger = PInt 1, mv_connector = Some 1, mv_transaction = Some 2,
      mv_timestamp = PTime 7 ''t'', mv_context = PStr ''Sample.Periodic'', mv_fields = [(''energy'', DFin (3 / 2))]\<rparr>]" .
qed

theorem late_boundary_loses_readings_witness:
  "mw_values (snd (demo_result [demo_entry [demo_sample ''Sample.Periodic'' ''1500'', demo_sample ''Transaction.End'' ''1600'']])) = []"
proof -
  let ?mv = "demo_entry [demo_sample ''Sample.Periodic'' ''1500'', demo_sample ''Transaction.End'' ''1600'']"
  have "process_meter_value_entries meter_demo_env (PList [?mv]) (Some 1) (Some 2) (meter_demo (Some 1) (PInt 1)) =
      (Inr (), snd (demo_result [?mv]))"
    using demo_results(2) by (simp add: demo_result_def prod_eq_iff)
  then have "mw_values (snd (demo_result [?mv])) = mw_values (meter_demo (Some 1) (PInt 1))"
    unfolding demo_entry_def
  proof (rule late_boundary_loses_readings)
    show "dget [(''timestamp'', PStr ''t''), (''sampledValue'', PList [demo_sample ''Sample.Periodic'' ''1500'', demo_sample ''Transaction.End'' ''1600''])]
      ''sampledValue'' = Some (PList ([demo_sample ''Sample.Periodic'' ''1500''] @ [demo_sample ''Transaction.End'' ''1600'']))"
      by simp
    show "readable (demo_sample ''Transaction.End'' ''1600'')" by code_simp
    show "boundary_suffix (sample_context (demo_sample ''Transaction.End'' ''1600'')) \<noteq> None" by code_simp
  qed
  then show ?thesis by (simp add: meter_demo_def)
qed

definition demo_station_message :: pyval where
  "demo_station_message = PDict [(''connectorId'', PInt 0), (''meterValue'', PList [])]"

theorem second_station_reading_unanswered_witness:
  "\<exists>w'. handle_meter_values meter_demo_env demo_station_message None (meter_demo None PNone) = (Inr [], w') \<and>
    find_charger PNone (mw_conn w') = None \<and> (\<forall>resp'. fst (handle_meter_values meter_demo_env demo_station_message None w') \<noteq> Inr resp')"
proof -
  have "fst (handle_meter_values meter_demo_env demo_station_message None (meter_demo None PNone)) = Inr []" by code_simp
  then obtain w' where h: "handle_meter_values meter_demo_env demo_station_message None (meter_demo None PNone) = (Inr [], w')"
    by (metis prod.collapse)
  have "find_charger PNone (mw_conn w') = None \<and> (\<forall>resp'. fst (handle_meter_values meter_demo_env demo_station_message None w') \<noteq> Inr resp')"
  proof (rule second_station_reading_unanswered [OF h])
    show "dwf (tc_db (mw_conn (meter_demo None PNone)))" by (simp add: meter_demo_def dwf_def)
  qed (auto simp: demo_station_message_def as_obj_def meter_demo_def split: if_splits)
  then show ?thesis using h by blast
qed

theorem readings_activate_rejected_transaction_witness:
  "active_tx ''CP#all'' (mw_conn (snd (handle_meter_values meter_demo_env (demo_message [] (PInt 3)) None (meter_demo (Some 1) (PInt 1))))) = Some 3"
proof -
  have "active_tx (tc_store_key (mw_conn (meter_demo (Some 1) (PInt 1))))
      (mw_conn (snd (handle_meter_values meter_demo_env (demo_message [] (PInt 3)) None (meter_demo (Some 1) (PInt 1))))) = Some 3 \<and>
    (\<exists>row'. tx_rows (mw_conn (snd (handle_meter_values meter_demo_env (demo_message [] (PInt 3)) None (meter_demo (Some 1) (PInt 1))))) (PInt 3) = Some row' \<and>
      jget row' ''authorization_status'' = PStr ''rejected'')"
    by (rule readings_activate_rejected_transaction [of _ "PInt 1" 1 3 "[(''charger'', PInt 1), (''authorization_status'', PStr ''rejected'')]"])
      (simp_all add: meter_demo_def demo_conn_def demo_message_def as_obj_def charger_field_def db_get_def tx_rows_def)
  then show ?thesis by (simp add: meter_demo_def demo_conn_def)
qed

end
