(* ===== verification/TxInvariant.thy ===== *)
theory TxInvariant
  imports MeteringProps
begin

text \<open>
  The safety of the charging sessions as an invariant of all histories: \<open>session_reach\<close> is every
  state that the transaction handlers, MeterValues messages, connector assignments and connection
  switches can produce, with the transactions the MeterValues messages named.
\<close>

subsection \<open>Only accepted transactions are active\<close>

definition accepted_pks :: "'r tx_conn \<Rightarrow> int set" where
  "accepted_pks c =
     {pk. \<exists>row. tx_rows c (PInt pk) = Some row \<and> jget row ''authorization_status'' = PStr ''accepted''}"

text \<open>A step keeps every accepted row accepted and files only accepted rows.\<close>

definition keeps :: "'r tx_conn \<Rightarrow> 'r tx_conn \<Rightarrow> bool" where
  "keeps c c' \<longleftrightarrow> accepted_pks c \<subseteq> accepted_pks c' \<and> active_pks c' \<subseteq> active_pks c \<union> accepted_pks c'"

lemma keeps_trans: "keeps c1 c2 \<Longrightarrow> keeps c2 c3 \<Longrightarrow> keeps c1 c3"
  by (auto simp: keeps_def)

lemma keeps_frame: "tx_rows c' = tx_rows c \<Longrightarrow> tx_table c' = tx_table c \<Longrightarrow> keeps c c'"
  by (simp add: keeps_def accepted_pks_def active_pks_def active_tx_def)

lemma keeps_step [simp]:
  "keeps c (effect e c)" "keeps c (on_logs f c)" "keeps c (on_txs h c)" "keeps c c"
  "keeps c (close_session c)" "keeps c (add_message env t c)" "keeps c (warn_unlinked d tag account c)"
  "keeps c (record_rfid_attempt rfid status account tx d c)" "keeps c (notify_event ev pk c)"
  "keeps c (meter_entries p k c)" "keeps c (requests_completed env r c)" "keeps c (requests_started env ev rs c)"
  "keeps c (open_session env k lock text c)"
  by (intro keeps_frame; simp add: notify_event_def record_transaction_event_def meter_entries_def
      requests_completed_def requests_started_def open_session_def)+

lemma keeps_save:
  assumes "\<And>row. jget (set_fields cols row) ''authorization_status'' = jget row ''authorization_status''"
  shows "keeps c (save_tx pk cols c)"
  using assms by (auto simp: keeps_def accepted_pks_def active_pks_def active_tx_def)

lemma keeps_identifier [simp]: "keeps c (ensure_ocpp_transaction_identifier pk i c)"
  by (auto simp: ensure_ocpp_transaction_identifier_def Let_def jget_set_fields intro!: keeps_save)

lemma keeps_stop_save [simp]: "keeps c (save_tx pk (stop_cols m reason (vehicle_cols p) stop received) c)"
  by (rule keeps_save) (simp add: stop_cols_set)

lemma keeps_create:
  assumes "create_tx cols c = (pk, c')"
  shows "keeps c c'" and "jget cols ''authorization_status'' = PStr ''accepted'' \<Longrightarrow> pk \<in> accepted_pks c'"
  using create_tx_rows [OF assms] by (auto simp: keeps_def accepted_pks_def active_pks_def active_tx_def)

lemma keeps_create_with_pk: "create_tx_with_pk pk cols c = (r, c') \<Longrightarrow> keeps c c'"
  by (auto simp: create_tx_with_pk_def keeps_def accepted_pks_def active_pks_def active_tx_def
      tx_rows_def db_get_def split: if_splits)

lemma keeps_take: "take_tx c = (t, c') \<Longrightarrow> keeps c c'"
  using take_tx_frame [of c t c'] by (auto simp: keeps_def accepted_pks_def active_pks_def active_tx_def)

lemma keeps_file: "pk \<in> accepted_pks c \<Longrightarrow> keeps c (file_tx pk c)"
  by (auto simp: keeps_def accepted_pks_def active_pks_def active_tx_def file_tx_def)

lemma keeps_authorize: "authorize env id_tag c = (d, tag, account, c1) \<Longrightarrow> keeps c c1"
  using authorize_frame by (intro keeps_frame) blast+

lemma take_key_tx_any:
  "tx_table (take_key new c) =
     (if tc_store_key c = new \<or> tc_store_key c = [] then tx_table c else rename_key (tc_store_key c) new (tx_table c))"
  by (auto simp: take_key_def Let_def move_identity_tx split: option.split)

lemma keeps_take_key [simp]: "keeps c (take_key new c)"
  using rename_key_values [of "tc_store_key c" new "tx_table c"]
  by (auto simp: keeps_def accepted_pks_def active_pks_def active_tx_def take_key_tx_any split: if_splits)

lemma tc_field_frames [simp]:
  "tx_table (c\<lparr>tc_store_key := a, tc_connector := b\<rparr>) = tx_table c"
  "tx_table (c\<lparr>tc_header_ref := h\<rparr>) = tx_table c"
  "tx_table (c\<lparr>tc_aggregate := x, tc_charger := y\<rparr>) = tx_table c"
  by simp_all

lemma keeps_aggregate: "keeps c (assign_aggregate c)"
proof -
  let ?agg = "find_charger PNone (ensure_station c)"
  let ?c2 = "(ensure_station c)\<lparr>tc_aggregate := ?agg, tc_charger := ?agg\<rparr>"
  let ?c3 = "take_key (identity_key (tc_charger_id (ensure_station c)) PNone) ?c2"
  have "keeps c ?c2" by (rule keeps_frame) simp_all
  moreover have "keeps ?c3 (assign_aggregate c)"
    by (rule keeps_frame) (simp_all add: assign_aggregate_def Let_def)
  ultimately show ?thesis using keeps_take_key keeps_trans by blast
qed

lemma keeps_connector_value: "keeps c (assign_connector_value i c)"
proof (cases "tc_charger c \<noteq> None \<and> tc_connector c = Some i \<and> charger_field (tc_charger c) ''connector_id'' c = PInt i")
  case True
  then show ?thesis by (simp add: assign_connector_value_def)
next
  case False
  let ?c1 = "select_connector_row i (ensure_station c)"
  let ?c2 = "take_key (identity_key (tc_charger_id ?c1) (PInt i)) ?c1"
  have "keeps c ?c1" by (rule keeps_frame) simp_all
  moreover have "keeps ?c2 (assign_connector_value i c)"
    unfolding assign_connector_value_def if_not_P [OF False] Let_def
    by (rule keeps_frame) simp_all
  ultimately show ?thesis using keeps_take_key keeps_trans by blast
qed

lemma keeps_assign [simp]: "keeps c (snd (assign_connector h c))"
  by (auto simp: assign_connector_def keeps_aggregate keeps_connector_value split: sum.split option.split)

lemma keeps_begin:
  assumes "pk \<in> accepted_pks c"
  shows "keeps c (begin_tx env pk i t c)"
proof -
  let ?e = "ensure_ocpp_transaction_identifier pk i c"
  have "pk \<in> accepted_pks ?e"
    using keeps_identifier [of c pk i] assms by (auto simp: keeps_def)
  then have "keeps ?e (file_tx pk ?e)" by (rule keeps_file)
  moreover have "keeps (file_tx pk ?e) (begin_tx env pk i t c)"
    unfolding begin_tx_def open_session_def by (rule keeps_frame) simp_all
  ultimately show ?thesis using keeps_trans keeps_identifier by blast
qed

subsection \<open>Every handler keeps it\<close>

lemma accepted_row_status:
  "jget (event_row ev r c) ''authorization_status'' = PStr ''accepted''"
  by (simp add: event_row_def)

lemma keeps_accept:
  assumes "create_tx cols c = (pk, c4)" "jget cols ''authorization_status'' = PStr ''accepted''"
  shows "keeps c (begin_tx env pk i t c4)"
  using keeps_create [OF assms(1)] assms(2) keeps_begin keeps_trans by blast

lemma keeps_start_authorized: "keeps c (snd (start_authorized env p s text c))"
proof -
  obtain d tag account c1 where a: "authorize env s c = (d, tag, account, c1)"
    by (cases "authorize env s c")
  obtain r c2 where b: "assign_connector (jget p ''connectorId'') c1 = (r, c2)"
    by (cases "assign_connector (jget p ''connectorId'') c1")
  have 2: "keeps c c2"
    using keeps_trans [OF keeps_authorize [OF a] keeps_assign [of c1 "jget p ''connectorId''"]] by (simp add: b)
  let ?c3 = "warn_unlinked d tag account c2"
  let ?row = "rejected_row env s account d (jget p ''connectorId'') (te_now env) [] c2"
  have 3: "keeps c ?c3" by (rule keeps_trans [OF 2 keeps_step(7)])
  have acc: "keeps c (record_rfid_attempt s ''accepted'' account (Some pk) d (begin_tx env pk None text c4))"
    if cr: "create_tx (accepted_row env s account p stamp ?c3) ?c3 = (pk, c4)" for stamp pk c4
    by (rule keeps_trans [OF 3 keeps_trans [OF keeps_accept [OF cr accepted_row_cols(1)] keeps_step(8)]])
  obtain pk' c4' where cr': "create_tx ?row c2 = (pk', c4')" by (cases "create_tx ?row c2")
  note rej = keeps_trans [OF 2 keeps_trans [OF keeps_create(1) [OF cr'] keeps_step(8)]]
  show ?thesis
  proof (cases "te_parse_timestamp env (jget p ''timestamp'')")
    case (Inl e)
    then show ?thesis using 2 3 rej by (cases r) (simp_all add: start_authorized_def a b cr' Let_def)
  next
    case (Inr stamp)
    obtain pk c4 where cr: "create_tx (accepted_row env s account p stamp ?c3) ?c3 = (pk, c4)" by fastforce
    show ?thesis using 2 acc [OF cr] rej Inr by (cases r) (simp_all add: start_authorized_def a b cr cr' Let_def)
  qed
qed

lemma keeps_start: "keeps c (snd (handle_start_transaction env p text c))"
  by (auto simp: handle_start_transaction_def keeps_start_authorized split: option.split)

lemma keeps_stopped_tx:
  assumes "stopped_tx env p c = (r, c1)"
  shows "keeps c c1"
proof -
  obtain t c0 where t: "take_tx c = (t, c0)" by (cases "take_tx c")
  show ?thesis
    using assms keeps_take [OF t] keeps_trans [OF keeps_take [OF t] keeps_create_with_pk]
    by (auto simp: stopped_tx_def t split: if_splits sum.splits option.splits prod.splits)
qed

lemma keeps_finish [simp]: "keeps c (snd (finish_stop env text c))"
  by (rule keeps_frame) simp_all

lemma keeps_stop: "keeps c (snd (handle_stop_transaction env p text c))"
proof -
  obtain r c1 where s: "stopped_tx env p c = (r, c1)" by (cases "stopped_tx env p c")
  note 1 = keeps_stopped_tx [OF s]
  note fin = keeps_trans [OF 1 keeps_finish] and ident = keeps_trans [OF 1 keeps_identifier]
  note full = keeps_trans [OF ident keeps_trans [OF keeps_stop_save keeps_trans [OF keeps_step(1) keeps_finish]]]
  show ?thesis
    using 1 fin ident full
    by (auto simp: handle_stop_transaction_def s Let_def split: sum.split option.split)
qed

lemma keeps_event_started: "keeps c (snd (event_started env p ev text c))"
proof -
  let ?s = "te_id_tag ev"
  let ?requests = "find_transaction_requests (tc_charger_id c) (opt_int (tc_connector c)) PNone
            (Some ''RequestStartTransaction'') [''accepted'', ''requested''] (txs (tc_store c))"
  obtain d tag account c1 where a: "authorize env ?s c = (d, tag, account, c1)"
    by (cases "authorize env ?s c")
  note 1 = keeps_authorize [OF a]
  let ?c2 = "warn_unlinked d tag account (requests_started env ev ?requests c1)"
  have 2: "keeps c ?c2" by (rule keeps_trans [OF 1 keeps_trans [OF keeps_step(12) keeps_step(7)]])
  let ?cols = "event_accepted_row env ev account p ?c2"
  obtain pk c3 where cr: "create_tx ?cols ?c2 = (pk, c3)" by (cases "create_tx ?cols ?c2")
  have cols: "jget ?cols ''authorization_status'' = PStr ''accepted''"
    by (simp add: event_accepted_row_def split: prod.split)
  note acc = keeps_trans [OF 2 keeps_trans [OF keeps_accept [OF cr cols] keeps_trans [OF keeps_step(10)
        keeps_trans [OF keeps_step(9) keeps_step(8)]]]]
  let ?row = "rejected_row env ?s account d (opt_int (tc_connector c1)) (te_time ev)
                      [(''ocpp_transaction_id'', PStr (te_ocpp_id ev))] c1"
  obtain pk' c3' where cr': "create_tx ?row c1 = (pk', c3')" by (cases "create_tx ?row c1")
  note rej = keeps_trans [OF 1 keeps_trans [OF keeps_create(1) [OF cr'] keeps_step(8)]]
  show ?thesis
    using acc rej by (simp add: event_started_def a cr cr' Let_def)
qed

lemma keeps_event_ended: "keeps c (snd (event_ended env p ev c))"
proof -
  obtain t c1 where t: "take_tx c = (t, c1)" by (cases "take_tx c")
  note 1 = keeps_take [OF t]
  let ?found = "if t \<noteq> None then Inr t else lookup_tx (te_ocpp_id ev) c1"
  show ?thesis
  proof (cases ?found)
    case (Inl e)
    then show ?thesis using 1 by (simp add: event_ended_def t)
  next
    case (Inr found)
    obtain pk c2 where c2: "(case found of Some pk \<Rightarrow> (pk, c1) | None \<Rightarrow> create_tx (event_row ev (te_time ev) c1) c1) = (pk, c2)"
      by (metis surj_pair)
    have 2: "keeps c c2"
      using 1 c2 keeps_trans [OF 1 keeps_create(1)] by (auto split: option.splits)
    note k = keeps_trans [OF 2 keeps_trans [OF keeps_identifier keeps_trans [OF keeps_stop_save keeps_trans
        [OF keeps_step(10) keeps_trans [OF keeps_step(9) keeps_trans [OF keeps_step(1) keeps_trans [OF keeps_step(1)
        keeps_trans [OF keeps_step(11) keeps_step(5)]]]]]]]]
    show ?thesis
      by (simp only: event_ended_def t prod.case Inr sum.case c2 Let_def snd_conv) (rule k)
  qed
qed

lemma keeps_updated_target:
  "keeps c (snd (case found of Some pk \<Rightarrow> (pk, c)
      | None \<Rightarrow> (case create_tx (event_row ev r c) c of
           (pk, c1) \<Rightarrow> (pk, file_tx pk (open_session env pk False t c1)))))"
proof (cases found)
  case None
  obtain k c1 where cr: "create_tx (event_row ev r c) c = (k, c1)"
    by (cases "create_tx (event_row ev r c) c")
  let ?o = "open_session env k False t c1"
  have o: "keeps c1 ?o" by simp
  moreover have "k \<in> accepted_pks c1" by (rule keeps_create(2) [OF cr accepted_row_status])
  ultimately have "keeps ?o (file_tx k ?o)" by (intro keeps_file) (auto simp: keeps_def)
  with keeps_create(1) [OF cr] o have "keeps c (file_tx k ?o)" using keeps_trans by blast
  then show ?thesis by (simp add: None cr)
qed simp

lemma keeps_event_updated: "keeps c (snd (event_updated env p ev text c))"
proof (cases "case active_tx (tc_store_key c) c of Some pk \<Rightarrow> Inr (Some pk) | None \<Rightarrow> lookup_tx (te_ocpp_id ev) c")
  case (Inl e)
  then show ?thesis by (simp only: event_updated_def sum.case snd_conv keeps_step(4))
next
  case (Inr found)
  let ?target = "case found of Some pk \<Rightarrow> (pk, c)
      | None \<Rightarrow> (case create_tx (event_row ev (te_now env) c) c of
           (pk, c1) \<Rightarrow> (pk, file_tx pk (open_session env pk False text c1)))"
  obtain pk c2 where c2: "?target = (pk, c2)" by (cases ?target)
  have 2: "keeps c c2" using keeps_updated_target [where c = c and found = found and ev = ev and r = "te_now env" and env = env and t = "text"]
    unfolding c2 by simp
  show ?thesis
    by (simp only: event_updated_def prod.case Inr sum.case c2 snd_conv)
      (rule keeps_trans [OF 2 keeps_trans [OF keeps_identifier keeps_trans [OF keeps_step(10) keeps_step(9)]]])
qed

lemma keeps_event: "keeps c (snd (handle_transaction_event env p text c))"
proof -
  have a: "keeps c (snd (assign_connector h c))" for h by simp
  have s: "keeps c (snd (event_started env p ev text (snd (assign_connector h c))))" for ev h
    by (rule keeps_trans [OF a keeps_event_started])
  have e: "keeps c (snd (event_ended env p ev (snd (assign_connector h c))))" for ev h
    by (rule keeps_trans [OF a keeps_event_ended])
  have u: "keeps c (snd (event_updated env p ev text (snd (assign_connector h c))))" for ev h
    by (rule keeps_trans [OF a keeps_event_updated])
  have eta: "assign_connector h c = (r, c1) \<Longrightarrow> c1 = snd (assign_connector h c)" for h r c1 by simp
  show ?thesis
    using a s e u
    by (auto simp: handle_transaction_event_def Let_def dest!: eta split: sum.split prod.split)
qed

lemma keeps_available: "keeps c (handle_available_status_transition v c)"
proof -
  obtain t c1 where t: "take_tx c = (t, c1)" by (cases "take_tx c")
  note 1 = keeps_take [OF t]
  show ?thesis
    using 1 keeps_trans [OF 1 keeps_trans [OF keeps_step(1) keeps_step(5)]]
    by (simp add: handle_available_status_transition_def t split: option.split)
qed

text \<open>
  A MeterValues message may also file the row it names, by key or by identifier, whatever its status; what
  follows from that is \<open>readings_activate_rejected_transaction\<close>.
\<close>

definition named_transactions :: "pyval \<Rightarrow> 'r tx_conn \<Rightarrow> int set" where
  "named_transactions tx_id c =
     {pk. tx_id \<noteq> PNone \<and>
        (py_int tx_id = Inr pk \<or> (\<exists>h. get_by_ocpp_id (py_str tx_id) (snd (assign_connector h c)) = Some pk))}"

definition keeps_but :: "int set \<Rightarrow> 'r tx_conn \<Rightarrow> 'r tx_conn \<Rightarrow> bool" where
  "keeps_but N c c' \<longleftrightarrow> accepted_pks c \<subseteq> accepted_pks c' \<and> active_pks c' \<subseteq> active_pks c \<union> accepted_pks c' \<union> N"

lemma keeps_but_trans:
  "keeps_but N c1 c2 \<Longrightarrow> keeps c2 c3 \<Longrightarrow> keeps_but N c1 c3" "keeps c1 c2 \<Longrightarrow> keeps_but N c2 c3 \<Longrightarrow> keeps_but N c1 c3"
  "keeps c1 c2 \<Longrightarrow> keeps_but N c1 c2"
  by (auto simp: keeps_def keeps_but_def)

lemma keeps_but_file: "pk \<in> active_pks c \<union> accepted_pks c \<union> N \<Longrightarrow> keeps_but N c (file_tx pk c)"
  by (auto simp: keeps_but_def accepted_pks_def active_pks_def active_tx_def file_tx_def)

lemma keeps_metered:
  assumes "metered_tx env i k t c = (r, c')" "optional_int i = Inr k"
    and "\<And>pk. i \<noteq> PNone \<Longrightarrow> py_int i = Inr pk \<or> get_by_ocpp_id (py_str i) c = Some pk \<Longrightarrow> pk \<in> N"
  shows "keeps_but N c c'"
proof (cases "i = PNone")
  case True
  then show ?thesis using assms(1) by (auto simp: metered_tx_def Let_def keeps_but_def)
next
  case False
  have k: "k = Some n \<Longrightarrow> py_int i = Inr n" for n
    using assms(2) False by (auto simp: optional_int_def parse_optional_int_def split: sum.splits pyexn.splits if_splits)
  have created: "keeps_but N c (file_tx pk c1)" if "create_metered_tx env s k t c = (Inr pk, c1)" for s pk c1
  proof (rule keeps_but_trans(3), rule keeps_trans [OF _ keeps_file])
    show "keeps c c1" "pk \<in> accepted_pks c1"
      using create_metered_rows [OF that] by (auto simp: keeps_def accepted_pks_def active_pks_def active_tx_def)
  qed
  have failed: "keeps_but N c c1" if "create_metered_tx env s k t c = (Inl e, c1)" for s e c1
    using create_metered_rows [OF that] by (auto simp: keeps_but_def)
  have filed: "keeps_but N c (file_tx n c)"
    if "active_tx (tc_store_key c) c = Some n \<or> get_by_ocpp_id (py_str i) c = Some n \<or> (\<exists>m. k = Some m \<and> tx_by_pk m c = Some n)" for n
  proof (rule keeps_but_file)
    have "tx_by_pk m c = Some n \<Longrightarrow> m = n" for m by (auto simp: tx_by_pk_def split: option.splits if_splits)
    then show "n \<in> active_pks c \<union> accepted_pks c \<union> N"
      using that assms(3) [OF False] k by (auto simp: active_pks_def)
  qed
  have same: "keeps_but N c c" by (auto simp: keeps_but_def)
  show ?thesis
    using assms(1) False filed created failed same
    by (auto simp: metered_tx_def Let_def split: if_splits option.splits sum.splits prod.splits)
qed

lemma keeps_process: "keeps (mw_conn w) (mw_conn (snd (process_meter_value_entries env mvs connector tx w)))"
proof -
  let ?w' = "snd (process_meter_value_entries env mvs connector tx w)"
  have "map_option (\<lambda>row. jget row ''authorization_status'') (tx_rows (mw_conn ?w') k) =
      map_option (\<lambda>row. jget row ''authorization_status'') (tx_rows (mw_conn w) k)" for k
    by (rule process_other_columns) simp
  moreover have "accepted_pks c =
      {pk. map_option (\<lambda>row. jget row ''authorization_status'') (tx_rows c (PInt pk)) = Some (PStr ''accepted'')}" for c :: "'a tx_conn"
    by (auto simp: accepted_pks_def)
  ultimately have "accepted_pks (mw_conn ?w') = accepted_pks (mw_conn w)" by (simp only:)
  then show ?thesis by (simp add: keeps_def active_pks_def active_tx_def process_table)
qed

lemma keeps_readings:
  "keeps_but (named_transactions (jget (as_obj p) ''transactionId'') (mw_conn w)) (mw_conn w)
     (mw_conn (snd (handle_meter_values env p t w)))"
proof -
  let ?p = "normalized_meter_values_payload p"
  let ?N = "named_transactions (jget (as_obj p) ''transactionId'') (mw_conn w)"
  have id: "jget ?p ''transactionId'' = jget (as_obj p) ''transactionId''"
    by (simp add: normalized_meter_values_payload_def Let_def)
  have assign: "keeps (mw_conn w) c1" if "assign_connector h (mw_conn w) = (r, c1)" for h r c1
    using keeps_assign [of "mw_conn w" h] that by simp
  have tx: "keeps_but ?N (mw_conn w) c2"
    if "assign_connector h (mw_conn w) = (r, c1)" "metered_tx env (jget ?p ''transactionId'') k t c1 = (q, c2)"
      "optional_int (jget ?p ''transactionId'') = Inr k" for h r c1 k q c2
  proof (rule keeps_but_trans(2) [OF assign [OF that(1)] keeps_metered [OF that(2,3)]])
    fix pk
    assume "jget ?p ''transactionId'' \<noteq> PNone"
      "py_int (jget ?p ''transactionId'') = Inr pk \<or> get_by_ocpp_id (py_str (jget ?p ''transactionId'')) c1 = Some pk"
    moreover have "c1 = snd (assign_connector h (mw_conn w))" using that(1) by simp
    ultimately show "pk \<in> ?N" by (auto simp: named_transactions_def id)
  qed
  have step: "keeps_but ?N (mw_conn w) (mw_conn (snd (process_meter_value_entries env mvs connector q (w\<lparr>mw_conn := c3\<rparr>))))"
    if "keeps_but ?N (mw_conn w) c3" for mvs connector q c3
    using keeps_but_trans(1) [OF that, of "mw_conn (snd (process_meter_value_entries env mvs connector q (w\<lparr>mw_conn := c3\<rparr>)))"]
      keeps_process [of "w\<lparr>mw_conn := c3\<rparr>"] by simp
  have "keeps_but ?N (mw_conn w) (mw_conn (snd (store_meter_values env ?p t w)))"
  proof (cases "optional_int (jget ?p ''connectorId'')")
    case (Inl e)
    then show ?thesis by (auto simp: store_meter_values_def keeps_but_def)
  next
    case (Inr connector)
    obtain r c1 where c1: "assign_connector (opt_int connector) (mw_conn w) = (r, c1)" by fastforce
    note a = keeps_but_trans(3) [OF assign [OF c1]]
    show ?thesis
    proof (cases "optional_int (jget ?p ''transactionId'')")
      case (Inl e)
      then show ?thesis using Inr c1 a by (cases r) (simp_all add: store_meter_values_def Let_def)
    next
      case k: (Inr k)
      obtain q c2 where c2: "metered_tx env (jget ?p ''transactionId'') k t c1 = (q, c2)" by fastforce
      note keeps = a tx [OF c1 c2 k] keeps_but_trans(1) [OF tx [OF c1 c2 k] keeps_identifier]
      show ?thesis
      proof (cases r)
        case (Inl e)
        then show ?thesis using Inr c1 keeps by (simp add: store_meter_values_def)
      next
        case r: (Inr u)
        show ?thesis
          using Inr c1 c2 k r keeps step
          by (cases q) (simp_all add: store_meter_values_def Let_def split: option.split)
      qed
    qed
  qed
  moreover obtain r w1 where w1: "store_meter_values env ?p t w = (r, w1)" by fastforce
  ultimately show ?thesis
    using handle_table_rows [OF w1] keeps_but_trans(1) [OF _ keeps_frame] by simp
qed

text \<open>
  The states of a server from an empty transaction table on: every handler, for whichever
  connection is being served; \<open>switch\<close> turns to another connection of the same server.  The set holds
  the transactions that MeterValues messages have named.
\<close>

inductive session_reach :: "'r tx_conn \<Rightarrow> int set \<Rightarrow> bool" where
  init: "tx_table c = [] \<Longrightarrow> session_reach c {}"
| start: "session_reach c N \<Longrightarrow> session_reach (snd (handle_start_transaction env p text c)) N"
| stop: "session_reach c N \<Longrightarrow> session_reach (snd (handle_stop_transaction env p text c)) N"
| event: "session_reach c N \<Longrightarrow> session_reach (snd (handle_transaction_event env p text c)) N"
| meter: "session_reach (mw_conn w) N \<Longrightarrow>
    session_reach (mw_conn (snd (handle_meter_values menv p text w)))
      (N \<union> named_transactions (jget (as_obj p) ''transactionId'') (mw_conn w))"
| available: "session_reach c N \<Longrightarrow> session_reach (handle_available_status_transition v c) N"
| assign: "session_reach c N \<Longrightarrow> session_reach (snd (assign_connector h c)) N"
| switch: "session_reach c N \<Longrightarrow> tc_store c' = tc_store c \<Longrightarrow> tc_db c' = tc_db c \<Longrightarrow> session_reach c' N"

lemma keeps_inv: "keeps c c' \<Longrightarrow> active_pks c \<subseteq> accepted_pks c \<union> N \<Longrightarrow> active_pks c' \<subseteq> accepted_pks c' \<union> N"
  by (auto simp: keeps_def)

lemma keeps_but_inv:
  "keeps_but M c c' \<Longrightarrow> active_pks c \<subseteq> accepted_pks c \<union> N \<Longrightarrow> active_pks c' \<subseteq> accepted_pks c' \<union> (N \<union> M)"
  by (auto simp: keeps_but_def)

lemma session_reach_inv: "session_reach c N \<Longrightarrow> active_pks c \<subseteq> accepted_pks c \<union> N"
proof (induction rule: session_reach.induct)
  case (init c)
  then show ?case by (simp add: active_pks_def active_tx_def)
next
  case (switch c N c')
  then show ?case by (simp add: active_pks_def active_tx_def accepted_pks_def tx_rows_def)
next
  case (meter w N menv p t)
  then show ?case by (intro keeps_but_inv [OF keeps_readings])
qed (auto dest: keeps_inv [OF keeps_start] keeps_inv [OF keeps_stop] keeps_inv [OF keeps_event]
      keeps_inv [OF keeps_available] keeps_inv [OF keeps_assign])

text \<open>
  C8: whatever starts, stops, events, readings, connector assignments and switches of connection
  the server has handled, a transaction that is active for some connection has a row that was
  accepted, unless a MeterValues message has named that transaction.  In particular no order of these
  makes a rejected start active while no reading names it.
\<close>

theorem active_transactions_accepted:
  assumes "session_reach c N" "active_tx key c = Some pk" "pk \<notin> N"
  shows "\<exists>row. tx_rows c (PInt pk) = Some row \<and> jget row ''authorization_status'' = PStr ''accepted''"
  using session_reach_inv [OF assms(1)] assms(2,3) by (auto simp: active_pks_def accepted_pks_def)

theorem active_transactions_accepted_witness:
  "\<exists>resp c pk row. handle_start_transaction demo_env (demo_start 1 ''AA'') None demo_conn = (Inr resp, c) \<and>
     active_tx (tc_store_key c) c = Some pk \<and> tx_rows c (PInt pk) = Some row \<and>
     jget row ''authorization_status'' = PStr ''accepted''"
proof -
  obtain resp c pk where s: "handle_start_transaction demo_env (demo_start 1 ''AA'') None demo_conn = (Inr resp, c)"
    and pk: "jget resp ''transactionId'' = PInt pk"
    by (rule demo_start_answers [of demo_conn 1 "''AA''"]) simp_all
  have act: "active_tx (tc_store_key c) c = Some pk"
    using start_accepted_state [OF _ s _ _ pk, of "''AA''"] by (simp add: demo_start_def)
  have "session_reach demo_conn {}"
    by (rule init) (simp add: demo_conn_def init_ocpp_store_def init_store_def)
  then have "session_reach c {}"
    using session_reach.start [of demo_conn "{}" demo_env "demo_start 1 ''AA''" None] s by simp
  from active_transactions_accepted [OF this act] s act show ?thesis by blast
qed

subsection \<open>Stops that are never answered\<close>

text \<open>
  Two stops raise out of the handler, so the charger gets no answer and will repeat them.  A
  StopTransaction on an idle connection that names another charger's transaction tries to insert a
  second row with that key; an ended TransactionEvent whose unknown identifier holds a superscript
  digit passes the digit test and is not a number.  No row changes in either case.
\<close>

lemma unanswerable_stops_raise:
  assumes "active_tx (tc_store_key c) c = None"
  shows "(jget p ''transactionId'' = PInt i \<longrightarrow> tx_rows c (PInt i) = Some row \<longrightarrow>
      jget row ''charger'' \<noteq> opt_pk (tc_charger c) \<longrightarrow>
        fst (handle_stop_transaction env p text c) = Inl IntegrityError \<and>
        tx_rows (snd (handle_stop_transaction env p text c)) = tx_rows c) \<and>
    (get_by_ocpp_id (te_ocpp_id ev) c = None \<longrightarrow> py_isdigit (te_ocpp_id ev) \<longrightarrow> int_of_str (te_ocpp_id ev) = None \<longrightarrow>
        fst (event_ended env p ev c) = Inl (PyError ValueError) \<and>
        tx_rows (snd (event_ended env p ev c)) = tx_rows c)"
proof (intro conjI impI)
  obtain t c1 where t: "take_tx c = (t, c1)" by (cases "take_tx c")
  note f = take_tx_frame [OF t]
  then have none: "t = None" using assms by simp
  assume "jget p ''transactionId'' = PInt i" "tx_rows c (PInt i) = Some row" "jget row ''charger'' \<noteq> opt_pk (tc_charger c)"
  then have "stopped_tx env p c = (Inl IntegrityError, c1)"
    using f none by (simp add: stopped_tx_def t tx_by_pk_def create_tx_with_pk_def db_get_def tx_rows_def fun_eq_iff)
  then show "fst (handle_stop_transaction env p text c) = Inl IntegrityError"
    "tx_rows (snd (handle_stop_transaction env p text c)) = tx_rows c"
    using f by (simp_all add: handle_stop_transaction_def)
next
  obtain t c1 where t: "take_tx c = (t, c1)" by (cases "take_tx c")
  note f = take_tx_frame [OF t]
  then have none: "t = None" using assms by simp
  have "tc_db c1 = tc_db c" using t by (auto simp: take_tx_def)
  then have same: "get_by_ocpp_id x c1 = get_by_ocpp_id x c" for x using f by (simp add: get_by_ocpp_id_def)
  assume "get_by_ocpp_id (te_ocpp_id ev) c = None" "py_isdigit (te_ocpp_id ev)" "int_of_str (te_ocpp_id ev) = None"
  then have "lookup_tx (te_ocpp_id ev) c1 = Inl (PyError ValueError)"
    using same by (simp add: lookup_tx_def)
  then show "fst (event_ended env p ev c) = Inl (PyError ValueError)"
    "tx_rows (snd (event_ended env p ev c)) = tx_rows c"
    using f by (simp_all add: event_ended_def t none)
qed

lemma unanswerable_stops_raise_witness:
  "fst (event_ended demo_env [] \<lparr>te_type = ''ended'', te_info = [], te_ocpp_id = [char_of (178 :: nat)],
      te_time = PNone, te_id_tag = []\<rparr> demo_conn) = Inl (PyError ValueError)"
proof -
  have "active_tx (tc_store_key demo_conn) demo_conn = None"
    by (simp add: active_tx_def demo_conn_def init_ocpp_store_def init_store_def)
  moreover have "get_by_ocpp_id [char_of (178 :: nat)] demo_conn = None"
    by (simp add: get_by_ocpp_id_def demo_conn_def db_first_def db_pks_def)
  moreover have "py_isdigit [char_of (178 :: nat)]"
    by (simp add: py_isdigit_def is_digit_char_def)
  moreover have "int_of_str [char_of (178 :: nat)] = None"
    by code_simp
  ultimately show ?thesis
    using unanswerable_stops_raise [of demo_conn "[]" _ _ demo_env None "\<lparr>te_type = ''ended'', te_info = [],
      te_ocpp_id = [char_of (178 :: nat)], te_time = PNone, te_id_tag = []\<rparr>"]
    by simp
qed

end
