(* ===== verification/SessionLogProps.thy ===== *)
theory SessionLogProps
  imports SessionLog
begin

text \<open>
  What the log files promise.  A session file is read back by \<open>json.loads\<close> (the extraction command
  does); \<open>parse_session\<close> is that reader for arrays of flat objects.  The main result: whatever else
  is logged in between, the file of a finished session parses to exactly the messages of that
  session, in order.
\<close>

subsection \<open>Reading JSON\<close>

definition hex_val :: "char \<Rightarrow> nat option" where
  "hex_val c =
     (let n = code c in
      if 48 \<le> n \<and> n \<le> 57 then Some (n - 48)
      else if 97 \<le> n \<and> n \<le> 102 then Some (n - 87)
      else if 65 \<le> n \<and> n \<le> 70 then Some (n - 55) else None)"

definition unescape :: "char \<Rightarrow> char option" where
  "unescape c =
     (if code c = 34 \<or> code c = 92 \<or> code c = 47 then Some c
      else if c = CHR ''n'' then Some (char_of (10 :: nat))
      else if c = CHR ''r'' then Some (char_of (13 :: nat))
      else if c = CHR ''t'' then Some (char_of (9 :: nat))
      else if c = CHR ''b'' then Some (char_of (8 :: nat))
      else if c = CHR ''f'' then Some (char_of (12 :: nat)) else None)"

fun unicode_escape :: "string \<Rightarrow> char option" where
  "unicode_escape [z1, z2, a, b] =
     (if z1 = CHR ''0'' \<and> z2 = CHR ''0''
      then (case (hex_val a, hex_val b) of (Some i, Some j) \<Rightarrow> Some (char_of (16 * i + j)) | _ \<Rightarrow> None)
      else None)"
| "unicode_escape _ = None"

definition cons_char :: "char option \<Rightarrow> (string \<times> string) option \<Rightarrow> (string \<times> string) option" where
  "cons_char c r =
     (case (c, r) of (Some d, Some (t, rest)) \<Rightarrow> Some (d # t, rest) | _ \<Rightarrow> None)"

function parse_string_body :: "string \<Rightarrow> (string \<times> string) option" where
  "parse_string_body s =
     (case s of
        [] \<Rightarrow> None
      | c # cs \<Rightarrow>
          (if code c = 34 then Some ([], cs)
           else if code c = 92
             then (case cs of
                     [] \<Rightarrow> None
                   | e # es \<Rightarrow>
                       (if e = CHR ''u''
                        then cons_char (unicode_escape (take 4 es)) (parse_string_body (drop 4 es))
                        else cons_char (unescape e) (parse_string_body es)))
           else if code c < 32 then None
           else cons_char (Some c) (parse_string_body cs)))"
  by pat_completeness auto
termination
  by (relation "measure length") auto

declare parse_string_body.simps [simp del]

definition json_space :: "char \<Rightarrow> bool" where
  "json_space c = (code c \<in> {32, 9, 10, 13})"

definition expect :: "string \<Rightarrow> string \<Rightarrow> string option" where
  "expect token s =
     (let t = dropWhile json_space s
      in if py_startswith t token then Some (drop (length token) t) else None)"

definition parse_string :: "string \<Rightarrow> (string \<times> string) option" where
  "parse_string s = Option.bind (expect [char_of (34 :: nat)] s) parse_string_body"

definition parse_nullable :: "string \<Rightarrow> (string option \<times> string) option" where
  "parse_nullable s =
     (case expect ''null'' s of
        Some rest \<Rightarrow> Some (None, rest)
      | None \<Rightarrow> map_option (\<lambda>(t, rest). (Some t, rest)) (parse_string s))"

definition parse_key :: "string \<Rightarrow> string \<Rightarrow> string option" where
  "parse_key k s =
     Option.bind (parse_string s) (\<lambda>(t, rest). if t = k then expect '':'' rest else None)"

definition parse_entry :: "string \<Rightarrow> ((string \<times> string option) \<times> string) option" where
  "parse_entry s =
     Option.bind (expect ''{'' s) (\<lambda>s1.
     Option.bind (parse_key ''timestamp'' s1) (\<lambda>s2.
     Option.bind (parse_string s2) (\<lambda>(stamp, s3).
     Option.bind (expect '','' s3) (\<lambda>s4.
     Option.bind (parse_key ''message'' s4) (\<lambda>s5.
     Option.bind (parse_nullable s5) (\<lambda>(msg, s6).
     Option.bind (expect ''}'' s6) (\<lambda>s7. Some ((stamp, msg), s7))))))))"

text \<open>An array of at most \<open>n\<close> entries; every entry takes at least one character.\<close>

fun parse_entries :: "nat \<Rightarrow> string \<Rightarrow> ((string \<times> string option) list \<times> string) option" where
  "parse_entries 0 s = None"
| "parse_entries (Suc n) s =
     Option.bind (parse_entry s) (\<lambda>(e, s1).
       case expect '','' s1 of
         Some s2 \<Rightarrow> map_option (\<lambda>(es, s3). (e # es, s3)) (parse_entries n s2)
       | None \<Rightarrow> map_option (\<lambda>s3. ([e], s3)) (expect '']'' s1))"

definition parse_session :: "string \<Rightarrow> (string \<times> string option) list option" where
  "parse_session s =
     Option.bind (expect ''['' s) (\<lambda>s1.
       case (case expect '']'' s1 of
               Some s2 \<Rightarrow> Some ([], s2) | None \<Rightarrow> parse_entries (length s1) s1) of
         None \<Rightarrow> None
       | Some (es, s2) \<Rightarrow> (if list_all json_space s2 then Some es else None))"

lemma hex_val_digit [simp]: "n < 16 \<Longrightarrow> hex_val (hex_digit n) = Some n"
  by (auto simp: hex_val_def hex_digit_def Let_def)

lemma code_inj: "code c = code d \<longleftrightarrow> c = d"
  by (simp add: code_def)

lemma char_of_code [simp]: "char_of (code c) = c"
  by (simp add: code_def)

lemma parse_json_char:
  "parse_string_body (json_char c @ t) = cons_char (Some c) (parse_string_body t)"
proof -
  have split: "16 * (code c div 16) + code c mod 16 = code c" by simp
  have hex: "code c < 32 \<Longrightarrow> code c div 16 < 16" "code c mod 16 < 16" by auto
  have named: "code CHR ''n'' = 110" "code CHR ''r'' = 114" "code CHR ''t'' = 116" "code CHR ''b'' = 98"
      "code CHR ''f'' = 102" "code CHR ''u'' = 117"
    by (simp_all add: code_def)
  have neq: "code c = 34 \<Longrightarrow> c \<noteq> CHR ''u''" "code c = 92 \<Longrightarrow> c \<noteq> CHR ''u''"
    by (auto simp: code_def)
  have inv: "\<And>k. code c = k \<Longrightarrow> char_of k = c"
    using char_of_code by blast
  show ?thesis
    using hex split
    by (subst parse_string_body.simps)
      (auto simp: json_char_def Let_def unescape_def named neq inv)
qed

lemma parse_json_string_body [simp]:
  "parse_string_body (concat (map json_char s) @ char_of (34 :: nat) # rest) = Some (s, rest)"
proof (induction s)
  case Nil
  show ?case by (subst parse_string_body.simps) simp
next
  case (Cons c s)
  then show ?case by (simp add: parse_json_char cons_char_def)
qed

subsection \<open>A rendered file is read back\<close>

abbreviation nl :: string where "nl \<equiv> [char_of (10 :: nat)]"

abbreviation payload_of :: "string \<times> string option \<Rightarrow> string" where
  "payload_of m \<equiv> session_payload (fst m) (snd m)"

definition rendered :: "(string \<times> string option) list \<Rightarrow> string" where
  "rendered ms = ''['' @ flush_text True (map payload_of ms) @ (if ms = [] then [] else nl) @ '']'' @ nl"

lemma expect_here: "t = token @ rest \<Longrightarrow> token \<noteq> [] \<Longrightarrow> \<not> json_space (hd token) \<Longrightarrow> expect token t = Some rest"
  by (cases token) (auto simp: expect_def)

lemma expect_skip [simp]: "json_space c \<Longrightarrow> expect token (c # t) = expect token t"
  by (simp add: expect_def)

lemma json_space_simps [simp]:
  "json_space (char_of (10 :: nat))" "json_space CHR '' ''" "\<not> json_space (char_of (34 :: nat))"
  "\<not> json_space CHR '':''" "\<not> json_space CHR '',''" "\<not> json_space CHR ''{''" "\<not> json_space CHR ''}''"
  "\<not> json_space CHR ''[''" "\<not> json_space CHR '']''" "\<not> json_space CHR ''n''"
  by (simp_all add: json_space_def code_def)

lemma parse_json_string [simp]: "parse_string (json_string s @ rest) = Some (s, rest)"
  using expect_here [of "json_string s @ rest" "[char_of (34 :: nat)]"]
  by (simp add: parse_string_def json_string_def)

lemma parse_string_skip [simp]: "json_space c \<Longrightarrow> parse_string (c # t) = parse_string t"
  by (simp add: parse_string_def)

lemma parse_nullable_json [simp]: "parse_nullable (json_nullable v @ rest) = Some (v, rest)"
proof (cases v)
  case None
  then show ?thesis by (simp add: parse_nullable_def json_nullable_def expect_def)
next
  case (Some t)
  have "code (char_of (34 :: nat)) \<noteq> code CHR ''n''"
    by (subst code_char_of) (simp_all add: code_def)
  then have "char_of (34 :: nat) \<noteq> CHR ''n''" by metis
  then have "expect ''null'' (json_string t @ rest) = None"
    by (simp add: expect_def json_string_def)
  then show ?thesis by (simp add: parse_nullable_def json_nullable_def Some)
qed

lemma parse_nullable_skip [simp]: "json_space c \<Longrightarrow> parse_nullable (c # t) = parse_nullable t"
  by (simp add: parse_nullable_def split: option.split)

lemma parse_key_json [simp]: "parse_key k (json_string k @ CHR '':'' # rest) = Some rest"
  by (simp add: parse_key_def expect_def)

lemma parse_key_skip [simp]: "json_space c \<Longrightarrow> parse_key k (c # t) = parse_key k t"
  by (simp add: parse_key_def)

lemma expect_comma [simp]: "expect '','' (CHR '','' # rest) = Some rest"
  by (simp add: expect_def)

lemma expect_brace [simp]: "expect ''{'' (CHR ''{'' # rest) = Some rest" "expect ''}'' (CHR ''}'' # rest) = Some rest"
  by (simp_all add: expect_def)

lemma parse_payload [simp]: "parse_entry (payload_of m @ rest) = Some (m, rest)"
  by (simp add: parse_entry_def session_payload_def del: append_assoc)
    (simp add: parse_entry_def session_payload_def)

lemma parse_entry_skip [simp]: "json_space c \<Longrightarrow> parse_entry (c # t) = parse_entry t"
  by (simp add: parse_entry_def)

lemma parse_entries_skip [simp]: "json_space c \<Longrightarrow> parse_entries n (c # t) = parse_entries n t"
  by (cases n) simp_all

lemma parse_rendered_entries:
  "length ms < n \<Longrightarrow>
     parse_entries n (payload_of m @ flush_text False (map payload_of ms) @ nl @ '']'' @ nl) = Some (m # ms, nl)"
proof (induction ms arbitrary: n m)
  case Nil
  then show ?case
    by (cases n) (simp_all add: expect_def)
next
  case (Cons k ms)
  then obtain n' where n: "n = Suc n'" "length ms < n'"
    by (cases n) auto
  have "parse_entries n' (nl @ ''  '' @ payload_of k @ flush_text False (map payload_of ms) @ nl @ '']'' @ nl) = Some (k # ms, nl)"
    using Cons.IH [OF n(2), of k] by simp
  then show ?case by (simp add: n(1))
qed

lemma length_flush_text: "length raws \<le> length (flush_text first raws)"
  by (induction first raws rule: flush_text.induct) auto

lemma parse_rendered: "parse_session (rendered ms) = Some ms"
proof (cases ms)
  case Nil
  then show ?thesis by (simp add: parse_session_def rendered_def expect_def)
next
  case (Cons m ms')
  let ?body = "nl @ ''  '' @ payload_of m @ flush_text False (map payload_of ms') @ nl @ '']'' @ nl"
  have "length ms' < length ?body"
    using length_flush_text [of "map payload_of ms'" False] by simp
  then have "parse_entries (length ?body) ?body = Some (m # ms', nl)"
    using parse_rendered_entries [of ms' "length ?body" m] by simp
  moreover have "expect '']'' ?body = None"
    by (simp add: session_payload_def) (simp add: expect_def)
  ultimately show ?thesis
    by (simp add: parse_session_def rendered_def Cons expect_def [of "''[''"])
qed

lemma flush_text_append:
  "flush_text first (xs @ ys) = flush_text first xs @ flush_text (first \<and> xs = []) ys"
  by (induction first xs rule: flush_text.induct) auto

subsection \<open>Histories\<close>

datatype log_op =
    LogLine string string string log_type
  | NameLog string string log_type
  | StartSession string string int
  | SessionMessage string string "string option"
  | EndSession string

fun log_step :: "disk_env \<Rightarrow> log_op \<Rightarrow> log_state \<Rightarrow> log_state" where
  "log_step env (LogLine cid stamp entry t) s = snd (add_log_line env stamp cid entry t s)"
| "log_step env (NameLog cid name t) s = register_log_name cid name t s"
| "log_step env (StartSession cid date tx_id) s = snd (start_session_log env date cid tx_id s)"
| "log_step env (SessionMessage cid stamp message) s = snd (add_session_message env stamp cid message s)"
| "log_step env (EndSession cid) s = snd (end_session_log env cid s)"

definition log_run :: "disk_env \<Rightarrow> log_op list \<Rightarrow> log_state \<Rightarrow> log_state" where
  "log_run env ops s = fold (log_step env) ops s"

fun session_message_of :: "string \<Rightarrow> log_op \<Rightarrow> (string \<times> string option) list" where
  "session_message_of cid (SessionMessage c stamp message) = (if c = cid then [(stamp, message)] else [])"
| "session_message_of cid _ = []"

text \<open>The operation neither ends nor replaces the session, and opens no session for the same transaction.\<close>

fun leaves_session :: "string \<Rightarrow> int \<Rightarrow> log_op \<Rightarrow> bool" where
  "leaves_session cid tx_id (StartSession c date t) \<longleftrightarrow> c \<noteq> cid \<and> t \<noteq> tx_id \<and> list_all is_ascii_digit date"
| "leaves_session cid tx_id (EndSession c) \<longleftrightarrow> c \<noteq> cid"
| "leaves_session cid tx_id _ \<longleftrightarrow> True"

definition elsewhere :: "string \<Rightarrow> string \<Rightarrow> log_state \<Rightarrow> bool" where
  "elsewhere cid path s \<longleftrightarrow>
     (\<forall>c sess. dget (ls_history s) c = Some sess \<longrightarrow> c \<noteq> cid \<longrightarrow> se_path sess \<noteq> path)"

definition session_active :: "string \<Rightarrow> string \<Rightarrow> (string \<times> string option) list \<Rightarrow> log_state \<Rightarrow> bool" where
  "session_active cid path ms s \<longleftrightarrow>
     (\<exists>sess flushed pending. dget (ls_history s) cid = Some sess \<and> se_path sess = path \<and>
        ms = flushed @ pending \<and> se_buffer sess = map payload_of pending \<and>
        se_first sess = (flushed = []) \<and>
        file_text path (ls_files s) = ''['' @ flush_text True (map payload_of flushed)) \<and>
     elsewhere cid path s"

lemma safe_name_no_slash: "CHR ''/'' \<notin> set (safe_name s)"
  by (auto simp: safe_name_def word_char_def code_def)

lemma int_str_no_slash: "CHR ''/'' \<notin> set (int_str i)"
proof -
  have "0 \<le> k \<Longrightarrow> CHR ''/'' \<notin> set (nat_str k)" for k
    using nat_str_digits [of k] by (auto simp: list_all_iff is_ascii_digit_def code_def)
  then show ?thesis by (auto simp: int_str_def)
qed

lemma split_unique: "c \<notin> set a \<Longrightarrow> c \<notin> set b \<Longrightarrow> a @ c # x = b @ c # y \<Longrightarrow> a = b \<and> x = y"
  by (induction a arbitrary: b) (auto simp: Cons_eq_append_conv)

lemma split_unique_end:
  assumes "c \<notin> set x" "c \<notin> set y" and eq: "a @ c # x = b @ c # y"
  shows "x = y"
proof -
  have "rev x @ c # rev a = rev y @ c # rev b"
    using arg_cong [OF eq, of rev] by simp
  then show ?thesis
    using split_unique [of c "rev x" "rev y"] assms(1,2) by auto
qed

lemma digits_clean: "list_all is_ascii_digit d \<Longrightarrow> CHR ''/'' \<notin> set d \<and> CHR ''_'' \<notin> set d"
  by (auto simp: list_all_iff is_ascii_digit_def code_def)

lemma session_path_tx:
  assumes "list_all is_ascii_digit d" "list_all is_ascii_digit d'"
    and "session_path c d t s = session_path c' d' t' s'"
  shows "t = t'"
proof -
  let ?f = "d @ ''_'' @ int_str t @ ''.json''" and ?f' = "d' @ ''_'' @ int_str t' @ ''.json''"
  have clean: "CHR ''/'' \<notin> set ?f" "CHR ''/'' \<notin> set ?f'"
    using digits_clean [OF assms(1)] digits_clean [OF assms(2)] by (simp_all add: int_str_no_slash)
  have "session_folder c s @ CHR ''/'' # ?f = session_folder c' s' @ CHR ''/'' # ?f'"
    using assms(3) by (simp add: session_path_def)
  from split_unique_end [OF clean this] have "d @ CHR ''_'' # (int_str t @ ''.json'') = d' @ CHR ''_'' # (int_str t' @ ''.json'')"
    by simp
  from split_unique [OF _ _ this] have "int_str t @ ''.json'' = int_str t' @ ''.json''"
    using digits_clean [OF assms(1)] digits_clean [OF assms(2)] by blast
  then show ?thesis by (simp add: int_str_inj)
qed

lemma session_path_not_log: "session_path c d t s \<noteq> log_file_path k lt s'"
  by (auto simp: session_path_def session_folder_def log_file_path_def log_type_name_def split: log_type.split)

subsection \<open>Every operation keeps an active session\<close>

definition path_of_tx :: "string \<Rightarrow> int \<Rightarrow> bool" where
  "path_of_tx path tx_id \<longleftrightarrow> (\<exists>c d s. list_all is_ascii_digit d \<and> path = session_path c d tx_id s)"

lemma path_of_tx_not_log: "path_of_tx path tx_id \<Longrightarrow> path \<noteq> log_file_path k t s"
  using session_path_not_log by (auto simp: path_of_tx_def)

lemma path_of_tx_other:
  "path_of_tx path tx_id \<Longrightarrow> list_all is_ascii_digit d \<Longrightarrow> t \<noteq> tx_id \<Longrightarrow> session_path c d t s \<noteq> path"
  using session_path_tx by (fastforce simp: path_of_tx_def)

lemma file_text_append [simp]:
  "file_text p (append_file q t fs) = (if p = q then file_text p fs @ t else file_text p fs)"
  by (simp add: file_text_def append_file_def)

lemma file_text_dset [simp]: "file_text p (dset q t fs) = (if p = q then t else file_text p fs)"
  by (simp add: file_text_def)

lemma flush_frame:
  "flush_session_buffer env sess fs = (e, sess', fs') \<Longrightarrow>
     se_path sess' = se_path sess \<and> (p \<noteq> se_path sess \<longrightarrow> file_text p fs' = file_text p fs)"
  by (auto simp: flush_session_buffer_def split: if_splits)

lemma finalize_frame: "p \<noteq> se_path sess \<Longrightarrow> file_text p (snd (finalize_session env sess fs)) = file_text p fs"
  using flush_frame [of env sess fs _ _ _ p]
  by (auto simp: finalize_session_def split: prod.split option.split)

lemma session_active_cong:
  assumes "session_active cid path ms s" "dget (ls_history s') cid = dget (ls_history s) cid"
    and "elsewhere cid path s'" "file_text path (ls_files s') = file_text path (ls_files s)"
  shows "session_active cid path ms s'"
  using assms by (simp add: session_active_def)

lemma active_elsewhere: "session_active cid path ms s \<Longrightarrow> elsewhere cid path s"
  by (simp add: session_active_def)

lemma elsewhereD: "elsewhere cid path s \<Longrightarrow> dget (ls_history s) c = Some sess \<Longrightarrow> c \<noteq> cid \<Longrightarrow> se_path sess \<noteq> path"
  by (auto simp: elsewhere_def)

lemma log_line_active:
  assumes "session_active cid path ms s" "path_of_tx path tx_id"
  shows "session_active cid path ms (snd (add_log_line env stamp c entry t s))"
  using path_of_tx_not_log [OF assms(2)]
  by (intro session_active_cong [OF assms(1)])
    (use active_elsewhere [OF assms(1)] in
      \<open>auto simp: add_log_line_def append_memory_log_def write_log_file_def Let_def elsewhere_def\<close>)

lemma name_active:
  "session_active cid path ms s \<Longrightarrow> session_active cid path ms (register_log_name c name t s)"
  by (simp add: session_active_def elsewhere_def register_log_name_def Let_def)

lemma end_other_active:
  assumes "session_active cid path ms s" "c \<noteq> cid"
  shows "session_active cid path ms (snd (end_session_log env c s))"
proof (cases "dget (ls_history s) c")
  case None
  then show ?thesis using assms by (simp add: end_session_log_def)
next
  case (Some sess)
  note ew = active_elsewhere [OF assms(1)]
  show ?thesis
    by (rule session_active_cong [OF assms(1)])
      (use assms(2) ew Some finalize_frame [OF elsewhereD [OF ew Some assms(2), symmetric]] in
        \<open>auto simp: end_session_log_def case_prod_beta elsewhere_def\<close>)
qed

lemma start_other_active:
  assumes "session_active cid path ms s" "c \<noteq> cid" and other: "\<And>s. session_path c date t s \<noteq> path"
  shows "session_active cid path ms (snd (start_session_log env date c t s))"
proof -
  note ew = active_elsewhere [OF assms(1)]
  let ?s1 = "case dget (ls_history s) c of None \<Rightarrow> s | Some existing \<Rightarrow>
      s\<lparr>ls_history := ddel c (ls_history s), ls_files := snd (finalize_session env existing (ls_files s))\<rparr>"
  have 1: "session_active cid path ms ?s1"
    by (rule session_active_cong [OF assms(1)])
      (use assms(2) ew finalize_frame [OF elsewhereD [OF ew _ assms(2), symmetric]] in
        \<open>auto simp: elsewhere_def split: option.split\<close>)
  show ?thesis
    unfolding start_session_log_def Let_def
    by (rule session_active_cong [OF 1])
      (use assms(2) other active_elsewhere [OF 1] in \<open>auto simp: elsewhere_def\<close>)
qed

lemma message_other_active:
  assumes "session_active cid path ms s" "c \<noteq> cid"
  shows "session_active cid path ms (snd (add_session_message env stamp c message s))"
proof (cases "dget (ls_history s) c")
  case None
  then show ?thesis using assms by (simp add: add_session_message_def)
next
  case (Some sess)
  note ew = active_elsewhere [OF assms(1)]
  let ?sess1 = "sess\<lparr>se_buffer := se_buffer sess @ [session_payload stamp message]\<rparr>"
  obtain e sess' fs' where fl: "flush_session_buffer env ?sess1 (ls_files s) = (e, sess', fs')"
    by (metis surj_pair)
  have fr: "se_path sess' \<noteq> path" "file_text path fs' = file_text path (ls_files s)"
    using flush_frame [OF fl, of path] elsewhereD [OF ew Some assms(2)] by auto
  show ?thesis
    by (rule session_active_cong [OF assms(1)])
      (use assms(2) ew Some elsewhereD [OF ew Some assms(2)] fr in
        \<open>auto simp: add_session_message_def fl Let_def elsewhere_def\<close>)
qed

lemma message_own_active:
  assumes "session_active cid path ms s" "de_writable env path"
  shows "session_active cid path (ms @ [(stamp, message)]) (snd (add_session_message env stamp cid message s))"
proof -
  obtain sess flushed pending where a: "dget (ls_history s) cid = Some sess" "se_path sess = path"
      "ms = flushed @ pending" "se_buffer sess = map payload_of pending" "se_first sess = (flushed = [])"
      "file_text path (ls_files s) = ''['' @ flush_text True (map payload_of flushed)"
    and ew: "elsewhere cid path s"
    using assms(1) by (auto simp: session_active_def)
  let ?m = "(stamp, message)" and ?s = "snd (add_session_message env stamp cid message s)"
  have ew': "elsewhere cid path ?s"
    using ew by (auto simp: add_session_message_def a(1) Let_def elsewhere_def split: prod.split)
  show ?thesis
  proof (cases "SESSION_LOG_BUFFER_LIMIT \<le> Suc (length pending)")
    case True
    have "file_text path (ls_files ?s) = ''['' @ flush_text True (map payload_of (flushed @ pending @ [?m]))"
      using True a assms(2)
      by (simp add: add_session_message_def Let_def flush_session_buffer_def flush_text_append)
    moreover obtain sess' where "dget (ls_history ?s) cid = Some sess'" "se_path sess' = path"
        "se_buffer sess' = []" "\<not> se_first sess'"
      using True a assms(2) by (simp add: add_session_message_def Let_def flush_session_buffer_def)
    ultimately show ?thesis
      using ew' a(3) unfolding session_active_def
      by (intro conjI exI [of _ sess'] exI [of _ "flushed @ pending @ [?m]"] exI [of _ "[]"]) auto
  next
    case False
    have "dget (ls_history ?s) cid = Some (sess\<lparr>se_buffer := se_buffer sess @ [payload_of ?m]\<rparr>)" "ls_files ?s = ls_files s"
      using False a by (simp_all add: add_session_message_def Let_def)
    then show ?thesis
      using ew' a unfolding session_active_def
      by (intro conjI exI [of _ "sess\<lparr>se_buffer := se_buffer sess @ [payload_of ?m]\<rparr>"] exI [of _ flushed]
          exI [of _ "pending @ [?m]"]) auto
  qed
qed

lemma step_active:
  assumes "session_active cid path ms s" "path_of_tx path tx_id" "de_writable env path"
    and "leaves_session cid tx_id op"
  shows "session_active cid path (ms @ session_message_of cid op) (log_step env op s)"
  using assms path_of_tx_other [OF assms(2)]
  by (cases op) (auto simp: log_line_active name_active end_other_active start_other_active
      message_other_active message_own_active)

lemma run_active:
  "session_active cid path ms s \<Longrightarrow> path_of_tx path tx_id \<Longrightarrow> de_writable env path \<Longrightarrow>
     list_all (leaves_session cid tx_id) ops \<Longrightarrow>
     session_active cid path (ms @ concat (map (session_message_of cid) ops)) (log_run env ops s)"
proof (induction ops arbitrary: s ms)
  case Nil
  then show ?case by (simp add: log_run_def)
next
  case (Cons op ops)
  from Cons.IH [OF step_active [OF Cons.prems(1-3), of op]] Cons.prems
  show ?case by (simp add: log_run_def)
qed

subsection \<open>Opening and closing\<close>

lemma start_active:
  assumes "de_folder env (session_folder cid s)" "de_writable env (session_path cid date tx_id s)"
    and "elsewhere cid (session_path cid date tx_id s) s"
  shows "session_active cid (session_path cid date tx_id s) [] (snd (start_session_log env date cid tx_id s))"
  using assms
  by (auto simp: start_session_log_def Let_def session_active_def session_path_def session_folder_def
      name_of_def elsewhere_def split: option.splits)

lemma end_active:
  assumes "session_active cid path ms s" "de_writable env path"
  shows "file_text path (ls_files (snd (end_session_log env cid s))) = rendered ms"
proof -
  obtain sess flushed pending where a: "dget (ls_history s) cid = Some sess" "se_path sess = path"
      "ms = flushed @ pending" "se_buffer sess = map payload_of pending" "se_first sess = (flushed = [])"
      "file_text path (ls_files s) = ''['' @ flush_text True (map payload_of flushed)"
    using assms(1) by (auto simp: session_active_def)
  show ?thesis
    using a assms(2)
    by (cases "pending = []")
      (simp_all add: end_session_log_def finalize_session_def flush_session_buffer_def rendered_def flush_text_append)
qed

text \<open>
  C26: the file of a session can be read back.  Whatever is logged, renamed, opened or closed for
  other keys while the session is open, and however the messages fall into buffered writes, the
  finished file is one JSON array holding exactly the messages of the session in order.
\<close>

theorem session_file_roundtrip:
  assumes "de_folder env (session_folder cid s)"
    and path: "path = session_path cid date tx_id s" "de_writable env path"
    and "list_all is_ascii_digit date" "elsewhere cid path s"
    and "list_all (leaves_session cid tx_id) ops"
  shows "parse_session (file_text path
           (ls_files (log_run env ([StartSession cid date tx_id] @ ops @ [EndSession cid]) s))) =
         Some (concat (map (session_message_of cid) ops))"
proof -
  have "session_active cid path [] (log_step env (StartSession cid date tx_id) s)"
    using start_active assms by simp
  moreover have "path_of_tx path tx_id"
    using assms by (auto simp: path_of_tx_def)
  ultimately have "session_active cid path (concat (map (session_message_of cid) ops))
      (log_run env ops (log_step env (StartSession cid date tx_id) s))"
    using run_active [of cid path "[]"] assms by fastforce
  from end_active [OF this path(2)] show ?thesis
    by (simp add: log_run_def parse_rendered)
qed

theorem session_file_roundtrip_witness:
  "parse_session (file_text ''sessions/CP_1/20250101_7.json''
     (ls_files (log_run \<lparr>de_writable = (\<lambda>_. True), de_folder = (\<lambda>_. True)\<rparr>
       ([StartSession ''CP#1'' ''20250101'' 7] @
        [SessionMessage ''CP#1'' ''t0'' (Some ''[2]''), StartSession ''CP#2'' ''20250101'' 8,
         SessionMessage ''CP#2'' ''t1'' None, SessionMessage ''CP#1'' ''t2'' None] @
        [EndSession ''CP#1'']) init_logs))) = Some [(''t0'', Some ''[2]''), (''t2'', None)]"
proof -
  have p: "session_path ''CP#1'' ''20250101'' 7 init_logs = ''sessions/CP_1/20250101_7.json''"
    by (simp add: session_path_def session_folder_def name_of_def init_logs_def safe_name_def word_char_def
        code_def Let_def int_str_def nat_str.simps digit_char_def) code_simp
  show ?thesis
    using session_file_roundtrip [of "\<lparr>de_writable = (\<lambda>_. True), de_folder = (\<lambda>_. True)\<rparr>" "''CP#1''" init_logs
      "''sessions/CP_1/20250101_7.json''" "''20250101''" 7 "[SessionMessage ''CP#1'' ''t0'' (Some ''[2]''),
        StartSession ''CP#2'' ''20250101'' 8, SessionMessage ''CP#2'' ''t1'' None, SessionMessage ''CP#1'' ''t2'' None]"]
    by (simp add: p elsewhere_def is_ascii_digit_def code_def) (simp add: init_logs_def)
qed

text \<open>
  A name made safe for the file system is one path component: it keeps its length, holds only
  word characters, dots and dashes, no slash, and is left alone when made safe again.  What it does
  not rule out are the two directory names, which are their own safe names.
\<close>

lemma safe_name_component:
  "length (safe_name n) = length n \<and> CHR ''/'' \<notin> set (safe_name n) \<and> safe_name (safe_name n) = safe_name n \<and>
   safe_name ''.'' = ''.'' \<and> safe_name ''..'' = ''..''"
proof -
  have "word_char CHR ''_''" by (simp add: word_char_def code_def)
  then have "safe_name (safe_name n) = safe_name n" by (simp add: safe_name_def)
  then show ?thesis using safe_name_no_slash by (simp add: safe_name_def)
qed

subsection \<open>The lines kept in memory\<close>

definition memory_buffer :: "string \<Rightarrow> log_type \<Rightarrow> log_state \<Rightarrow> string list" where
  "memory_buffer cid t s =
     (case filter (\<lambda>k. same_key k cid) (dkeys (ls_logs s t)) of
        [] \<Rightarrow> []
      | k # _ \<Rightarrow> (case dget (ls_logs s t) k of None \<Rightarrow> [] | Some b \<Rightarrow> b))"

lemma same_key_sym: "same_key a b \<Longrightarrow> same_key c b \<longleftrightarrow> same_key c a"
  by (auto simp: same_key_def)

lemma dkeys_dset: "dkeys (dset k v d) = (if dget d k = None then dkeys d @ [k] else dkeys d)"
proof -
  have "map fst (AList.update k v d) = (if k \<in> set (map fst d) then map fst d else map fst d @ [k])"
    by (rule update_keys)
  then show ?thesis using set_dkeys_iff [of k d] by (simp add: dkeys_def dset_def)
qed

lemma filter_head: "filter P xs = y # ys \<Longrightarrow> y \<in> set xs \<and> P y"
  using Cons_eq_filterD [of y ys P xs] by auto

lemma memory_buffer_append:
  "memory_buffer c t (snd (append_memory_log k line t s)) =
     (if same_key k c then push_bounded MAX_IN_MEMORY_LOG_ENTRIES line (memory_buffer c t s)
      else memory_buffer c t s)"
proof -
  let ?d = "ls_logs s t"
  have filters: "same_key k c \<Longrightarrow> filter (\<lambda>j. same_key j c) (dkeys ?d) = filter (\<lambda>j. same_key j k) (dkeys ?d)"
    by (auto simp: same_key_def)
  show ?thesis
  proof (cases "filter (\<lambda>j. same_key j k) (dkeys ?d)")
    case Nil
    then have "k \<notin> set (dkeys ?d)"
      by (auto simp: filter_empty_conv same_key_def)
    then have absent: "dget ?d k = None"
      by (simp add: dget_None_iff)
    have other: "filter (\<lambda>j. same_key j c) (dkeys ?d) = h # hs \<Longrightarrow> h \<noteq> k" for h hs
      using filter_head [of "\<lambda>j. same_key j c" "dkeys ?d" h hs] \<open>k \<notin> set (dkeys ?d)\<close> by auto
    show ?thesis
      using absent filters Nil other
      by (cases "same_key k c")
        (auto simp: memory_buffer_def append_memory_log_def Let_def dkeys_dset same_key_def [of k k]
          split: list.split)
  next
    case (Cons k0 rest)
    then have k0: "k0 \<in> set (dkeys ?d)" "same_key k0 k"
      using filter_head [OF Cons] by auto
    then obtain b where b: "dget ?d k0 = Some b"
      by (auto simp: set_dkeys_iff)
    have other: "\<not> same_key k c \<Longrightarrow> filter (\<lambda>j. same_key j c) (dkeys ?d) = h # hs \<Longrightarrow> h \<noteq> k0" for h hs
      using filter_head [of "\<lambda>j. same_key j c" "dkeys ?d" h hs] k0(2) by (auto simp: same_key_def)
    show ?thesis
      using b filters Cons other
      by (cases "same_key k c")
        (auto simp: memory_buffer_def append_memory_log_def Let_def dkeys_dset split: list.split)
  qed
qed

lemma memory_buffer_add_line:
  "memory_buffer c t (snd (add_log_line env stamp k entry t s)) =
     (if same_key k c then push_bounded MAX_IN_MEMORY_LOG_ENTRIES (stamp @ '' '' @ entry) (memory_buffer c t s)
      else memory_buffer c t s)"
proof -
  have "memory_buffer c t (snd (write_log_file env key line t s1)) = memory_buffer c t s1" for key line s1
  proof -
    have frame: "ls_logs (snd (write_log_file env key line t s1)) = ls_logs s1"
      by (simp add: write_log_file_def Let_def)
    show ?thesis unfolding memory_buffer_def frame ..
  qed
  then show ?thesis
    using memory_buffer_append [of c t k "stamp @ '' '' @ entry" s]
    by (simp add: add_log_line_def case_prod_beta Let_def)
qed

text \<open>
  A log buffer holds exactly the newest 1000 lines written under any spelling of its key, in
  order, whether or not the log file could be written, and lines of other keys leave it alone.
\<close>

lemma memory_log_keeps_newest:
  "memory_buffer c t (fold (\<lambda>(k, stamp, entry) s. snd (add_log_line env stamp k entry t s)) ls init_logs) =
   (let lines = map (\<lambda>(k, stamp, entry). stamp @ '' '' @ entry) (filter (\<lambda>l. same_key (fst l) c) ls)
    in drop (length lines - 1000) lines)"
proof -
  let ?step = "\<lambda>(k, stamp, entry) s. snd (add_log_line env stamp k entry t s)"
  let ?lines = "\<lambda>ls. map (\<lambda>(k, stamp, entry). stamp @ '' '' @ entry) (filter (\<lambda>l. same_key (fst l) c) ls)"
  have "memory_buffer c t (fold ?step ls s) =
      fold (push_bounded MAX_IN_MEMORY_LOG_ENTRIES) (?lines ls) (memory_buffer c t s)" for s
    by (induction ls arbitrary: s) (auto simp: memory_buffer_add_line)
  from this [of init_logs] show ?thesis
    by (simp add: push_bounded_fold memory_buffer_def init_logs_def dkeys_def MAX_IN_MEMORY_LOG_ENTRIES_def)
qed

end
