(* ===== verification/LogReader.thy ===== *)
theory LogReader
  imports SessionLogProps
begin

text \<open>
  The reading half of \<open>apps/ocpp/store/logs.py\<close>: reading a file backwards in chunks, the entries of
  one identifier, and the merge of several identifiers.  A file is its bytes; decoding a line and
  reading its timestamp are parameters, as the encoding tables and the time zone are outside the
  program.  Generators are the lists they yield.
\<close>

subsection \<open>Lines of a file, newest first\<close>

fun split_nl :: "string \<Rightarrow> string list" where
  "split_nl [] = [[]]"
| "split_nl (c # cs) =
     (if code c = 10 then [] # split_nl cs
      else case split_nl cs of [] \<Rightarrow> [[c]] | l # ls \<Rightarrow> (c # l) # ls)"

text \<open>
  One pass of the inner loop over the complete lines of a chunk: what is yielded, the count that
  remains, and whether the generator has returned.
\<close>

fun yield_lines :: "string list \<Rightarrow> int option \<Rightarrow> string list \<times> int option \<times> bool" where
  "yield_lines [] remaining = ([], remaining, False)"
| "yield_lines (l # ls) remaining =
     (if l = [] then yield_lines ls remaining
      else case remaining of
             None \<Rightarrow> (case yield_lines ls None of (out, r, stop) \<Rightarrow> (l # out, r, stop))
           | Some k \<Rightarrow>
               (if k - 1 \<le> 0 then ([l], Some (k - 1), True)
                else case yield_lines ls (Some (k - 1)) of (out, r, stop) \<Rightarrow> (l # out, r, stop)))"

definition chunk_size :: nat where "chunk_size = 4096"

function reverse_loop :: "(string \<Rightarrow> string) \<Rightarrow> string \<Rightarrow> nat \<Rightarrow> string \<Rightarrow> int option \<Rightarrow> string list" where
  "reverse_loop decode data position buffer remaining =
     (if position = 0
      then (if buffer \<noteq> [] \<and> decode buffer \<noteq> [] then [decode buffer] else [])
      else let read_size = min chunk_size position;
               position' = position - read_size;
               chunk = take read_size (drop position' data);
               lines = split_nl (chunk @ buffer)
           in case yield_lines (rev (tl lines)) remaining of
                (out, remaining', stop) \<Rightarrow>
                  (if stop then map decode out
                   else map decode out @ reverse_loop decode data position' (hd lines) remaining'))"
  by pat_completeness auto
termination
  by (relation "measure (\<lambda>(d, t, position, b, r). position)") (auto simp: chunk_size_def)

declare reverse_loop.simps [simp del]

definition iter_file_lines_reverse :: "(string \<Rightarrow> string) \<Rightarrow> string option \<Rightarrow> int option \<Rightarrow> string list" where
  "iter_file_lines_reverse decode file limit =
     (case file of None \<Rightarrow> [] | Some data \<Rightarrow> reverse_loop decode data (length data) [] limit)"

subsection \<open>The entries of one identifier\<close>

record 't log_entry =
  le_time :: 't
  le_text :: string

text \<open>A line shorter than 24 characters has no timestamp; \<open>stamp\<close> reads the first 23 characters.\<close>

definition parse_log_timestamp :: "(string \<Rightarrow> 't option) \<Rightarrow> string \<Rightarrow> 't option" where
  "parse_log_timestamp stamp entry = (if length entry < 24 then None else stamp (take 23 entry))"

text \<open>
  The two loops over memory and file are the same: entries already seen and entries without a
  timestamp are passed over, an entry before \<open>since\<close> or the last one of the limit ends everything.
\<close>

fun scan_entries ::
  "(string \<Rightarrow> 't::linorder option) \<Rightarrow> 't option \<Rightarrow> int option \<Rightarrow> string list \<Rightarrow> string list \<Rightarrow> int \<Rightarrow>
     't log_entry list \<times> string list \<times> int \<times> bool" where
  "scan_entries stamp since limit [] seen yielded = ([], seen, yielded, False)"
| "scan_entries stamp since limit (entry # entries) seen yielded =
     (if entry \<in> set seen then scan_entries stamp since limit entries seen yielded
      else case parse_log_timestamp stamp entry of
             None \<Rightarrow> scan_entries stamp since limit entries seen yielded
           | Some t \<Rightarrow>
               (if since \<noteq> None \<and> t < the since then ([], seen, yielded, True)
                else if limit \<noteq> None \<and> yielded + 1 \<ge> the limit
                then ([\<lparr>le_time = t, le_text = entry\<rparr>], entry # seen, yielded + 1, True)
                else case scan_entries stamp since limit entries (entry # seen) (yielded + 1) of
                       (out, seen', n, stop) \<Rightarrow> (\<lparr>le_time = t, le_text = entry\<rparr> # out, seen', n, stop)))"

definition iter_log_entries_for_key ::
  "(string \<Rightarrow> string) \<Rightarrow> (string \<Rightarrow> 't::linorder option) \<Rightarrow> 't option \<Rightarrow> int option \<Rightarrow>
     string list \<Rightarrow> string option \<Rightarrow> 't log_entry list" where
  "iter_log_entries_for_key decode stamp since limit memory_entries file =
     (case scan_entries stamp since limit (rev memory_entries) [] 0 of
        (out, seen, yielded, stop) \<Rightarrow>
          (if stop then out
           else let file_limit = map_option (\<lambda>l. max (l - yielded) 0) limit
                in if file_limit = Some 0 then out
                   else out @ fst (scan_entries stamp since limit
                                     (iter_file_lines_reverse decode file file_limit) seen yielded)))"

subsection \<open>Merging identifiers\<close>

text \<open>
  The heap holds, per source, its next entry and the rest.  It is ordered by time, newest first,
  then by the counter taken when the item was pushed; counters differ, so the minimum is unique.
\<close>

record 't heap_item =
  hi_count :: nat
  hi_key :: string
  hi_entry :: "'t log_entry"
  hi_rest :: "'t log_entry list"

definition before :: "'t::linorder heap_item \<Rightarrow> 't heap_item \<Rightarrow> bool" where
  "before a b =
     (le_time (hi_entry b) < le_time (hi_entry a) \<or>
      (le_time (hi_entry a) = le_time (hi_entry b) \<and> hi_count a \<le> hi_count b))"

fun heap_push :: "'t::linorder heap_item \<Rightarrow> 't heap_item list \<Rightarrow> 't heap_item list" where
  "heap_push x [] = [x]"
| "heap_push x (y # ys) = (if before x y then x # y # ys else y # heap_push x ys)"

fun initial_heap ::
  "nat \<Rightarrow> (string \<times> 't::linorder log_entry list) list \<Rightarrow> 't heap_item list \<Rightarrow> nat \<times> 't heap_item list" where
  "initial_heap n [] heap = (n, heap)"
| "initial_heap n ((key, []) # sources) heap = initial_heap n sources heap"
| "initial_heap n ((key, e # es) # sources) heap =
     initial_heap (Suc n) sources
       (heap_push \<lparr>hi_count = n, hi_key = key, hi_entry = e, hi_rest = es\<rparr> heap)"

definition heap_size :: "'t heap_item list \<Rightarrow> nat" where
  "heap_size heap = sum_list (map (\<lambda>h. Suc (length (hi_rest h))) heap)"

lemma heap_size_simps [simp]:
  "heap_size [] = 0" "heap_size (h # hs) = Suc (length (hi_rest h)) + heap_size hs"
  by (simp_all add: heap_size_def)

lemma heap_size_push [simp]: "heap_size (heap_push x heap) = Suc (length (hi_rest x)) + heap_size heap"
  by (induction heap) auto

function merge_heap ::
  "'t::linorder option \<Rightarrow> int option \<Rightarrow> nat \<Rightarrow> 't heap_item list \<Rightarrow> (string \<times> string) list \<Rightarrow> int \<Rightarrow>
     't log_entry list" where
  "merge_heap since limit n [] seen yielded = []"
| "merge_heap since limit n (item # heap) seen yielded =
     (let entry = hi_entry item; mark = (hi_key item, le_text entry);
          (n', heap') = (case hi_rest item of
             [] \<Rightarrow> (n, heap)
           | e # es \<Rightarrow> (Suc n, heap_push \<lparr>hi_count = n, hi_key = hi_key item, hi_entry = e, hi_rest = es\<rparr> heap))
      in if mark \<in> set seen then merge_heap since limit n' heap' seen yielded
         else if since \<noteq> None \<and> le_time entry < the since then []
         else if limit \<noteq> None \<and> yielded + 1 \<ge> the limit then [entry]
         else entry # merge_heap since limit n' heap' (mark # seen) (yielded + 1))"
  by pat_completeness auto
termination
  by (relation "measure (\<lambda>(s, l, n, heap, seen, y). heap_size heap)") (auto split: list.splits)

declare merge_heap.simps [simp del]

text \<open>
  \<open>sources\<close> pairs each resolved identifier with what its iterator yields; identifiers are resolved
  once each, in the order requested.
\<close>

definition merge_log_entries ::
  "'t::linorder option \<Rightarrow> int option \<Rightarrow> (string \<times> 't log_entry list) list \<Rightarrow> 't log_entry list" where
  "merge_log_entries since limit sources =
     (case initial_heap 0 sources [] of (n, heap) \<Rightarrow> merge_heap since limit n heap [] 0)"

subsection \<open>Identifiers\<close>

definition log_key_candidates :: "string \<Rightarrow> log_type \<Rightarrow> log_state \<Rightarrow> string list" where
  "log_key_candidates cid t s =
     (if CHR ''#'' \<notin> set cid then [cid]
      else let serial = before_separator cid;
               rest = drop (Suc (length serial)) cid;
               slug = (if rest = [] then AGGREGATE_SLUG else rest)
           in if slug \<noteq> AGGREGATE_SLUG then [cid]
              else dedupe ([identity_key serial PNone] @
                filter (\<lambda>k. py_startswith k (serial @ IDENTITY_SEPARATOR)) (dkeys (ls_names s t)) @
                filter (\<lambda>k. py_startswith k (serial @ IDENTITY_SEPARATOR)) (dkeys (ls_logs s t))))"

definition memory_logs_for_identifier :: "string \<Rightarrow> log_type \<Rightarrow> log_state \<Rightarrow> string list" where
  "memory_logs_for_identifier cid t s =
     (case filter (\<lambda>k. same_key k cid) (dkeys (ls_logs s t)) of
        [] \<Rightarrow> []
      | k # _ \<Rightarrow> (case dget (ls_logs s t) k of None \<Rightarrow> [] | Some b \<Rightarrow> b))"

end
