(* ===== verification/LogReaderProps.thy ===== *)
theory LogReaderProps
  imports LogReader "HOL-Library.Multiset"
begin

text \<open>
  Reading a log backwards in chunks gives the lines of the file, the merge of several logs is
  ordered and gives every entry once, and a bounded read can miss entries that are there.
\<close>

subsection \<open>Splitting\<close>

lemma split_nl_nonempty [simp]: "split_nl s \<noteq> []"
  by (cases s) (auto split: list.split)

lemma split_nl_append:
  "split_nl (a @ b) = butlast (split_nl a) @ [last (split_nl a) @ hd (split_nl b)] @ tl (split_nl b)"
proof (induction a)
  case Nil
  then show ?case by (cases "split_nl b") auto
next
  case (Cons c a)
  then show ?case by (cases "split_nl a") auto
qed

definition no_newline :: "string \<Rightarrow> bool" where
  "no_newline s \<longleftrightarrow> (\<forall>c \<in> set s. code c \<noteq> 10)"

lemma split_no_newline: "no_newline s \<Longrightarrow> split_nl s = [s]"
  by (induction s) (auto simp: no_newline_def)

lemma hd_split_no_newline: "no_newline (hd (split_nl s))"
  by (induction s) (auto simp: no_newline_def split: list.split)

text \<open>Splitting a text in two steps: first its tail, then what comes before with the head of the tail.\<close>

lemma split_nl_two_steps:
  "hd (split_nl (a @ b)) = hd (split_nl (a @ hd (split_nl b))) \<and>
   tl (split_nl (a @ b)) = tl (split_nl (a @ hd (split_nl b))) @ tl (split_nl b)"
proof -
  have h: "split_nl (hd (split_nl b)) = [hd (split_nl b)]"
    by (rule split_no_newline) (rule hd_split_no_newline)
  show ?thesis
    by (cases "butlast (split_nl a)") (simp_all add: split_nl_append [of a] h)
qed

subsection \<open>The backward reader\<close>

definition limited :: "int option \<Rightarrow> 'a list \<Rightarrow> 'a list" where
  "limited r xs = (case r of None \<Rightarrow> xs | Some k \<Rightarrow> take (nat k) xs)"

lemma yield_lines_all: "yield_lines ls None = (filter (\<lambda>l. l \<noteq> []) ls, None, False)"
  by (induction ls) auto

lemma yield_lines_some:
  "k > 0 \<Longrightarrow> yield_lines ls (Some k) =
     (let f = filter (\<lambda>l. l \<noteq> []) ls
      in if k \<le> int (length f) then (take (nat k) f, Some 0, True)
         else (f, Some (k - int (length f)), False))"
proof (induction ls arbitrary: k)
  case (Cons l ls)
  show ?case
  proof (cases "l = [] \<or> k = 1")
    case False
    then have "k - 1 > 0" using Cons.prems by auto
    moreover have "nat k = Suc (nat (k - 1))" using Cons.prems by auto
    ultimately show ?thesis using False Cons.IH [of "k - 1"] by (auto simp: Let_def)
  qed (use Cons in \<open>auto simp: Let_def\<close>)
qed simp

text \<open>The lines of a text, newest first; only the oldest one is dropped when it decodes to nothing.\<close>

definition lines_newest_first :: "(string \<Rightarrow> string) \<Rightarrow> string \<Rightarrow> string list" where
  "lines_newest_first decode t =
     (let ls = split_nl t; oldest = hd ls
      in map decode (filter (\<lambda>l. l \<noteq> []) (rev (tl ls))) @
         (if oldest \<noteq> [] \<and> decode oldest \<noteq> [] then [decode oldest] else []))"

lemma lines_two_steps:
  "lines_newest_first decode (a @ b) =
     map decode (filter (\<lambda>l. l \<noteq> []) (rev (tl (split_nl b)))) @ lines_newest_first decode (a @ hd (split_nl b))"
  using split_nl_two_steps [of a b] by (simp add: lines_newest_first_def Let_def)

lemma lines_no_newline:
  "no_newline b \<Longrightarrow> lines_newest_first decode b = (if b \<noteq> [] \<and> decode b \<noteq> [] then [decode b] else [])"
  by (simp add: lines_newest_first_def split_no_newline)

lemma reverse_loop_lines:
  assumes "position \<le> length data" "no_newline buffer" "case r of None \<Rightarrow> True | Some k \<Rightarrow> k > 0"
  shows "reverse_loop decode data position buffer r =
    limited r (lines_newest_first decode (take position data @ buffer))"
  using assms
proof (induction position arbitrary: buffer r rule: less_induct)
  case (less position)
  show ?case
  proof (cases "position = 0")
    case True
    have "length (lines_newest_first decode buffer) \<le> 1"
      using less.prems(2) by (simp add: lines_no_newline)
    then show ?thesis
      using True less.prems by (subst reverse_loop.simps)
        (auto simp: lines_no_newline limited_def split: option.splits)
  next
    case False
    define pos where "pos = position - min chunk_size position"
    let ?chunk = "take (min chunk_size position) (drop pos data)"
    let ?lines = "split_nl (?chunk @ buffer)"
    have lt: "pos < position" using False by (simp add: pos_def chunk_size_def)
    have "take position data = take pos data @ ?chunk"
      using less.prems(1) by (simp add: pos_def take_add [symmetric])
    then have all: "lines_newest_first decode (take position data @ buffer) =
        map decode (filter (\<lambda>l. l \<noteq> []) (rev (tl ?lines))) @
        lines_newest_first decode (take pos data @ hd ?lines)"
      using lines_two_steps [of decode "take pos data" "?chunk @ buffer"] by simp
    have IH: "case r' of None \<Rightarrow> True | Some k \<Rightarrow> k > 0 \<Longrightarrow>
        reverse_loop decode data pos (hd ?lines) r' = limited r' (lines_newest_first decode (take pos data @ hd ?lines))" for r'
      using less.IH [OF lt _ hd_split_no_newline] less.prems(1) lt by simp
    let ?f = "filter (\<lambda>l. l \<noteq> []) (rev (tl ?lines))"
    show ?thesis
    proof (cases r)
      case None
      then show ?thesis
        using False IH [of None] all
        by (subst reverse_loop.simps) (simp add: Let_def pos_def [symmetric] yield_lines_all limited_def)
    next
      case (Some k)
      then have k: "k > 0" using less.prems(3) by simp
      show ?thesis
      proof (cases "k \<le> int (length ?f)")
        case True
        then have "nat k \<le> length ?f" by simp
        then show ?thesis
          using False all Some True
          by (subst reverse_loop.simps)
            (simp add: Let_def pos_def [symmetric] yield_lines_some [OF k] limited_def take_map)
      next
        case False2: False
        have "nat (k - int (length ?f)) = nat k - length ?f" "length ?f \<le> nat k" using False2 by auto
        then show ?thesis
          using False all Some False2 IH [of "Some (k - int (length ?f))"]
          by (subst reverse_loop.simps)
            (simp add: Let_def pos_def [symmetric] yield_lines_some [OF k] limited_def)
      qed
    qed
  qed
qed

text \<open>
  C27: reading a file backwards in blocks of 4096 bytes ends and yields exactly the nonempty lines of
  the file, newest first, whatever bytes it holds and wherever the block borders fall; with a
  positive limit it yields the first so many of them.
\<close>

theorem reverse_reader_yields_lines:
  assumes "case limit of None \<Rightarrow> True | Some k \<Rightarrow> k > 0"
  shows "iter_file_lines_reverse decode (Some data) limit = limited limit (lines_newest_first decode data)"
  using reverse_loop_lines [of "length data" data "[]" limit decode] assms
  by (simp add: iter_file_lines_reverse_def no_newline_def)

theorem reverse_reader_yields_lines_witness:
  "iter_file_lines_reverse id (Some (''ab'' @ [char_of (10 :: nat)] @ ''cd'' @ [char_of (10 :: nat)])) (Some 1) = [''cd'']"
proof -
  have "code CHR ''a'' = 97" "code CHR ''b'' = 98" "code CHR ''c'' = 99" "code CHR ''d'' = 100"
    by (simp_all add: code_def)
  then show ?thesis
    using reverse_reader_yields_lines [of "Some 1" id "''ab'' @ [char_of (10 :: nat)] @ ''cd'' @ [char_of (10 :: nat)]"]
    by (simp add: limited_def lines_newest_first_def)
qed

subsection \<open>The merge\<close>

definition newest_first :: "'t::linorder log_entry list \<Rightarrow> bool" where
  "newest_first es \<longleftrightarrow> sorted_wrt (\<lambda>a b. le_time b \<le> le_time a) es"

lemma newest_first_simps [simp]:
  "newest_first []" "newest_first (e # es) \<longleftrightarrow> (\<forall>x \<in> set es. le_time x \<le> le_time e) \<and> newest_first es"
  by (simp_all add: newest_first_def)

lemma before_total: "before a b \<or> before b a"
  by (auto simp: before_def)

lemma before_trans: "before a b \<Longrightarrow> before b c \<Longrightarrow> before a c"
  by (auto simp: before_def)

lemma before_time: "before a b \<Longrightarrow> le_time (hi_entry b) \<le> le_time (hi_entry a)"
  by (auto simp: before_def)

definition heap_ok :: "'t::linorder heap_item list \<Rightarrow> bool" where
  "heap_ok heap \<longleftrightarrow> sorted_wrt before heap \<and> (\<forall>h \<in> set heap. newest_first (hi_entry h # hi_rest h))"

lemma set_heap_push [simp]: "set (heap_push x heap) = insert x (set heap)"
  by (induction heap) auto

lemma heap_push_ok: "heap_ok heap \<Longrightarrow> newest_first (hi_entry x # hi_rest x) \<Longrightarrow> heap_ok (heap_push x heap)"
proof (induction heap)
  case (Cons y ys)
  show ?case
  proof (cases "before x y")
    case True
    then show ?thesis using Cons.prems before_trans [of x y] by (auto simp: heap_ok_def)
  next
    case False
    then have "before y x" using before_total by blast
    then show ?thesis using False Cons by (auto simp: heap_ok_def)
  qed
qed (simp add: heap_ok_def)

text \<open>What is still to come, with its identifier.\<close>

definition waiting :: "'t heap_item list \<Rightarrow> (string \<times> 't log_entry) set" where
  "waiting heap = {(hi_key h, e) | h e. h \<in> set heap \<and> e \<in> set (hi_entry h # hi_rest h)}"

lemma waiting_Nil [simp]: "waiting [] = {}"
  by (simp add: waiting_def)

lemma waiting_Cons:
  "waiting (x # heap) = Pair (hi_key x) ` set (hi_entry x # hi_rest x) \<union> waiting heap"
  by (auto simp: waiting_def)

lemma waiting_push [simp]:
  "waiting (heap_push x heap) = Pair (hi_key x) ` set (hi_entry x # hi_rest x) \<union> waiting heap"
  by (auto simp: waiting_def)

definition stamped :: "(string \<Rightarrow> 't option) \<Rightarrow> 't log_entry set \<Rightarrow> bool" where
  "stamped f es \<longleftrightarrow> (\<forall>e \<in> es. f (le_text e) = Some (le_time e))"

lemma stamped_eq:
  assumes "stamped f es" "a \<in> es" "b \<in> es" "le_text a = le_text b"
  shows "a = (b :: 't log_entry)"
proof -
  have "Some (le_time a) = Some (le_time b)" using assms(1-4) unfolding stamped_def by metis
  then have "le_time a = le_time b" by simp
  then show ?thesis using assms(4) by (cases a; cases b) simp
qed

definition next_heap :: "nat \<Rightarrow> 't::linorder heap_item \<Rightarrow> 't heap_item list \<Rightarrow> 't heap_item list" where
  "next_heap n item heap =
     (case hi_rest item of [] \<Rightarrow> heap
      | e # es \<Rightarrow> heap_push \<lparr>hi_count = n, hi_key = hi_key item, hi_entry = e, hi_rest = es\<rparr> heap)"

lemma merge_heap_step:
  "\<exists>n'. merge_heap None None n (item # heap) seen yielded =
     (if (hi_key item, le_text (hi_entry item)) \<in> set seen
      then merge_heap None None n' (next_heap n item heap) seen yielded
      else hi_entry item # merge_heap None None n' (next_heap n item heap)
             ((hi_key item, le_text (hi_entry item)) # seen) (yielded + 1))"
  by (subst merge_heap.simps) (auto simp: next_heap_def Let_def split: list.split)

lemma next_heap_facts:
  assumes "heap_ok (item # heap)"
  shows "heap_ok (next_heap n item heap)"
    and "waiting (item # heap) = insert (hi_key item, hi_entry item) (waiting (next_heap n item heap))"
    and "\<forall>(k, e) \<in> waiting (next_heap n item heap). le_time e \<le> le_time (hi_entry item)"
proof -
  have tail: "heap_ok heap" "newest_first (hi_entry item # hi_rest item)"
    using assms by (simp_all add: heap_ok_def)
  show "heap_ok (next_heap n item heap)"
  proof (cases "hi_rest item")
    case (Cons e es)
    then have "newest_first (e # es)" using tail(2) by simp
    then show ?thesis using Cons heap_push_ok [OF tail(1)] by (simp add: next_heap_def)
  qed (simp add: next_heap_def tail)
  show "waiting (item # heap) = insert (hi_key item, hi_entry item) (waiting (next_heap n item heap))"
    by (cases "hi_rest item") (auto simp: next_heap_def waiting_Cons)
  show "\<forall>(k, e) \<in> waiting (next_heap n item heap). le_time e \<le> le_time (hi_entry item)"
    using assms before_time [of item]
    by (cases "hi_rest item") (fastforce simp: next_heap_def waiting_def heap_ok_def)+
qed

text \<open>What is still to come and has not been given yet.\<close>

definition unseen :: "'t::linorder heap_item list \<Rightarrow> (string \<times> string) list \<Rightarrow> (string \<times> 't log_entry) set" where
  "unseen heap seen = {(k, e) \<in> waiting heap. (k, le_text e) \<notin> set seen}"

lemma finite_waiting [simp]: "finite (waiting heap)"
  by (induction heap) (simp_all add: waiting_Cons)

lemma finite_unseen [simp]: "finite (unseen heap seen)"
  by (rule finite_subset [OF _ finite_waiting [of heap]]) (auto simp: unseen_def)

lemma unseen_waiting: "unseen heap seen \<subseteq> waiting heap"
  by (auto simp: unseen_def)

lemma unseen_insert:
  assumes "waiting heap = insert (k, e) (waiting rest)" "stamped f (snd ` waiting heap)"
    and "(k, le_text e) \<notin> set seen"
  shows "unseen heap seen = insert (k, e) (unseen rest ((k, le_text e) # seen))"
    and "(k, e) \<notin> unseen rest ((k, le_text e) # seen)"
proof -
  have "e' = e" if "(k, e') \<in> waiting rest" "le_text e' = le_text e" for e'
  proof (rule stamped_eq [OF assms(2)])
    show "e' \<in> snd ` waiting heap" "e \<in> snd ` waiting heap" unfolding assms(1) using that(1) by force+
  qed (rule that(2))
  then show "unseen heap seen = insert (k, e) (unseen rest ((k, le_text e) # seen))"
    using assms(3) by (auto simp: unseen_def assms(1))
  show "(k, e) \<notin> unseen rest ((k, le_text e) # seen)" by (simp add: unseen_def)
qed

lemma merge_heap_correct:
  assumes "heap_ok heap" "stamped f (snd ` waiting heap)"
  shows "newest_first (merge_heap None None n heap seen yielded) \<and>
    mset (merge_heap None None n heap seen yielded) = image_mset snd (mset_set (unseen heap seen))"
  using assms
proof (induction "heap_size heap" arbitrary: n heap seen yielded rule: less_induct)
  case less
  show ?case
  proof (cases heap)
    case Nil
    then show ?thesis by (simp add: merge_heap.simps unseen_def)
  next
    case (Cons item hs)
    let ?next = "next_heap n item hs" and ?e = "hi_entry item" and ?k = "hi_key item"
    note nf = next_heap_facts [OF less.prems(1) [unfolded Cons], of n]
    have smaller: "heap_size ?next < heap_size heap"
      by (cases "hi_rest item") (simp_all add: Cons next_heap_def)
    have st: "stamped f (snd ` waiting ?next)"
      using less.prems(2) unfolding Cons nf(2) by (simp add: stamped_def)
    note IH = less.hyps [OF smaller nf(1) st]
    obtain n' where step: "merge_heap None None n (item # hs) seen yielded =
       (if (?k, le_text ?e) \<in> set seen then merge_heap None None n' ?next seen yielded
        else ?e # merge_heap None None n' ?next ((?k, le_text ?e) # seen) (yielded + 1))"
      using merge_heap_step [of n item hs seen yielded] by blast
    note w = nf(2) [folded Cons]
    show ?thesis
    proof (cases "(?k, le_text ?e) \<in> set seen")
      case True
      then have "unseen heap seen = unseen ?next seen" by (auto simp: unseen_def w)
      then show ?thesis using True IH [of n' seen yielded] by (simp add: Cons step)
    next
      case False
      let ?out = "merge_heap None None n' ?next ((?k, le_text ?e) # seen) (yielded + 1)"
      note I = IH [of n' "(?k, le_text ?e) # seen" "yielded + 1"]
      have "set ?out = snd ` unseen ?next ((?k, le_text ?e) # seen)"
        using arg_cong [OF conjunct2 [OF I], of set_mset] by simp
      then have le: "\<forall>x \<in> set ?out. le_time x \<le> le_time ?e" using unseen_waiting nf(3) by fastforce
      have "merge_heap None None n heap seen yielded = ?e # ?out" using step False by (simp add: Cons)
      then show ?thesis using I le unseen_insert [OF w less.prems(2) False] by simp
    qed
  qed
qed

lemma initial_heap_correct:
  "heap_ok heap \<Longrightarrow> \<forall>(k, es) \<in> set sources. newest_first es \<Longrightarrow>
     heap_ok (snd (initial_heap n sources heap)) \<and>
     waiting (snd (initial_heap n sources heap)) = waiting heap \<union> (\<Union>(k, es) \<in> set sources. Pair k ` set es)"
proof (induction n sources heap rule: initial_heap.induct)
  case (3 n key e es sources heap)
  let ?x = "\<lparr>hi_count = n, hi_key = key, hi_entry = e, hi_rest = es\<rparr>"
  have ok: "heap_ok (heap_push ?x heap)" using 3 by (intro heap_push_ok) auto
  have "waiting (heap_push ?x heap) = waiting heap \<union> Pair key ` set (e # es)"
    by (simp add: Un_commute)
  then show ?case using "3.IH" [OF ok] "3.prems"(2) by auto
qed (auto simp: waiting_def)

text \<open>A lower bound for the time and a limit cut the merge off, and do not change what comes before.\<close>

definition recent :: "'t::linorder option \<Rightarrow> 't log_entry \<Rightarrow> bool" where
  "recent since e = (case since of None \<Rightarrow> True | Some t \<Rightarrow> t \<le> le_time e)"

lemma recent_iff: "recent since e \<longleftrightarrow> \<not> (since \<noteq> None \<and> le_time e < the since)"
  by (cases since) (auto simp: recent_def)

definition at_most :: "int option \<Rightarrow> int \<Rightarrow> 'a list \<Rightarrow> 'a list" where
  "at_most bound y xs = (case bound of None \<Rightarrow> xs | Some l \<Rightarrow> take (nat (max 1 (l - y))) xs)"

lemma at_most_simps [simp]:
  "at_most bound y [] = []" "at_most None y xs = xs"
  "l \<le> y + 1 \<Longrightarrow> at_most (Some l) y (x # xs) = [x]"
  "y + 1 < l \<Longrightarrow> at_most (Some l) y (x # xs) = x # at_most (Some l) (y + 1) xs"
proof -
  assume "y + 1 < l"
  then have "nat (max 1 (l - y)) = Suc (nat (max 1 (l - (y + 1))))" by simp
  then show "at_most (Some l) y (x # xs) = x # at_most (Some l) (y + 1) xs"
    by (simp only: at_most_def option.case take_Suc_Cons)
qed (simp_all add: at_most_def split: option.split)

lemma merge_heap_cut:
  "merge_heap since bound n heap seen y =
     at_most bound y (takeWhile (recent since) (merge_heap None None n heap seen y0))"
proof (induction since bound n heap seen y arbitrary: y0 rule: merge_heap.induct)
  case (1 since bound n seen y)
  show ?case by (simp add: merge_heap.simps)
next
  case (2 since bound n item heap seen y)
  obtain n' heap' where h: "(case hi_rest item of [] \<Rightarrow> (n, heap)
     | e # es \<Rightarrow> (Suc n, heap_push \<lparr>hi_count = n, hi_key = hi_key item, hi_entry = e, hi_rest = es\<rparr> heap)) = (n', heap')"
    by fastforce
  let ?e = "hi_entry item"
  let ?mark = "(hi_key item, le_text ?e)"
  have step: "merge_heap s b n (item # heap) seen z =
      (if ?mark \<in> set seen then merge_heap s b n' heap' seen z
       else if s \<noteq> None \<and> le_time ?e < the s then []
       else if b \<noteq> None \<and> z + 1 \<ge> the b then [?e]
       else ?e # merge_heap s b n' heap' (?mark # seen) (z + 1))" for s b z
    by (subst merge_heap.simps) (simp add: Let_def h)
  note rec = recent_iff [of since ?e]
  show ?case
  proof (cases "?mark \<in> set seen")
    case True
    then show ?thesis using "2.IH"(1) [OF refl refl h [symmetric] refl True] by (simp add: step)
  next
    case new: False
    show ?thesis
    proof (cases "recent since ?e \<and> \<not> (bound \<noteq> None \<and> y + 1 \<ge> the bound)")
      case True
      then have "merge_heap since bound n' heap' (?mark # seen) (y + 1) =
          at_most bound (y + 1) (takeWhile (recent since) (merge_heap None None n' heap' (?mark # seen) (y0 + 1)))"
        using "2.IH"(2) [OF refl refl h [symmetric] refl new] rec by blast
      moreover have "merge_heap since bound n (item # heap) seen y = ?e # merge_heap since bound n' heap' (?mark # seen) (y + 1)"
        unfolding step [of since bound] using True rec new by presburger
      moreover have "merge_heap None None n (item # heap) seen y0 = ?e # merge_heap None None n' heap' (?mark # seen) (y0 + 1)"
        unfolding step [of None None] using new by simp
      ultimately show ?thesis using True by (cases bound) simp_all
    next
      case False
      moreover have "merge_heap None None n (item # heap) seen y0 = ?e # merge_heap None None n' heap' (?mark # seen) (y0 + 1)"
        unfolding step [of None None] using new by simp
      moreover have "merge_heap since bound n (item # heap) seen y = (if recent since ?e then [?e] else [])"
        unfolding step [of since bound] using False rec new by presburger
      ultimately show ?thesis by (cases bound) auto
    qed
  qed
qed

lemma takeWhile_recent: "newest_first es \<Longrightarrow> takeWhile (recent since) es = filter (recent since) es"
proof (induction es)
  case (Cons e es)
  have "filter (recent since) es = []" if "\<not> recent since e"
    using that Cons.prems by (fastforce simp: filter_empty_conv recent_def split: option.splits)
  then show ?case using Cons by simp
qed simp

text \<open>
  C28: The merge of any number of logs, each newest first, is newest first and gives every entry of
  every identifier exactly once: an entry occurs as often as there are identifiers with this entry,
  however often their logs repeat it.  This needs that an entry's time is read from its text.  A lower
  bound for the time leaves exactly the entries that are not older, and a limit the first so many of
  those (a limit below one acts as one).\<close>

theorem merged_logs_ordered_complete:
  assumes "\<forall>(key, es) \<in> set sources. newest_first es" "stamped f (\<Union>(key, es) \<in> set sources. set es)"
  defines "merged \<equiv> merge_log_entries None None sources"
  shows "newest_first merged \<and>
    mset merged = image_mset snd (mset_set (\<Union>(key, es) \<in> set sources. Pair key ` set es)) \<and>
    merge_log_entries since bound sources = at_most bound 0 (filter (recent since) merged)"
proof -
  obtain n heap where i: "initial_heap 0 sources [] = (n, heap)" by (cases "initial_heap 0 sources []")
  have ok: "heap_ok heap" "waiting heap = (\<Union>(k, es) \<in> set sources. Pair k ` set es)"
    using initial_heap_correct [of "[]" sources 0] assms(1) i by (auto simp: heap_ok_def waiting_def)
  then have "snd ` waiting heap = (\<Union>(k, es) \<in> set sources. set es)"
    by (simp add: image_UN image_image split_def)
  then have m: "newest_first merged" "mset merged = image_mset snd (mset_set (unseen heap []))"
    using merge_heap_correct [OF ok(1), of f n "[]" 0] assms(2) by (simp_all add: merged_def merge_log_entries_def i)
  moreover have "unseen heap [] = waiting heap" by (simp add: unseen_def)
  moreover have "merge_log_entries since bound sources = at_most bound 0 (takeWhile (recent since) merged)"
    using merge_heap_cut [of since bound n heap "[]" 0 0] by (simp add: merged_def merge_log_entries_def i)
  ultimately show ?thesis by (simp add: ok(2) takeWhile_recent)
qed

definition demo_sources :: "(string \<times> nat log_entry list) list" where
  "demo_sources =
     [(''CP#1'', [\<lparr>le_time = 3, le_text = ''ccc''\<rparr>, \<lparr>le_time = 3, le_text = ''ccc''\<rparr>, \<lparr>le_time = 1, le_text = ''a''\<rparr>]),
      (''CP#2'', [\<lparr>le_time = 2, le_text = ''bb''\<rparr>])]"

theorem merged_logs_ordered_complete_witness:
  "newest_first (merge_log_entries None None demo_sources) \<and> length (merge_log_entries None None demo_sources) = 3"
proof -
  have "\<forall>(key, es) \<in> set demo_sources. newest_first es" by (simp add: demo_sources_def)
  moreover have "stamped (\<lambda>t. Some (length t)) (\<Union>(key, es) \<in> set demo_sources. set es)"
    by (simp add: demo_sources_def stamped_def)
  ultimately have m: "newest_first (merge_log_entries None None demo_sources)"
    "mset (merge_log_entries None None demo_sources) =
       image_mset snd (mset_set (\<Union>(key, es) \<in> set demo_sources. Pair key ` set es))"
    using merged_logs_ordered_complete [of demo_sources "\<lambda>t. Some (length t)"] by blast+
  have "(\<Union>(key, es) \<in> set demo_sources. Pair key ` set es) =
      {(''CP#1'', \<lparr>le_time = 3, le_text = ''ccc''\<rparr>), (''CP#1'', \<lparr>le_time = 1, le_text = ''a''\<rparr>),
       (''CP#2'', \<lparr>le_time = 2, le_text = ''bb''\<rparr>)}" by (auto simp: demo_sources_def)
  then have "size (mset (merge_log_entries None None demo_sources)) = 3" unfolding m(2) by simp
  then show ?thesis using m(1) by simp
qed

subsection \<open>A bounded read\<close>

lemma scan_unseen:
  assumes "distinct entries" "\<forall>e \<in> set entries. parse_log_timestamp stamp e \<noteq> None"
    and "y + int (length (filter (\<lambda>e. e \<notin> set seen) entries)) < l"
  shows "\<exists>out. scan_entries stamp None (Some l) entries seen y =
    (out, rev (filter (\<lambda>e. e \<notin> set seen) entries) @ seen,
     y + int (length (filter (\<lambda>e. e \<notin> set seen) entries)), False) \<and>
    map le_text out = filter (\<lambda>e. e \<notin> set seen) entries"
  using assms
proof (induction entries arbitrary: seen y)
  case (Cons e es)
  show ?case
  proof (cases "e \<in> set seen")
    case True
    then show ?thesis using Cons.IH [of y seen] Cons.prems by simp
  next
    case False
    have same: "filter (\<lambda>x. x \<notin> set (e # seen)) es = filter (\<lambda>x. x \<notin> set seen) es"
      using Cons.prems(1) by (intro filter_cong) auto
    then show ?thesis
      using False Cons.IH [of "y + 1" "e # seen"] Cons.prems by (auto simp: ac_simps)
  qed
qed simp

lemma filter_not_in_take: "distinct xs \<Longrightarrow> filter (\<lambda>e. e \<notin> set (take m xs)) (take k xs) = drop m (take k xs)"
proof (induction xs arbitrary: m k)
  case (Cons x xs)
  show ?case
  proof (cases m)
    case 0
    then show ?thesis by simp
  next
    case (Suc m')
    have "filter (\<lambda>e. e \<notin> insert x (set (take m' xs))) (take k' xs) = filter (\<lambda>e. e \<notin> set (take m' xs)) (take k' xs)" for k'
      using Cons.prems by (intro filter_cong) (auto dest: in_set_takeD)
    then show ?thesis using Suc Cons by (cases k) auto
  qed
qed simp

text \<open>
  A bounded read of one log can return too little.  The lines kept in memory are also the newest
  lines of the file, and they count against the file's share of the limit: of the lines \<open>xs\<close> of the
  file, with the newest \<open>m\<close> in memory, a read limited to \<open>l\<close> entries returns the newest
  \<open>max m (l - m)\<close>, however many there are.
\<close>

lemma bounded_log_read_counts_twice:
  assumes xs: "lines_newest_first decode data = xs" "distinct xs"
    "\<forall>e \<in> set xs. parse_log_timestamp stamp e \<noteq> None" and m: "0 < m" "m < l" "m \<le> length xs"
  shows "map le_text (iter_log_entries_for_key decode stamp None (Some (int l)) (rev (take m xs)) (Some data)) =
    take (max m (l - m)) xs"
proof -
  have parse: "\<forall>e \<in> set (take k xs). parse_log_timestamp stamp e \<noteq> None" for k
    using xs(3) by (auto dest: in_set_takeD)
  have "0 + int (length (filter (\<lambda>e. e \<notin> set []) (take m xs))) < int l" using m by simp
  from scan_unseen [OF distinct_take [OF xs(2), of m] parse [of m] this] obtain out where
    1: "scan_entries stamp None (Some (int l)) (take m xs) [] 0 = (out, rev (take m xs), int m, False)"
    "map le_text out = take m xs"
    using m by auto
  have on_disk: "iter_file_lines_reverse decode (Some data) (Some (int l - int m)) = take (l - m) xs"
    using reverse_loop_lines [of "length data" data "[]" "Some (int l - int m)" decode] xs(1) m
    by (simp add: iter_file_lines_reverse_def no_newline_def limited_def nat_diff_distrib)
  have fresh: "filter (\<lambda>e. e \<notin> set (rev (take m xs))) (take (l - m) xs) = drop m (take (l - m) xs)"
    using filter_not_in_take [OF xs(2)] by simp
  have "int m + int (length (filter (\<lambda>e. e \<notin> set (rev (take m xs))) (take (l - m) xs))) < int l"
    unfolding fresh using m by simp
  from scan_unseen [OF distinct_take [OF xs(2)] parse this] obtain out' where
    s: "scan_entries stamp None (Some (int l)) (take (l - m) xs) (rev (take m xs)) (int m) =
       (out', rev (filter (\<lambda>e. e \<notin> set (rev (take m xs))) (take (l - m) xs)) @ rev (take m xs),
        int m + int (length (filter (\<lambda>e. e \<notin> set (rev (take m xs))) (take (l - m) xs))), False)"
    and o: "map le_text out' = drop m (take (l - m) xs)"
    unfolding fresh by blast
  have 2: "map le_text (fst (scan_entries stamp None (Some (int l)) (take (l - m) xs) (rev (take m xs)) (int m))) =
      drop m (take (l - m) xs)"
    unfolding s using o by simp
  have joined: "take m xs @ drop m (take (l - m) xs) = take (max m (l - m)) xs"
  proof (cases "m \<le> l - m")
    case True
    then have "take m (take (l - m) xs) = take m xs" by (simp add: min_def)
    then show ?thesis using True append_take_drop_id [of m "take (l - m) xs"]
      by (simp only: max_def if_True)
  qed (simp add: max_def)
  have "max (int l - int m) 0 = int l - int m" "int l - int m \<noteq> 0" using m by auto
  then show ?thesis
    using joined by (simp add: iter_log_entries_for_key_def 1 on_disk 2)
qed

text \<open>Three dated lines, the two newest also in memory, read with a limit of three.\<close>

definition demo_line :: "char \<Rightarrow> string" where
  "demo_line c = replicate 23 c @ ''x''"

lemma bounded_log_read_counts_twice_witness:
  "map le_text (iter_log_entries_for_key id (\<lambda>t. Some (code (hd t))) None (Some 3)
     [demo_line CHR ''b'', demo_line CHR ''c'']
     (Some (demo_line CHR ''a'' @ [char_of (10 :: nat)] @ demo_line CHR ''b'' @ [char_of (10 :: nat)] @
            demo_line CHR ''c'' @ [char_of (10 :: nat)]))) = [demo_line CHR ''c'', demo_line CHR ''b'']"
proof -
  let ?data = "demo_line CHR ''a'' @ [char_of (10 :: nat)] @ demo_line CHR ''b'' @ [char_of (10 :: nat)] @
            demo_line CHR ''c'' @ [char_of (10 :: nat)]"
  let ?xs = "[demo_line CHR ''c'', demo_line CHR ''b'', demo_line CHR ''a'']"
  have n: "no_newline (demo_line CHR ''a'')" "no_newline (demo_line CHR ''b'')" "no_newline (demo_line CHR ''c'')"
    by (simp_all add: no_newline_def demo_line_def code_def)
  have nl: "split_nl (s @ char_of (10 :: nat) # t) = s # split_nl t" if "no_newline s" for s t
    using that by (induction s) (auto simp: no_newline_def)
  have "split_nl ?data = [demo_line CHR ''a'', demo_line CHR ''b'', demo_line CHR ''c'', []]"
    using n by (simp add: nl)
  then have "lines_newest_first id ?data = ?xs"
    by (simp add: lines_newest_first_def demo_line_def)
  then show ?thesis
    using bounded_log_read_counts_twice [of id ?data ?xs "\<lambda>t. Some (code (hd t))" 2 3]
    by (simp add: demo_line_def parse_log_timestamp_def numeral_eq_Suc)
qed

end
