(* ===== verification/IpAddress.thy ===== *)
theory IpAddress
  imports PyValues "HOL-Library.Word"
begin

text \<open>
  What the server uses of the standard library's \<open>ipaddress\<close>: \<open>ip_address\<close> and \<open>str\<close> of an address,
  \<open>ip_network(..., strict=False)\<close> and membership.  An address is a 32-bit or a 128-bit word, the
  latter with an optional scope; \<open>None\<close> stands for \<open>ValueError\<close>.
\<close>

unbundle bit_operations_syntax

text \<open>\<open>text.split(sep)\<close> for a one-character separator\<close>

fun py_split :: "char \<Rightarrow> string \<Rightarrow> string list" where
  "py_split sep [] = [[]]"
| "py_split sep (c # cs) =
     (if c = sep then [] # py_split sep cs
      else case py_split sep cs of [] \<Rightarrow> [[c]] | w # ws \<Rightarrow> (c # w) # ws)"

lemma py_split_nonempty [simp]: "py_split sep s \<noteq> []"
  by (induction s) (auto split: list.split)

lemma py_split_plain: "sep \<notin> set s \<Longrightarrow> py_split sep s = [s]"
  by (induction s) auto

lemma py_split_append: "sep \<notin> set s \<Longrightarrow> py_split sep (s @ sep # t) = s # py_split sep t"
  by (induction s) auto

lemma py_split_last: "sep \<notin> set t \<Longrightarrow> py_split sep (s @ sep # t) = py_split sep s @ [t]"
proof (induction s)
  case (Cons c s)
  then show ?case by (cases "py_split sep s") auto
qed (simp add: py_split_plain)

subsection \<open>Addresses\<close>

datatype ip_address = IPv4 "32 word" | IPv6 "128 word" "string option"

definition parse_octet :: "string \<Rightarrow> nat option" where
  "parse_octet s =
     (if s = [] \<or> \<not> list_all is_ascii_digit s \<or> length s > 3 \<or> (s \<noteq> ''0'' \<and> hd s = CHR ''0'') then None
      else case int_digits True 0 s of
             None \<Rightarrow> None
           | Some n \<Rightarrow> (if n > 255 then None else Some (nat n)))"

definition from_digits :: "nat \<Rightarrow> nat list \<Rightarrow> nat" where
  "from_digits base ds = fold (\<lambda>d n. n * base + d) ds 0"

definition ipv4_of_string :: "string \<Rightarrow> 32 word option" where
  "ipv4_of_string s =
     (let octets = py_split CHR ''.'' s
      in if length octets \<noteq> 4 then None
         else map_option (\<lambda>os. word_of_nat (from_digits 256 os)) (those (map parse_octet octets)))"

definition hex_value :: "char \<Rightarrow> nat option" where
  "hex_value c =
     (let n = code c
      in if 48 \<le> n \<and> n \<le> 57 then Some (n - 48)
         else if 65 \<le> n \<and> n \<le> 70 then Some (n - 55)
         else if 97 \<le> n \<and> n \<le> 102 then Some (n - 87) else None)"

definition parse_hextet :: "string \<Rightarrow> nat option" where
  "parse_hextet s =
     (if s = [] \<or> length s > 4 then None else map_option (from_digits 16) (those (map hex_value s)))"

definition hex_text :: "nat \<Rightarrow> string" where
  "hex_text n =
     (let ds = dropWhile (\<lambda>d. d = 0) [n div 4096 mod 16, n div 256 mod 16, n div 16 mod 16, n mod 16]
      in if ds = [] then ''0'' else map hex_digit ds)"

text \<open>An IPv4 suffix becomes two parts.\<close>

definition ipv6_parts :: "string \<Rightarrow> string list option" where
  "ipv6_parts s =
     (let parts = py_split CHR '':'' s
      in if length parts < 3 then None
         else if CHR ''.'' \<notin> set (last parts) then Some parts
         else case ipv4_of_string (last parts) of
                None \<Rightarrow> None
              | Some w \<Rightarrow> Some (butlast parts @ [hex_text (unat w div 65536), hex_text (unat w mod 65536)]))"

definition ipv6_hextets :: "string list \<Rightarrow> nat list option" where
  "ipv6_hextets parts =
     (if length parts > 9 then None
      else case filter (\<lambda>i. parts ! i = []) [1..<length parts - 1] of
             [] \<Rightarrow>
               (if length parts \<noteq> 8 \<or> hd parts = [] \<or> last parts = [] then None
                else those (map parse_hextet parts))
           | [k] \<Rightarrow>
               (let hi = (if hd parts = [] then k - 1 else k);
                    lo = (if last parts = [] then length parts - k - 2 else length parts - k - 1)
                in if (hd parts = [] \<and> hi \<noteq> 0) \<or> (last parts = [] \<and> lo \<noteq> 0) \<or> hi + lo \<ge> 8 then None
                   else case (those (map parse_hextet (take hi parts)),
                              those (map parse_hextet (drop (length parts - lo) parts))) of
                          (Some hs, Some ls) \<Rightarrow> Some (hs @ replicate (8 - (hi + lo)) 0 @ ls)
                        | _ \<Rightarrow> None)
           | _ \<Rightarrow> None)"

definition ipv6_of_string :: "string \<Rightarrow> ip_address option" where
  "ipv6_of_string s =
     (case span_until (\<lambda>c. c = CHR ''%'') s of (addr, rest) \<Rightarrow>
        (if rest = ''%'' \<or> CHR ''%'' \<in> set (tl rest) then None
         else case ipv6_parts addr of
                None \<Rightarrow> None
              | Some parts \<Rightarrow>
                  map_option (\<lambda>hs. IPv6 (word_of_nat (from_digits 65536 hs)) (if rest = [] then None else Some (tl rest)))
                    (ipv6_hextets parts)))"

definition ip_address :: "string \<Rightarrow> ip_address option" where
  "ip_address s =
     (if CHR ''/'' \<in> set s then None
      else case ipv4_of_string s of
             Some w \<Rightarrow> Some (IPv4 w)
           | None \<Rightarrow> ipv6_of_string s)"

subsection \<open>Text of an address\<close>

definition ipv4_str :: "32 word \<Rightarrow> string" where
  "ipv4_str w =
     (let n = unat w
      in py_join ''.'' (map (\<lambda>d. nat_str (int d)) [n div 16777216, n div 65536 mod 256, n div 256 mod 256, n mod 256]))"

text \<open>The first longest run of zeros; start and length of the best and of the current run.\<close>

fun zero_run :: "nat \<Rightarrow> string list \<Rightarrow> nat \<times> nat \<Rightarrow> nat \<times> nat \<Rightarrow> nat \<times> nat" where
  "zero_run i [] best run = best"
| "zero_run i (h # hs) best run =
     (if h = ''0''
      then let run' = (if snd run = 0 then (i, 1) else (fst run, snd run + 1))
           in zero_run (Suc i) hs (if snd best < snd run' then run' else best) run'
      else zero_run (Suc i) hs best (0, 0))"

definition compress_hextets :: "string list \<Rightarrow> string list" where
  "compress_hextets hs =
     (case zero_run 0 hs (0, 0) (0, 0) of (start, len) \<Rightarrow>
        (if len \<le> 1 then hs
         else (if start = 0 then [[]] else []) @ take start hs @ [[]] @ drop (start + len) hs @
              (if start + len = length hs then [[]] else [])))"

definition ipv6_str :: "128 word \<Rightarrow> string" where
  "ipv6_str w =
     py_join '':'' (compress_hextets (map (\<lambda>i. hex_text (unat w div 65536 ^ (7 - i) mod 65536)) [0..<8]))"

definition ip_str :: "ip_address \<Rightarrow> string" where
  "ip_str a =
     (case a of
        IPv4 w \<Rightarrow> ipv4_str w
      | IPv6 w scope \<Rightarrow> ipv6_str w @ (case scope of None \<Rightarrow> [] | Some s \<Rightarrow> ''%'' @ s))"

subsection \<open>Networks\<close>

datatype ip_network = Net4 "32 word" "32 word" | Net6 "128 word" "128 word"

definition prefix_mask :: "nat \<Rightarrow> 'a::len word" where
  "prefix_mask p = (- 1) XOR drop_bit p (- 1)"

definition prefix_of_string :: "nat \<Rightarrow> string \<Rightarrow> nat option" where
  "prefix_of_string width s =
     (if s = [] \<or> \<not> list_all is_ascii_digit s then None
      else case int_digits True 0 s of
             None \<Rightarrow> None
           | Some n \<Rightarrow> (if n > int width then None else Some (nat n)))"

text \<open>A dotted netmask or host mask; zeros and ones must not mix.\<close>

definition mask_of_word :: "32 word \<Rightarrow> nat option" where
  "mask_of_word w = List.find (\<lambda>p. w = prefix_mask p) [0..<33]"

definition ipv4_mask :: "string \<Rightarrow> nat option" where
  "ipv4_mask s =
     (case prefix_of_string 32 s of
        Some p \<Rightarrow> Some p
      | None \<Rightarrow>
          (case ipv4_of_string s of
             None \<Rightarrow> None
           | Some w \<Rightarrow> (case mask_of_word w of Some p \<Rightarrow> Some p | None \<Rightarrow> mask_of_word (NOT w))))"

definition net4 :: "32 word \<Rightarrow> nat \<Rightarrow> ip_network" where
  "net4 w p = Net4 (w AND prefix_mask p) (prefix_mask p)"

definition net6 :: "128 word \<Rightarrow> nat \<Rightarrow> ip_network" where
  "net6 w p = Net6 (w AND prefix_mask p) (prefix_mask p)"

definition ip_network :: "string \<Rightarrow> ip_network option" where
  "ip_network s =
     (let parts = py_split CHR ''/'' s
      in if length parts > 2 then None
         else let mask = (if length parts = 2 then Some (parts ! 1) else None)
              in case (ipv4_of_string (hd parts), case mask of None \<Rightarrow> Some 32 | Some m \<Rightarrow> ipv4_mask m) of
                   (Some w, Some p) \<Rightarrow> Some (net4 w p)
                 | _ \<Rightarrow>
                     (case (ipv6_of_string (hd parts), case mask of None \<Rightarrow> Some 128 | Some m \<Rightarrow> prefix_of_string 128 m) of
                        (Some (IPv6 w scope), Some p) \<Rightarrow> Some (net6 w p)
                      | _ \<Rightarrow> None))"

fun in_network :: "ip_address \<Rightarrow> ip_network \<Rightarrow> bool" where
  "in_network (IPv4 w) (Net4 a m) = (w AND m = a)"
| "in_network (IPv6 w scope) (Net6 a m) = (w AND m = a)"
| "in_network _ _ = False"

end
