(* ===== verification/ClientIp.thy ===== *)
theory ClientIp
  imports IpAddress
begin

text \<open>
  The client address of a websocket: \<open>_parse_ip\<close>, the trusted proxies and \<open>_resolve_client_ip\<close>
  (\<open>apps/ocpp/consumers/base/identity.py\<close>), and the address test of
  \<open>apps/ocpp/consumers/connection.py\<close>.  Header bytes decode as Latin-1, which never fails.
\<close>

subsection \<open>Reading an address\<close>

definition strip_chars :: "char list \<Rightarrow> string \<Rightarrow> string" where
  "strip_chars cs s =
     (let drop_front = dropWhile (\<lambda>c. c \<in> set cs) in rev (drop_front (rev (drop_front s))))"

definition quotes :: string where
  "quotes = [char_of (39 :: nat), char_of (34 :: nat)]"

text \<open>\<open>text.rpartition(":")\<close> when there is a colon\<close>

definition rpartition_colon :: "string \<Rightarrow> (string \<times> string) option" where
  "rpartition_colon s =
     (if CHR '':'' \<notin> set s then None
      else let port = rev (before_char CHR '':'' (rev s))
           in Some (take (length s - length port - 1) s, port))"

definition parse_ip :: "string option \<Rightarrow> ip_address option" where
  "parse_ip value =
     (let c0 = py_strip (case value of None \<Rightarrow> [] | Some v \<Rightarrow> v)
      in if c0 = [] \<or> py_lower c0 = ''unknown'' then None
         else let c1 = (if py_startswith (py_lower c0) ''for='' then py_strip (drop 4 c0) else c0);
                  c2 = strip_chars quotes c1;
                  c3 = (if py_startswith c2 ''[''
                        then before_char CHR '']'' (drop 1 c2) else c2);
                  c4 = (if CHR '','' \<in> set c3 then py_strip (before_char CHR '','' c3) else c3)
              in case ip_address c4 of
                   Some a \<Rightarrow> Some a
                 | None \<Rightarrow>
                     (case rpartition_colon c4 of
                        None \<Rightarrow> None
                      | Some (host, port) \<Rightarrow> (if \<not> py_isdigit port then None else ip_address host)))"

subsection \<open>Trusted proxies\<close>

text \<open>The setting \<open>OCPP_TRUSTED_PROXY_IPS\<close>: absent, a text, or several values.\<close>

datatype proxy_setting = NoProxies | ProxyText string | ProxyList "string list"

definition proxy_entries :: "proxy_setting \<Rightarrow> string list" where
  "proxy_entries setting =
     (case setting of
        NoProxies \<Rightarrow> []
      | ProxyText t \<Rightarrow> filter (\<lambda>e. e \<noteq> []) (map py_strip (py_split CHR '','' t))
      | ProxyList es \<Rightarrow> filter (\<lambda>e. e \<noteq> []) (map py_strip es))"

definition trusted_proxy_networks :: "proxy_setting \<Rightarrow> ip_network list" where
  "trusted_proxy_networks setting = List.map_filter ip_network (proxy_entries setting)"

definition is_trusted_proxy :: "proxy_setting \<Rightarrow> ip_address \<Rightarrow> bool" where
  "is_trusted_proxy setting a = list_ex (in_network a) (trusted_proxy_networks setting)"

subsection \<open>The client behind the proxies\<close>

text \<open>
  The first match of \<open>for=("?)([^;,"\s]+)\<close>, letter case ignored: the pair's value.
\<close>

definition value_char :: "char \<Rightarrow> bool" where
  "value_char c = (c \<noteq> CHR '';'' \<and> c \<noteq> CHR '','' \<and> code c \<noteq> 34 \<and> \<not> is_space c)"

definition pair_value :: "string \<Rightarrow> string option" where
  "pair_value rest =
     (let body = (case rest of [] \<Rightarrow> [] | c # cs \<Rightarrow> (if code c = 34 then cs else c # cs));
          v = takeWhile value_char body
      in if v = [] then None else Some v)"

fun forwarded_value :: "string \<Rightarrow> string option" where
  "forwarded_value [] = None"
| "forwarded_value (c # cs) =
     (if py_startswith (py_lower (c # cs)) ''for=''
      then (case pair_value (drop 3 cs) of Some v \<Rightarrow> Some v | None \<Rightarrow> forwarded_value cs)
      else forwarded_value cs)"

definition header_values :: "string \<Rightarrow> (string \<times> string) list \<Rightarrow> string list" where
  "header_values name headers = map snd (filter (\<lambda>h. py_lower (fst h) = name) headers)"

definition forwarding_candidates :: "(string \<times> string) list \<Rightarrow> string list" where
  "forwarding_candidates headers =
     (let xff = concat (map (\<lambda>raw. map py_strip (py_split CHR '','' raw)) (header_values ''x-forwarded-for'' headers));
          forwarded = concat (map (\<lambda>raw. List.map_filter forwarded_value (py_split CHR '','' raw))
                                  (header_values ''forwarded'' headers))
      in if xff \<noteq> [] then xff
         else if forwarded \<noteq> [] then forwarded
         else header_values ''x-real-ip'' headers)"

text \<open>\<open>client\<close> is the host of the ASGI scope's client, \<open>None\<close> when the scope has none.\<close>

definition resolve_client_ip ::
  "proxy_setting \<Rightarrow> string option \<Rightarrow> (string \<times> string) list \<Rightarrow> string option" where
  "resolve_client_ip setting client headers =
     (case client of
        None \<Rightarrow> None
      | Some host \<Rightarrow>
          (case parse_ip (Some (py_strip host)) of
             None \<Rightarrow> None
           | Some peer \<Rightarrow>
               (if \<not> is_trusted_proxy setting peer then Some (ip_str peer)
                else let chain = List.map_filter (\<lambda>c. parse_ip (Some c)) (forwarding_candidates headers) @ [peer]
                     in case List.find (\<lambda>a. \<not> is_trusted_proxy setting a) (rev chain) of
                          Some a \<Rightarrow> Some (ip_str a)
                        | None \<Rightarrow> Some (ip_str peer))))"

subsection \<open>Local clients\<close>

text \<open>The special-purpose blocks the library calls private, loopback or link-local.\<close>

definition ip4 :: "nat \<Rightarrow> nat \<Rightarrow> nat \<Rightarrow> nat \<Rightarrow> 32 word" where
  "ip4 a b c d = word_of_nat (from_digits 256 [a, b, c, d])"

definition private_networks4 :: "ip_network list" where
  "private_networks4 =
     [net4 (ip4 0 0 0 0) 8, net4 (ip4 10 0 0 0) 8, net4 (ip4 127 0 0 0) 8, net4 (ip4 169 254 0 0) 16,
      net4 (ip4 172 16 0 0) 12, net4 (ip4 192 0 0 0) 24, net4 (ip4 192 0 0 170) 31, net4 (ip4 192 0 2 0) 24,
      net4 (ip4 192 168 0 0) 16, net4 (ip4 198 18 0 0) 15, net4 (ip4 198 51 100 0) 24, net4 (ip4 203 0 113 0) 24,
      net4 (ip4 240 0 0 0) 4, net4 (ip4 255 255 255 255) 32]"

definition ip6 :: "nat list \<Rightarrow> 128 word" where
  "ip6 hextets = word_of_nat (from_digits 65536 (take 8 (hextets @ replicate 8 0)))"

definition private_networks6 :: "ip_network list" where
  "private_networks6 =
     [net6 1 128, net6 0 128, net6 (ip6 [0, 0, 0, 0, 0, 0xffff]) 96, net6 (ip6 [0x64, 0xff9b, 1]) 48,
      net6 (ip6 [0x100]) 64, net6 (ip6 [0x2001]) 23, net6 (ip6 [0x2001, 0xdb8]) 32, net6 (ip6 [0x2002]) 16,
      net6 (ip6 [0xfc00]) 7, net6 (ip6 [0xfe80]) 10]"

definition private_exceptions6 :: "ip_network list" where
  "private_exceptions6 =
     [net6 (ip6 [0x2001, 1, 0, 0, 0, 0, 0, 1]) 128, net6 (ip6 [0x2001, 1, 0, 0, 0, 0, 0, 2]) 128,
      net6 (ip6 [0x2001, 3]) 32, net6 (ip6 [0x2001, 4, 0x112]) 48, net6 (ip6 [0x2001, 0x20]) 28,
      net6 (ip6 [0x2001, 0x30]) 28]"

definition is_private4 :: "32 word \<Rightarrow> bool" where
  "is_private4 w =
     (list_ex (in_network (IPv4 w)) private_networks4 \<and> w \<noteq> ip4 192 0 0 9 \<and> w \<noteq> ip4 192 0 0 10)"

fun is_local :: "ip_address \<Rightarrow> bool" where
  "is_local (IPv4 w) = (is_private4 w \<or> in_network (IPv4 w) (net4 (ip4 127 0 0 0) 8) \<or> in_network (IPv4 w) (net4 (ip4 169 254 0 0) 16))"
| "is_local (IPv6 w scope) =
     ((if drop_bit 32 w = 0xffff then is_private4 (ucast w)
       else list_ex (in_network (IPv6 w scope)) private_networks6 \<and>
            \<not> list_ex (in_network (IPv6 w scope)) private_exceptions6) \<or>
      w = 1 \<or> in_network (IPv6 w scope) (net6 (ip6 [0xfe80]) 10))"

definition client_ip_is_local :: "string option \<Rightarrow> bool" where
  "client_ip_is_local client_ip = (case parse_ip client_ip of None \<Rightarrow> False | Some a \<Rightarrow> is_local a)"

subsection \<open>Forged headers\<close>

lemma py_split_join:
  "ws \<noteq> [] \<Longrightarrow> \<forall>w \<in> set ws. sep \<notin> set w \<Longrightarrow> py_split sep (py_join [sep] ws) = ws"
proof (induction ws rule: induct_list012)
  case (3 w x ws)
  then show ?case using py_split_append [of sep w "py_join [sep] (x # ws)"] by simp
qed (simp_all add: py_split_plain)

lemma py_split_prefix:
  "py_split sep (s @ sep # t) = py_split sep s @ py_split sep t"
proof (induction s)
  case (Cons c s)
  then show ?case by (cases "py_split sep s") auto
qed simp

lemma header_values_append [simp]: "header_values name (h @ k) = header_values name h @ header_values name k"
  by (simp add: header_values_def)

lemma map_filter_append_list: "List.map_filter f (xs @ ys) = List.map_filter f xs @ List.map_filter f ys"
  by (simp add: List.map_filter_def)


subsection \<open>Addresses survive their text\<close>

lemma nat_str_no_leading_zero: "0 < n \<Longrightarrow> hd (nat_str n) \<noteq> CHR ''0''"
proof (induction n rule: nat_str.induct)
  case (1 n)
  show ?case
  proof (cases "n < 10")
    case True
    have "digit_val CHR ''0'' = 0" by (simp add: digit_val_def code_def)
    moreover have "digit_val (digit_char n) = n" using True 1(2) by simp
    ultimately have "digit_char n \<noteq> CHR ''0''" using 1(2) by fastforce
    then show ?thesis using True by (simp add: nat_str.simps [of n])
  next
    case False
    then show ?thesis using 1 by (simp add: nat_str.simps [of n])
  qed
qed

lemma nat_str_length: "n < 1000 \<Longrightarrow> length (nat_str n) \<le> 3"
proof -
  have 1: "n < 10 \<Longrightarrow> length (nat_str n) = 1" for n by (simp add: nat_str.simps [of n])
  have 2: "n < 100 \<Longrightarrow> length (nat_str n) \<le> 2" for n
    using 1 [of "n div 10"] by (cases "n < 10") (simp_all add: nat_str.simps [of n])
  show "n < 1000 \<Longrightarrow> length (nat_str n) \<le> 3"
    using 2 [of "n div 10"] by (cases "n < 10") (simp_all add: nat_str.simps [of n])
qed

lemma octet_roundtrip:
  assumes "d < 256"
  shows "parse_octet (nat_str (int d)) = Some d"
proof -
  have "hd (nat_str (int d)) = CHR ''0'' \<Longrightarrow> nat_str (int d) = ''0''"
    using nat_str_no_leading_zero [of "int d"] by (cases "d = 0") (simp_all add: nat_str.simps [of 0] digit_char_def)
  then show ?thesis
    using assms nat_str_length [of "int d"] by (auto simp: parse_octet_def nat_str_digits)
qed

definition octets :: "32 word \<Rightarrow> nat list" where
  "octets w = (let n = unat w in [n div 16777216, n div 65536 mod 256, n div 256 mod 256, n mod 256])"

lemma octets_small: "\<forall>d \<in> set (octets w). d < 256"
proof -
  have "unat w < 4294967296" using unsigned_less [of w, where 'a = nat] by simp
  then show ?thesis by (simp add: octets_def Let_def)
qed

lemma octets_value: "from_digits 256 (octets w) = unat w"
proof -
  let ?n = "unat w"
  have "?n div 65536 = ?n div 256 div 256" "?n div 16777216 = ?n div 256 div 256 div 256"
    by (simp_all add: div_mult2_eq [symmetric])
  then show ?thesis
    using div_mult_mod_eq [of ?n 256] div_mult_mod_eq [of "?n div 256" 256] div_mult_mod_eq [of "?n div 256 div 256" 256]
    by (simp add: from_digits_def octets_def Let_def)
qed

lemma ipv4_str_octets: "ipv4_str w = py_join ''.'' (map (\<lambda>d. nat_str (int d)) (octets w))"
  by (simp add: ipv4_str_def octets_def Let_def)

lemma nat_str_chars: "c \<in> set (nat_str (int d)) \<Longrightarrow> is_ascii_digit c"
  using nat_str_digits [of "int d"] by (simp add: list_all_iff)

lemma ipv4_roundtrip: "ipv4_of_string (ipv4_str w) = Some w"
proof -
  have "CHR ''.'' \<notin> set (nat_str (int d))" for d
    using nat_str_chars [of "CHR ''.''" d] by (auto simp: is_ascii_digit_def code_def Let_def)
  then have split: "py_split CHR ''.'' (ipv4_str w) = map (\<lambda>d. nat_str (int d)) (octets w)"
    unfolding ipv4_str_octets by (intro py_split_join) (auto simp: octets_def Let_def)
  have "those (map (parse_octet \<circ> (\<lambda>d. nat_str (int d))) ds) = Some ds" if "\<forall>d \<in> set ds. d < 256" for ds
    using that by (induction ds) (auto simp: octet_roundtrip)
  from this [OF octets_small] show ?thesis
    by (simp add: ipv4_of_string_def split octets_value Let_def) (simp add: octets_def Let_def)
qed

lemma py_join_chars: "c \<in> set (py_join sep ws) \<Longrightarrow> c \<in> set sep \<or> (\<exists>w \<in> set ws. c \<in> set w)"
  by (induction sep ws rule: py_join.induct) auto

lemma ipv4_str_chars: "c \<in> set (ipv4_str w) \<Longrightarrow> is_ascii_digit c \<or> c = CHR ''.''"
  using nat_str_chars py_join_chars [of c "''.''"] by (fastforce simp: ipv4_str_octets)

lemma ipv4_str_hd: "ipv4_str w \<noteq> []" "is_ascii_digit (hd (ipv4_str w))" "is_ascii_digit (last (ipv4_str w))"
  using nat_str_hd_last by (simp_all add: ipv4_str_def Let_def)

lemma ipv4_str_strip: "py_strip (ipv4_str w) = ipv4_str w"
  using ipv4_str_hd [of w] by (simp add: py_strip_clean ascii_digit_not_space)

lemma ipv4_str_plain: "CHR '','' \<notin> set (ipv4_str w)" "CHR ''/'' \<notin> set (ipv4_str w)"
  using ipv4_str_chars [of "CHR '',''" w] ipv4_str_chars [of "CHR ''/''" w]
  by (auto simp: is_ascii_digit_def code_def Let_def)

lemma ipv4_parse: "parse_ip (Some (ipv4_str w)) = Some (IPv4 w)"
proof -
  let ?s = "ipv4_str w"
  have chars: "code c \<in> {46..57}" if "c \<in> set ?s" for c
    using ipv4_str_chars [OF that] by (auto simp: is_ascii_digit_def code_def Let_def)
  have strip: "py_strip ?s = ?s" by (rule ipv4_str_strip)
  have hd: "py_lower ?s = lower_char (hd ?s) # py_lower (tl ?s)"
    using ipv4_str_hd(1) [of w] by (cases ?s) (auto simp: py_lower_def)
  have low: "lower_char (hd ?s) = hd ?s"
    using ipv4_str_hd(2) [of w] by (auto simp: lower_char_def is_ascii_digit_def Let_def)
  have notf: "hd ?s \<noteq> CHR ''f''" "hd ?s \<noteq> CHR ''u''" "hd ?s \<noteq> CHR ''[''"
    using ipv4_str_hd(2) [of w] by (auto simp: is_ascii_digit_def code_def Let_def)
  note comma = ipv4_str_plain [of w]
  have quote: "set quotes \<inter> set ?s = {}"
    using chars [of "char_of (39 :: nat)"] chars [of "char_of (34 :: nat)"] by (auto simp: quotes_def)
  have ends: "hd ?s \<notin> set quotes" "hd (rev ?s) \<notin> set quotes"
    using quote ipv4_str_hd(1) [of w] by (auto simp: hd_rev)
  have strips: "strip_chars quotes ?s = ?s"
    using ends ipv4_str_hd(1) [of w] by (simp add: strip_chars_def dropWhile_hd)
  have "\<not> py_startswith (py_lower ?s) ''for=''" "py_lower ?s \<noteq> ''unknown''"
    using hd low notf by auto
  moreover have "\<not> py_startswith ?s ''[''" using notf ipv4_str_hd(1) [of w] by (cases ?s) auto
  ultimately show ?thesis
    using comma ipv4_str_hd(1) [of w]
    by (simp add: parse_ip_def ip_str_def strip strips ip_address_def ipv4_roundtrip Let_def)
qed

text \<open>
  An IPv4 address survives the text under which it is stored, so later checks of the stored
  client address see the address that was resolved.
\<close>

lemma ipv4_client_roundtrip: "parse_ip (Some (ip_str (IPv4 w))) = Some (IPv4 w)"
  using ipv4_parse by (simp add: ip_str_def)

subsection \<open>One trusted proxy\<close>

lemma parse_ip_ipv4: "parse_ip (Some (py_strip (ipv4_str w))) = Some (IPv4 w)"
proof -
  have "ip_str (IPv4 w) = ipv4_str w" by (simp add: ip_str_def)
  then show ?thesis using ipv4_parse [of w] by (simp add: ipv4_str_strip)
qed

lemma single_proxy: "is_trusted_proxy (ProxyList [ipv4_str p]) (IPv4 w) \<longleftrightarrow> w = p"
proof -
  have "(prefix_mask 32 :: 32 word) = - 1"
    by (simp add: prefix_mask_def drop_bit_eq_div)
  then have "ip_network (ipv4_str p) = Some (Net4 p (- 1))"
    by (simp add: ip_network_def py_split_plain ipv4_str_plain ipv4_roundtrip net4_def)
  then show ?thesis
    by (simp add: is_trusted_proxy_def trusted_proxy_networks_def proxy_entries_def ipv4_str_strip ipv4_str_hd
        List.map_filter_def)
qed


end
