(* ===== verification/Connection.thy ===== *)
theory Connection
  imports TxEvents ClientIp SecurityAlerts
begin

text \<open>
  The life of a charger's websocket: identity, subprotocol, authentication, admission, acceptance and
  the end of the connection (\<open>apps/ocpp/consumers/base/connection_flow.py\<close>,
  \<open>apps/ocpp/consumers/base/identity.py\<close>, \<open>apps/ocpp/consumers/connection.py\<close>).  The consumer and
  the shared state are one \<open>tx_conn\<close>; another consumer's turn is the same state seen through its
  attributes.  Query and Base64 decoding, the user database, the feature table, the rate limiter's
  verdict and the forwarder switch are the environment.
\<close>

subsection \<open>The environment\<close>

record ws_user =
  wu_pk :: int
  wu_name :: string
  wu_active :: bool
  wu_manager :: bool
  wu_groups :: "int list"

record feature =
  ft_enabled :: bool
  ft_enabled_for_node :: bool

record 'r conn_env =
  ce_query_string :: string
  ce_query :: "(string \<times> string list) list"
  ce_route_cid :: string
  ce_path :: string
  ce_client :: "string option"
  ce_headers :: "(string \<times> string) list"
  ce_subprotocols :: "string list option"
  ce_proxies :: proxy_setting
  ce_base64 :: "string \<Rightarrow> string option"
  ce_authenticate :: "string \<Rightarrow> string \<Rightarrow> ws_user option"
  ce_features :: "string \<Rightarrow> feature option"
  ce_rate_rule :: bool
  ce_rate_allowed :: bool
  ce_peer_ip :: "nat \<Rightarrow> string"
  ce_model_version :: "pyval \<Rightarrow> string option"
  ce_location :: "pyval \<Rightarrow> string"
  ce_forwarder :: bool
  ce_redis :: "'r redis_env"
  ce_token :: "nat \<Rightarrow> string"

definition opt_text :: "string \<Rightarrow> string option" where
  "opt_text s = (if s = [] then None else Some s)"

subsection \<open>Identity\<close>

definition SERIAL_QUERY_PARAM_NAMES :: "string list" where
  "SERIAL_QUERY_PARAM_NAMES =
     [''cid'', ''chargepointid'', ''charge_point_id'', ''chargeboxid'', ''charge_box_id'', ''chargerid'']"

text \<open>The parsed query, its keys lowered; a later key of the same spelling replaces the values.\<close>

definition normalized_query :: "(string \<times> string list) list \<Rightarrow> (string, string list) dict" where
  "normalized_query query = fold (\<lambda>kv d. if snd kv = [] then d else dset (py_lower (fst kv)) (snd kv) d) query []"

definition query_serial :: "(string \<times> string list) list \<Rightarrow> string option" where
  "query_serial query =
     map_option snd (first_hit (\<lambda>name.
         case dget (normalized_query query) name of
           None \<Rightarrow> None
         | Some values \<Rightarrow> List.find (\<lambda>t. t \<noteq> []) (map py_strip values))
       SERIAL_QUERY_PARAM_NAMES)"

text \<open>The source of the serial and the serial; the source is absent when nothing was found.\<close>

definition extract_serial_identifier :: "'r conn_env \<Rightarrow> string option \<times> string" where
  "extract_serial_identifier env =
     (case query_serial (ce_query env) of
        Some s \<Rightarrow> (Some ''query'', s)
      | None \<Rightarrow>
          (let serial = py_strip (ce_route_cid env)
           in if serial \<noteq> [] then (Some ''route'', serial)
              else let segments = filter (\<lambda>s. s \<noteq> []) (py_split CHR ''/'' (strip_chars ''/'' (ce_path env)));
                       segment = (if segments = [] then [] else py_strip (last segments))
                   in if segment = [] then (None, []) else (Some ''path'', segment)))"

subsection \<open>Subprotocols\<close>

definition OCPP_VERSION_16 :: string where "OCPP_VERSION_16 = ''ocpp1.6''"
definition OCPP_SUBPROTOCOL_16J :: string where "OCPP_SUBPROTOCOL_16J = ''ocpp1.6j''"
definition OCPP_VERSION_201 :: string where "OCPP_VERSION_201 = ''ocpp2.0.1''"
definition OCPP_VERSION_21 :: string where "OCPP_VERSION_21 = ''ocpp2.1''"

lemmas version_defs = OCPP_VERSION_16_def OCPP_SUBPROTOCOL_16J_def OCPP_VERSION_201_def OCPP_VERSION_21_def

definition canonicalize_ocpp_subprotocol :: "string \<Rightarrow> string option" where
  "canonicalize_ocpp_subprotocol v =
     (let n = py_lower (py_strip v)
      in if n = OCPP_VERSION_16 \<or> n = OCPP_SUBPROTOCOL_16J then Some OCPP_VERSION_16
         else if n = OCPP_VERSION_201 then Some OCPP_VERSION_201
         else if n = OCPP_VERSION_21 then Some OCPP_VERSION_21
         else None)"

definition offer_step :: "string \<Rightarrow> (string, string) dict \<Rightarrow> (string, string) dict" where
  "offer_step proto d =
     (let token = py_strip proto
      in case canonicalize_ocpp_subprotocol token of
           None \<Rightarrow> d
         | Some canonical \<Rightarrow>
             (case dget d canonical of
                None \<Rightarrow> dset canonical token d
              | Some current \<Rightarrow>
                  (if canonical = OCPP_VERSION_16 \<and> py_lower token = OCPP_SUBPROTOCOL_16J
                      \<and> py_lower current \<noteq> OCPP_SUBPROTOCOL_16J
                   then dset canonical token d else d)))"

definition select_subprotocol :: "string list \<Rightarrow> string option \<Rightarrow> string option" where
  "select_subprotocol offered preferred =
     (let d = fold offer_step offered [];
          p = (case preferred of None \<Rightarrow> None | Some v \<Rightarrow> canonicalize_ocpp_subprotocol v);
          wanted = (case p of None \<Rightarrow> [] | Some v \<Rightarrow> [v]) @ [OCPP_VERSION_21, OCPP_VERSION_201, OCPP_VERSION_16]
      in map_option snd (first_hit (dget d) wanted))"

definition offered_subprotocols :: "'r conn_env \<Rightarrow> string list" where
  "offered_subprotocols env =
     (let trim = (\<lambda>ts. filter (\<lambda>t. t \<noteq> []) (map py_strip ts));
          direct = trim (case ce_subprotocols env of None \<Rightarrow> [] | Some ps \<Rightarrow> ps)
      in if direct \<noteq> [] then direct
         else concat (map (\<lambda>v. trim (py_split CHR '','' v)) (header_values ''sec-websocket-protocol'' (ce_headers env))))"

definition negotiate_ocpp_version :: "'r conn_env \<Rightarrow> string \<Rightarrow> string option \<times> string" where
  "negotiate_ocpp_version env preferred =
     (let subprotocol = select_subprotocol (offered_subprotocols env) (Some preferred);
          negotiated = (case subprotocol of None \<Rightarrow> None | Some t \<Rightarrow> canonicalize_ocpp_subprotocol t);
          p = canonicalize_ocpp_subprotocol preferred
      in (subprotocol,
          case negotiated of
            Some v \<Rightarrow> v
          | None \<Rightarrow> (if p = Some OCPP_VERSION_201 \<or> p = Some OCPP_VERSION_21 then the p else OCPP_VERSION_16)))"

subsection \<open>Authentication\<close>

datatype credentials = CredMissing | CredInvalid | Credentials string string

definition parse_basic_auth_header :: "'r conn_env \<Rightarrow> credentials" where
  "parse_basic_auth_header env =
     (case header_values ''authorization'' (ce_headers env) of
        [] \<Rightarrow> CredMissing
      | value # _ \<Rightarrow>
          (case py_partition CHR '' '' value of (scheme, rest) \<Rightarrow>
             (let param = (case rest of None \<Rightarrow> [] | Some r \<Rightarrow> r)
              in if py_lower scheme \<noteq> ''basic'' \<or> param = [] then CredInvalid
                 else case ce_base64 env (py_strip param) of
                        None \<Rightarrow> CredInvalid
                      | Some decoded \<Rightarrow>
                          (case py_partition CHR '':'' decoded of
                             (username, Some password) \<Rightarrow> Credentials username password
                           | _ \<Rightarrow> CredInvalid))))"

definition requires_ws_auth :: "obj \<Rightarrow> bool" where
  "requires_ws_auth row = (truthy (jget row ''ws_auth_user_id'') \<or> truthy (jget row ''ws_auth_group_id''))"

definition is_ws_user_authorized :: "obj \<Rightarrow> ws_user \<Rightarrow> bool" where
  "is_ws_user_authorized row user =
     (if \<not> requires_ws_auth row then True
      else if wu_manager user then True
      else if truthy (jget row ''ws_auth_user_id'') then PInt (wu_pk user) = jget row ''ws_auth_user_id''
      else list_ex (\<lambda>g. PInt g = jget row ''ws_auth_group_id'') (wu_groups user))"

definition ws_rejection :: "'r conn_env \<Rightarrow> obj \<Rightarrow> string option" where
  "ws_rejection env row =
     (case parse_basic_auth_header env of
        CredMissing \<Rightarrow> Some ''HTTP Basic authentication required (credentials missing)''
      | CredInvalid \<Rightarrow> Some ''HTTP Basic authentication header is invalid''
      | Credentials username password \<Rightarrow>
          (case ce_authenticate env username password of
             None \<Rightarrow> Some ''HTTP Basic authentication failed''
           | Some user \<Rightarrow>
               (if \<not> wu_active user then Some ''HTTP Basic authentication failed''
                else if is_ws_user_authorized row user then None
                else Some (''HTTP Basic authentication rejected for unauthorized user'' @
                           (if wu_name user = [] then [] else '' '' @ [char_of (39 :: nat)] @ wu_name user @ [char_of (39 :: nat)])))))"

text \<open>\<open>existing\<close> is the row of the charger, if it is known.\<close>

definition enforce_ws_auth :: "'r conn_env \<Rightarrow> obj option \<Rightarrow> 'r tx_conn \<Rightarrow> bool \<times> 'r tx_conn" where
  "enforce_ws_auth env existing c =
     (case existing of
        None \<Rightarrow> (True, c)
      | Some row \<Rightarrow>
          (if \<not> requires_ws_auth row then (True, c)
           else case ws_rejection env row of
                  None \<Rightarrow> (True, c)
                | Some reason \<Rightarrow>
                    (False, effect (CloseSelf (Some 4003))
                              (log_line (tc_store_key c) (''Rejected connection: '' @ reason) c))))"

subsection \<open>Admission\<close>

definition CHARGER_CREATION_FEATURE_SLUG :: string where
  "CHARGER_CREATION_FEATURE_SLUG = ''cp-auto-enrollment''"

definition version_feature_slug :: "string \<Rightarrow> string option" where
  "version_feature_slug v =
     (if v = OCPP_VERSION_16 then Some ''ocpp-16-charge-point''
      else if v = OCPP_VERSION_201 then Some ''ocpp-201-charge-point''
      else if v = OCPP_VERSION_21 then Some ''ocpp-21-charge-point'' else None)"

definition CREATION_FEATURE_FALLBACK_SLUGS :: "string list" where
  "CREATION_FEATURE_FALLBACK_SLUGS =
     [CHARGER_CREATION_FEATURE_SLUG, ''ocpp-16-charge-point'', ''ocpp-201-charge-point'', ''ocpp-21-charge-point'']"

definition requested_version :: "'r conn_env \<Rightarrow> string \<Rightarrow> string option" where
  "requested_version env version =
     (let offered = offered_subprotocols env
      in if offered \<noteq> []
         then (case select_subprotocol offered None of None \<Rightarrow> None | Some t \<Rightarrow> canonicalize_ocpp_subprotocol t)
         else if ce_subprotocols env = None then Some (or_else version OCPP_VERSION_16)
         else None)"

definition creation_feature_reason :: "'r conn_env \<Rightarrow> string \<Rightarrow> string option" where
  "creation_feature_reason env version =
     (let requested = (case requested_version env version of
                         None \<Rightarrow> CHARGER_CREATION_FEATURE_SLUG
                       | Some v \<Rightarrow> (case version_feature_slug v of
                                      None \<Rightarrow> CHARGER_CREATION_FEATURE_SLUG | Some slug \<Rightarrow> slug));
          slugs = (if requested = CHARGER_CREATION_FEATURE_SLUG then CREATION_FEATURE_FALLBACK_SLUGS
                   else [requested, CHARGER_CREATION_FEATURE_SLUG]);
          candidates = List.map_filter (ce_features env) slugs;
          configured = List.map_filter (ce_features env) CREATION_FEATURE_FALLBACK_SLUGS
      in if configured = [] then None
         else if requested \<noteq> CHARGER_CREATION_FEATURE_SLUG \<and> candidates = [] then Some ''creation-feature-disabled''
         else if list_ex ft_enabled_for_node candidates then None
         else if list_ex ft_enabled candidates then Some ''creation-node-feature-disabled''
         else Some ''creation-feature-disabled'')"

definition allow_charge_point_connection :: "'r conn_env \<Rightarrow> obj option \<Rightarrow> string \<Rightarrow> bool" where
  "allow_charge_point_connection env existing version =
     (existing \<noteq> None \<or> creation_feature_reason env version = None)"

subsection \<open>Acceptance\<close>

definition accept_connection :: "'r conn_env \<Rightarrow> string option \<Rightarrow> 'r tx_conn \<Rightarrow> bool \<times> 'r tx_conn" where
  "accept_connection env subprotocol c =
     (let existing = dget (connections (st (tc_store c))) (tc_store_key c);
          c1 = (case existing of
                  None \<Rightarrow> c
                | Some other \<Rightarrow>
                    effect (CloseConsumer other)
                      (on_state (release_ip_connection (env_client (ce_redis env)) (ce_token env)
                         (opt_text (ce_peer_ip env other)) other) c));
          enforce = (case existing of
                       Some other \<Rightarrow> (if ce_peer_ip env other = tc_client_ip c then ce_rate_rule env else True)
                     | None \<Rightarrow> True)
      in if enforce \<and> \<not> ce_rate_allowed env
         then (False, log_line (tc_store_key c)
                        (''Rejected connection from '' @ or_else (tc_client_ip c) ''unknown'' @ '': rate limit exceeded'')
                        (effect (CloseSelf (Some 4003)) c1))
         else (True,
           on_logs (\<lambda>s. s\<lparr>ls_logs := (ls_logs s)(ChargerLog := setdefault (tc_store_key c) [] (ls_logs s ChargerLog))\<rparr>)
             (on_state (\<lambda>s. s\<lparr>connections := dset (tc_store_key c) (tc_self c) (connections s)\<rparr>)
               (log_line (tc_store_key c)
                  (''Connected (subprotocol='' @ (case subprotocol of None \<Rightarrow> ''none'' | Some p \<Rightarrow> or_else p ''none'') @ '')'')
                  (effect (AcceptSelf subprotocol) c1)))))"

definition STATUS_RESET_UPDATES :: obj where
  "STATUS_RESET_UPDATES =
     [(''last_status'', PStr []), (''last_error_code'', PStr []), (''last_status_vendor_info'', PNone),
      (''last_status_timestamp'', PNone)]"

definition clear_cached_status_fields :: "'r tx_conn \<Rightarrow> 'r tx_conn" where
  "clear_cached_status_fields c =
     on_db (db_update_where ''Charger'' (has_fields [(''charger_id'', PStr (tc_charger_id c))]) STATUS_RESET_UPDATES) c"

text \<open>Save a column when it differs.\<close>

definition align_column :: "pyval \<Rightarrow> string \<Rightarrow> pyval \<Rightarrow> 'r tx_conn \<Rightarrow> 'r tx_conn" where
  "align_column pk field v c =
     (if charger_field (Some pk) field c \<noteq> v then on_db (db_save ''Charger'' pk [(field, v)]) c else c)"

definition ensure_charger_record :: "pyval option \<Rightarrow> 'r tx_conn \<Rightarrow> bool \<times> 'r tx_conn" where
  "ensure_charger_record existing c =
     (case db_get_or_create ''ChargingStation'' [(''station_id'', PStr (tc_charger_id c))] [(''last_path'', tc_path c)] (tc_db c) of
        (station, _, d) \<Rightarrow>
          (let c1 = c\<lparr>tc_station := Some station, tc_db := d\<rparr>
           in case existing of
                Some pk \<Rightarrow>
                  (let c2 = effect (RefreshManagerNode pk) (align_column pk ''charging_station'' station (c1\<lparr>tc_charger := Some pk\<rparr>))
                   in (False, clear_cached_status_fields (c2\<lparr>tc_aggregate := Some pk\<rparr>)))
              | None \<Rightarrow>
                  (case db_get_or_create ''Charger'' [(''charger_id'', PStr (tc_charger_id c1)), (''connector_id'', PNone)]
                          [(''last_path'', tc_path c1), (''charging_station'', station)] (tc_db c1) of
                     (pk, created, d2) \<Rightarrow>
                       (let c2 = align_column pk ''charging_station'' station (c1\<lparr>tc_charger := Some pk, tc_db := d2\<rparr>);
                            c3 = (if truthy (tc_path c2) then align_column pk ''last_path'' (tc_path c2) c2 else c2)
                        in (created, clear_cached_status_fields (c3\<lparr>tc_aggregate := Some pk\<rparr>))))))"

definition register_charger_logs :: "'r conn_env \<Rightarrow> 'r tx_conn \<Rightarrow> 'r tx_conn" where
  "register_charger_logs env c =
     (let location = (case tc_charger c of None \<Rightarrow> [] | Some pk \<Rightarrow> ce_location env pk)
      in on_logs (register_log_names_for_identity (tc_charger_id c) None (or_else location (tc_charger_id c))) c)"

definition restore_calls :: "'r conn_env \<Rightarrow> 'r tx_conn \<Rightarrow> 'r tx_conn" where
  "restore_calls env c =
     (case restore_pending_calls (ce_redis env) (tc_charger_id c) (tc_store c) of
        (restored, s) \<Rightarrow>
          (let c1 = c\<lparr>tc_store := s\<rparr>
           in if restored = [] then c1
              else log_line (tc_store_key c1)
                (''Restored '' @ nat_str (int (length restored)) @ '' pending call(s) after reconnect'') c1))"

subsection \<open>Connecting\<close>

definition serial_error_text :: "serial_error \<Rightarrow> string" where
  "serial_error_text e = (case e of BlankSerial \<Rightarrow> ''Serial Number cannot be blank.''
     | PlaceholderSerial \<Rightarrow> ''Serial Number placeholder values such as <charger_id> are not allowed.'')"

definition serial_rejection :: "'r conn_env \<Rightarrow> string option \<Rightarrow> serial_error \<Rightarrow> string" where
  "serial_rejection env source e =
     (let details = (case source of None \<Rightarrow> [] | Some s \<Rightarrow> [''serial_source='' @ s]) @
                    (if ce_query_string env = [] then [] else [''query_string='' @ str_repr (ce_query_string env)])
      in ''Rejected connection: '' @ serial_error_text e @
         (if details = [] then [] else '' ('' @ py_join ''; '' details @ '')''))"

definition preferred_version :: "'r conn_env \<Rightarrow> pyval option \<Rightarrow> 'r tx_conn \<Rightarrow> string" where
  "preferred_version env existing c =
     (case existing of
        None \<Rightarrow> []
      | Some pk \<Rightarrow>
          preferred_ocpp_version_value
            (case charger_field (Some pk) ''preferred_ocpp_version'' c of PStr s \<Rightarrow> s | _ \<Rightarrow> [])
            (ce_model_version env pk))"

definition admitted :: "'r conn_env \<Rightarrow> pyval option \<Rightarrow> string option \<Rightarrow> string \<Rightarrow> 'r tx_conn \<Rightarrow> bool \<times> 'r tx_conn" where
  "admitted env existing subprotocol version c =
     (let row = (case existing of None \<Rightarrow> None | Some pk \<Rightarrow> db_get ''Charger'' pk (tc_db c))
      in case enforce_ws_auth env row c of
           (False, c1) \<Rightarrow> (False, c1)
         | (True, c1) \<Rightarrow>
             (if \<not> allow_charge_point_connection env row version then (False, effect (CloseSelf None) c1)
              else accept_connection env subprotocol c1))"

definition connected :: "'r conn_env \<Rightarrow> pyval option \<Rightarrow> 'r tx_conn \<Rightarrow> 'r tx_conn" where
  "connected env existing c =
     (case ensure_charger_record existing c of
        (created, c1) \<Rightarrow>
          (let c2 = restore_calls env (register_charger_logs env c1)
           in if ce_forwarder env
              then effect KeepForwarder (if created then c2 else effect SyncForwarded c2)
              else effect ClearForwarder c2))"

definition begin_connection :: "'r conn_env \<Rightarrow> string \<Rightarrow> 'r tx_conn \<Rightarrow> 'r tx_conn" where
  "begin_connection env serial c =
     c\<lparr>tc_charger_id := serial, tc_connector := None, tc_store_key := pending_key serial,
       tc_aggregate := None, tc_header_ref := False, tc_path := PStr (ce_path env),
       tc_client_ip := (case resolve_client_ip (ce_proxies env) (ce_client env) (ce_headers env) of
                          None \<Rightarrow> [] | Some ip \<Rightarrow> ip)\<rparr>"

definition connect :: "'r conn_env \<Rightarrow> 'r tx_conn \<Rightarrow> bool \<times> 'r tx_conn" where
  "connect env c =
     (case extract_serial_identifier env of (source, raw_serial) \<Rightarrow>
        (case validate_serial (Some raw_serial) of
           Inl e \<Rightarrow>
             (False, effect (CloseSelf (Some 4003))
                       (log_line (pending_key (normalize_serial (Some raw_serial))) (serial_rejection env source e) c))
         | Inr serial \<Rightarrow>
             (let c1 = begin_connection env serial c;
                  existing = find_charger PNone c1
              in case negotiate_ocpp_version env (preferred_version env existing c1) of
                   (subprotocol, version) \<Rightarrow>
                     (case admitted env existing subprotocol version c1 of
                        (False, c2) \<Rightarrow> (False, c2)
                      | (True, c2) \<Rightarrow> (True, connected env existing c2)))))"

subsection \<open>Disconnecting\<close>

text \<open>
  Before the serial has been accepted the consumer has none of the attributes, and the defaults are
  the empty serial and its pending key.
\<close>

definition disconnect :: "'r conn_env \<Rightarrow> int \<Rightarrow> 'r tx_conn \<Rightarrow> 'r tx_conn" where
  "disconnect env close_code c =
     (let charger_id = tc_charger_id c; key = tc_store_key c;
          c1 = on_state (release_ip_connection (env_client (ce_redis env)) (ce_token env)
                 (opt_text (tc_client_ip c)) (tc_self c)) c;
          tx = (if charger_id = [] then None
                else get_transaction charger_id (opt_int (tc_connector c)) (st (tc_store c1)));
          c2 = (case tx of None \<Rightarrow> c1 | Some pk \<Rightarrow> effect (UpdateConsumption pk) c1);
          c3 = (if charger_id = [] then c2 else effect CancelConsumption c2);
          c4 = on_state (\<lambda>s. s\<lparr>connections := ddel (pending_key charger_id) (ddel key (connections s))\<rparr>) c3;
          c5 = close_session c4;
          c6 = (if charger_id = [] then c5
                else c5\<lparr>tc_store := clear_pending_calls (ce_redis env) charger_id (tc_store c5)\<rparr>)
      in log_line key (''Closed (code='' @ int_str close_code @ '')'') c6)"

text \<open>The same state in the hands of another consumer.\<close>

definition as_consumer :: "nat \<Rightarrow> string \<Rightarrow> string \<Rightarrow> int option \<Rightarrow> string \<Rightarrow> 'r tx_conn \<Rightarrow> 'r tx_conn" where
  "as_consumer self charger_id key connector client_ip c =
     c\<lparr>tc_self := self, tc_charger_id := charger_id, tc_store_key := key, tc_connector := connector,
       tc_client_ip := client_ip\<rparr>"

end
