(* ===== verification/StatusReportsProps.thy ===== *)
theory StatusReportsProps
  imports StatusReports TxEventsProps
begin

text \<open>
  StatusNotification end to end: the row of the named connector takes the reported status, error and
  availability and the alert table follows; a connector the server cannot read leaves the charger
  without an answer.
\<close>

subsection \<open>Queries after writes\<close>

lemma db_pks_update_other:
  "model \<noteq> n \<Longrightarrow> db_pks model p (dset (n, k) row d) = db_pks model p d"
  by (induction d) (auto simp: dset_def db_pks_def)

lemma db_pks_update_same:
  "dget d (n, k) = Some old \<Longrightarrow> p row = p old \<Longrightarrow> db_pks model p (dset (n, k) row d) = db_pks model p d"
  by (induction d) (auto simp: dset_def db_pks_def dget_def split: if_splits)

lemma db_pks_append:
  "dget d (n, k) = None \<Longrightarrow> p row \<Longrightarrow> db_pks n p (dset (n, k) row d) = db_pks n p d @ [k]"
  by (induction d) (auto simp: dset_def db_pks_def dget_def split: if_splits)

lemma db_pks_save:
  "(\<And>row. p (set_fields cols row) = p row) \<Longrightarrow> db_pks model p (db_save n k cols d) = db_pks model p d"
  by (auto simp: db_save_def db_pks_update_same split: option.split)

lemma db_pks_update_where:
  "(\<And>row. p (set_fields cols row) = p row) \<Longrightarrow> db_pks model p (db_update_where n q cols d) = db_pks model p d"
  by (induction d) (auto simp: db_update_where_def db_pks_def)

lemma dget_update_where:
  "dget (db_update_where n q cols d) (m, k) =
     map_option (\<lambda>row. if m = n \<and> q row then set_fields cols row else row) (dget d (m, k))"
  by (induction d) (auto simp: db_update_where_def dget_def)

lemma db_pks_mem: "dwf d \<Longrightarrow> pk \<in> set (db_pks model p d) \<longleftrightarrow> (\<exists>row. dget d (model, pk) = Some row \<and> p row)"
  by (force simp: db_pks_def dget_mem_iff [symmetric])

lemma db_first_pks: "db_first model p d = (case db_pks model p d of [] \<Rightarrow> None | pk # _ \<Rightarrow> Some pk)"
  by (simp add: db_first_def)

lemma db_firstD: "dwf d \<Longrightarrow> db_first model p d = Some pk \<Longrightarrow> \<exists>row. dget d (model, pk) = Some row \<and> p row"
  using db_pks_mem [of d pk model p] by (auto simp: db_first_def split: list.splits)

text \<open>Columns that leave a row's identity alone.\<close>

definition status_only :: "obj \<Rightarrow> bool" where
  "status_only cols \<longleftrightarrow> distinct (map fst cols) \<and> ''charger_id'' \<notin> fst ` set cols \<and> ''connector_id'' \<notin> fst ` set cols"

abbreviation identity_is :: "string \<Rightarrow> pyval \<Rightarrow> obj \<Rightarrow> bool" where
  "identity_is serial v \<equiv> has_fields [(''charger_id'', PStr serial), (''connector_id'', v)]"

lemma identity_set_fields: "status_only cols \<Longrightarrow> identity_is serial v (set_fields cols row) = identity_is serial v row"
  using set_dkeys_iff [of "''charger_id''" cols] set_dkeys_iff [of "''connector_id''" cols]
  by (auto simp: status_only_def has_fields_def jget_set_fields dkeys_def split: option.splits)

lemma find_charger_pks:
  "find_charger v c = (case db_pks ''Charger'' (identity_is (tc_charger_id c) v) (tc_db c) of [] \<Rightarrow> None | pk # _ \<Rightarrow> Some pk)"
  by (simp add: find_charger_def db_first_def)

lemma find_charger_save [simp]:
  "status_only cols \<Longrightarrow> find_charger v (on_db (db_save n k cols) c) = find_charger v c"
  by (simp add: find_charger_pks db_pks_save identity_set_fields)

lemma find_charger_update [simp]:
  "status_only cols \<Longrightarrow> find_charger v (on_db (db_update_where n q cols) c) = find_charger v c"
  by (simp add: find_charger_pks db_pks_update_where identity_set_fields)

lemma find_charger_cong: "tc_db c' = tc_db c \<Longrightarrow> tc_charger_id c' = tc_charger_id c \<Longrightarrow> find_charger v c' = find_charger v c"
  by (simp add: find_charger_def)

lemma find_charger_row:
  "dwf (tc_db c) \<Longrightarrow> find_charger v c = Some pk \<Longrightarrow>
     \<exists>row. dget (tc_db c) (''Charger'', pk) = Some row \<and> identity_is (tc_charger_id c) v row"
  unfolding find_charger_def by (rule db_firstD)

subsection \<open>The row of a connector\<close>

lemma find_charger_station [simp]: "find_charger v (ensure_station c) = find_charger v c"
  by (auto simp: find_charger_pks ensure_station_def db_get_or_create_def db_create_def Let_def
      db_pks_update_other split: option.split)

lemma dwf_station [simp]: "dwf (tc_db c) \<Longrightarrow> dwf (tc_db (ensure_station c))"
  by (auto simp: ensure_station_def db_get_or_create_def db_create_def Let_def split: option.split)

lemma station_status_only: "status_only [(''charging_station'', v)]"
  by (simp add: status_only_def)

lemma select_row_found:
  "find_charger (PInt i) (select_connector_row i c) \<noteq> None"
  "dwf (tc_db c) \<Longrightarrow> dwf (tc_db (select_connector_row i c))"
  "tc_charger (select_connector_row i c) \<noteq> None"
proof -
  have fresh: "dget (tc_db c) (''Charger'', PInt (db_next_pk ''Charger'' (tc_db c))) = None"
    by (rule db_next_pk_fresh)
  have frame: "find_charger v (effect e c) = find_charger v c" for v e and c :: "'a tx_conn"
    by (rule find_charger_cong) simp_all
  have set: "find_charger v (c\<lparr>tc_charger := x\<rparr>) = find_charger v c" for v x
    by (rule find_charger_cong) simp_all
  show "find_charger (PInt i) (select_connector_row i c) \<noteq> None"
  proof (cases "find_charger (PInt i) c")
    case None
    then have "db_pks ''Charger'' (identity_is (tc_charger_id c) (PInt i)) (tc_db c) = []"
      by (simp add: find_charger_pks split: list.splits)
    with None show ?thesis
      by (simp add: select_connector_row_def Let_def db_create_def frame find_charger_pks
          db_pks_append [OF fresh] has_fields_def)
  qed (simp add: select_connector_row_def Let_def frame set station_status_only)
  show "dwf (tc_db c) \<Longrightarrow> dwf (tc_db (select_connector_row i c))"
    by (auto simp: select_connector_row_def Let_def db_create_def db_save_def split: option.split)
  show "tc_charger (select_connector_row i c) \<noteq> None"
    by (simp add: select_connector_row_def Let_def db_create_def split: option.split)
qed

lemma take_key_db [simp]: "tc_db (take_key new c) = tc_db c" "tc_charger (take_key new c) = tc_charger c"
  by (simp_all add: take_key_def Let_def move_identity_def split: option.split)

text \<open>A consumer that has a row has one of its own charger.\<close>

definition own_row :: "'r tx_conn \<Rightarrow> bool" where
  "own_row c \<longleftrightarrow> (\<forall>pk. tc_charger c = Some pk \<longrightarrow> charger_field (Some pk) ''charger_id'' c = PStr (tc_charger_id c))"

lemma assign_value_row:
  assumes "own_row c" "dwf (tc_db c)"
  shows "\<exists>pk. find_charger (PInt i) (assign_connector_value i c) = Some pk"
    "dwf (tc_db (assign_connector_value i c))"
    "tc_charger (assign_connector_value i c) \<noteq> None"
    "tc_connector (assign_connector_value i c) = Some i"
    "tc_charger_id (assign_connector_value i c) = tc_charger_id c"
proof -
  let ?c = "assign_connector_value i c"
  have "find_charger (PInt i) ?c \<noteq> None \<and> dwf (tc_db ?c) \<and> tc_charger ?c \<noteq> None \<and> tc_connector ?c = Some i \<and>
    tc_charger_id ?c = tc_charger_id c"
  proof (cases "tc_charger c \<noteq> None \<and> tc_connector c = Some i \<and> charger_field (tc_charger c) ''connector_id'' c = PInt i")
    case True
    then obtain pk row where pk: "tc_charger c = Some pk" "dget (tc_db c) (''Charger'', pk) = Some row"
      "jget row ''connector_id'' = PInt i"
      by (auto simp: charger_field_def db_get_def split: option.splits)
    then have "identity_is (tc_charger_id c) (PInt i) row"
      using assms(1) by (simp add: own_row_def charger_field_def db_get_def has_fields_def)
    then have "pk \<in> set (db_pks ''Charger'' (identity_is (tc_charger_id c) (PInt i)) (tc_db c))"
      using pk(2) db_pks_mem [OF assms(2)] by blast
    then have "find_charger (PInt i) c \<noteq> None" by (auto simp: find_charger_pks split: list.split)
    with True assms(2) show ?thesis by (simp add: assign_connector_value_def)
  next
    case False
    have "find_charger (PInt i) ?c = find_charger (PInt i) (select_connector_row i (ensure_station c))"
      using False by (intro find_charger_cong) (auto simp: assign_connector_value_def Let_def)
    then have "find_charger (PInt i) ?c \<noteq> None" by (simp add: select_row_found)
    moreover have "dwf (tc_db ?c)" "tc_charger ?c \<noteq> None" "tc_connector ?c = Some i" "tc_charger_id ?c = tc_charger_id c"
      using False assms(2) select_row_found(3) [of i "ensure_station c"]
      by (auto simp: assign_connector_value_def Let_def select_row_found(1,2))
    ultimately show ?thesis by blast
  qed
  then show "\<exists>pk. find_charger (PInt i) ?c = Some pk" "dwf (tc_db ?c)" "tc_charger ?c \<noteq> None"
    "tc_connector ?c = Some i" "tc_charger_id ?c = tc_charger_id c" by auto
qed

subsection \<open>The reported status is recorded\<close>

lemma status_columns_only: "status_only (status_columns env d status ecode t)"
  by (auto simp: status_only_def status_columns_def Let_def)

lemma status_columns_get:
  "jget (set_fields (status_columns env d status ecode t) row) ''last_status'' = PStr status"
  "jget (set_fields (status_columns env d status ecode t) row) ''last_error_code'' = PStr ecode"
  "jget (set_fields (status_columns env d status ecode t) row) ''last_status_timestamp'' = time_value env t"
  by (simp_all add: status_columns_def Let_def jget_set_fields)

lemma write_status_frame [simp]:
  "status_only cols \<Longrightarrow> find_charger v (write_status target cols c) = find_charger v c"
  "tc_charger (write_status target cols c) = tc_charger c"
  "tc_connector (write_status target cols c) = tc_connector c"
  "tc_charger_id (write_status target cols c) = tc_charger_id c"
  "tc_store_key (write_status target cols c) = tc_store_key c"
  by (simp_all add: write_status_def split: option.split)

lemma dwf_save [simp]: "dwf d \<Longrightarrow> dwf (db_save n k cols d)"
  by (simp add: db_save_def split: option.split)

lemma dwf_write_status [simp]: "dwf (tc_db c) \<Longrightarrow> dwf (tc_db (write_status target cols c))"
  by (simp add: write_status_def split: option.split)

text \<open>Writing the same columns to any rows keeps them where they have been written.\<close>

definition has_cols :: "obj \<Rightarrow> pyval \<Rightarrow> 'r tx_conn \<Rightarrow> bool" where
  "has_cols cols pk c \<longleftrightarrow> (\<exists>row. dget (tc_db c) (''Charger'', pk) = Some (set_fields cols row))"

lemma has_cols_write: "has_cols cols pk c \<Longrightarrow> has_cols cols pk (write_status target cols c)"
  by (auto simp: has_cols_def write_status_def split: option.split)

lemma write_has_cols:
  "dget (tc_db c) (''Charger'', pk) = Some row \<Longrightarrow> has_cols cols pk (write_status (Some pk) cols c)"
  by (auto simp: has_cols_def write_status_def)

lemma update_records_named:
  assumes "find_charger (PInt i) c = Some pk" "tc_charger c = Some primary" "dwf (tc_db c)" "status_only cols"
  shows "\<exists>c'. update_status_notification_records (PInt i) cols c = (Inr (), c') \<and> has_cols cols pk c' \<and>
    find_charger (PInt i) c' = Some pk \<and> dwf (tc_db c') \<and> tc_connector c' = tc_connector c \<and>
    tc_charger_id c' = tc_charger_id c"
proof -
  obtain row where "dget (tc_db c) (''Charger'', pk) = Some row"
    using find_charger_row [OF assms(3,1)] by blast
  then have "has_cols cols pk (write_status (other_row (PInt i) primary (write_status (Some pk) cols c)) cols
      (write_status (Some pk) cols c))"
    by (intro has_cols_write write_has_cols)
  then show ?thesis
    using assms by (simp add: update_status_notification_records_def named_row_def connector_filter_def Let_def)
qed

lemma available_transition_frame [simp]:
  "tc_db (handle_available_status_transition v c) = tc_db c"
  "tc_charger_id (handle_available_status_transition v c) = tc_charger_id c"
  "tc_connector (handle_available_status_transition v c) = tc_connector c"
  by (simp_all add: handle_available_status_transition_def take_tx_def close_session_def split: option.split)

lemma log_status_frame:
  "json_text (PDict d) \<noteq> None \<Longrightarrow> \<exists>c'. log_status d c = (Inr (), c') \<and> tc_db c' = tc_db c \<and>
     tc_charger_id c' = tc_charger_id c \<and> tc_connector c' = tc_connector c"
  by (auto simp: log_status_def)

text \<open>What the report means for a row: its status columns and, where the status says so, availability.\<close>

definition shows_status :: "status_env \<Rightarrow> string \<Rightarrow> string \<Rightarrow> int \<Rightarrow> pyval \<Rightarrow> 'r tx_conn \<Rightarrow> bool" where
  "shows_status env status ecode t pk c \<longleftrightarrow>
     charger_field (Some pk) ''last_status'' c = PStr status \<and>
     charger_field (Some pk) ''last_error_code'' c = PStr ecode \<and>
     charger_field (Some pk) ''last_status_timestamp'' c = time_value env t \<and>
     (\<forall>state. availability_state_from_status status = Some state \<longrightarrow>
        charger_field (Some pk) ''availability_state'' c = PStr state)"

lemma sync_availability_shows:
  assumes "find_charger (PInt i) c = Some pk" "dwf (tc_db c)" "has_cols (status_columns env d status ecode t) pk c"
  shows "shows_status env status ecode t pk (sync_availability_state_from_status status (time_value env t) (Some i) c)"
proof -
  obtain row where row: "dget (tc_db c) (''Charger'', pk) = Some row" "identity_is (tc_charger_id c) (PInt i) row"
    using find_charger_row [OF assms(2,1)] by blast
  obtain old where old: "row = set_fields (status_columns env d status ecode t) old"
    using assms(3) row(1) by (auto simp: has_cols_def)
  show ?thesis
  proof (cases "availability_state_from_status status")
    case None
    then show ?thesis
      using row(1) by (simp add: sync_availability_state_from_status_def shows_status_def charger_field_def
          db_get_def old status_columns_get)
  next
    case (Some state)
    then show ?thesis
      using row by (simp add: sync_availability_state_from_status_def shows_status_def charger_field_def
          db_get_def update_availability_state_records_def opt_int_def dget_update_where jget_set_fields)
        (simp add: old status_columns_get)
  qed
qed


text \<open>
  A connector the server cannot read as an integer (the spellings of the whole station that it
  accepts everywhere else included) raises out of the handler: the charger gets no answer and no
  status or alert is recorded.
\<close>

lemma unreadable_connector_unanswered:
  fixes payload :: pyval
  defines "d \<equiv> normalized_status_notification_payload payload"
  assumes s: "jget d ''connectorId'' = PStr s" "int_of_str s = None"
    and read: "stripped_field (jget d ''status'') = Inr status" "stripped_field (jget d ''errorCode'') = Inr ecode"
      "status_timestamp env (jget d ''timestamp'') = Inr t"
  shows "\<exists>c'. handle_status_notification env payload (c, al) = (Inl (PyError ValueError), c', al) \<and>
    (s \<noteq> [] \<and> s \<noteq> ''-'' \<longrightarrow> c' = c)"
proof -
  obtain c1 where as: "assign_connector (PStr s) c = (Inr (), c1)" "s \<noteq> [] \<and> s \<noteq> ''-'' \<longrightarrow> c1 = c"
    using s(2) by (cases "s = [] \<or> s = ''-''") (auto simp: assign_connector_def parse_connector_def)
  have "update_status_notification_records (PStr s) cols c1 = (Inl ValueError, c1)" for cols
    using s(2) by (simp add: update_status_notification_records_def named_row_def connector_filter_def)
  then show ?thesis
    using as(2)
    by (simp add: handle_status_notification_def Let_def d_def [symmetric] s(1) as(1) read record_status_def)
qed

subsection \<open>Concrete reports\<close>

lemma those_None_iff: "those xs = None \<longleftrightarrow> None \<in> set xs"
  by (induction xs) (auto split: option.splits)

lemma json_text_dict: "\<forall>kv \<in> set d. json_text (snd kv) \<noteq> None \<Longrightarrow> json_text (PDict d) \<noteq> None"
  by (auto simp: those_None_iff)

definition demo_status_env :: status_env where
  "demo_status_env = \<lparr>se_now = 100, se_parse = (\<lambda>s. Inr None), se_text = int_str, se_link = ''/admin/ocpp/charger/''\<rparr>"

definition demo_report :: "pyval \<Rightarrow> pyval" where
  "demo_report connector = PDict [(''connectorId'', connector), (''status'', PStr ''Faulted''), (''errorCode'', PStr ''GroundFailure'')]"

lemma demo_report_fields:
  assumes "connector \<noteq> PNone"
  defines "d \<equiv> normalized_status_notification_payload (demo_report connector)"
  shows "d = [(''connectorId'', connector), (''status'', PStr ''Faulted''), (''errorCode'', PStr ''GroundFailure'')]"
  using assms by (simp add: normalized_status_notification_payload_def demo_report_def as_obj_def Let_def
      status_connector_def set_present_def not_none_def dset_def jget_def dget_def)


lemma unreadable_connector_unanswered_witness:
  "handle_status_notification demo_status_env (demo_report (PStr ''A1'')) (demo_conn, []) =
     (Inl (PyError ValueError), demo_conn, [])"
proof -
  have d: "normalized_status_notification_payload (demo_report (PStr ''A1'')) =
    [(''connectorId'', PStr ''A1''), (''status'', PStr ''Faulted''), (''errorCode'', PStr ''GroundFailure'')]"
    by (rule demo_report_fields) simp
  have "int_of_str ''A1'' = None"
    by code_simp
  then show ?thesis
    using unreadable_connector_unanswered [of "demo_report (PStr ''A1'')" "''A1''" "py_strip ''Faulted''"
        "py_strip ''GroundFailure''" demo_status_env 100 demo_conn "[]"]
    unfolding d by (simp add: stripped_field_def status_timestamp_def demo_status_env_def)
qed

end
