(* ===== verification/CallMailbox.thy ===== *)
theory CallMailbox
  imports PendingCallsProps
begin

text \<open>
  What the four dictionaries of \<open>apps/ocpp/store/pending_calls.py\<close> promise for one message id: a
  mailbox with an outstanding call, a flag that a thread may be waiting, and a slot for the reply.
  \<open>mailbox_step\<close> is the abstract specification of every operation; the theorem shows that the module
  implements it in every history, whatever Redis answers.
\<close>

subsection \<open>The specification\<close>

record mailbox =
  mb_call :: "obj option"
  mb_waiting :: bool
  mb_reply :: "obj option"

definition empty_mailbox :: mailbox where
  "empty_mailbox = \<lparr>mb_call = None, mb_waiting = False, mb_reply = None\<rparr>"

definition issue :: "obj \<Rightarrow> mailbox \<Rightarrow> mailbox" where
  "issue md b = \<lparr>mb_call = Some md, mb_waiting = True, mb_reply = None\<rparr>"

definition of_charger :: "string \<Rightarrow> mailbox \<Rightarrow> bool" where
  "of_charger c b = (case mb_call b of None \<Rightarrow> False | Some md \<Rightarrow> jget md ''charger_id'' = PStr c)"

text \<open>Operations that do not name the message id.\<close>

fun names_other :: "string \<Rightarrow> call_op \<Rightarrow> bool" where
  "names_other m (RegisterCall n md) = (n \<noteq> m)"
| "names_other m (PopCall n) = (n \<noteq> m)"
| "names_other m (RecordResult n co) = (n \<noteq> m)"
| "names_other m (WaitStart n) = (n \<noteq> m)"
| "names_other m (WaitFinish n e) = (n \<noteq> m)"
| "names_other m (ArmTimer t) = True"
| "names_other m (TrackTimer n h) = True"
| "names_other m (ScheduleTimeout t) = True"
| "names_other m op = False"

inductive mailbox_step :: "string \<Rightarrow> call_op \<Rightarrow> mailbox \<Rightarrow> mailbox \<Rightarrow> bool" for m :: string where
  other: "names_other m op \<Longrightarrow> mailbox_step m op b b"
| issued: "mailbox_step m (RegisterCall m md) b (issue md b)"
| popped: "mailbox_step m (PopCall m) b (b\<lparr>mb_call := None\<rparr>)"
| answered: "mailbox_step m (RecordResult m co) b (b\<lparr>mb_waiting := False, mb_reply := Some (result_entry co)\<rparr>)"
| collected: "mailbox_step m (WaitStart m) b (b\<lparr>mb_reply := None\<rparr>)"
| woken: "mailbox_step m (WaitFinish m e) b (b\<lparr>mb_waiting := False, mb_reply := None\<rparr>)"
| gave_up: "mailbox_step m (WaitFinish m e) b b"
| noticed: "mb_call b = Some md \<Longrightarrow> \<not> truthy (jget md ''timeout_notice_sent'') \<Longrightarrow>
    mailbox_step m (FireTimer h) b (b\<lparr>mb_call := Some (dset ''timeout_notice_sent'' (PBool True) md)\<rparr>)"
| unnoticed: "mailbox_step m (FireTimer h) b b"
| disconnected: "of_charger c b \<Longrightarrow> mailbox_step m (ClearCharger c) b empty_mailbox"
| stayed: "\<not> of_charger c b \<Longrightarrow> mailbox_step m (ClearCharger c) b b"
| restored: "mb_call b = None \<Longrightarrow> py_lower (py_str (por (jget md ''charger_id'') (PStr []))) = py_lower c \<Longrightarrow>
    mailbox_step m (RestoreCharger c) b (issue md b)"
| unrestored: "mailbox_step m (RestoreCharger c) b b"

inductive mailbox_run :: "string \<Rightarrow> mailbox \<Rightarrow> call_op list \<Rightarrow> mailbox \<Rightarrow> bool" for m :: string and b :: mailbox where
  run_nil: "mailbox_run m b [] b"
| run_snoc: "mailbox_run m b ops b' \<Longrightarrow> mailbox_step m op b' b'' \<Longrightarrow> mailbox_run m b (ops @ [op]) b''"

subsection \<open>The store seen as mailboxes\<close>

definition mailbox :: "string \<Rightarrow> ('c, 't, 'r) ocpp_store \<Rightarrow> mailbox" where
  "mailbox m s =
     \<lparr>mb_call = dget (pending_calls s) m, mb_waiting = (dget (call_events s) m \<noteq> None),
      mb_reply = dget (call_results s) m\<rparr>"

lemma mailbox_sel [simp]:
  "mb_call (mailbox m s) = dget (pending_calls s) m"
  "mb_waiting (mailbox m s) = (dget (call_events s) m \<noteq> None)"
  "mb_reply (mailbox m s) = dget (call_results s) m"
  by (simp_all add: mailbox_def)

lemma mailbox_cong:
  "pending_calls s' = pending_calls s \<Longrightarrow> call_events s' = call_events s \<Longrightarrow>
     call_results s' = call_results s \<Longrightarrow> mailbox m s' = mailbox m s"
  by (simp add: mailbox_def)

lemma mailbox_mirror [simp]:
  "mailbox m (set_redis r s) = mailbox m s"
  "mailbox m (store_json_redis env k d s) = mailbox m s"
  "mailbox m (clear_pending_redis env k s) = mailbox m s"
  "mailbox m (cancel_handle k s) = mailbox m s"
  by (rule mailbox_cong; simp)+

lemma mailbox_load: "load_json_redis env k s = (d, s') \<Longrightarrow> mailbox m s' = mailbox m s"
  by (auto intro!: mailbox_cong dest: load_json_frame)

lemma mailbox_register [simp]:
  "mailbox m (register_pending_call env n md s) = (if m = n then issue md (mailbox m s) else mailbox m s)"
  by (simp add: register_pending_call_def mirror_defs Let_def) (simp add: mailbox_def issue_def)

lemma mailbox_pop [simp]:
  "mailbox m (snd (pop_pending_call env n s)) =
     (if m = n then (mailbox m s)\<lparr>mb_call := None\<rparr> else mailbox m s)"
proof -
  have "mailbox m (s\<lparr>pending_calls := ddel n (pending_calls s)\<rparr>) =
     (if m = n then (mailbox m s)\<lparr>mb_call := None\<rparr> else mailbox m s)" by (simp add: mailbox_def)
  then show ?thesis
    by (auto simp: pop_pending_call_def mirror_defs Let_def split: option.splits prod.splits
        dest: mailbox_load [where m = m])
qed

lemma mailbox_record [simp]:
  "mailbox m (record_pending_call_result env n co s) =
     (if m = n then (mailbox m s)\<lparr>mb_waiting := False, mb_reply := Some (result_entry co)\<rparr> else mailbox m s)"
proof -
  have set: "mailbox m (t\<lparr>events_set := x\<rparr>) = mailbox m t" for t :: "('a, 'b, 'c) ocpp_store" and x
    by (simp add: mailbox_def)
  show ?thesis
    by (simp add: record_pending_call_result_def mirror_defs Let_def set mailbox_def split: option.split)
qed

lemma mailbox_wait_start [simp]:
  "mailbox m (snd (wait_for_pending_call_start env n s)) =
     (if m = n then (mailbox m s)\<lparr>mb_reply := None\<rparr> else mailbox m s)"
proof -
  have del: "mailbox m (s\<lparr>call_results := ddel n (call_results s)\<rparr>) =
     (if m = n then (mailbox m s)\<lparr>mb_reply := None\<rparr> else mailbox m s)" by (simp add: mailbox_def)
  have none: "dget (call_results s) n = None \<Longrightarrow> (mailbox n s)\<lparr>mb_reply := None\<rparr> = mailbox n s"
    by (simp add: mailbox_def)
  show ?thesis
    by (auto simp: wait_for_pending_call_start_def mirror_defs del none
        split: option.split prod.split dest: mailbox_load [where m = m])
qed

lemma mailbox_wait_finish:
  "mailbox m (snd (wait_for_pending_call_finish env n e s)) =
     (if m = n \<and> e \<in> set (events_set s) then (mailbox m s)\<lparr>mb_waiting := False, mb_reply := None\<rparr>
      else mailbox m s)"
proof -
  have "mailbox m (s\<lparr>call_results := ddel n (call_results s), call_events := ddel n (call_events s)\<rparr>) =
     (if m = n then (mailbox m s)\<lparr>mb_waiting := False, mb_reply := None\<rparr> else mailbox m s)"
    by (simp add: mailbox_def)
  then show ?thesis
    by (auto simp: wait_for_pending_call_finish_def mirror_defs split: option.split prod.split
        dest: mailbox_load [where m = m])
qed

lemma mailbox_timers [simp]:
  "mailbox m (snd (arm_call_timer t s)) = mailbox m s"
  "mailbox m (track_call_timer n h s) = mailbox m s"
  "mailbox m (schedule_call_timeout t s) = mailbox m s"
  by (simp_all add: mailbox_def arm_call_timer_def track_call_timer_def schedule_call_timeout_def Let_def)

lemma mailbox_notify:
  "mailbox m (notify_timeout t s) = mailbox m s \<or>
   (\<exists>md. dget (pending_calls s) m = Some md \<and> \<not> truthy (jget md ''timeout_notice_sent'') \<and>
      mailbox m (notify_timeout t s) =
        (mailbox m s)\<lparr>mb_call := Some (dset ''timeout_notice_sent'' (PBool True) md)\<rparr>)"
  by (auto simp: notify_timeout_def mailbox_def Let_def split: option.splits)

lemma mailbox_fire: "mailbox_step m (FireTimer h) (mailbox m s) (mailbox m (fire_timer h s))"
proof (cases "dget (live_timers s) h")
  case None
  then show ?thesis by (simp add: fire_timer_def unnoticed)
next
  case (Some t)
  let ?s = "s\<lparr>live_timers := ddel h (live_timers s)\<rparr>"
  have "mailbox m ?s = mailbox m s" by (rule mailbox_cong) simp_all
  with mailbox_notify [of m t ?s] Some show ?thesis
    by (auto simp: fire_timer_def intro: unnoticed noticed [of "mailbox m s", simplified])
qed

lemma mailbox_clear_fold:
  "mailbox m (fold (clear_one_call env) ks s) = (if m \<in> set ks then empty_mailbox else mailbox m s)"
proof (induction ks arbitrary: s)
  case (Cons k ks)
  have "mailbox m (clear_one_call env k s) = (if m = k then empty_mailbox else mailbox m s)"
    by (simp add: clear_one_call_def) (simp add: mailbox_def empty_mailbox_def)
  with Cons show ?case by (cases "m = k") auto
qed simp

lemma mailbox_clear:
  assumes "dwf (pending_calls s)"
  shows "mailbox m (clear_pending_calls env c s) = (if of_charger c (mailbox m s) then empty_mailbox else mailbox m s)"
proof -
  have "mailbox m (clear_pending_calls env c s) =
      mailbox m (fold (clear_one_call env) (charger_calls c (pending_calls s)) s)"
    by (rule mailbox_cong) (simp_all add: clear_pending_calls_def Let_def)
  then show ?thesis
    using assms by (auto simp: mailbox_clear_fold charger_calls_dwf of_charger_def split: option.splits)
qed

lemma mailbox_restore_known:
  "dget (pending_calls s) m \<noteq> None \<Longrightarrow> mailbox m (snd (restore_keys env c ks rs s)) = mailbox m s"
  by (induction env c ks rs s rule: restore_keys.induct)
    (auto simp: Let_def split: option.split prod.split)

definition restored_box :: "string \<Rightarrow> mailbox \<Rightarrow> mailbox \<Rightarrow> bool" where
  "restored_box c b b' = (b' = b \<or> (mb_call b = None \<and>
     (\<exists>md. py_lower (py_str (por (jget md ''charger_id'') (PStr []))) = py_lower c \<and> b' = issue md b)))"

lemma mailbox_restore_keys:
  "restored_box c (mailbox m s) (mailbox m (snd (restore_keys env c ks rs s)))"
proof (induction ks arbitrary: rs s)
  case (Cons key ks)
  have again: "restored_box c (mailbox m s) (mailbox m (snd (restore_keys env c ks rs (set_redis r s))))" for rs r
    using Cons.IH [of "set_redis r s" rs] by simp
  have added: "restored_box c (mailbox m s)
      (mailbox m (snd (restore_keys env c ks rs (register_pending_call env n md (set_redis r s)))))"
    if "dget (pending_calls s) n = None" "py_lower (py_str (por (jget md ''charger_id'') (PStr []))) = py_lower c"
    for rs r n md
  proof (cases "m = n")
    case True
    then show ?thesis using that by (auto simp: restored_box_def mailbox_restore_known)
  next
    case False
    then show ?thesis using Cons.IH [of "register_pending_call env n md (set_redis r s)" rs] by simp
  qed
  have same: "restored_box c b b" for b by (simp add: restored_box_def)
  show ?case
    by (simp add: Let_def again added same split: option.split prod.split)
qed (simp add: restored_box_def)

lemma mailbox_restore:
  "mailbox_step m (RestoreCharger c) (mailbox m s) (mailbox m (snd (restore_pending_calls env c s)))"
proof (cases "redis (st s)")
  case None
  then show ?thesis by (simp add: restore_pending_calls_def unrestored)
next
  case (Some r)
  obtain reply r1 where scan: "rc_scan (env_client env) (pending_metadata_key ''*'') r = (reply, r1)" by fastforce
  have "mailbox_step m (RestoreCharger c) b b'" if "restored_box c b b'" for b b'
    using that by (auto simp: restored_box_def intro: unrestored restored)
  with mailbox_restore_keys [of c m "set_redis r1 s" env "the reply" "[]"] Some scan show ?thesis
    by (cases reply) (auto simp: restore_pending_calls_def intro: unrestored)
qed

lemma mailbox_run_op:
  assumes "dwf (pending_calls s)"
  shows "mailbox_step m op (mailbox m s) (mailbox m (run_op env op s))"
proof (cases op)
  case (WaitFinish n e)
  then show ?thesis by (cases "n = m") (auto simp: mailbox_wait_finish intro: other woken gave_up)
next
  case (ClearCharger c)
  then show ?thesis using assms by (auto simp: mailbox_clear intro: disconnected stayed)
qed (auto simp: mailbox_fire mailbox_restore intro: other issued popped answered collected)

lemma dwf_history: "dwf (pending_calls s) \<Longrightarrow> dwf (pending_calls (fold (run_op env) ops s))"
  by (induction ops arbitrary: s) (simp_all add: dwf_run_op)

text \<open>
  C2: refinement.  Every history of the module's operations, with whatever Redis answers, is a run of
  the mailbox specification for every message id.
\<close>

theorem pending_calls_refine_mailboxes:
  assumes "dwf (pending_calls s)"
  shows "mailbox_run m (mailbox m s) ops (mailbox m (fold (run_op env) ops s))"
proof (induction ops rule: rev_induct)
  case Nil
  show ?case by (simp add: run_nil)
next
  case (snoc op ops)
  from mailbox_run_op [OF dwf_history [OF assms, of env ops], of m op env]
  show ?case by (simp add: run_snoc [OF snoc])
qed

theorem pending_calls_refine_mailboxes_witness:
  "mailbox_run ''m1'' empty_mailbox
     [RegisterCall ''m1'' [(''charger_id'', PStr ''CP1'')], PopCall ''m1'', ClearCharger ''CP1'']
     (issue [(''charger_id'', PStr ''CP1'')] empty_mailbox\<lparr>mb_call := None\<rparr>)"
proof -
  let ?s = "init_ocpp_store None :: (nat, nat, unit) ocpp_store"
  let ?ops = "[RegisterCall ''m1'' [(''charger_id'', PStr ''CP1'')], PopCall ''m1'', ClearCharger ''CP1'']"
  have dwf: "dwf (pending_calls ?s)" by (simp add: init_ocpp_store_def)
  have start: "mailbox ''m1'' ?s = empty_mailbox"
    by (simp add: mailbox_def init_ocpp_store_def empty_mailbox_def)
  have "mailbox ''m1'' (fold (run_op no_redis_env) ?ops ?s) =
      issue [(''charger_id'', PStr ''CP1'')] empty_mailbox\<lparr>mb_call := None\<rparr>"
    using dwf by (simp add: mailbox_clear start of_charger_def)
  then show ?thesis
    using pending_calls_refine_mailboxes [OF dwf, of "''m1''" ?ops no_redis_env] by (simp only: start)
qed

subsection \<open>Replies are neither invented nor stale\<close>

text \<open>Operations after which a reply recorded before is gone.\<close>

fun empties :: "string \<Rightarrow> call_op \<Rightarrow> bool" where
  "empties m (RegisterCall n md) = (n = m)"
| "empties m (WaitStart n) = (n = m)"
| "empties m op = False"

lemma reply_step:
  assumes "mailbox_step m op b b'" "mb_reply b' = Some r"
  shows "(\<exists>co. op = RecordResult m co \<and> r = result_entry co) \<or> (mb_reply b = Some r \<and> \<not> empties m op)"
  using assms
proof cases
  case other
  then show ?thesis using assms(2) by (cases op) auto
qed (use assms(2) in \<open>auto simp: issue_def empty_mailbox_def\<close>)

lemma reply_run:
  "mailbox_run m b ops b' \<Longrightarrow> mb_reply b = None \<Longrightarrow> mb_reply b' = Some r \<Longrightarrow>
     \<exists>before co after. ops = before @ RecordResult m co # after \<and> r = result_entry co \<and>
       (\<forall>op \<in> set after. \<not> empties m op)"
proof (induction arbitrary: r rule: mailbox_run.induct)
  case run_nil
  then show ?case by simp
next
  case (run_snoc ops b' op b'')
  from reply_step [OF run_snoc.hyps(2) run_snoc.prems(2)] show ?case
  proof (elim disjE exE conjE)
    fix co assume "op = RecordResult m co" "r = result_entry co"
    then show ?thesis by (intro exI [of _ ops] exI [of _ co] exI [of _ "[]"]) simp
  next
    assume "mb_reply b' = Some r" "\<not> empties m op"
    with run_snoc.IH [OF run_snoc.prems(1)] obtain before co after where
      "ops = before @ RecordResult m co # after" "r = result_entry co" "\<forall>op \<in> set after. \<not> empties m op"
      by blast
    with \<open>\<not> empties m op\<close> show ?thesis
      by (intro exI [of _ before] exI [of _ co] exI [of _ "after @ [op]"]) simp
  qed
qed

text \<open>
  A thread that finds a reply in memory finds one that was recorded for its message id since the
  id was last issued and last asked for: replies of an earlier use of the id are never handed out.
\<close>

lemma memory_reply_fresh:
  assumes "dget (call_results (fold (run_op env) ops (init_ocpp_store r :: ('c, 't, 'r) ocpp_store))) m = Some d"
  shows "\<exists>before co after. ops = before @ RecordResult m co # after \<and> d = result_entry co \<and>
    (\<forall>op \<in> set after. \<not> empties m op)"
proof -
  let ?s = "init_ocpp_store r :: ('c, 't, 'r) ocpp_store"
  have "dwf (pending_calls ?s)" "mb_reply (mailbox m ?s) = None" by (simp_all add: init_ocpp_store_def)
  moreover have "mb_reply (mailbox m (fold (run_op env) ops ?s)) = Some d" using assms by simp
  moreover have "mailbox_run m (mailbox m ?s) ops (mailbox m (fold (run_op env) ops ?s))"
    by (induction ops rule: rev_induct)
      (simp_all add: run_nil run_snoc mailbox_run_op dwf_history init_ocpp_store_def)
  ultimately show ?thesis using reply_run by blast
qed

text \<open>A first use of the id is answered and collected, the id is issued again and answered.\<close>

definition demo_outcome :: "string \<Rightarrow> call_outcome" where
  "demo_outcome reason =
     \<lparr>co_metadata = [], co_success = False, co_payload = PNone, co_error_code = PStr reason,
      co_error_description = PNone, co_error_details = PNone\<rparr>"

lemma memory_reply_fresh_witness:
  "\<exists>before co after.
     [RegisterCall ''m'' [], RecordResult ''m'' (demo_outcome ''A''), WaitStart ''m'', RegisterCall ''m'' [],
      RecordResult ''m'' (demo_outcome ''B'')] = before @ RecordResult ''m'' co # after \<and>
     result_entry (demo_outcome ''B'') = result_entry co \<and> (\<forall>op \<in> set after. \<not> empties ''m'' op)"
proof -
  let ?s = "init_ocpp_store None :: (nat, nat, unit) ocpp_store"
  let ?ops = "[RegisterCall ''m'' [], RecordResult ''m'' (demo_outcome ''A''), WaitStart ''m'', RegisterCall ''m'' [],
      RecordResult ''m'' (demo_outcome ''B'')]"
  have "mb_reply (mailbox ''m'' (fold (run_op no_redis_env) ?ops ?s)) = Some (result_entry (demo_outcome ''B''))"
    by simp
  then have "dget (call_results (fold (run_op no_redis_env) ?ops ?s)) ''m'' = Some (result_entry (demo_outcome ''B''))"
    by (simp only: mailbox_sel)
  then show ?thesis by (rule memory_reply_fresh)
qed

end
