(* ===== verification/ConnectionProps.thy ===== *)
theory ConnectionProps
  imports Connection StatusReportsProps CallMailbox
begin

text \<open>
  Connections: the negotiated subprotocol, who is admitted, what a rejected charger leaves behind, what
  a disconnect releases, and what happens when a charger reconnects before its old websocket is gone.
\<close>

subsection \<open>Negotiation\<close>

definition offered_versions :: "'r conn_env \<Rightarrow> string set" where
  "offered_versions env = {v. \<exists>t \<in> set (offered_subprotocols env). canonicalize_ocpp_subprotocol t = Some v}"

lemma canonical_strip [simp]: "canonicalize_ocpp_subprotocol (py_strip t) = canonicalize_ocpp_subprotocol t"
  by (simp add: canonicalize_ocpp_subprotocol_def)

lemma canonical_cases:
  "canonicalize_ocpp_subprotocol t = Some v \<Longrightarrow> v = OCPP_VERSION_16 \<or> v = OCPP_VERSION_201 \<or> v = OCPP_VERSION_21"
  by (auto simp: canonicalize_ocpp_subprotocol_def Let_def split: if_splits)

lemma offer_step_get:
  "dget (offer_step p d) v =
     (if canonicalize_ocpp_subprotocol p = Some v \<and>
         (dget d v = None \<or> (v = OCPP_VERSION_16 \<and> py_lower (py_strip p) = OCPP_SUBPROTOCOL_16J
            \<and> py_lower (the (dget d v)) \<noteq> OCPP_SUBPROTOCOL_16J))
      then Some (py_strip p) else dget d v)"
  by (auto simp: offer_step_def Let_def split: option.split)

lemma offers:
  "(dget (fold offer_step ps d) v = Some t \<longrightarrow>
      dget d v = Some t \<or> (t \<in> py_strip ` set ps \<and> canonicalize_ocpp_subprotocol t = Some v)) \<and>
   (dget (fold offer_step ps d) v \<noteq> None \<longleftrightarrow>
      dget d v \<noteq> None \<or> (\<exists>p \<in> set ps. canonicalize_ocpp_subprotocol p = Some v))"
proof (induction ps arbitrary: d)
  case (Cons p ps)
  show ?case using Cons.IH [of "offer_step p d"] by (auto simp: offer_step_get split: if_splits)
qed simp

lemma offered_stripped: "t \<in> set (offered_subprotocols env) \<Longrightarrow> py_strip t = t"
  by (auto simp: offered_subprotocols_def Let_def split: if_splits)

lemma chosen:
  "dget (fold offer_step (offered_subprotocols env) []) v = Some t \<Longrightarrow>
     t \<in> set (offered_subprotocols env) \<and> canonicalize_ocpp_subprotocol t = Some v"
  "dget (fold offer_step (offered_subprotocols env) []) v = None \<longleftrightarrow> v \<notin> offered_versions env"
  using offers [of "offered_subprotocols env" "[]" v t] offers [of "offered_subprotocols env" "[]" v]
    offered_stripped [of _ env]
  by (auto simp: offered_versions_def image_iff)

lemma offered_versions_cases:
  "v \<in> offered_versions env \<Longrightarrow> v = OCPP_VERSION_16 \<or> v = OCPP_VERSION_201 \<or> v = OCPP_VERSION_21"
  by (auto simp: offered_versions_def dest: canonical_cases)

text \<open>The version a charger is to speak: its preference where offered, else the newest offered one.\<close>

definition best_version :: "string option \<Rightarrow> string set \<Rightarrow> string option" where
  "best_version p vs =
     (if \<exists>v. p = Some v \<and> v \<in> vs then p
      else if OCPP_VERSION_21 \<in> vs then Some OCPP_VERSION_21
      else if OCPP_VERSION_201 \<in> vs then Some OCPP_VERSION_201
      else if OCPP_VERSION_16 \<in> vs then Some OCPP_VERSION_16 else None)"

lemma first_hit_step:
  "dget d k = None \<longleftrightarrow> k \<notin> vs \<Longrightarrow>
     first_hit (dget d) (k # ks) = (if k \<in> vs then Some (k, the (dget d k)) else first_hit (dget d) ks)"
  by (cases "dget d k") auto

lemma first_best:
  assumes "\<And>v. dget d v = None \<longleftrightarrow> v \<notin> vs"
  shows "first_hit (dget d) ((case p of None \<Rightarrow> [] | Some v \<Rightarrow> [v]) @ [OCPP_VERSION_21, OCPP_VERSION_201, OCPP_VERSION_16]) =
   (case best_version p vs of None \<Rightarrow> None | Some v \<Rightarrow> Some (v, the (dget d v)))"
  by (cases p) (simp_all add: first_hit_step [OF assms] best_version_def del: first_hit.simps(2))

lemma select_first:
  "first_hit (dget (fold offer_step (offered_subprotocols env) []))
     ((case p of None \<Rightarrow> [] | Some v \<Rightarrow> [v]) @ [OCPP_VERSION_21, OCPP_VERSION_201, OCPP_VERSION_16]) =
   (case best_version p (offered_versions env) of
      None \<Rightarrow> None
    | Some v \<Rightarrow> Some (v, the (dget (fold offer_step (offered_subprotocols env) []) v)))"
  by (rule first_best) (rule chosen(2))

text \<open>
  C30: the server answers a charger with a token the charger itself offered, for the version it prefers
  or else the newest version offered, and it speaks exactly that version; it answers with no token
  only when no OCPP version was offered, and then falls back to a preferred 2.x version or to 1.6.
\<close>

theorem subprotocol_negotiation:
  "case negotiate_ocpp_version env preferred of (token, version) \<Rightarrow>
     (case best_version (canonicalize_ocpp_subprotocol preferred) (offered_versions env) of
        Some v \<Rightarrow> version = v \<and> (\<exists>t. token = Some t \<and> t \<in> set (offered_subprotocols env) \<and>
                    canonicalize_ocpp_subprotocol t = Some v)
      | None \<Rightarrow> token = None \<and> offered_versions env = {} \<and>
          version = (if canonicalize_ocpp_subprotocol preferred \<in> {Some OCPP_VERSION_201, Some OCPP_VERSION_21}
                     then the (canonicalize_ocpp_subprotocol preferred) else OCPP_VERSION_16))"
proof (cases "best_version (canonicalize_ocpp_subprotocol preferred) (offered_versions env)")
  case None
  then have "offered_versions env = {}"
    using offered_versions_cases [of _ env] by (auto simp: best_version_def split: if_splits)
  moreover have "select_subprotocol (offered_subprotocols env) (Some preferred) = None"
    using None select_first [of env "canonicalize_ocpp_subprotocol preferred"]
    by (simp add: select_subprotocol_def Let_def)
  ultimately show ?thesis using None by (auto simp: negotiate_ocpp_version_def Let_def)
next
  case (Some v)
  then have "v \<in> offered_versions env" by (auto simp: best_version_def split: if_splits)
  then obtain t where t: "dget (fold offer_step (offered_subprotocols env) []) v = Some t"
    using chosen(2) [of env v] by blast
  have "select_subprotocol (offered_subprotocols env) (Some preferred) = Some t"
    using Some t select_first [of env "canonicalize_ocpp_subprotocol preferred"]
    by (simp add: select_subprotocol_def Let_def)
  then show ?thesis using Some chosen(1) [OF t] by (simp add: negotiate_ocpp_version_def Let_def)
qed

subsection \<open>Frames\<close>

abbreviation conn_table :: "'r tx_conn \<Rightarrow> (string, nat) dict" where
  "conn_table c \<equiv> connections (st (tc_store c))"

lemma conn_table_frames [simp]:
  "conn_table (effect e c) = conn_table c" "conn_table (on_logs f c) = conn_table c"
  "conn_table (on_db g c) = conn_table c" "conn_table (on_state h c) = connections (h (st (tc_store c)))"
  "conn_table (log_line k msg c) = conn_table c" "tc_db (log_line k msg c) = tc_db c"
  "tx_table (log_line k msg c) = tx_table c" "tc_self (log_line k msg c) = tc_self c"
  "tc_store_key (log_line k msg c) = tc_store_key c" "tc_charger_id (log_line k msg c) = tc_charger_id c"
  "pending_calls (tc_store (log_line k msg c)) = pending_calls (tc_store c)"
  "pending_calls (tc_store (effect e c)) = pending_calls (tc_store c)"
  "pending_calls (tc_store (on_state h c)) = pending_calls (tc_store c)"
  "pending_calls (tc_store (on_logs f c)) = pending_calls (tc_store c)"
  "pending_calls (tc_store (on_db g c)) = pending_calls (tc_store c)"
  "tc_client_ip (log_line k msg c) = tc_client_ip c" "tc_client_ip (effect e c) = tc_client_ip c"
  by (simp_all add: log_line_def effect_def on_logs_def on_db_def on_state_def)

lemma release_tables [simp]:
  "connections (release_ip_connection rc tok ip self s) = connections s"
  "transactions (release_ip_connection rc tok ip self s) = transactions s"
  by (auto simp: release_ip_connection_def release_ip_connection_redis_def Let_def split: option.splits)

lemma redis_tables [simp]:
  "connections (st (set_redis r s)) = connections (st s)"
  "connections (st (store_json_redis env k d s)) = connections (st s)"
  "connections (st (clear_pending_redis env k s)) = connections (st s)"
  by (simp_all add: set_redis_def store_json_redis_def clear_pending_redis_def split: option.split prod.split)

lemma register_call_connections [simp]:
  "connections (st (register_pending_call env m md s)) = connections (st s)"
  by (simp add: register_pending_call_def mirror_defs Let_def)

lemma restore_keys_connections [simp]:
  "connections (st (snd (restore_keys env serial ks rs s))) = connections (st s)"
  by (induction env serial ks rs s rule: restore_keys.induct) (simp_all add: Let_def split: option.split prod.split)

lemma restore_connections [simp]:
  "connections (st (snd (restore_pending_calls env serial s))) = connections (st s)"
  by (simp add: restore_pending_calls_def split: option.split prod.split)

lemma clear_connections [simp]:
  "connections (st (clear_pending_calls env serial s)) = connections (st s)"
proof -
  have "connections (st (fold (clear_one_call env) ks s)) = connections (st s)" for ks
    by (induction ks arbitrary: s) (simp_all add: clear_one_call_def)
  then show ?thesis by (simp add: clear_pending_calls_def Let_def)
qed

lemma align_column_frame [simp]:
  "conn_table (align_column pk f v c) = conn_table c"
  by (simp add: align_column_def)

lemma ensure_record_connections [simp]: "conn_table (snd (ensure_charger_record existing c)) = conn_table c"
  by (auto simp: ensure_charger_record_def clear_cached_status_fields_def Let_def split: prod.split option.split)

lemma ensure_record_calls [simp]:
  "pending_calls (tc_store (snd (ensure_charger_record existing c))) = pending_calls (tc_store c)"
  by (auto simp: ensure_charger_record_def clear_cached_status_fields_def align_column_def Let_def
      split: prod.split option.split)

lemma connected_dwf:
  assumes "dwf (pending_calls (tc_store c))"
  shows "dwf (pending_calls (tc_store (connected env existing c)))"
proof -
  obtain created c1 where e: "ensure_charger_record existing c = (created, c1)" by fastforce
  have "dwf (pending_calls (tc_store c1))" using assms ensure_record_calls [of existing c] e by simp
  then have "dwf (pending_calls (tc_store (restore_calls env (register_charger_logs env c1))))"
    using dwf_restore [of "tc_store (register_charger_logs env c1)" "ce_redis env" "tc_charger_id (register_charger_logs env c1)"]
    by (simp add: restore_calls_def register_charger_logs_def Let_def split: prod.split) (metis snd_conv)
  then show ?thesis by (simp add: connected_def e Let_def)
qed

lemma connected_connections [simp]: "conn_table (connected env existing c) = conn_table c"
proof -
  have "conn_table (restore_calls env c) = conn_table c" for c
    by (simp add: restore_calls_def Let_def split: prod.split) (metis restore_connections snd_conv)
  then show ?thesis
    using ensure_record_connections [of existing c]
    by (cases "ensure_charger_record existing c") (simp add: connected_def register_charger_logs_def Let_def)
qed

subsection \<open>Admission\<close>

lemma auth_frame:
  "enforce_ws_auth env row c = (ok, c1) \<Longrightarrow> conn_table c1 = conn_table c \<and> tc_db c1 = tc_db c \<and>
     tx_table c1 = tx_table c \<and> pending_calls (tc_store c1) = pending_calls (tc_store c) \<and>
     tc_store_key c1 = tc_store_key c \<and> tc_self c1 = tc_self c \<and> tc_client_ip c1 = tc_client_ip c"
  by (auto simp: enforce_ws_auth_def effect_def log_line_def split: option.splits if_splits)

definition auth_ok :: "'r conn_env \<Rightarrow> obj option \<Rightarrow> bool" where
  "auth_ok env row \<longleftrightarrow> (\<forall>r. row = Some r \<and> requires_ws_auth r \<longrightarrow> ws_rejection env r = None)"

lemma auth_decision: "fst (enforce_ws_auth env row c) \<longleftrightarrow> auth_ok env row"
  by (auto simp: enforce_ws_auth_def auth_ok_def split: option.split)

text \<open>The rate limit is waived only for a reconnect from the same address when no rule is set up.\<close>

definition rate_ok :: "'r conn_env \<Rightarrow> 'r tx_conn \<Rightarrow> bool" where
  "rate_ok env c \<longleftrightarrow> ce_rate_allowed env \<or>
     (\<not> ce_rate_rule env \<and>
      (\<exists>other. dget (conn_table c) (tc_store_key c) = Some other \<and> ce_peer_ip env other = tc_client_ip c))"

lemma accept_decision: "fst (accept_connection env p c) \<longleftrightarrow> rate_ok env c"
  by (auto simp: accept_connection_def rate_ok_def Let_def split: option.splits)

lemma accept_rejected:
  "accept_connection env p c = (False, c1) \<Longrightarrow> conn_table c1 = conn_table c \<and> tc_db c1 = tc_db c \<and>
     tx_table c1 = tx_table c \<and> pending_calls (tc_store c1) = pending_calls (tc_store c)"
  by (auto simp: accept_connection_def Let_def split: option.splits if_splits)

lemma accept_table:
  "accept_connection env p c = (True, c1) \<Longrightarrow> conn_table c1 = dset (tc_store_key c) (tc_self c) (conn_table c) \<and>
     pending_calls (tc_store c1) = pending_calls (tc_store c)"
  by (auto simp: accept_connection_def Let_def split: option.splits if_splits)

lemma admitted_decision:
  "fst (admitted env existing p version c) \<longleftrightarrow>
     (let row = (case existing of None \<Rightarrow> None | Some pk \<Rightarrow> db_get ''Charger'' pk (tc_db c))
      in auth_ok env row \<and> allow_charge_point_connection env row version \<and> rate_ok env c)"
proof -
  let ?row = "case existing of None \<Rightarrow> None | Some pk \<Rightarrow> db_get ''Charger'' pk (tc_db c)"
  obtain ok c1 where a: "enforce_ws_auth env ?row c = (ok, c1)" by fastforce
  have "ok = auth_ok env ?row" using auth_decision [of env ?row c] a by simp
  moreover have "rate_ok env c1 = rate_ok env c" using auth_frame [OF a] by (simp add: rate_ok_def)
  ultimately show ?thesis
    using accept_decision [of env p c1] by (cases ok) (auto simp: admitted_def Let_def a)
qed

lemma admitted_tables:
  assumes "admitted env existing p version c = (ok, c2)"
  shows "\<not> ok \<Longrightarrow> conn_table c2 = conn_table c \<and> tc_db c2 = tc_db c \<and> tx_table c2 = tx_table c \<and>
      pending_calls (tc_store c2) = pending_calls (tc_store c)"
    and "ok \<Longrightarrow> conn_table c2 = dset (tc_store_key c) (tc_self c) (conn_table c) \<and>
      pending_calls (tc_store c2) = pending_calls (tc_store c)"
proof -
  let ?row = "case existing of None \<Rightarrow> None | Some pk \<Rightarrow> db_get ''Charger'' pk (tc_db c)"
  obtain k c1 where a: "enforce_ws_auth env ?row c = (k, c1)" by fastforce
  note f = auth_frame [OF a]
  show "\<not> ok \<Longrightarrow> conn_table c2 = conn_table c \<and> tc_db c2 = tc_db c \<and> tx_table c2 = tx_table c \<and>
      pending_calls (tc_store c2) = pending_calls (tc_store c)"
    using assms accept_rejected [of env p c1 c2] f
    by (cases k) (auto simp: admitted_def Let_def a split: if_splits)
  show "ok \<Longrightarrow> conn_table c2 = dset (tc_store_key c) (tc_self c) (conn_table c) \<and>
      pending_calls (tc_store c2) = pending_calls (tc_store c)"
    using assms accept_table [of env p c1 c2] f
    by (cases k) (auto simp: admitted_def Let_def a split: if_splits)
qed

lemma connect_result:
  assumes serial: "extract_serial_identifier env = (source, raw)" "validate_serial (Some raw) = Inr serial"
    and c1: "c1 = begin_connection env serial c"
    and row: "row = (case find_charger PNone c1 of None \<Rightarrow> None | Some pk \<Rightarrow> db_get ''Charger'' pk (tc_db c))"
    and version: "version = snd (negotiate_ocpp_version env (preferred_version env (find_charger PNone c1) c1))"
    and result: "connect env c = (ok, c')"
  shows "(ok \<longleftrightarrow> auth_ok env row \<and> allow_charge_point_connection env row version \<and> rate_ok env c1) \<and>
    (if ok then conn_table c' = dset (pending_key serial) (tc_self c) (conn_table c)
     else conn_table c' = conn_table c \<and> tc_db c' = tc_db c \<and> tx_table c' = tx_table c \<and>
          pending_calls (tc_store c') = pending_calls (tc_store c))"
proof -
  have same: "conn_table c1 = conn_table c" "tc_db c1 = tc_db c" "tx_table c1 = tx_table c"
    "pending_calls (tc_store c1) = pending_calls (tc_store c)" "tc_store_key c1 = pending_key serial" "tc_self c1 = tc_self c"
    by (simp_all add: c1 begin_connection_def)
  obtain p v where n: "negotiate_ocpp_version env (preferred_version env (find_charger PNone c1) c1) = (p, v)" by fastforce
  obtain k c2 where a: "admitted env (find_charger PNone c1) p v c1 = (k, c2)" by fastforce
  have v: "v = version" using n version by simp
  have "k \<longleftrightarrow> auth_ok env row \<and> allow_charge_point_connection env row version \<and> rate_ok env c1"
    using admitted_decision [of env "find_charger PNone c1" p v c1]
    unfolding same(2) row [symmetric] Let_def using a v by simp
  moreover have "connect env c = (if k then (True, connected env (find_charger PNone c1) c2) else (False, c2))"
    using serial n a by (simp add: connect_def c1 [symmetric] Let_def)
  ultimately show ?thesis
    using result admitted_tables [OF a] same by (auto split: if_splits)
qed


lemma connect_dwf:
  assumes "connect env c = (True, c')" "dwf (pending_calls (tc_store c))"
  shows "dwf (pending_calls (tc_store c'))"
proof -
  obtain source raw serial where s: "extract_serial_identifier env = (source, raw)" "validate_serial (Some raw) = Inr serial"
    using assms(1) by (cases "extract_serial_identifier env"; cases "validate_serial (Some (snd (extract_serial_identifier env)))")
      (auto simp: connect_def)
  let ?c1 = "begin_connection env serial c"
  obtain p v where n: "negotiate_ocpp_version env (preferred_version env (find_charger PNone ?c1) ?c1) = (p, v)" by fastforce
  obtain k c2 where a: "admitted env (find_charger PNone ?c1) p v ?c1 = (k, c2)" by fastforce
  have "k" "c' = connected env (find_charger PNone ?c1) c2"
    using assms(1) s n a by (cases k; simp add: connect_def Let_def)+
  moreover have "dwf (pending_calls (tc_store ?c1))" using assms(2) by (simp add: begin_connection_def)
  ultimately show ?thesis using admitted_tables(2) [OF a] connected_dwf by metis
qed

subsection \<open>Leaving\<close>

lemma disconnect_connections:
  "conn_table (disconnect env close_code c) =
     ddel (pending_key (tc_charger_id c)) (ddel (tc_store_key c) (conn_table c))"
  by (auto simp: disconnect_def Let_def close_session_def split: option.splits)

lemma disconnect_calls:
  "dget (pending_calls (tc_store (disconnect env close_code c))) m =
     (if tc_charger_id c \<noteq> [] \<and> m \<in> set (charger_calls (tc_charger_id c) (pending_calls (tc_store c)))
      then None else dget (pending_calls (tc_store c)) m)"
  by (auto simp: disconnect_def Let_def close_session_def pending_calls_clear split: option.splits)

lemma as_consumer_store [simp]: "tc_store (as_consumer s i k n a c) = tc_store c"
  "tc_charger_id (as_consumer s i k n a c) = i" "tc_store_key (as_consumer s i k n a c) = k"
  by (simp_all add: as_consumer_def)

text \<open>
  C17: a charger that reconnects before its old websocket has ended is lost to the server.  The new
  consumer is accepted and filed under the charger's pending key, and the old one is told to close;
  when the old consumer's disconnect runs after that, it removes the entry of the new one and the calls
  sent over it, and the charger has no connection although its websocket is open.
\<close>

theorem late_disconnect_unregisters_successor:
  assumes accepted: "connect env c = (True, c')" "extract_serial_identifier env = (source, raw)"
      "validate_serial (Some raw) = Inr serial"
    and others: "\<forall>k \<in> set (dkeys (conn_table c)). py_startswith k (serial @ IDENTITY_SEPARATOR) \<longrightarrow>
       k = old_key \<or> k = pending_key serial"
    and plain: "serial \<notin> set (dkeys (conn_table c))"
    and call: "dwf (pending_calls (tc_store c))" "jget md ''charger_id'' = PStr serial"
  shows "dget (conn_table c') (pending_key serial) = Some (tc_self c) \<and>
    (let late = disconnect env' close_code (as_consumer old serial old_key connector address
                  (c'\<lparr>tc_store := register_pending_call renv m md (tc_store c')\<rparr>))
     in \<not> is_connected serial PNone (st (tc_store late)) \<and> dget (pending_calls (tc_store late)) m = None)"
proof -
  have table: "conn_table c' = dset (pending_key serial) (tc_self c) (conn_table c)"
    using connect_result [OF accepted(2,3) refl refl refl accepted(1)] by simp
  let ?s = "register_pending_call renv m md (tc_store c')"
  have "serial \<noteq> []" using accepted(3) by (auto simp: validate_serial_def Let_def split: if_splits)
  moreover have "m \<in> set (charger_calls serial (pending_calls ?s))"
    using call connect_dwf [OF accepted(1)] by (simp add: charger_calls_dwf)
  moreover have "serial \<noteq> pending_key serial" by (simp add: pending_key_def slug_defs)
  moreover have "k \<notin> set (dkeys (ddel (pending_key serial) (ddel old_key (conn_table c'))))"
    if "py_startswith k (serial @ IDENTITY_SEPARATOR)" for k
    using that others table by auto
  ultimately show ?thesis
    using table plain
    by (auto simp: disconnect_connections disconnect_calls is_connected_def is_aggregate_def list_ex_iff Let_def)
qed

text \<open>
  A reconnect that exceeds the rate limit costs the charger the connection it had: the existing
  consumer is closed and its address released before the newcomer is judged, and its entry stays in
  the table.
\<close>

lemma rejected_reconnect_closes_existing:
  assumes "dget (conn_table c) (tc_store_key c) = Some other" "accept_connection env p c = (False, c')"
  shows "CloseConsumer other \<in> set (tc_effects c') \<and> AcceptSelf p \<notin> set (drop (length (tc_effects c)) (tc_effects c')) \<and>
    dget (conn_table c') (tc_store_key c) = Some other"
  using assms
  by (auto simp: accept_connection_def Let_def effect_def log_line_def on_state_def split: if_splits)

subsection \<open>A reconnecting charger\<close>

definition demo_conn_env :: "unit conn_env" where
  "demo_conn_env = \<lparr>ce_query_string = [], ce_query = [], ce_route_cid = ''CP9'', ce_path = ''/CP9/'', ce_client = None,
     ce_headers = [], ce_subprotocols = Some [''ocpp1.6j''], ce_proxies = NoProxies, ce_base64 = (\<lambda>_. None),
     ce_authenticate = (\<lambda>_ _. None), ce_features = (\<lambda>_. None), ce_rate_rule = False, ce_rate_allowed = True,
     ce_peer_ip = (\<lambda>_. []), ce_model_version = (\<lambda>_. None), ce_location = (\<lambda>_. []), ce_forwarder = True,
     ce_redis = no_redis_env, ce_token = (\<lambda>_. [])\<rparr>"

definition demo_old_connection :: "unit tx_conn" where
  "demo_old_connection = on_state (\<lambda>s. s\<lparr>connections := [(''CP9#2'', 7)]\<rparr>) demo_conn"

lemma demo_serial:
  "extract_serial_identifier demo_conn_env = (Some ''route'', ''CP9'')" "validate_serial (Some ''CP9'') = Inr ''CP9''"
  by code_simp+

lemma demo_checks:
  "find_charger PNone (begin_connection demo_conn_env ''CP9'' demo_old_connection) = None"
  "auth_ok demo_conn_env None" "allow_charge_point_connection demo_conn_env None v" "rate_ok demo_conn_env c"
proof -
  show "find_charger PNone (begin_connection demo_conn_env ''CP9'' demo_old_connection) = None"
    by (simp add: find_charger_def db_first_def db_pks_def has_fields_def begin_connection_def demo_old_connection_def
        demo_conn_def on_state_def)
  have "creation_feature_reason demo_conn_env v = None"
    by (simp add: creation_feature_reason_def Let_def demo_conn_env_def List.map_filter_def)
  then show "allow_charge_point_connection demo_conn_env None v"
    by (simp add: allow_charge_point_connection_def)
qed (simp_all add: auth_ok_def rate_ok_def demo_conn_env_def)


theorem late_disconnect_unregisters_successor_witness:
  "\<exists>c'. connect demo_conn_env demo_old_connection = (True, c') \<and>
    \<not> is_connected ''CP9'' PNone (st (tc_store (disconnect demo_conn_env 1001 (as_consumer 7 ''CP9'' ''CP9#2'' (Some 2) []
        (c'\<lparr>tc_store := register_pending_call no_redis_env ''m'' [(''charger_id'', PStr ''CP9'')] (tc_store c')\<rparr>)))))"
proof -
  obtain ok c' where r: "connect demo_conn_env demo_old_connection = (ok, c')" by fastforce
  then have r: "connect demo_conn_env demo_old_connection = (True, c')"
    using connect_result [OF demo_serial refl refl refl r] by (simp add: demo_checks)
  have "conn_table demo_old_connection = [(''CP9#2'', 7)]" "dwf (pending_calls (tc_store demo_old_connection))"
    by (simp_all add: demo_old_connection_def demo_conn_def init_ocpp_store_def)
  then show ?thesis
    using late_disconnect_unregisters_successor [OF r demo_serial, of "''CP9#2''" "[(''charger_id'', PStr ''CP9'')]"
        demo_conn_env 1001 7 "Some 2" "[]" no_redis_env "''m''"] r
    by (simp add: dkeys_def Let_def)
qed

lemma rejected_reconnect_closes_existing_witness:
  "CloseConsumer 7 \<in> set (tc_effects (snd (accept_connection (demo_conn_env\<lparr>ce_rate_allowed := False, ce_rate_rule := True\<rparr>) None
     (demo_old_connection\<lparr>tc_store_key := ''CP9#2''\<rparr>))))"
proof -
  let ?c = "demo_old_connection\<lparr>tc_store_key := ''CP9#2''\<rparr>"
    and ?e = "demo_conn_env\<lparr>ce_rate_allowed := False, ce_rate_rule := True\<rparr>"
  obtain ok c' where r: "accept_connection ?e None ?c = (ok, c')" by fastforce
  have "\<not> ok" using accept_decision [of ?e None ?c] r by (simp add: rate_ok_def)
  moreover have "dget (conn_table ?c) (tc_store_key ?c) = Some 7"
    by (simp add: demo_old_connection_def demo_conn_def on_state_def)
  ultimately show ?thesis using rejected_reconnect_closes_existing [of ?c 7 ?e None c'] r by simp
qed

end
