(* ===== verification/ChargingProfiles.thy ===== *)
theory ChargingProfiles
  imports ConsumerBase
begin

text \<open>
  ReportChargingProfiles: the part of \<open>CSMSConsumer\<close> (\<open>apps/ocpp/consumers/csms/consumer.py\<close>) that
  validates a reported list of charging profiles, compares it with the stored ones, tracks what a
  sequence of reports has named and stores it, with the checks \<open>ChargingProfile\<close> and
  \<open>ChargingSchedule\<close> (\<open>apps/ocpp/models\<close>) run when they are saved.  Django's own field checks, the
  text of a validation error and \<open>repr\<close> of a float are the environment.
\<close>

subsection \<open>The internal representation\<close>

record period =
  start_period :: int
  limit :: pfloat
  number_phases :: "int option"
  phase_to_use :: "int option"

record schedule =
  charging_rate_unit :: string
  periods :: "period list"
  duration_seconds :: "int option"
  start_schedule :: "timestamp option"
  min_charging_rate :: "pydecimal option"

record profile_report =
  profile_id :: int
  stack_level :: int
  purpose :: string
  kind :: string
  connector_id :: int
  profile_schedule :: schedule
  recurrency_kind :: string
  transaction_id :: "int option"
  valid_from :: "timestamp option"
  valid_to :: "timestamp option"

record report_payload =
  request_id :: "int option"
  evse_id :: "int option"
  tbc :: bool
  profiles :: "profile_report list"

datatype model_error =
    FieldErrors
  | RecurrencyNotAllowed
  | RecurrencyRequired
  | TransactionRequired
  | ScheduleRequired
  | PeriodPhases int
  | PeriodLimit int
  | DurationNotPositive
  | MinRateNotPositive
  | NoPeriods

datatype report_error =
    Malformed string
  | Invalid "model_error list"
  | Raises pyexn
  | InvalidOperation

subsection \<open>Validation\<close>

definition lift_exn :: "pyexn + 'v \<Rightarrow> report_error + 'v" where
  "lift_exn r = (case r of Inl e \<Rightarrow> Inl (Raises e) | Inr v \<Rightarrow> Inr v)"

definition required :: "string \<Rightarrow> 'v option \<Rightarrow> report_error + 'v" where
  "required message v = (case v of None \<Rightarrow> Inl (Malformed message) | Some x \<Rightarrow> Inr x)"

definition required_text :: "string \<Rightarrow> pyval \<Rightarrow> report_error + string" where
  "required_text message v = (if text_field v = [] then Inl (Malformed message) else Inr (text_field v))"

definition period_label :: "int \<Rightarrow> string" where
  "period_label i = ''chargingSchedulePeriod['' @ int_str i @ '']''"

definition period_limit :: "int \<Rightarrow> pyval \<Rightarrow> report_error + pfloat" where
  "period_limit i v =
     (case py_float v of
        Inr f \<Rightarrow> (if float_le_zero f
                   then Inl (Malformed (period_label i @ ''.limit must be greater than zero'')) else Inr f)
      | Inl OverflowError \<Rightarrow> Inl (Raises OverflowError)
      | Inl _ \<Rightarrow> Inl (Malformed (period_label i @ ''.limit is required'')))"

definition normalize_period :: "int \<times> pyval \<Rightarrow> report_error + period" where
  "normalize_period iv =
     (case snd iv of
        PDict d \<Rightarrow>
          ebind (lift_exn (parse_optional_int (jget d ''startPeriod''))) (\<lambda>st.
          ebind (required (period_label (fst iv) @ ''.startPeriod is required'') st) (\<lambda>s.
          ebind (period_limit (fst iv) (jget d ''limit'')) (\<lambda>l.
          ebind (lift_exn (parse_optional_int (jget d ''numberPhases''))) (\<lambda>n.
          ebind (lift_exn (parse_optional_int (jget d ''phaseToUse''))) (\<lambda>p.
            Inr \<lparr>start_period = s, limit = l, number_phases = n, phase_to_use = p\<rparr>)))))
      | _ \<Rightarrow> Inl (Malformed (period_label (fst iv) @ '' must be an object'')))"

definition indexed :: "'v list \<Rightarrow> (int \<times> 'v) list" where
  "indexed vs = map (\<lambda>(i, v). (int i, v)) (enumerate 1 vs)"

definition parse_min_rate :: "pyval \<Rightarrow> report_error + pydecimal option" where
  "parse_min_rate v =
     (if v = PNone then Inr None
      else case decimal_of_str (py_str v) of
             None \<Rightarrow> Inl (Malformed ''minChargingRate is invalid'')
           | Some d \<Rightarrow> Inr (Some d))"

definition check_min_rate :: "pydecimal option \<Rightarrow> report_error + unit" where
  "check_min_rate r =
     (case r of None \<Rightarrow> Inr ()
      | Some d \<Rightarrow> (case decimal_le_zero d of
                     None \<Rightarrow> Inl InvalidOperation
                   | Some b \<Rightarrow> (if b then Inl (Malformed ''minChargingRate must be greater than zero'') else Inr ())))"

definition check_duration :: "int option \<Rightarrow> report_error + unit" where
  "check_duration d =
     (case d of None \<Rightarrow> Inr ()
      | Some n \<Rightarrow> (if n \<le> 0 then Inl (Malformed ''duration must be greater than zero'') else Inr ()))"

definition normalize_schedule :: "consumer_env \<Rightarrow> pyval \<Rightarrow> report_error + schedule" where
  "normalize_schedule env payload =
     (case payload of
        PDict d \<Rightarrow>
          ebind (required_text ''chargingRateUnit is required'' (jget d ''chargingRateUnit'')) (\<lambda>unit.
          ebind (case jget d ''chargingSchedulePeriod'' of
                   PList (v # vs) \<Rightarrow> Inr (v # vs)
                 | _ \<Rightarrow> Inl (Malformed ''chargingSchedulePeriod is required'')) (\<lambda>raw.
          ebind (emap normalize_period (indexed raw)) (\<lambda>ps.
          ebind (parse_min_rate (jget d ''minChargingRate'')) (\<lambda>rate.
          ebind (lift_exn (parse_optional_int (jget d ''duration''))) (\<lambda>dur.
          ebind (check_duration dur) (\<lambda>_.
          ebind (check_min_rate rate) (\<lambda>_.
          ebind (lift_exn (parse_ocpp_timestamp env (jget d ''startSchedule''))) (\<lambda>from_time.
            Inr \<lparr>charging_rate_unit = unit, periods = sort_key start_period ps, duration_seconds = dur,
                 start_schedule = from_time, min_charging_rate = rate\<rparr>))))))))
      | _ \<Rightarrow> Inl (Malformed ''chargingSchedule is required''))"

text \<open>\<open>evse_id or self.connector_value or 0\<close>\<close>

definition target_connector :: "int option \<Rightarrow> int option \<Rightarrow> int" where
  "target_connector evse connector =
     (case evse of
        Some e \<Rightarrow> (if e \<noteq> 0 then e else case connector of Some k \<Rightarrow> k | None \<Rightarrow> 0)
      | None \<Rightarrow> (case connector of Some k \<Rightarrow> k | None \<Rightarrow> 0))"

definition normalize_profile :: "consumer_env \<Rightarrow> int option \<Rightarrow> int option \<Rightarrow> pyval \<Rightarrow> report_error + profile_report" where
  "normalize_profile env connector evse payload =
     (case payload of
        PDict d \<Rightarrow>
          ebind (lift_exn (parse_optional_int (por (jget d ''chargingProfileId'') (jget d ''id'')))) (\<lambda>pid0.
          ebind (required ''chargingProfileId is required'' pid0) (\<lambda>pid.
          ebind (lift_exn (parse_optional_int (jget d ''stackLevel''))) (\<lambda>level0.
          ebind (required ''stackLevel is required'' level0) (\<lambda>level.
          ebind (required_text ''chargingProfilePurpose is required'' (jget d ''chargingProfilePurpose'')) (\<lambda>prp.
          ebind (required_text ''chargingProfileKind is required'' (jget d ''chargingProfileKind'')) (\<lambda>knd.
          ebind (normalize_schedule env (jget d ''chargingSchedule'')) (\<lambda>sched.
          ebind (lift_exn (parse_optional_int (jget d ''transactionId''))) (\<lambda>tx.
          ebind (lift_exn (parse_ocpp_timestamp env (jget d ''validFrom''))) (\<lambda>vfrom.
          ebind (lift_exn (parse_ocpp_timestamp env (jget d ''validTo''))) (\<lambda>vto.
            Inr \<lparr>profile_id = pid, stack_level = level, purpose = prp, kind = knd,
                 connector_id = target_connector evse connector, profile_schedule = sched,
                 recurrency_kind = text_field (jget d ''recurrencyKind''), transaction_id = tx,
                 valid_from = vfrom, valid_to = vto\<rparr>))))))))))
      | _ \<Rightarrow> Inl (Malformed ''chargingProfile must be an object''))"

definition profile_entries :: "obj \<Rightarrow> report_error + pyval list" where
  "profile_entries d =
     (case (if jget d ''chargingProfiles'' = PNone then jget d ''chargingProfile'' else jget d ''chargingProfiles'') of
        PDict p \<Rightarrow> Inr [PDict p]
      | PList ps \<Rightarrow> Inr ps
      | _ \<Rightarrow> Inl (Malformed ''missing chargingProfile payload''))"

definition validate_report_charging_profiles_payload ::
  "consumer_env \<Rightarrow> int option \<Rightarrow> pyval \<Rightarrow> report_error + report_payload" where
  "validate_report_charging_profiles_payload env connector payload =
     (let d = as_obj payload in
      ebind (lift_exn (parse_optional_int (jget d ''requestId''))) (\<lambda>req.
      ebind (lift_exn (parse_optional_int (jget d ''evseId''))) (\<lambda>evse.
      ebind (profile_entries d) (\<lambda>entries.
      ebind (emap (normalize_profile env connector evse) entries) (\<lambda>ps.
        if ps = [] then Inl (Malformed ''missing chargingProfile payload'')
        else Inr \<lparr>request_id = req, evse_id = evse, tbc = truthy (jget d ''tbc''), profiles = ps\<rparr>)))))"

subsection \<open>Stored profiles\<close>

text \<open>
  A row of \<open>ChargingProfile\<close> with its \<open>ChargingSchedule\<close>, if it has one.  Times are stored as instants
  and come back in UTC.
\<close>

record stored_profile =
  sp_charger :: pyval
  sp_profile :: profile_report
  sp_schedule :: "schedule option"

record profile_env =
  pe_profile_ok :: "profile_report \<Rightarrow> bool"
  pe_schedule_ok :: "schedule \<Rightarrow> bool"
  pe_error_text :: "model_error list \<Rightarrow> string"
  pe_repr :: "pfloat \<Rightarrow> string"

definition stored_times :: "schedule \<Rightarrow> schedule" where
  "stored_times s = s\<lparr>start_schedule := map_option in_utc (start_schedule s)\<rparr>"

definition stored_columns :: "profile_report \<Rightarrow> profile_report" where
  "stored_columns p = p\<lparr>valid_from := map_option in_utc (valid_from p), valid_to := map_option in_utc (valid_to p)\<rparr>"

definition profile_clean_errors :: "profile_env \<Rightarrow> stored_profile option \<Rightarrow> profile_report \<Rightarrow> model_error list" where
  "profile_clean_errors env existing p =
     (if pe_profile_ok env p then [] else [FieldErrors]) @
     (if recurrency_kind p \<noteq> [] \<and> kind p \<noteq> ''Recurring'' then [RecurrencyNotAllowed] else []) @
     (if kind p = ''Recurring'' \<and> recurrency_kind p = [] then [RecurrencyRequired] else []) @
     (if purpose p = ''TxProfile'' \<and> (transaction_id p = None \<or> transaction_id p = Some 0)
      then [TransactionRequired] else []) @
     (case existing of Some r \<Rightarrow> (if sp_schedule r = None then [ScheduleRequired] else []) | None \<Rightarrow> [])"

text \<open>
  One period of \<open>_normalize_schedule_periods\<close>: the limit must be a positive decimal, the number of
  phases one or three.  Comparing a NaN decimal raises.
\<close>

definition check_stored_period :: "int \<times> period \<Rightarrow> report_error + model_error list" where
  "check_stored_period ip =
     (case limit (snd ip) of
        NaN \<Rightarrow> Inl InvalidOperation
      | f \<Rightarrow> (if float_le_zero f then Inr [PeriodLimit (fst ip)]
              else case number_phases (snd ip) of
                     Some n \<Rightarrow> (if n = 1 \<or> n = 3 then Inr [] else Inr [PeriodPhases (fst ip)])
                   | None \<Rightarrow> Inr []))"

definition schedule_clean_errors :: "profile_env \<Rightarrow> schedule \<Rightarrow> report_error + model_error list" where
  "schedule_clean_errors env s =
     ebind (emap check_stored_period (indexed (periods s))) (\<lambda>perrs.
     (case (case min_charging_rate s of None \<Rightarrow> Some False | Some d \<Rightarrow> decimal_le_zero d) of
        None \<Rightarrow> Inl InvalidOperation
      | Some bad_rate \<Rightarrow>
          Inr ((if pe_schedule_ok env s then [] else [FieldErrors]) @ concat perrs @
               (case duration_seconds s of Some n \<Rightarrow> (if n \<le> 0 then [DurationNotPositive] else []) | None \<Rightarrow> []) @
               (if bad_rate then [MinRateNotPositive] else []) @
               (if length (concat perrs) = length (periods s) then [NoPeriods] else []))))"

definition same_profile :: "pyval \<Rightarrow> profile_report \<Rightarrow> stored_profile \<Rightarrow> bool" where
  "same_profile pk p r =
     (sp_charger r = pk \<and> connector_id (sp_profile r) = connector_id p \<and> profile_id (sp_profile r) = profile_id p)"

text \<open>The two \<open>update_or_create\<close> of one reported profile.\<close>

definition store_profile ::
  "profile_env \<Rightarrow> pyval \<Rightarrow> profile_report \<Rightarrow> stored_profile list \<Rightarrow> report_error + stored_profile list" where
  "store_profile env pk p rows =
     (let row = \<lparr>sp_charger = pk, sp_profile = stored_columns p, sp_schedule = Some (stored_times (profile_schedule p))\<rparr>
      in case profile_clean_errors env (find (same_profile pk p) rows) p of
           e # es \<Rightarrow> Inl (Invalid (e # es))
         | [] \<Rightarrow>
             ebind (schedule_clean_errors env (profile_schedule p)) (\<lambda>errs.
               if errs \<noteq> [] then Inl (Invalid errs)
               else Inr (if find (same_profile pk p) rows = None then rows @ [row]
                         else map (\<lambda>r. if same_profile pk p r then row else r) rows)))"

fun persist_profiles ::
  "profile_env \<Rightarrow> pyval \<Rightarrow> profile_report list \<Rightarrow> stored_profile list \<Rightarrow> report_error + stored_profile list" where
  "persist_profiles env pk [] rows = Inr rows"
| "persist_profiles env pk (p # ps) rows = ebind (store_profile env pk p rows) (persist_profiles env pk ps)"

subsection \<open>Comparison\<close>

definition opt_entry :: "string \<Rightarrow> ('v \<Rightarrow> pyval) \<Rightarrow> 'v option \<Rightarrow> obj" where
  "opt_entry k f v = (case v of None \<Rightarrow> [] | Some x \<Rightarrow> [(k, f x)])"

definition float_value :: "profile_env \<Rightarrow> pfloat \<Rightarrow> pyval" where
  "float_value env f = PFloat f (pe_repr env f)"

definition iso_value :: "consumer_env \<Rightarrow> timestamp \<Rightarrow> pyval" where
  "iso_value cenv t = PStr (ne_iso cenv t)"

definition normalized_period_payload :: "profile_env \<Rightarrow> period \<Rightarrow> obj" where
  "normalized_period_payload env p =
     [(''startPeriod'', PInt (start_period p)), (''limit'', float_value env (limit p))] @
     opt_entry ''numberPhases'' PInt (number_phases p) @ opt_entry ''phaseToUse'' PInt (phase_to_use p)"

definition normalized_schedule_payload :: "consumer_env \<Rightarrow> profile_env \<Rightarrow> schedule \<Rightarrow> obj" where
  "normalized_schedule_payload cenv env s =
     [(''chargingRateUnit'', PStr (charging_rate_unit s)),
      (''periods'', PList (map (\<lambda>p. PDict (normalized_period_payload env p)) (periods s)))] @
     opt_entry ''duration'' PInt (duration_seconds s) @
     opt_entry ''startSchedule'' (iso_value cenv) (start_schedule s) @
     opt_entry ''minChargingRate'' (\<lambda>d. float_value env (decimal_float d)) (min_charging_rate s)"

definition normalized_profile_payload :: "consumer_env \<Rightarrow> profile_env \<Rightarrow> profile_report \<Rightarrow> obj" where
  "normalized_profile_payload cenv env p =
     [(''id'', PInt (profile_id p)), (''stackLevel'', PInt (stack_level p)), (''purpose'', PStr (purpose p)),
      (''kind'', PStr (kind p)),
      (''schedule'', PDict (normalized_schedule_payload cenv env (profile_schedule p)))] @
     (if recurrency_kind p = [] then [] else [(''recurrencyKind'', PStr (recurrency_kind p))]) @
     opt_entry ''transactionId'' PInt (transaction_id p) @
     opt_entry ''validFrom'' (iso_value cenv) (valid_from p) @
     opt_entry ''validTo'' (iso_value cenv) (valid_to p)"

text \<open>A stored profile without a schedule cannot be compared: reading its schedule raises.\<close>

definition model_profile_to_normalized :: "stored_profile \<Rightarrow> report_error + profile_report" where
  "model_profile_to_normalized r =
     (case sp_schedule r of
        None \<Rightarrow> Inl (Raises AttributeError)
      | Some s \<Rightarrow> Inr ((sp_profile r)\<lparr>profile_schedule := s\<rparr>))"

definition compare_field :: "obj \<Rightarrow> obj \<Rightarrow> string \<times> string \<Rightarrow> string list" where
  "compare_field e r kl =
     (let a = jget e (fst kl); b = jget r (fst kl)
      in if py_eq a b then [] else [snd kl @ '' expected '' @ py_str a @ '' got '' @ py_str b])"

definition compare_periods :: "pyval list \<Rightarrow> pyval list \<Rightarrow> string list" where
  "compare_periods es rs =
     (if length es \<noteq> length rs
      then [''period count expected '' @ int_str (int (length es)) @ '' got '' @ int_str (int (length rs))]
      else concat (map (\<lambda>(i, e, r). if py_eq e r then []
             else [''period '' @ int_str i @ '' expected '' @ py_str e @ '' got '' @ py_str r]) (indexed (zip es rs))))"

definition list_of :: "pyval \<Rightarrow> pyval list" where
  "list_of v = (case v of PList vs \<Rightarrow> vs | _ \<Rightarrow> [])"

definition compare_payloads :: "obj \<Rightarrow> obj \<Rightarrow> string list" where
  "compare_payloads e r =
     (let es = as_obj (jget e ''schedule''); rs = as_obj (jget r ''schedule'')
      in concat (map (compare_field e r)
           [(''stackLevel'', ''stack level''), (''purpose'', ''purpose''), (''kind'', ''kind''),
            (''recurrencyKind'', ''recurrency kind''), (''transactionId'', ''transaction id''),
            (''validFrom'', ''valid from''), (''validTo'', ''valid to'')]) @
         concat (map (compare_field es rs)
           [(''chargingRateUnit'', ''charging rate unit''), (''duration'', ''duration''),
            (''startSchedule'', ''start schedule''), (''minChargingRate'', ''min charging rate'')]) @
         compare_periods (list_of (jget es ''periods'')) (list_of (jget rs ''periods'')))"

definition diff_reported_charging_profile ::
  "consumer_env \<Rightarrow> profile_env \<Rightarrow> stored_profile \<Rightarrow> profile_report \<Rightarrow> report_error + string list" where
  "diff_reported_charging_profile cenv env expected reported =
     ebind (model_profile_to_normalized expected) (\<lambda>e.
       Inr (compare_payloads (normalized_profile_payload cenv env e) (normalized_profile_payload cenv env reported)))"

subsection \<open>Reconciliation\<close>

definition resolve_report_charging_profile_charger ::
  "report_payload \<Rightarrow> 'r tx_conn \<Rightarrow> pyval option \<times> 'r tx_conn" where
  "resolve_report_charging_profile_charger report c =
     (let connector = PInt (target_connector (evse_id report) (tc_connector c));
          row_key = [(''charger_id'', PStr (tc_charger_id c)), (''connector_id'', connector)]
      in if tc_charger c \<noteq> None \<and> tc_charger_id c \<noteq> [] \<and>
            charger_field (tc_charger c) ''charger_id'' c = PStr (tc_charger_id c) \<and>
            charger_field (tc_charger c) ''connector_id'' c = connector
         then (tc_charger c, c)
         else if tc_charger_id c \<noteq> []
         then (case db_get_or_create ''Charger'' row_key [] (tc_db c) of (pk, _, d) \<Rightarrow> (Some pk, c\<lparr>tc_db := d\<rparr>))
         else (tc_charger c, c))"

definition charger_name :: "pyval \<Rightarrow> 'r tx_conn \<Rightarrow> string" where
  "charger_name pk c = py_str (charger_field (Some pk) ''charger_id'' c)"

text \<open>
  The stored profiles of the charger's rows, and of the EVSE's row when one is named, in the model's
  default order; the dictionary keeps the last profile of each identifier.
\<close>

definition charger_profiles :: "string \<Rightarrow> 'r tx_conn \<Rightarrow> stored_profile list \<Rightarrow> stored_profile list" where
  "charger_profiles name c rows =
     sort_key (\<lambda>r. [connector_id (sp_profile r), - stack_level (sp_profile r), profile_id (sp_profile r)])
       (filter (\<lambda>r. charger_field (Some (sp_charger r)) ''charger_id'' c = PStr name) rows)"

definition expected_by_id :: "string \<Rightarrow> int option \<Rightarrow> 'r tx_conn \<Rightarrow> stored_profile list \<Rightarrow> (int, stored_profile) dict" where
  "expected_by_id name evse c rows =
     fold (\<lambda>r. dset (profile_id (sp_profile r)) r)
       (filter (\<lambda>r. evse = None \<or> charger_field (Some (sp_charger r)) ''connector_id'' c = opt_int evse)
         (charger_profiles name c rows)) []"

definition evse_label :: "report_payload \<Rightarrow> string" where
  "evse_label report = connector_slug (opt_int (evse_id report))"

definition request_label :: "report_payload \<Rightarrow> string" where
  "request_label report = (case request_id report of Some i \<Rightarrow> ''request '' @ int_str i | None \<Rightarrow> ''request ?'')"

text \<open>The loop over the reported profiles: mismatches so far, identifiers seen, the connection.\<close>

fun reconcile_loop ::
  "consumer_env \<Rightarrow> profile_env \<Rightarrow> string \<Rightarrow> report_payload \<Rightarrow> (int, stored_profile) dict \<Rightarrow>
     profile_report list \<Rightarrow> int list \<Rightarrow> 'r tx_conn \<Rightarrow> (report_error + string list) \<times> 'r tx_conn" where
  "reconcile_loop cenv env name report expected [] seen c = (Inr [], c)"
| "reconcile_loop cenv env name report expected (p # ps) seen c =
     (if profile_id p \<in> set seen
      then (case reconcile_loop cenv env name report expected ps seen c of
              (r, c') \<Rightarrow> (ebind r (\<lambda>ms. Inr ((''duplicate profile '' @ int_str (profile_id p) @
                 '' reported for evse '' @ evse_label report) # ms)), c'))
      else let c1 = on_state (record_reported_charging_profile name (request_id report)
                       (opt_int (evse_id report)) (Some (profile_id p))) c
           in case (case dget expected (profile_id p) of
                      None \<Rightarrow> Inr [''unexpected profile '' @ int_str (profile_id p) @ '' reported for evse '' @ evse_label report]
                    | Some e \<Rightarrow> diff_reported_charging_profile cenv env e p) of
                Inl err \<Rightarrow> (Inl err, c1)
              | Inr here \<Rightarrow>
                  (case reconcile_loop cenv env name report expected ps (profile_id p # seen) c1 of
                     (r, c') \<Rightarrow> (ebind r (\<lambda>ms. Inr (here @ ms)), c')))"

definition mismatch_line :: "report_payload \<Rightarrow> string list \<Rightarrow> string" where
  "mismatch_line report ms =
     ''ReportChargingProfiles mismatch ('' @ request_label report @ '', evse '' @ evse_label report @ ''): '' @ py_join '', '' ms"

definition missing_line :: "report_payload \<Rightarrow> string \<Rightarrow> int list \<Rightarrow> string" where
  "missing_line report key ids =
     ''ReportChargingProfiles missing ('' @ request_label report @ '', evse '' @ key @ ''): '' @ py_join '', '' (map int_str ids)"

definition expected_by_evse :: "stored_profile list \<Rightarrow> (string, int list) dict" where
  "expected_by_evse rows =
     fold (\<lambda>r d. let key = connector_slug (PInt (connector_id (sp_profile r)));
                     ids = (case dget d key of None \<Rightarrow> [] | Some xs \<Rightarrow> xs)
                 in dset key (sadd (profile_id (sp_profile r)) ids) d) rows []"

definition missing_ids :: "(string, int list) dict \<Rightarrow> string \<Rightarrow> int list \<Rightarrow> int list" where
  "missing_ids reported key ids =
     sort (filter (\<lambda>i. i \<notin> set (case dget reported key of None \<Rightarrow> [] | Some xs \<Rightarrow> xs)) ids)"

definition missing_step ::
  "report_payload \<Rightarrow> (string, int list) dict \<Rightarrow> string \<times> int list \<Rightarrow> 'r tx_conn \<Rightarrow> 'r tx_conn" where
  "missing_step report reported kv c =
     (let missing = missing_ids reported (fst kv) (snd kv)
      in if missing = [] then c else log_line (tc_store_key c) (missing_line report (fst kv) missing) c)"

definition report_missing :: "string \<Rightarrow> report_payload \<Rightarrow> stored_profile list \<Rightarrow> 'r tx_conn \<Rightarrow> 'r tx_conn" where
  "report_missing name report rows c =
     (case consume_reported_charging_profiles name (request_id report) (st (tc_store c)) of
        (recorded, s) \<Rightarrow>
          (let reported = (case recorded of None \<Rightarrow> [] | Some r \<Rightarrow> r);
               c1 = on_state (\<lambda>_. s) c
           in fold (missing_step report reported) (expected_by_evse (charger_profiles name c1 rows)) c1))"

definition reconcile_reported_charging_profiles ::
  "consumer_env \<Rightarrow> profile_env \<Rightarrow> report_payload \<Rightarrow> pyval option \<Rightarrow> stored_profile list \<Rightarrow> 'r tx_conn \<Rightarrow>
     (report_error + unit) \<times> 'r tx_conn" where
  "reconcile_reported_charging_profiles cenv env report charger rows c =
     (case charger of
        None \<Rightarrow> (Inr (), c)
      | Some pk \<Rightarrow>
          (let name = charger_name pk c
           in case reconcile_loop cenv env name report (expected_by_id name (evse_id report) c rows) (profiles report) [] c of
                (Inl e, c1) \<Rightarrow> (Inl e, c1)
              | (Inr ms, c1) \<Rightarrow>
                  (let c2 = (if ms = [] then c1 else log_line (tc_store_key c1) (mismatch_line report ms) c1)
                   in (Inr (), if tbc report then c2 else report_missing name report rows c2))))"

subsection \<open>The handler\<close>

text \<open>
  The answer is an empty object, or the exception that leaves the handler (the charger then gets no
  answer).  A failed validation of the models rolls the stored profiles back and is logged.
\<close>

definition handle_report_charging_profiles ::
  "consumer_env \<Rightarrow> profile_env \<Rightarrow> pyval \<Rightarrow> 'r tx_conn \<times> stored_profile list \<Rightarrow>
     (report_error + obj) \<times> 'r tx_conn \<times> stored_profile list" where
  "handle_report_charging_profiles cenv env payload w =
     (let c = fst w; rows = snd w;
          ignored = (\<lambda>text c'. log_line (tc_store_key c') (''ReportChargingProfiles ignored: '' @ text) c')
      in case validate_report_charging_profiles_payload cenv (tc_connector c) payload of
           Inl (Malformed m) \<Rightarrow> (Inr [], ignored m c, rows)
         | Inl e \<Rightarrow> (Inl e, c, rows)
         | Inr report \<Rightarrow>
             (case resolve_report_charging_profile_charger report c of
                (charger, c1) \<Rightarrow>
                  (case reconcile_reported_charging_profiles cenv env report charger rows c1 of
                     (Inl e, c2) \<Rightarrow> (Inl e, c2, rows)
                   | (Inr _, c2) \<Rightarrow>
                       (case (case charger of None \<Rightarrow> Inr rows | Some pk \<Rightarrow> persist_profiles env pk (profiles report) rows) of
                          Inl (Invalid errs) \<Rightarrow> (Inr [], ignored (pe_error_text env errs) c2, rows)
                        | Inl e \<Rightarrow> (Inl e, c2, rows)
                        | Inr rows' \<Rightarrow>
                            (Inr [], log_ocpp201_notification ''ReportChargingProfiles'' payload c2, rows')))))"

end
