(* ===== verification/ChargingProfilesProps.thy ===== *)
theory ChargingProfilesProps
  imports ChargingProfiles StatusReportsProps
begin

text \<open>
  Properties of the charging profile reports: what a validated report looks like, that storing a
  report and receiving it again finds nothing to complain about, and the times for which this fails.
\<close>

subsection \<open>Validated reports\<close>

definition schedule_ok :: "schedule \<Rightarrow> bool" where
  "schedule_ok s \<longleftrightarrow>
     charging_rate_unit s \<noteq> [] \<and> py_strip (charging_rate_unit s) = charging_rate_unit s \<and>
     periods s \<noteq> [] \<and> sorted (map start_period (periods s)) \<and>
     (\<forall>q \<in> set (periods s). \<not> float_le_zero (limit q)) \<and>
     (\<forall>n. duration_seconds s = Some n \<longrightarrow> 0 < n) \<and>
     (\<forall>d. min_charging_rate s = Some d \<longrightarrow> decimal_le_zero d = Some False)"

definition profile_ok :: "int \<Rightarrow> profile_report \<Rightarrow> bool" where
  "profile_ok connector p \<longleftrightarrow>
     purpose p \<noteq> [] \<and> py_strip (purpose p) = purpose p \<and> kind p \<noteq> [] \<and> py_strip (kind p) = kind p \<and>
     py_strip (recurrency_kind p) = recurrency_kind p \<and> connector_id p = connector \<and>
     schedule_ok (profile_schedule p)"

lemma required_text_Inr: "required_text m v = Inr s \<Longrightarrow> s = text_field v \<and> s \<noteq> []"
  by (auto simp: required_text_def split: if_splits)

lemma period_limit_Inr: "period_limit i v = Inr f \<Longrightarrow> \<not> float_le_zero f"
  by (auto simp: period_limit_def split: sum.splits if_splits pyexn.splits)

lemma normalize_period_limit: "normalize_period iv = Inr q \<Longrightarrow> \<not> float_le_zero (limit q)"
  by (auto simp: normalize_period_def ebind_Inr_iff dest: period_limit_Inr split: pyval.splits)

lemma length_indexed [simp]: "length (indexed vs) = length vs"
  by (simp add: indexed_def)

lemma map_snd_indexed [simp]: "map snd (indexed vs) = vs"
  by (simp add: indexed_def comp_def case_prod_beta)

lemma indexed_mem: "(i, x) \<in> set (indexed vs) \<Longrightarrow> x \<in> set vs"
  by (metis image_eqI map_snd_indexed set_map snd_conv)

lemma normalize_periods:
  "emap normalize_period (indexed raw) = Inr ps \<Longrightarrow>
     (\<forall>q \<in> set ps. \<not> float_le_zero (limit q)) \<and> length ps = length raw"
  using emap_Inr_all [of normalize_period "indexed raw" ps "\<lambda>q. \<not> float_le_zero (limit q)"]
  by (auto dest: emap_Inr_length normalize_period_limit)

lemma check_duration_Inr: "check_duration d = Inr u \<Longrightarrow> d = Some n \<Longrightarrow> 0 < n"
  by (auto simp: check_duration_def split: if_splits)

lemma check_min_rate_Inr: "check_min_rate r = Inr u \<Longrightarrow> r = Some d \<Longrightarrow> decimal_le_zero d = Some False"
  by (auto simp: check_min_rate_def split: option.splits if_splits)

lemma sort_key_Nil_iff [simp]: "sort_key f xs = [] \<longleftrightarrow> xs = []"
  by (metis length_0_conv length_sort)

lemma normalize_schedule_ok: "normalize_schedule env v = Inr s \<Longrightarrow> schedule_ok s"
  by (auto simp: normalize_schedule_def ebind_Inr_iff schedule_ok_def
      dest!: required_text_Inr normalize_periods dest: check_duration_Inr check_min_rate_Inr
      split: pyval.splits list.splits)

lemma normalize_profile_ok:
  assumes "normalize_profile env connector evse v = Inr p"
  shows "profile_ok (target_connector evse connector) p"
  using assms
  by (auto simp: normalize_profile_def ebind_Inr_iff profile_ok_def
      dest!: required_text_Inr dest: normalize_schedule_ok split: pyval.splits)

lemma validated_report_profiles:
  assumes "validate_report_charging_profiles_payload env connector payload = Inr report"
  shows "profiles report \<noteq> [] \<and>
    (\<forall>p \<in> set (profiles report). profile_ok (target_connector (evse_id report) connector) p)"
proof -
  obtain evse entries ps where
    *: "emap (normalize_profile env connector evse) entries = Inr ps"
    and "ps \<noteq> []" "evse_id report = evse" "profiles report = ps"
    using assms
    by (auto simp: validate_report_charging_profiles_payload_def Let_def ebind_Inr_iff split: if_splits)
  then show ?thesis using emap_Inr_all [OF * normalize_profile_ok] by simp
qed

lemma validated_report_connectors:
  "validate_report_charging_profiles_payload env connector payload = Inr report \<Longrightarrow>
     \<forall>p \<in> set (profiles report). connector_id p = target_connector (evse_id report) connector"
  using validated_report_profiles by (fastforce simp: profile_ok_def)

text \<open>
  C15: Type soundness of the validation: whatever a charger sends as ReportChargingProfiles, a report
  that passes the validation is well formed.  It names at least one profile; every profile has a
  stripped, non-empty purpose and kind, stands for the connector of the report, and has a schedule with
  a unit, at least one period, the periods in order of their start, every limit not below or equal to
  zero, and a positive duration and minimal rate where they are given.\<close>
theorem validated_report_well_formed:
  assumes "validate_report_charging_profiles_payload env connector payload = Inr report"
  shows "profiles report \<noteq> [] \<and>
    (\<forall>p \<in> set (profiles report). profile_ok (target_connector (evse_id report) connector) p)"
  using assms by (rule validated_report_profiles)

subsection \<open>Storing\<close>

definition stored_row :: "pyval \<Rightarrow> profile_report \<Rightarrow> stored_profile" where
  "stored_row pk p =
     \<lparr>sp_charger = pk, sp_profile = stored_columns p, sp_schedule = Some (stored_times (profile_schedule p))\<rparr>"

lemma stored_columns_key [simp]:
  "connector_id (stored_columns p) = connector_id p" "profile_id (stored_columns p) = profile_id p"
  by (simp_all add: stored_columns_def)

lemma same_stored_row [simp]: "same_profile pk p (stored_row pk' q) \<longleftrightarrow>
    pk' = pk \<and> connector_id q = connector_id p \<and> profile_id q = profile_id p"
  by (simp add: same_profile_def stored_row_def)

lemma store_profile_Inr:
  "store_profile env pk p rows = Inr rows' \<longleftrightarrow>
     profile_clean_errors env (find (same_profile pk p) rows) p = [] \<and>
     schedule_clean_errors env (profile_schedule p) = Inr [] \<and>
     rows' = (if find (same_profile pk p) rows = None then rows @ [stored_row pk p]
              else map (\<lambda>r. if same_profile pk p r then stored_row pk p else r) rows)"
  by (auto simp: store_profile_def stored_row_def [symmetric] ebind_Inr_iff Let_def split: list.splits if_splits)

lemma find_None_all: "find P xs = None \<longleftrightarrow> (\<forall>x \<in> set xs. \<not> P x)"
  by (auto simp: find_None_iff)

lemma store_profile_stored:
  assumes "store_profile env pk p rows = Inr rows'"
  shows "stored_row pk p \<in> set rows'" (is ?in)
    and "\<And>r. r \<in> set rows' \<Longrightarrow> same_profile pk p r \<Longrightarrow> r = stored_row pk p" (is "\<And>r. ?mem r \<Longrightarrow> ?same r \<Longrightarrow> _")
    and "\<And>r. \<not> same_profile pk p r \<Longrightarrow> r \<in> set rows' \<longleftrightarrow> r \<in> set rows"
proof -
  show ?in
  proof (cases "find (same_profile pk p) rows")
    case None
    then show ?thesis using assms by (simp add: store_profile_Inr)
  next
    case (Some r)
    then have "r \<in> set rows" "same_profile pk p r" by (auto simp: find_Some_iff)
    then show ?thesis using assms Some by (force simp: store_profile_Inr)
  qed
  show "r = stored_row pk p" if "?mem r" "?same r" for r
    using that assms by (auto simp: store_profile_Inr find_None_all split: if_splits)
  show "r \<in> set rows' \<longleftrightarrow> r \<in> set rows" if "\<not> same_profile pk p r" for r
    using that assms by (auto simp: store_profile_Inr split: if_splits)
qed

text \<open>A settled profile: its row is the only one under its key, and saving it again changes nothing.\<close>

definition settled :: "profile_env \<Rightarrow> pyval \<Rightarrow> stored_profile list \<Rightarrow> profile_report \<Rightarrow> bool" where
  "settled env pk rows p \<longleftrightarrow>
     stored_row pk p \<in> set rows \<and> (\<forall>r \<in> set rows. same_profile pk p r \<longrightarrow> r = stored_row pk p) \<and>
     profile_clean_errors env None p = [] \<and> schedule_clean_errors env (profile_schedule p) = Inr []"

lemma clean_errors_None: "profile_clean_errors env x p = [] \<Longrightarrow> profile_clean_errors env None p = []"
  by (auto simp: profile_clean_errors_def split: if_splits)

lemma store_settles:
  assumes "store_profile env pk p rows = Inr rows'" shows "settled env pk rows' p"
proof -
  have "profile_clean_errors env None p = []" "schedule_clean_errors env (profile_schedule p) = Inr []"
    using assms by (auto simp: store_profile_Inr dest: clean_errors_None)
  then show ?thesis using store_profile_stored(1,2) [OF assms] unfolding settled_def by blast
qed

lemma settled_other:
  assumes s: "settled env pk rows p" and q: "store_profile env pk q rows = Inr rows'"
    and ne: "profile_id q \<noteq> profile_id p"
  shows "settled env pk rows' p"
proof -
  have other: "r \<in> set rows' \<longleftrightarrow> r \<in> set rows" if "same_profile pk p r" for r
    by (rule store_profile_stored(3) [OF q]) (use that ne in \<open>auto simp: same_profile_def\<close>)
  have "stored_row pk p \<in> set rows'" using s other [of "stored_row pk p"] unfolding settled_def by simp
  moreover have "\<forall>r \<in> set rows'. same_profile pk p r \<longrightarrow> r = stored_row pk p"
    using s other unfolding settled_def by blast
  ultimately show ?thesis using s unfolding settled_def by blast
qed

lemma persist_keeps_settled:
  "settled env pk rows q \<Longrightarrow> persist_profiles env pk ps rows = Inr rows' \<Longrightarrow>
     profile_id q \<notin> profile_id ` set ps \<Longrightarrow> settled env pk rows' q"
proof (induction ps arbitrary: rows)
  case (Cons p ps)
  then obtain rows1 where s: "store_profile env pk p rows = Inr rows1"
    and r: "persist_profiles env pk ps rows1 = Inr rows'" by (auto simp: ebind_Inr_iff)
  have "settled env pk rows1 q" using settled_other [OF Cons.prems(1) s] Cons.prems(3) by auto
  then show ?case using Cons.IH r Cons.prems(3) by simp
qed simp

lemma persist_settles:
  "persist_profiles env pk ps rows = Inr rows' \<Longrightarrow> distinct (map profile_id ps) \<Longrightarrow> p \<in> set ps \<Longrightarrow>
     settled env pk rows' p"
proof (induction ps arbitrary: rows)
  case (Cons q ps)
  then obtain rows1 where s: "store_profile env pk q rows = Inr rows1"
    and r: "persist_profiles env pk ps rows1 = Inr rows'" by (auto simp: ebind_Inr_iff)
  show ?case
  proof (cases "p = q")
    case True
    then show ?thesis using persist_keeps_settled [OF store_settles [OF s] r] Cons.prems by simp
  next
    case False
    then show ?thesis using Cons r by simp
  qed
qed simp

lemma settled_find:
  assumes "settled env pk rows p" shows "find (same_profile pk p) rows = Some (stored_row pk p)"
proof (cases "find (same_profile pk p) rows")
  case None
  then show ?thesis using assms by (auto simp: settled_def find_None_all)
next
  case (Some r)
  then have "r \<in> set rows" "same_profile pk p r" by (auto simp: find_Some_iff)
  then have "r = stored_row pk p" using assms unfolding settled_def by blast
  then show ?thesis using Some by simp
qed

lemma settled_store_again:
  assumes s: "settled env pk rows p" shows "store_profile env pk p rows = Inr rows"
proof -
  have "map (\<lambda>r. if same_profile pk p r then stored_row pk p else r) rows = rows"
    using s unfolding settled_def by (intro map_idI) auto
  moreover have "profile_clean_errors env (Some (stored_row pk p)) p = []"
    using s by (simp add: settled_def profile_clean_errors_def stored_row_def)
  moreover have "schedule_clean_errors env (profile_schedule p) = Inr []"
    using s by (simp add: settled_def)
  ultimately show ?thesis by (simp add: store_profile_Inr settled_find [OF s])
qed

lemma settled_persist_again:
  "\<forall>p \<in> set ps. settled env pk rows p \<Longrightarrow> persist_profiles env pk ps rows = Inr rows"
  by (induction ps) (auto simp: settled_store_again)

subsection \<open>Comparing a stored report with itself\<close>

text \<open>The times of a report whose rendering does not change when the database hands them back in UTC.\<close>

definition iso_stable :: "consumer_env \<Rightarrow> timestamp option \<Rightarrow> bool" where
  "iso_stable cenv t \<longleftrightarrow> map_option (ne_iso cenv \<circ> in_utc) t = map_option (ne_iso cenv) t"

definition times_stable :: "consumer_env \<Rightarrow> profile_report \<Rightarrow> bool" where
  "times_stable cenv p \<longleftrightarrow>
     iso_stable cenv (valid_from p) \<and> iso_stable cenv (valid_to p) \<and>
     iso_stable cenv (start_schedule (profile_schedule p))"

lemma jget_append: "jget (a @ b) k = (if k \<in> fst ` set a then jget a k else jget b k)"
proof (cases "k \<in> fst ` set a")
  case True
  then obtain v where "map_of a k = Some v" by (metis map_of_eq_None_iff not_None_eq)
  then show ?thesis using True by (simp add: jget_def dget_def map_add_def split: option.split)
next
  case False
  then have "map_of a k = None" by (simp add: map_of_eq_None_iff)
  then show ?thesis using False by (simp add: jget_def dget_def map_add_def split: option.split)
qed

lemma jget_opt_entry: "jget (opt_entry k f v) j = (if j = k then (case v of None \<Rightarrow> PNone | Some x \<Rightarrow> f x) else PNone)"
  by (simp add: opt_entry_def split: option.split)

lemma keys_opt_entry: "fst ` set (opt_entry k f v) = (if v = None then {} else {k})"
  by (cases v) (simp_all add: opt_entry_def)

lemmas payload_get = jget_append jget_opt_entry keys_opt_entry image_Un

lemma schedule_payload_get:
  fixes cenv env s
  defines "d \<equiv> normalized_schedule_payload cenv env s"
  shows "jget d ''chargingRateUnit'' = PStr (charging_rate_unit s)"
    "jget d ''periods'' = PList (map (\<lambda>p. PDict (normalized_period_payload env p)) (periods s))"
    "jget d ''duration'' = (case duration_seconds s of None \<Rightarrow> PNone | Some n \<Rightarrow> PInt n)"
    "jget d ''startSchedule'' = (case start_schedule s of None \<Rightarrow> PNone | Some t \<Rightarrow> iso_value cenv t)"
    "jget d ''minChargingRate'' =
       (case min_charging_rate s of None \<Rightarrow> PNone | Some r \<Rightarrow> float_value env (decimal_float r))"
  by (auto simp: d_def normalized_schedule_payload_def payload_get split: option.splits)

lemma profile_payload_get:
  fixes cenv env p
  defines "d \<equiv> normalized_profile_payload cenv env p"
  shows "jget d ''stackLevel'' = PInt (stack_level p)" "jget d ''purpose'' = PStr (purpose p)"
    "jget d ''kind'' = PStr (kind p)"
    "jget d ''schedule'' = PDict (normalized_schedule_payload cenv env (profile_schedule p))"
    "jget d ''recurrencyKind'' = (if recurrency_kind p = [] then PNone else PStr (recurrency_kind p))"
    "jget d ''transactionId'' = (case transaction_id p of None \<Rightarrow> PNone | Some n \<Rightarrow> PInt n)"
    "jget d ''validFrom'' = (case valid_from p of None \<Rightarrow> PNone | Some t \<Rightarrow> iso_value cenv t)"
    "jget d ''validTo'' = (case valid_to p of None \<Rightarrow> PNone | Some t \<Rightarrow> iso_value cenv t)"
  by (auto simp: d_def normalized_profile_payload_def payload_get split: option.splits)

lemma py_eq_atoms [simp]:
  "py_eq PNone PNone" "py_eq (PInt i) (PInt j) \<longleftrightarrow> i = j" "py_eq (PStr s) (PStr t) \<longleftrightarrow> s = t"
  "py_eq PNone (PStr t) \<longleftrightarrow> False" "py_eq (PStr s) PNone \<longleftrightarrow> False"
  by simp_all

lemma py_eq_float_refl: "f \<noteq> NaN \<Longrightarrow> py_eq (float_value env f) (float_value env f)"
  by (simp add: float_value_def)

lemma py_eq_opt_time:
  "py_eq (case t of None \<Rightarrow> PNone | Some u \<Rightarrow> (iso_value cenv \<circ> in_utc) u)
         (case t of None \<Rightarrow> PNone | Some u \<Rightarrow> iso_value cenv u) \<longleftrightarrow> iso_stable cenv t"
  by (cases t) (auto simp: iso_stable_def iso_value_def)

lemma py_eq_opt_refl: "(\<And>x. v = Some x \<Longrightarrow> py_eq (f x) (f x)) \<Longrightarrow>
    py_eq (case v of None \<Rightarrow> PNone | Some x \<Rightarrow> f x) (case v of None \<Rightarrow> PNone | Some x \<Rightarrow> f x)"
  by (cases v) auto

lemma py_eq_period:
  "limit q \<noteq> NaN \<Longrightarrow> py_eq (PDict (normalized_period_payload env q)) (PDict (normalized_period_payload env q))"
  by (cases "number_phases q"; cases "phase_to_use q")
    (simp_all add: normalized_period_payload_def opt_entry_def float_value_def dget_def)

lemma compare_periods_refl:
  assumes "\<forall>e \<in> set es. py_eq e e" shows "compare_periods es es = []"
proof -
  have "py_eq e r" if "(i, e, r) \<in> set (indexed (zip es es))" for i e r
  proof -
    have "(e, r) \<in> set (zip es es)" using that by (rule indexed_mem)
    then have "e = r" "e \<in> set es" by (auto simp: in_set_zip)
    then show ?thesis using assms by simp
  qed
  then show ?thesis by (auto simp: compare_periods_def)
qed

lemma compare_field_Nil: "compare_field e r kl = [] \<longleftrightarrow> py_eq (jget e (fst kl)) (jget r (fst kl))"
  by (simp add: compare_field_def Let_def)

lemma checked_no_nan:
  assumes "schedule_clean_errors env s = Inr []"
  shows "\<forall>q \<in> set (periods s). limit q \<noteq> NaN" "min_charging_rate s \<noteq> Some DNaN"
proof -
  obtain perrs where *: "emap check_stored_period (indexed (periods s)) = Inr perrs"
    using assms by (auto simp: schedule_clean_errors_def ebind_Inr_iff)
  have step: "limit q \<noteq> NaN" if "check_stored_period (i, q) = Inr e" for i q e
    using that by (auto simp: check_stored_period_def)
  have all: "\<forall>iq \<in> set (indexed (periods s)). limit (snd iq) \<noteq> NaN"
    using * step by (force simp: emap_Inr_iff list_all2_conv_all_nth in_set_conv_nth)
  have "set (periods s) = snd ` set (indexed (periods s))" by (metis map_snd_indexed set_map)
  then show "\<forall>q \<in> set (periods s). limit q \<noteq> NaN" using all by auto
  show "min_charging_rate s \<noteq> Some DNaN"
    using assms by (auto simp: schedule_clean_errors_def ebind_Inr_iff decimal_le_zero_def)
qed

lemma decimal_float_NaN: "decimal_float d = NaN \<longleftrightarrow> d = DNaN"
  by (cases d) (auto simp: decimal_float_def split: option.splits)

lemma diff_stored_row:
  assumes clean: "schedule_clean_errors env (profile_schedule p) = Inr []"
  obtains ms where "diff_reported_charging_profile cenv penv (stored_row pk p) p = Inr ms"
    "ms = [] \<longleftrightarrow> times_stable cenv p"
proof -
  define s where "s = profile_schedule p"
  define e where "e = (stored_columns p)\<lparr>profile_schedule := stored_times s\<rparr>"
  let ?ms = "compare_payloads (normalized_profile_payload cenv penv e) (normalized_profile_payload cenv penv p)"
  have diff: "diff_reported_charging_profile cenv penv (stored_row pk p) p = Inr ?ms"
    by (simp add: diff_reported_charging_profile_def model_profile_to_normalized_def stored_row_def e_def s_def)
  have nan: "\<forall>q \<in> set (periods s). limit q \<noteq> NaN" "min_charging_rate s \<noteq> Some DNaN"
    using checked_no_nan [OF clean] by (simp_all add: s_def)
  have fields: "stack_level e = stack_level p" "purpose e = purpose p" "kind e = kind p"
    "recurrency_kind e = recurrency_kind p" "transaction_id e = transaction_id p"
    "valid_from e = map_option in_utc (valid_from p)" "valid_to e = map_option in_utc (valid_to p)"
    "profile_schedule e = stored_times s" "periods (stored_times s) = periods s"
    "charging_rate_unit (stored_times s) = charging_rate_unit s"
    "duration_seconds (stored_times s) = duration_seconds s"
    "min_charging_rate (stored_times s) = min_charging_rate s"
    "start_schedule (stored_times s) = map_option in_utc (start_schedule s)" "profile_schedule p = s"
    by (simp_all add: e_def s_def stored_columns_def stored_times_def)
  have "compare_periods (map (\<lambda>q. PDict (normalized_period_payload penv q)) (periods s))
          (map (\<lambda>q. PDict (normalized_period_payload penv q)) (periods s)) = []"
    by (rule compare_periods_refl) (use nan(1) in \<open>auto intro!: py_eq_period simp del: py_eq.simps\<close>)
  moreover have "py_eq (case min_charging_rate s of None \<Rightarrow> PNone | Some r \<Rightarrow> float_value penv (decimal_float r))
      (case min_charging_rate s of None \<Rightarrow> PNone | Some r \<Rightarrow> float_value penv (decimal_float r))"
    by (rule py_eq_opt_refl) (use nan(2) in \<open>auto intro!: py_eq_float_refl simp: decimal_float_NaN\<close>)
  moreover have "py_eq (case v of None \<Rightarrow> PNone | Some n \<Rightarrow> PInt n) (case v of None \<Rightarrow> PNone | Some n \<Rightarrow> PInt n)" for v
    by (rule py_eq_opt_refl) simp
  ultimately have "?ms = [] \<longleftrightarrow> times_stable cenv p"
    by (simp add: compare_payloads_def Let_def as_obj_def list_of_def profile_payload_get schedule_payload_get
        fields compare_field_Nil py_eq_opt_time times_stable_def)
  with diff show thesis using that by blast
qed

subsection \<open>Receiving a stored report again\<close>

lemma dget_fold_last:
  assumes "a \<in> set xs" "f a = i" "\<And>r. r \<in> set xs \<Longrightarrow> f r = i \<Longrightarrow> r = a"
  shows "dget (fold (\<lambda>r. dset (f r) r) xs d) i = Some a"
  using assms
proof (induction xs rule: rev_induct)
  case (snoc x xs)
  show ?case
  proof (cases "f x = i")
    case True
    then have "x = a" by (intro snoc.prems(3)) auto
    then show ?thesis using True by simp
  next
    case False
    moreover have "a \<in> set xs" using False snoc.prems(1,2) by auto
    moreover have "dget (fold (\<lambda>r. dset (f r) r) xs d) i = Some a"
      by (rule snoc.IH [OF \<open>a \<in> set xs\<close> snoc.prems(2)]) (auto intro: snoc.prems(3))
    ultimately show ?thesis by simp
  qed
qed simp

definition same_rows :: "'r tx_conn \<Rightarrow> 'r tx_conn \<Rightarrow> bool" where
  "same_rows c c' \<longleftrightarrow>
     tc_db c' = tc_db c \<and> tc_charger c' = tc_charger c \<and> tc_charger_id c' = tc_charger_id c \<and>
     tc_connector c' = tc_connector c \<and> tc_store_key c' = tc_store_key c"

lemma same_rows_simps [simp]:
  "same_rows c c" "same_rows c (log_line k e c') = same_rows c c'" "same_rows c (on_state f c') = same_rows c c'"
  by (simp_all add: same_rows_def)

lemma same_rows_trans: "same_rows a b \<Longrightarrow> same_rows b c \<Longrightarrow> same_rows a c"
  by (simp add: same_rows_def)

lemma charger_field_same: "same_rows c c' \<Longrightarrow> charger_field k f c' = charger_field k f c"
  by (auto simp: same_rows_def charger_field_def split: option.split)

abbreviation quiet_step :: "'r tx_conn \<Rightarrow> 'r tx_conn \<Rightarrow> bool" where
  "quiet_step c c' \<equiv> same_rows c c' \<and> log_lines (tc_store c') = log_lines (tc_store c)"

lemma loop_frame: "quiet_step c (snd (reconcile_loop cenv env name report expected ps seen c))"
proof (induction ps arbitrary: seen c)
  case (Cons p ps)
  let ?c1 = "on_state (record_reported_charging_profile name (request_id report)
               (opt_int (evse_id report)) (Some (profile_id p))) c"
  have "quiet_step ?c1 (snd (reconcile_loop cenv env name report expected ps (profile_id p # seen) ?c1))"
    by (rule Cons.IH)
  then have "quiet_step c (snd (reconcile_loop cenv env name report expected ps (profile_id p # seen) ?c1))"
    using same_rows_trans [of c ?c1] by simp
  moreover have "quiet_step c (snd (reconcile_loop cenv env name report expected ps seen c))"
    by (rule Cons.IH)
  ultimately show ?case by (simp add: Let_def split: prod.splits sum.splits) auto
qed simp

definition missing_lines :: "(pyval \<times> string \<times> string) list \<Rightarrow> bool" where
  "missing_lines ls \<longleftrightarrow> (\<forall>l \<in> set ls. py_startswith (fst (snd l)) ''ReportChargingProfiles missing'')"

lemma missing_lines_append [simp]:
  "missing_lines []" "missing_lines (a @ b) \<longleftrightarrow> missing_lines a \<and> missing_lines b"
  by (auto simp: missing_lines_def)

abbreviation missing_only :: "'r tx_conn \<Rightarrow> 'r tx_conn \<Rightarrow> bool" where
  "missing_only c c' \<equiv>
     same_rows c c' \<and> (\<exists>ls. missing_lines ls \<and> log_lines (tc_store c') = log_lines (tc_store c) @ ls)"

lemma missing_step_frame: "missing_only c (missing_step report reported kv c)"
proof (cases "missing_ids reported (fst kv) (snd kv) = []")
  case True
  then show ?thesis by (auto simp: missing_step_def intro: exI [of _ "[]"])
next
  case False
  then show ?thesis by (auto simp: missing_step_def missing_line_def missing_lines_def)
qed

lemma missing_steps_frame: "missing_only c (fold (missing_step report reported) kvs c)"
proof (induction kvs arbitrary: c)
  case Nil
  show ?case by (auto intro: exI [of _ "[]"])
next
  case (Cons kv kvs)
  obtain l1 where 1: "same_rows c (missing_step report reported kv c)" "missing_lines l1"
    "log_lines (tc_store (missing_step report reported kv c)) = log_lines (tc_store c) @ l1"
    using missing_step_frame by blast
  obtain l2 where 2: "missing_lines l2"
    "same_rows (missing_step report reported kv c) (fold (missing_step report reported) (kv # kvs) c)"
    "log_lines (tc_store (fold (missing_step report reported) (kv # kvs) c)) =
       log_lines (tc_store (missing_step report reported kv c)) @ l2"
    using Cons.IH [of "missing_step report reported kv c"] by auto
  have "missing_lines (l1 @ l2)" "same_rows c (fold (missing_step report reported) (kv # kvs) c)"
    using 1 2 same_rows_trans by auto
  moreover have "log_lines (tc_store (fold (missing_step report reported) (kv # kvs) c)) = log_lines (tc_store c) @ l1 @ l2"
    using 1(3) 2(3) by simp
  ultimately show ?case by blast
qed

lemma report_missing_frame: "missing_only c (report_missing name report rows c)"
proof (cases "consume_reported_charging_profiles name (request_id report) (st (tc_store c))")
  case (Pair recorded s)
  show ?thesis
    using missing_steps_frame [of "on_state (\<lambda>_. s) c" report "case recorded of None \<Rightarrow> [] | Some r \<Rightarrow> r"
        "expected_by_evse (charger_profiles name (on_state (\<lambda>_. s) c) rows)"]
      same_rows_trans [of c "on_state (\<lambda>_. s) c"]
    by (simp add: report_missing_def Pair Let_def)
qed

lemma reconcile_loop_settled:
  assumes "\<forall>p \<in> set ps. dget expected (profile_id p) = Some (stored_row pk p) \<and>
             schedule_clean_errors env (profile_schedule p) = Inr []"
    and "distinct (map profile_id ps)" "profile_id ` set ps \<inter> set seen = {}"
  shows "\<exists>ms. fst (reconcile_loop cenv env name report expected ps seen c) = Inr ms \<and>
           (ms = [] \<longleftrightarrow> (\<forall>p \<in> set ps. times_stable cenv p))"
  using assms
proof (induction ps arbitrary: seen c)
  case (Cons p ps)
  let ?c1 = "on_state (record_reported_charging_profile name (request_id report)
               (opt_int (evse_id report)) (Some (profile_id p))) c"
  obtain here where here: "diff_reported_charging_profile cenv env (stored_row pk p) p = Inr here"
    "here = [] \<longleftrightarrow> times_stable cenv p"
    using diff_stored_row [of env p cenv env pk] Cons.prems(1) by auto
  obtain ms where ms:
    "fst (reconcile_loop cenv env name report expected ps (profile_id p # seen) ?c1) = Inr ms"
    "ms = [] \<longleftrightarrow> (\<forall>p \<in> set ps. times_stable cenv p)"
    using Cons.IH [of "profile_id p # seen" ?c1] Cons.prems by auto
  have "dget expected (profile_id p) = Some (stored_row pk p)" "profile_id p \<notin> set seen"
    using Cons.prems by auto
  then show ?case using here ms by (auto simp: Let_def split: prod.split)
qed simp

definition mismatch_logged :: "(pyval \<times> string \<times> string) list \<Rightarrow> bool" where
  "mismatch_logged ls \<longleftrightarrow> (\<exists>l \<in> set ls. py_startswith (fst (snd l)) ''ReportChargingProfiles mismatch'')"

lemma mismatch_logged_simps [simp]:
  "mismatch_logged (a @ b) \<longleftrightarrow> mismatch_logged a \<or> mismatch_logged b" "\<not> mismatch_logged []"
  "mismatch_logged [(k, mismatch_line report ms, t)]"
  "\<not> mismatch_logged [(k, notification_text ''ReportChargingProfiles'' v, t)]"
  by (auto simp: mismatch_logged_def mismatch_line_def notification_text_def Let_def)

lemma missing_not_mismatch: "missing_lines ls \<Longrightarrow> \<not> mismatch_logged ls"
  by (fastforce simp: missing_lines_def mismatch_logged_def py_startswith_iff)

text \<open>The row of a charger for an EVSE is the only one of its name and connector, and profiles that
  belong to it are filed under its connector.\<close>

definition evse_row :: "'r tx_conn \<Rightarrow> int \<Rightarrow> pyval \<Rightarrow> bool" where
  "evse_row c e pk \<longleftrightarrow>
     (\<forall>k. charger_field (Some k) ''charger_id'' c = PStr (tc_charger_id c) \<and>
          charger_field (Some k) ''connector_id'' c = PInt e \<longleftrightarrow> k = pk)"

lemma evse_rowD:
  assumes "evse_row c e pk"
  shows "charger_field (Some pk) ''charger_id'' c = PStr (tc_charger_id c)"
    "charger_field (Some pk) ''connector_id'' c = PInt e" "charger_name pk c = tc_charger_id c"
proof -
  show f: "charger_field (Some pk) ''charger_id'' c = PStr (tc_charger_id c)"
    "charger_field (Some pk) ''connector_id'' c = PInt e"
    using assms unfolding evse_row_def by blast+
  show "charger_name pk c = tc_charger_id c" using f(1) by (simp add: charger_name_def)
qed

lemma expected_settled:
  assumes row: "evse_row c e pk" and e: "evse_id report = Some e"
    and placed: "\<forall>r \<in> set rows. sp_charger r = pk \<longrightarrow> connector_id (sp_profile r) = e"
    and s: "settled env pk rows p" and p: "connector_id p = e"
  shows "dget (expected_by_id (tc_charger_id c) (evse_id report) c rows) (profile_id p) = Some (stored_row pk p)"
  unfolding expected_by_id_def
proof (rule dget_fold_last)
  let ?xs = "filter (\<lambda>r. evse_id report = None \<or>
      charger_field (Some (sp_charger r)) ''connector_id'' c = opt_int (evse_id report))
      (charger_profiles (tc_charger_id c) c rows)"
  show "stored_row pk p \<in> set ?xs"
    using s evse_rowD [OF row] e by (simp add: charger_profiles_def settled_def stored_row_def opt_int_def)
  show "profile_id (sp_profile (stored_row pk p)) = profile_id p" by (simp add: stored_row_def)
  show "r = stored_row pk p" if "r \<in> set ?xs" and id: "profile_id (sp_profile r) = profile_id p" for r
  proof -
    have "sp_charger r = pk" "r \<in> set rows"
      using that(1) row e by (auto simp: charger_profiles_def evse_row_def opt_int_def)
    then have "same_profile pk p r" using placed p id by (simp add: same_profile_def)
    then show ?thesis using s \<open>r \<in> set rows\<close> unfolding settled_def by blast
  qed
qed

lemma resolve_again:
  assumes "resolve_report_charging_profile_charger report c = (Some pk, c1)"
    and "evse_id report = Some e" "e \<noteq> 0" and row: "evse_row c1 e pk" and same: "same_rows c1 c2"
    and serial: "tc_charger_id c \<noteq> []"
  shows "resolve_report_charging_profile_charger report c2 = (Some pk, c2)"
proof -
  have target: "target_connector (evse_id report) k = e" for k
    using assms(2,3) by (simp add: target_connector_def)
  have id: "tc_charger_id c1 = tc_charger_id c"
    using assms(1) by (auto simp: resolve_report_charging_profile_charger_def Let_def split: if_splits prod.splits)
  have id2: "tc_charger_id c2 = tc_charger_id c1" using same by (simp add: same_rows_def)
  have first: "charger_field (Some k) ''charger_id'' c2 = PStr (tc_charger_id c2) \<Longrightarrow>
      charger_field (Some k) ''connector_id'' c2 = PInt e \<Longrightarrow> k = pk" for k
    unfolding charger_field_same [OF same] id2 using row unfolding evse_row_def by blast
  let ?find = "db_first ''Charger'' (has_fields [(''charger_id'', PStr (tc_charger_id c2)), (''connector_id'', PInt e)]) (tc_db c2)"
  consider "tc_charger c = Some pk" "c1 = c" "charger_field (Some pk) ''charger_id'' c = PStr (tc_charger_id c)"
      "charger_field (Some pk) ''connector_id'' c = PInt e"
    | "?find = Some pk"
  proof -
    show thesis
    proof (cases "tc_charger c \<noteq> None \<and> charger_field (tc_charger c) ''charger_id'' c = PStr (tc_charger_id c) \<and>
            charger_field (tc_charger c) ''connector_id'' c = PInt e")
      case True
      then have "resolve_report_charging_profile_charger report c = (tc_charger c, c)"
        using serial by (simp add: resolve_report_charging_profile_charger_def Let_def target)
      then have "tc_charger c = Some pk" "c1 = c" using assms(1) by (metis Pair_inject)+
      then show thesis using True that(1) by metis
    next
      case False
      let ?p = "has_fields [(''charger_id'', PStr (tc_charger_id c)), (''connector_id'', PInt e)]"
      have g: "(case db_get_or_create ''Charger'' [(''charger_id'', PStr (tc_charger_id c)), (''connector_id'', PInt e)] []
                  (tc_db c) of (pk, _, d) \<Rightarrow> (Some pk, c\<lparr>tc_db := d\<rparr>)) = (Some pk, c1)"
        using assms(1) serial False
        by (auto simp: resolve_report_charging_profile_charger_def Let_def target split: if_splits)
      have "db_first ''Charger'' ?p (tc_db c1) = Some pk"
      proof (cases "db_first ''Charger'' ?p (tc_db c)")
        case None
        then have none: "db_pks ''Charger'' ?p (tc_db c) = []" by (simp add: db_first_def split: list.splits)
        have "?p [(''charger_id'', PStr (tc_charger_id c)), (''connector_id'', PInt e)]" by (simp add: has_fields_def)
        then have "db_pks ''Charger'' ?p (dset (''Charger'', PInt (db_next_pk ''Charger'' (tc_db c)))
            [(''charger_id'', PStr (tc_charger_id c)), (''connector_id'', PInt e)] (tc_db c)) =
            [PInt (db_next_pk ''Charger'' (tc_db c))]"
          using none db_next_pk_fresh by (subst db_pks_append) auto
        then show ?thesis using g None
          by (auto simp: db_get_or_create_def db_create_def Let_def db_first_def)
      next
        case (Some k)
        then show ?thesis using g by (auto simp: db_get_or_create_def)
      qed
      then show thesis using same id that(2) by (simp add: same_rows_def)
    qed
  qed
  then show ?thesis
  proof cases
    case 1
    then show ?thesis using same serial
      by (simp add: resolve_report_charging_profile_charger_def Let_def target charger_field_same [OF same]
          same_rows_def)
  next
    case 2
    show ?thesis
    proof (cases "tc_charger c2 \<noteq> None \<and> charger_field (tc_charger c2) ''charger_id'' c2 = PStr (tc_charger_id c2) \<and>
            charger_field (tc_charger c2) ''connector_id'' c2 = PInt e")
      case True
      then obtain k where k: "tc_charger c2 = Some k" by blast
      then have "k = pk" using True by (intro first) auto
      then have "tc_charger c2 = Some pk" using k by simp
      then show ?thesis using True serial id id2
        by (simp add: resolve_report_charging_profile_charger_def Let_def target)
    next
      case False
      then show ?thesis using 2 serial id id2
        by (auto simp: resolve_report_charging_profile_charger_def Let_def target db_get_or_create_def)
    qed
  qed
qed

lemma reconcile_frame:
  assumes "reconcile_reported_charging_profiles cenv env report charger rows c = (r, c')"
  shows "same_rows c c'"
proof (cases charger)
  case None
  then show ?thesis using assms by (simp add: reconcile_reported_charging_profiles_def)
next
  case (Some pk)
  let ?loop = "reconcile_loop cenv env (charger_name pk c) report
      (expected_by_id (charger_name pk c) (evse_id report) c rows) (profiles report) [] c"
  obtain q c1 where l: "?loop = (q, c1)" by (cases ?loop)
  then have "same_rows c c1" using loop_frame [of c] by (metis snd_conv)
  moreover have "same_rows c1 (report_missing (charger_name pk c) report rows c2)" if "same_rows c1 c2" for c2
    using same_rows_trans [OF that] report_missing_frame [of c2] by blast
  ultimately show ?thesis
    using assms Some l same_rows_trans [of c c1]
    by (cases q) (auto simp: reconcile_reported_charging_profiles_def Let_def split: if_splits)
qed

lemma reconcile_settled:
  assumes all: "\<forall>p \<in> set (profiles report). settled env pk rows p \<and> connector_id p = e"
    and dist: "distinct (map profile_id (profiles report))"
    and row: "evse_row c e pk" and e: "evse_id report = Some e"
    and placed: "\<forall>r \<in> set rows. sp_charger r = pk \<longrightarrow> connector_id (sp_profile r) = e"
  shows "\<exists>c' ls. reconcile_reported_charging_profiles cenv env report (Some pk) rows c = (Inr (), c') \<and>
     log_lines (tc_store c') = log_lines (tc_store c) @ ls \<and>
     (mismatch_logged ls \<longleftrightarrow> \<not> (\<forall>p \<in> set (profiles report). times_stable cenv p))"
proof -
  let ?expected = "expected_by_id (charger_name pk c) (evse_id report) c rows"
  let ?loop = "reconcile_loop cenv env (charger_name pk c) report ?expected (profiles report) [] c"
  have "\<forall>p \<in> set (profiles report). dget ?expected (profile_id p) = Some (stored_row pk p) \<and>
      schedule_clean_errors env (profile_schedule p) = Inr []"
  proof
    fix p assume "p \<in> set (profiles report)"
    then have s: "settled env pk rows p" and p: "connector_id p = e" using all by blast+
    show "dget ?expected (profile_id p) = Some (stored_row pk p) \<and>
      schedule_clean_errors env (profile_schedule p) = Inr []"
      using expected_settled [OF row e placed s p] s unfolding evse_rowD(3) [OF row] settled_def by blast
  qed
  then obtain ms where ms: "fst ?loop = Inr ms" "ms = [] \<longleftrightarrow> (\<forall>p \<in> set (profiles report). times_stable cenv p)"
    using reconcile_loop_settled [of "profiles report" ?expected pk env "[]" cenv "charger_name pk c" report c] dist
    by auto
  define c1 where "c1 = snd ?loop"
  have loop: "?loop = (Inr ms, c1)" using ms(1) by (simp add: c1_def prod_eq_iff)
  have c1: "log_lines (tc_store c1) = log_lines (tc_store c)" unfolding c1_def using loop_frame by blast
  define c2 where "c2 = (if ms = [] then c1 else log_line (tc_store_key c1) (mismatch_line report ms) c1)"
  define l1 where "l1 = (if ms = [] then [] else [(PStr (tc_store_key c1), mismatch_line report ms, ''charger'')])"
  have c2: "log_lines (tc_store c2) = log_lines (tc_store c) @ l1" by (simp add: c2_def l1_def c1)
  have l1: "mismatch_logged l1 \<longleftrightarrow> ms \<noteq> []" by (simp add: l1_def)
  obtain l2 where l2: "missing_lines l2"
    "log_lines (tc_store (report_missing (charger_name pk c) report rows c2)) = log_lines (tc_store c2) @ l2"
    using report_missing_frame [of c2] by blast
  have "reconcile_reported_charging_profiles cenv env report (Some pk) rows c =
      (Inr (), if tbc report then c2 else report_missing (charger_name pk c) report rows c2)"
    by (simp add: reconcile_reported_charging_profiles_def Let_def loop c2_def)
  moreover have "mismatch_logged (l1 @ l2) \<longleftrightarrow> ms \<noteq> []"
    using l1 missing_not_mismatch [OF l2(1)] by simp
  ultimately show ?thesis
    using c2 l1 l2(2) ms(2) by (cases "tbc report") auto
qed

lemma persist_placed:
  "persist_profiles env pk ps rows = Inr rows' \<Longrightarrow>
     \<forall>r \<in> set rows. sp_charger r = pk \<longrightarrow> connector_id (sp_profile r) = e \<Longrightarrow>
     (\<And>p. p \<in> set ps \<Longrightarrow> connector_id p = e) \<Longrightarrow>
     \<forall>r \<in> set rows'. sp_charger r = pk \<longrightarrow> connector_id (sp_profile r) = e"
proof (induction ps arbitrary: rows)
  case (Cons p ps)
  then obtain rows1 where s: "store_profile env pk p rows = Inr rows1"
    and r: "persist_profiles env pk ps rows1 = Inr rows'" by (auto simp: ebind_Inr_iff)
  have "\<forall>r \<in> set rows1. sp_charger r = pk \<longrightarrow> connector_id (sp_profile r) = e"
    using store_profile_stored(2,3) [OF s] Cons.prems(2,3) by (metis list.set_intros(1) same_profile_def)
  then show ?case using Cons.IH r Cons.prems(3) by simp
qed simp

lemma handle_stored:
  assumes "validate_report_charging_profiles_payload cenv (tc_connector c) payload = Inr report"
    and "resolve_report_charging_profile_charger report c = (Some pk, c1)"
    and "reconcile_reported_charging_profiles cenv env report (Some pk) rows c1 = (Inr (), c2)"
    and "persist_profiles env pk (profiles report) rows = Inr rows'"
  shows "handle_report_charging_profiles cenv env payload (c, rows) =
    (Inr [], log_ocpp201_notification ''ReportChargingProfiles'' payload c2, rows')"
  using assms by (simp add: handle_report_charging_profiles_def Let_def)

text \<open>
  C14: Storing a report and receiving it again.  Let a valid report for an EVSE be handled and its
  profiles be stored.  When the charger sends the same report again, the handler answers, the stored
  profiles stay exactly as they are, and a mismatch is logged if and only if some time of the report is
  rendered differently once the database has handed it back in UTC.  So a report whose times are in UTC
  settles at once, and one with another offset is reported as a mismatch every time.\<close>
theorem resubmitted_report_settles:
  assumes valid: "validate_report_charging_profiles_payload cenv (tc_connector c) payload = Inr report"
    and charger: "resolve_report_charging_profile_charger report c = (Some pk, c1)"
    and first: "handle_report_charging_profiles cenv env payload (c, rows) = (Inr [], c2, rows')"
    and stored: "persist_profiles env pk (profiles report) rows = Inr rows'"
    and serial: "tc_charger_id c \<noteq> []" and e: "evse_id report = Some e" "e \<noteq> 0"
    and row: "evse_row c1 e pk"
    and placed: "\<forall>r \<in> set rows. sp_charger r = pk \<longrightarrow> connector_id (sp_profile r) = e"
    and dist: "distinct (map profile_id (profiles report))"
  shows "\<exists>c3 ls. handle_report_charging_profiles cenv env payload (c2, rows') = (Inr [], c3, rows') \<and>
    log_lines (tc_store c3) = log_lines (tc_store c2) @ ls \<and>
    (mismatch_logged ls \<longleftrightarrow> \<not> (\<forall>p \<in> set (profiles report). times_stable cenv p))"
proof -
  obtain r c1' where rec: "reconcile_reported_charging_profiles cenv env report (Some pk) rows c1 = (r, c1')"
    by fastforce
  have r: "r = Inr ()" and c2: "c2 = log_ocpp201_notification ''ReportChargingProfiles'' payload c1'"
    using first valid charger rec stored
    by (simp_all add: handle_report_charging_profiles_def Let_def split: sum.splits)
  have same: "same_rows c1 c2" using reconcile_frame [OF rec] by (simp add: c2 log_ocpp201_notification_def)
  have charger2: "resolve_report_charging_profile_charger report c2 = (Some pk, c2)"
    by (rule resolve_again [OF charger e row same serial])
  have "tc_connector c1 = tc_connector c"
    using charger by (auto simp: resolve_report_charging_profile_charger_def Let_def split: if_splits prod.splits)
  then have valid2: "validate_report_charging_profiles_payload cenv (tc_connector c2) payload = Inr report"
    using valid same by (simp add: same_rows_def)
  have conn: "connector_id p = e" if "p \<in> set (profiles report)" for p
    using that validated_report_connectors [OF valid] e by (simp add: target_connector_def)
  have settled: "settled env pk rows' p" if "p \<in> set (profiles report)" for p
    by (rule persist_settles [OF stored dist that])
  have placed2: "\<forall>r \<in> set rows'. sp_charger r = pk \<longrightarrow> connector_id (sp_profile r) = e"
    by (rule persist_placed [OF stored placed]) (rule conn)
  have row2: "evse_row c2 e pk"
    using row charger_field_same [OF same] same by (simp add: evse_row_def same_rows_def)
  obtain c3 ls where again: "reconcile_reported_charging_profiles cenv env report (Some pk) rows' c2 = (Inr (), c3)"
    "log_lines (tc_store c3) = log_lines (tc_store c2) @ ls"
    "mismatch_logged ls \<longleftrightarrow> \<not> (\<forall>p \<in> set (profiles report). times_stable cenv p)"
    using reconcile_settled [of report env pk rows' e c2 cenv] conn settled dist row2 e(1) placed2 by blast
  have "persist_profiles env pk (profiles report) rows' = Inr rows'"
    by (rule settled_persist_again) (use settled in blast)
  from handle_stored [OF valid2 charger2 again(1) this] again show ?thesis
    by (simp add: log_ocpp201_notification_def)
qed

subsection \<open>Numbers that are none\<close>

lemma emap_Inl:
  assumes "x \<in> set xs" "f x = Inl e" "\<And>y d. y \<in> set xs \<Longrightarrow> f y = Inl d \<Longrightarrow> d = e"
  shows "emap f xs = Inl e"
  using assms
proof (induction xs)
  case (Cons y ys)
  show ?case
  proof (cases "f y")
    case (Inl d)
    have "d = e" by (rule Cons.prems(3) [OF _ Inl]) simp
    then show ?thesis using Inl by simp
  next
    case (Inr b)
    have "x \<in> set ys" using Cons.prems(1,2) Inr by auto
    then have "emap f ys = Inl e"
      by (rule Cons.IH [OF _ Cons.prems(2)]) (use Cons.prems(3) in force)
    then show ?thesis using Inr by simp
  qed
qed simp

lemma nan_period_raises:
  assumes "q \<in> set (periods s)" "limit q = NaN"
  shows "schedule_clean_errors env s = Inl InvalidOperation"
proof -
  obtain i where "(i, q) \<in> set (indexed (periods s))"
    using assms(1) by (metis imageE map_snd_indexed prod.collapse set_map)
  then have "emap check_stored_period (indexed (periods s)) = Inl InvalidOperation"
    by (rule emap_Inl) (auto simp: check_stored_period_def assms(2) Let_def split: pfloat.splits if_splits option.splits)
  then show ?thesis by (simp add: schedule_clean_errors_def)
qed

text \<open>
  C34: A limit that is not a number.  NaN passes the check of the validation, which asks whether the
  limit is at most zero.  When the report is stored, comparing the limit as a decimal raises, which the
  handler does not catch: the charger gets no answer and nothing is stored.\<close>
theorem nan_limit_unanswered:
  assumes "validate_report_charging_profiles_payload cenv (tc_connector c) payload = Inr report"
    and "resolve_report_charging_profile_charger report c = (Some pk, c1)"
    and "profiles report = p # ps" "q \<in> set (periods (profile_schedule p))" "limit q = NaN"
    and "profile_clean_errors env (find (same_profile pk p) rows) p = []"
  shows "\<exists>e c'. handle_report_charging_profiles cenv env payload (c, rows) = (Inl e, c', rows)"
proof -
  have persist: "persist_profiles env pk (profiles report) rows = Inl InvalidOperation"
    using assms(3,6) nan_period_raises [OF assms(4,5)] by (simp add: store_profile_def Let_def)
  obtain r c2 where rec: "reconcile_reported_charging_profiles cenv env report (Some pk) rows c1 = (r, c2)"
    by fastforce
  show ?thesis
    using assms(1,2) rec persist
    by (cases r) (simp_all add: handle_report_charging_profiles_def Let_def)
qed

subsection \<open>Concrete reports\<close>

definition demo_times :: consumer_env where
  "demo_times = \<lparr>ne_now = \<lparr>ts_instant = 0, ts_offset = 0\<rparr>,
     ne_parse = (\<lambda>s. if s = ''T'' then Inr (Some \<lparr>ts_instant = 60, ts_offset = 0\<rparr>)
                     else if s = ''P'' then Inr (Some \<lparr>ts_instant = 60, ts_offset = 120\<rparr>) else Inr None),
     ne_iso = (\<lambda>t. int_str (ts_instant t) @ ''+'' @ int_str (ts_offset t)), ne_str = (\<lambda>t. int_str (ts_instant t))\<rparr>"

definition demo_profile_env :: profile_env where
  "demo_profile_env = \<lparr>pe_profile_ok = (\<lambda>_. True), pe_schedule_ok = (\<lambda>_. True), pe_error_text = (\<lambda>_. ''invalid''),
     pe_repr = (\<lambda>f. ''x'')\<rparr>"

definition demo_profiles_payload :: pyval where
  "demo_profiles_payload = PDict [(''requestId'', PInt 7), (''evseId'', PInt 2), (''chargingProfile'', PDict
     [(''id'', PInt 5), (''stackLevel'', PInt 1), (''chargingProfilePurpose'', PStr ''TxDefaultProfile''),
      (''chargingProfileKind'', PStr ''Absolute''), (''chargingSchedule'', PDict
        [(''chargingRateUnit'', PStr ''A''), (''startSchedule'', PStr ''P''),
         (''chargingSchedulePeriod'', PList [PDict [(''startPeriod'', PInt 0), (''limit'', PFloat (Fin 16) ''16.0'')]])])])]"

definition demo_schedule :: schedule where
   "demo_schedule = \<lparr>charging_rate_unit = ''A'', 
        periods = [\<lparr>start_period = 0, limit = Fin 16, number_phases = None, phase_to_use = None\<rparr>],
        duration_seconds = None, start_schedule = Some \<lparr>ts_instant = 60, ts_offset = 120\<rparr>, min_charging_rate = None\<rparr>"
definition demo_reported :: profile_report where
  "demo_reported = \<lparr>profile_id = 5, stack_level = 1, purpose = ''TxDefaultProfile'', kind = ''Absolute'', connector_id = 2,
      profile_schedule = demo_schedule,
      recurrency_kind = [], transaction_id = None, valid_from = None, valid_to = None\<rparr>"
definition demo_payload_report :: report_payload where
  "demo_payload_report = \<lparr>request_id = Some 7, evse_id = Some 2, tbc = False, profiles = [demo_reported]\<rparr>"

lemma demo_strips: "py_strip ''A'' = ''A''" "py_strip ''TxDefaultProfile'' = ''TxDefaultProfile''" "py_strip ''Absolute'' = ''Absolute''"
  by code_simp+
lemma demo_valid: "validate_report_charging_profiles_payload demo_times (tc_connector demo_conn) demo_profiles_payload = Inr demo_payload_report"
  by (simp add: validate_report_charging_profiles_payload_def Let_def demo_profiles_payload_def as_obj_def
    profile_entries_def normalize_profile_def por_def lift_exn_def required_def required_text_def demo_strips
    normalize_schedule_def indexed_def normalize_period_def period_limit_def float_le_zero_def parse_min_rate_def
    check_duration_def check_min_rate_def parse_ocpp_timestamp_def demo_times_def demo_payload_report_def demo_reported_def demo_schedule_def target_connector_def)

definition demo_found :: "unit tx_conn" where
  "demo_found = demo_conn\<lparr>tc_db := tc_db demo_conn @
     [((''Charger'', PInt 2), [(''charger_id'', PStr ''CP''), (''connector_id'', PInt 2)])]\<rparr>"

lemma demo_resolved:
  "resolve_report_charging_profile_charger demo_payload_report demo_conn = (Some (PInt 2), demo_found)"
  by (simp add: resolve_report_charging_profile_charger_def Let_def demo_payload_report_def target_connector_def
      demo_conn_def charger_field_def db_get_def db_get_or_create_def db_first_def db_pks_def has_fields_def
      db_create_def db_next_pk_def dset_def demo_found_def)

lemma demo_row: "evse_row demo_found 2 (PInt 2)"
  by (auto simp: evse_row_def demo_found_def demo_conn_def charger_field_def db_get_def dget_def split: if_splits option.splits)

lemma demo_persist:
  "persist_profiles demo_profile_env (PInt 2) [demo_reported] [] = Inr [stored_row (PInt 2) demo_reported]"
  by (simp add: store_profile_def Let_def profile_clean_errors_def demo_profile_env_def demo_reported_def demo_schedule_def
     schedule_clean_errors_def indexed_def check_stored_period_def float_le_zero_def stored_row_def)

definition demo_reconciled :: "unit tx_conn" where
  "demo_reconciled = snd (reconcile_reported_charging_profiles demo_times demo_profile_env demo_payload_report (Some (PInt 2)) [] demo_found)"

lemma demo_reconcile: "reconcile_reported_charging_profiles demo_times demo_profile_env demo_payload_report (Some (PInt 2)) [] demo_found = (Inr (), demo_reconciled)"
  by (simp add: demo_reconciled_def reconcile_reported_charging_profiles_def Let_def demo_payload_report_def expected_by_id_def charger_profiles_def)

theorem validated_report_well_formed_witness:
  "profiles demo_payload_report \<noteq> [] \<and> list_all (profile_ok 2) (profiles demo_payload_report)"
  using validated_report_well_formed [OF demo_valid]
  by (simp add: demo_payload_report_def target_connector_def list_all_iff)

theorem resubmitted_report_settles_witness:
  "\<exists>c3 ls. handle_report_charging_profiles demo_times demo_profile_env demo_profiles_payload
      (log_ocpp201_notification ''ReportChargingProfiles'' demo_profiles_payload demo_reconciled,
       [stored_row (PInt 2) demo_reported]) = (Inr [], c3, [stored_row (PInt 2) demo_reported]) \<and> mismatch_logged ls"
proof -
  have first: "handle_report_charging_profiles demo_times demo_profile_env demo_profiles_payload (demo_conn, []) =
      (Inr [], log_ocpp201_notification ''ReportChargingProfiles'' demo_profiles_payload demo_reconciled,
       [stored_row (PInt 2) demo_reported])"
    by (rule handle_stored [OF demo_valid demo_resolved demo_reconcile])
      (use demo_persist in \<open>simp add: demo_payload_report_def\<close>)
  have "\<not> times_stable demo_times demo_reported"
    by (simp add: times_stable_def iso_stable_def demo_reported_def demo_schedule_def demo_times_def in_utc_def
        int_str_inj)
  then show ?thesis
    using resubmitted_report_settles [OF demo_valid demo_resolved first, of 2] demo_persist demo_row
    by (auto simp: demo_payload_report_def demo_conn_def)
qed

definition nan_payload :: pyval where
  "nan_payload = PDict [(''requestId'', PInt 7), (''evseId'', PInt 2), (''chargingProfile'', PDict
     [(''id'', PInt 5), (''stackLevel'', PInt 1), (''chargingProfilePurpose'', PStr ''TxDefaultProfile''),
      (''chargingProfileKind'', PStr ''Absolute''), (''chargingSchedule'', PDict
        [(''chargingRateUnit'', PStr ''A''),
         (''chargingSchedulePeriod'', PList [PDict [(''startPeriod'', PInt 0), (''limit'', PFloat NaN ''nan'')]])])])]"

definition nan_report :: report_payload where
  "nan_report = demo_payload_report\<lparr>profiles := [demo_reported\<lparr>profile_schedule := demo_schedule
     \<lparr>periods := [\<lparr>start_period = 0, limit = NaN, number_phases = None, phase_to_use = None\<rparr>], start_schedule := None\<rparr>\<rparr>]\<rparr>"

theorem nan_limit_unanswered_witness:
  "\<exists>e c'. handle_report_charging_profiles demo_times demo_profile_env nan_payload (demo_conn, []) = (Inl e, c', [])"
proof (rule nan_limit_unanswered)
  show "validate_report_charging_profiles_payload demo_times (tc_connector demo_conn) nan_payload = Inr nan_report"
    by (simp add: validate_report_charging_profiles_payload_def Let_def nan_payload_def as_obj_def
        profile_entries_def normalize_profile_def por_def lift_exn_def required_def required_text_def demo_strips
        normalize_schedule_def indexed_def normalize_period_def period_limit_def float_le_zero_def parse_min_rate_def
        check_duration_def check_min_rate_def parse_ocpp_timestamp_def demo_times_def nan_report_def
        demo_payload_report_def demo_reported_def demo_schedule_def target_connector_def)
  show "resolve_report_charging_profile_charger nan_report demo_conn = (Some (PInt 2), demo_found)"
    using demo_resolved
    by (simp add: resolve_report_charging_profile_charger_def nan_report_def demo_payload_report_def)
qed (auto simp: nan_report_def demo_reported_def profile_clean_errors_def demo_profile_env_def)

end
