(* ===== verification/Forwarding.thy ===== *)
theory Forwarding
  imports ConsumerBase IpAddress
begin

text \<open>
  Relaying a charger's messages to another node: \<open>apps/ocpp/forwarder/__init__.py\<close>,
  \<open>apps/ocpp/consumers/csms/transport.py\<close> and the message lists of
  \<open>apps/ocpp/models/cp_forwarder.py\<close>.  A forwarding session is an object that several threads hold,
  so sessions live in a heap and the table of the forwarder maps a charger to one of them; session and
  websocket share their number.  Outcomes of sends, pings and connection attempts, the JSON parser and
  the local node are the environment.  Critical sections are single steps: a flush takes a snapshot,
  then sends without the lock and removes what it sent entry by entry.
\<close>

subsection \<open>Permitted messages and calls\<close>

definition OCPP_FORWARDING_MESSAGES :: "string list" where
  "OCPP_FORWARDING_MESSAGES =
    [''Authorize'', ''BootNotification'', ''DataTransfer'', ''DiagnosticsStatusNotification'',
     ''FirmwareStatusNotification'', ''Heartbeat'', ''MeterValues'', ''StartTransaction'', ''StatusNotification'',
     ''StopTransaction'', ''ClearedChargingLimit'', ''CostUpdated'', ''Get15118EVCertificate'',
     ''GetCertificateStatus'', ''LogStatusNotification'', ''NotifyChargingLimit'', ''NotifyCustomerInformation'',
     ''NotifyDisplayMessages'', ''NotifyEVChargingNeeds'', ''NotifyEVChargingSchedule'', ''NotifyEvent'',
     ''NotifyMonitoringReport'', ''NotifyReport'', ''PublishFirmwareStatusNotification'',
     ''ReportChargingProfiles'', ''ReservationStatusUpdate'', ''SecurityEventNotification'', ''SignCertificate'',
     ''TransactionEvent'']"

definition OCPP_FORWARDING_CALLS :: "string list" where
  "OCPP_FORWARDING_CALLS =
    [''RemoteStartTransaction'', ''RemoteStopTransaction'', ''RequestStartTransaction'', ''RequestStopTransaction'',
     ''GetTransactionStatus'', ''GetDiagnostics'', ''ChangeAvailability'', ''ChangeConfiguration'',
     ''DataTransfer'', ''Reset'', ''TriggerMessage'', ''ReserveNow'', ''CancelReservation'', ''ClearCache'',
     ''UnlockConnector'', ''UpdateFirmware'', ''PublishFirmware'', ''UnpublishFirmware'', ''SetChargingProfile'',
     ''InstallCertificate'', ''DeleteCertificate'', ''CertificateSigned'', ''GetInstalledCertificateIds'',
     ''GetVariables'', ''SetVariables'', ''ClearChargingProfile'', ''SetMonitoringBase'', ''SetMonitoringLevel'',
     ''SetVariableMonitoring'', ''ClearVariableMonitoring'', ''GetMonitoringReport'', ''ClearDisplayMessage'',
     ''CustomerInformation'', ''GetBaseReport'', ''GetChargingProfiles'', ''GetDisplayMessages'', ''GetReport'',
     ''SetDisplayMessage'', ''SetNetworkProfile'', ''GetCompositeSchedule'', ''GetLocalListVersion'', ''GetLog'']"

fun position :: "string \<Rightarrow> string list \<Rightarrow> nat" where
  "position x [] = 0"
| "position x (y # ys) = (if x = y then 0 else Suc (position x ys))"

text \<open>The known names among the items, each once, in the order of the model's list.\<close>

definition cleaned_actions :: "string list \<Rightarrow> pyval list \<Rightarrow> string list" where
  "cleaned_actions known items =
     sort_key (\<lambda>a. position a known)
       (dedupe (filter (\<lambda>a. a \<in> set known) (concat (map (\<lambda>v. case v of PStr s \<Rightarrow> [s] | _ \<Rightarrow> []) items))))"

text \<open>The column is a JSON array of strings once it has been saved; \<open>None\<close> and a bare string are read too.\<close>

definition sanitize_forwarded_messages :: "pyval \<Rightarrow> string list" where
  "sanitize_forwarded_messages v =
     (case v of
        PList items \<Rightarrow>
          (if cleaned_actions OCPP_FORWARDING_MESSAGES items \<noteq> [] then cleaned_actions OCPP_FORWARDING_MESSAGES items
           else if items = [] then [] else OCPP_FORWARDING_MESSAGES)
      | _ \<Rightarrow> OCPP_FORWARDING_MESSAGES)"

definition sanitize_forwarded_calls :: "pyval \<Rightarrow> string list" where
  "sanitize_forwarded_calls v =
     (case v of
        PStr _ \<Rightarrow> []
      | PList items \<Rightarrow>
          (if cleaned_actions OCPP_FORWARDING_CALLS items \<noteq> [] then cleaned_actions OCPP_FORWARDING_CALLS items
           else if items = [] then [] else OCPP_FORWARDING_CALLS)
      | _ \<Rightarrow> OCPP_FORWARDING_CALLS)"

definition get_forwarding_interval_seconds :: "pyval \<Rightarrow> pfloat" where
  "get_forwarding_interval_seconds v =
     (case v of
        PFloat (Fin q) _ \<Rightarrow> (if q \<le> 0 then Fin 0
                             else case round_double (1 / q) of Some r \<Rightarrow> Fin r | None \<Rightarrow> PosInf)
      | _ \<Rightarrow> Fin 0)"

subsection \<open>Sessions\<close>

record fwd_session =
  fs_charger :: int
  fs_node :: "int option"
  fs_url :: string
  fs_connected_at :: int
  fs_forwarder :: "int option"
  fs_messages :: "string list option"
  fs_calls :: "string list option"
  fs_interval :: pfloat
  fs_call_ids :: "string list"
  fs_pending :: "(string, string) dict"
  fs_last_flush :: "int option"
  fs_last_activity :: "int option"
  fs_scheduled :: bool

record 'r fwd_world =
  fw_heap :: "(nat, fwd_session) dict"
  fw_sessions :: "(int, nat) dict"
  fw_next :: nat
  fw_down :: "nat list"
  fw_attempts :: nat
  fw_wire :: "(nat \<times> string) list"
  fw_to_charger :: "(nat \<times> string) list"
  fw_db :: db
  fw_store :: "(nat, int, 'r) ocpp_store"

text \<open>
  The environment.  \<open>fe_send\<close> decides a send on a websocket by the number of sends tried before,
  \<open>fe_ping\<close> is \<open>None\<close> where the websocket has no ping; time is in microseconds.
\<close>

record url_parts =
  up_scheme :: string
  up_host :: string
  up_netloc :: string
  up_path :: string

record 'r fwd_env =
  fe_enabled :: bool
  fe_now :: int
  fe_send :: "nat \<Rightarrow> nat \<Rightarrow> bool"
  fe_ping :: "nat \<Rightarrow> bool option"
  fe_connect :: "string \<Rightarrow> bool"
  fe_remote_urls :: "int \<Rightarrow> url_parts list"
  fe_loads :: "string \<Rightarrow> pyval option"
  fe_local :: "int option"
  fe_local_uuid :: "string option"
  fe_charger_send :: "nat \<Rightarrow> bool"
  fe_redis :: "'r redis_env"

definition is_up :: "nat \<Rightarrow> 'r fwd_world \<Rightarrow> bool" where
  "is_up s w = (s \<notin> set (fw_down w))"

definition on_session :: "nat \<Rightarrow> (fwd_session \<Rightarrow> fwd_session) \<Rightarrow> 'r fwd_world \<Rightarrow> 'r fwd_world" where
  "on_session s f w =
     (case dget (fw_heap w) s of None \<Rightarrow> w | Some x \<Rightarrow> w\<lparr>fw_heap := dset s (f x) (fw_heap w)\<rparr>)"

definition pending_of :: "nat \<Rightarrow> 'r fwd_world \<Rightarrow> (string, string) dict" where
  "pending_of s w = (case dget (fw_heap w) s of None \<Rightarrow> [] | Some x \<Rightarrow> fs_pending x)"

definition send_on :: "'r fwd_env \<Rightarrow> nat \<Rightarrow> string \<Rightarrow> 'r fwd_world \<Rightarrow> bool \<times> 'r fwd_world" where
  "send_on env s payload w =
     (let ok = (is_up s w \<and> fe_send env s (fw_attempts w));
          w1 = w\<lparr>fw_attempts := Suc (fw_attempts w)\<rparr>
      in (ok, if ok then w1\<lparr>fw_wire := fw_wire w1 @ [(s, payload)]\<rparr> else w1))"

definition get_session :: "int \<Rightarrow> 'r fwd_world \<Rightarrow> nat option" where
  "get_session pk w = dget (fw_sessions w) pk"

definition close_forwarding_session :: "nat \<Rightarrow> 'r fwd_world \<Rightarrow> 'r fwd_world" where
  "close_forwarding_session s w = w\<lparr>fw_down := sadd s (fw_down w)\<rparr>"

definition remove_session :: "int \<Rightarrow> 'r fwd_world \<Rightarrow> 'r fwd_world" where
  "remove_session pk w =
     (case dget (fw_sessions w) pk of
        None \<Rightarrow> w
      | Some s \<Rightarrow> close_forwarding_session s (w\<lparr>fw_sessions := ddel pk (fw_sessions w)\<rparr>))"

definition clear_sessions :: "'r fwd_world \<Rightarrow> 'r fwd_world" where
  "clear_sessions w = fold close_forwarding_session (map snd (fw_sessions w)) (w\<lparr>fw_sessions := []\<rparr>)"

definition prune_inactive_sessions :: "int list \<Rightarrow> 'r fwd_world \<Rightarrow> 'r fwd_world" where
  "prune_inactive_sessions active w =
     fold (\<lambda>pk w'. if pk \<in> set active then w' else remove_session pk w') (dkeys (fw_sessions w)) w"

subsection \<open>The buffer\<close>

text \<open>The critical sections of a flush, and of the two flushes the code has.\<close>

definition take_snapshot :: "nat \<Rightarrow> 'r fwd_world \<Rightarrow> (string, string) dict \<times> 'r fwd_world" where
  "take_snapshot s w = (pending_of s w, on_session s (\<lambda>x. x\<lparr>fs_scheduled := False\<rparr>) w)"

definition remove_sent :: "nat \<Rightarrow> string \<Rightarrow> string \<Rightarrow> 'r fwd_world \<Rightarrow> 'r fwd_world" where
  "remove_sent s action payload w =
     on_session s (\<lambda>x. if dget (fs_pending x) action = Some payload
                       then x\<lparr>fs_pending := ddel action (fs_pending x)\<rparr> else x) w"

fun flush_loop :: "'r fwd_env \<Rightarrow> nat \<Rightarrow> (string \<times> string) list \<Rightarrow> 'r fwd_world \<Rightarrow> bool \<times> 'r fwd_world" where
  "flush_loop env s [] w = (True, w)"
| "flush_loop env s ((action, payload) # rest) w =
     (case send_on env s payload w of
        (False, w1) \<Rightarrow> (False, w1)
      | (True, w1) \<Rightarrow> flush_loop env s rest (remove_sent s action payload w1))"

text \<open>\<open>None\<close> stands for the exception of a failed send.\<close>

definition flush_buffered_forward_messages :: "'r fwd_env \<Rightarrow> nat \<Rightarrow> 'r fwd_world \<Rightarrow> bool option \<times> 'r fwd_world" where
  "flush_buffered_forward_messages env s w =
     (case take_snapshot s w of
        (pending, w1) \<Rightarrow>
          (if pending = [] then (Some False, w1)
           else case flush_loop env s pending w1 of
                  (False, w2) \<Rightarrow> (None, w2)
                | (True, w2) \<Rightarrow> (Some True, on_session s (\<lambda>x. x\<lparr>fs_last_flush := Some (fe_now env)\<rparr>) w2)))"

definition flush_pending_cp_messages :: "'r fwd_env \<Rightarrow> nat \<Rightarrow> 'r fwd_world \<Rightarrow> bool option \<times> 'r fwd_world" where
  "flush_pending_cp_messages env s w =
     (let stamp = on_session s (\<lambda>x. x\<lparr>fs_last_flush := Some (fe_now env)\<rparr>)
      in if pending_of s w = [] then (Some False, stamp w)
         else case flush_loop env s (pending_of s w) w of
                (False, w1) \<Rightarrow> (None, w1)
              | (True, w1) \<Rightarrow> (Some True, stamp w1))"

definition positive_interval :: "pfloat \<Rightarrow> bool" where
  "positive_interval f = (case f of Fin q \<Rightarrow> 0 < q | PosInf \<Rightarrow> True | _ \<Rightarrow> False)"

definition interval_elapsed :: "int \<Rightarrow> pfloat \<Rightarrow> bool" where
  "interval_elapsed micros f = (case f of Fin q \<Rightarrow> q \<le> of_int micros / 1000000 | NegInf \<Rightarrow> True | _ \<Rightarrow> False)"

definition send_or_buffer_cp_payload ::
  "'r fwd_env \<Rightarrow> nat \<Rightarrow> string \<Rightarrow> string \<Rightarrow> 'r fwd_world \<Rightarrow> bool option \<times> 'r fwd_world" where
  "send_or_buffer_cp_payload env s action payload w =
     (case dget (fw_heap w) s of
        None \<Rightarrow> (None, w)
      | Some x \<Rightarrow>
          (if \<not> positive_interval (fs_interval x)
           then (case flush_buffered_forward_messages env s (on_session s (\<lambda>y. y\<lparr>fs_scheduled := False\<rparr>) w) of
                   (None, w1) \<Rightarrow> (None, w1)
                 | (Some _, w1) \<Rightarrow>
                     (case send_on env s payload w1 of (ok, w2) \<Rightarrow> (if ok then Some True else None, w2)))
           else let w1 = on_session s (\<lambda>y. y\<lparr>fs_pending := dset action payload (fs_pending y)\<rparr>) w;
                    due = (case fs_last_flush x of None \<Rightarrow> True
                           | Some t \<Rightarrow> interval_elapsed (fe_now env - t) (fs_interval x))
                in if due then flush_buffered_forward_messages env s w1
                   else (Some False, on_session s (\<lambda>y. y\<lparr>fs_scheduled := True\<rparr>) w1)))"

subsection \<open>Connecting\<close>

definition FORWARDING_WEBSOCKET_PREFIXES :: "string list" where
  "FORWARDING_WEBSOCKET_PREFIXES = [''/ocpp'', ''/ws/ocpp'', [], ''/ws'']"

text \<open>\<open>urllib.parse.quote(text, safe="")\<close> on Latin-1 text: unreserved characters stay, others become the
  escaped bytes of their UTF-8 form.\<close>

definition upper_hex :: "nat \<Rightarrow> char" where
  "upper_hex n = (if n < 10 then char_of (48 + n) else char_of (55 + n))"

definition quote_char :: "char \<Rightarrow> string" where
  "quote_char c =
     (let n = code c;
          esc = (\<lambda>b. [CHR ''%'', upper_hex (b div 16), upper_hex (b mod 16)])
      in if is_ascii_digit c \<or> (65 \<le> n \<and> n \<le> 90) \<or> (97 \<le> n \<and> n \<le> 122) \<or> c \<in> set ''_.-~'' then [c]
         else if n < 128 then esc n else esc (192 + n div 64) @ esc (128 + n mod 64))"

definition url_quote :: "string \<Rightarrow> string" where
  "url_quote s = concat (map quote_char s)"

fun collapse_slashes :: "string \<Rightarrow> string" where
  "collapse_slashes (a # b # cs) =
     (if a = CHR ''/'' \<and> b = CHR ''/'' then CHR ''/'' # collapse_slashes cs else a # collapse_slashes (b # cs))"
| "collapse_slashes cs = cs"

definition rstrip_slashes :: "string \<Rightarrow> string" where
  "rstrip_slashes s = rev (dropWhile (\<lambda>c. c = CHR ''/'') (rev s))"

definition forwarding_url :: "url_parts \<Rightarrow> string \<Rightarrow> string \<Rightarrow> string" where
  "forwarding_url u encoded prefix =
     (let path = collapse_slashes (rstrip_slashes (up_path u) @ prefix @ ''/'' @ encoded);
          path' = (if py_startswith path ''/'' then path else ''/'' @ path)
      in (if up_scheme u = ''https'' then ''wss'' else ''ws'') @ ''://'' @ up_netloc u @ path')"

definition candidate_forwarding_urls :: "'r fwd_env \<Rightarrow> int \<Rightarrow> string \<Rightarrow> string list" where
  "candidate_forwarding_urls env node charger_id =
     (let cid = py_strip charger_id in
      if cid = [] then []
      else concat (map (\<lambda>u.
             if up_scheme u \<noteq> ''http'' \<and> up_scheme u \<noteq> ''https'' then []
             else if up_scheme u = ''https'' \<and> up_host u \<noteq> [] \<and> ip_address (up_host u) \<noteq> None then []
             else map (forwarding_url u (url_quote cid)) FORWARDING_WEBSOCKET_PREFIXES)
           (fe_remote_urls env node)))"

definition charger_row :: "int \<Rightarrow> 'r fwd_world \<Rightarrow> obj" where
  "charger_row pk w = (case db_get ''Charger'' (PInt pk) (fw_db w) of None \<Rightarrow> [] | Some row \<Rightarrow> row)"

definition pfloat_max0 :: "pfloat \<Rightarrow> pfloat" where
  "pfloat_max0 f = (if positive_interval f then f else Fin 0)"

definition connect_forwarding_session ::
  "'r fwd_env \<Rightarrow> int \<Rightarrow> int \<Rightarrow> string list option \<Rightarrow> string list option \<Rightarrow> pfloat \<Rightarrow> 'r fwd_world \<Rightarrow>
     nat option \<times> 'r fwd_world" where
  "connect_forwarding_session env pk node messages calls interval w =
     (if \<not> fe_enabled env then (None, w)
      else case find (fe_connect env)
                  (candidate_forwarding_urls env node (py_str (por (jget (charger_row pk w) ''charger_id'') (PStr [])))) of
             None \<Rightarrow> (None, w)
           | Some url \<Rightarrow>
               (let s = fw_next w;
                    x = \<lparr>fs_charger = pk, fs_node = Some node, fs_url = url, fs_connected_at = fe_now env,
                         fs_forwarder = None, fs_messages = messages, fs_calls = calls,
                         fs_interval = pfloat_max0 interval, fs_call_ids = [], fs_pending = [],
                         fs_last_flush = None, fs_last_activity = Some (fe_now env), fs_scheduled = False\<rparr>
                in (Some s, w\<lparr>fw_heap := dset s x (fw_heap w), fw_sessions := dset pk s (fw_sessions w),
                              fw_next := Suc s\<rparr>)))"

subsection \<open>Messages of the charger\<close>

text \<open>Which messages go to the target of a charger, and the forwarder row that says so.\<close>

definition ensure_forwarding_context :: "'r fwd_env \<Rightarrow> obj \<Rightarrow> 'r fwd_world \<Rightarrow> (string list \<times> int) option" where
  "ensure_forwarding_context env charger w =
     (if \<not> fe_enabled env \<or> \<not> truthy (jget charger ''forwarded_to'') then None
      else let base = [(''target_node'', jget charger ''forwarded_to''), (''enabled'', PBool True)];
               source = jget charger ''node_origin'';
               found = (\<lambda>more. db_first ''CPForwarder'' (has_fields (more @ base)) (fw_db w));
               pick = (case (if truthy source then found [(''source_node'', source)] else None) of
                         Some k \<Rightarrow> Some k
                       | None \<Rightarrow> (case found [(''source_node'', PNone)] of Some k \<Rightarrow> Some k | None \<Rightarrow> found []))
           in case pick of
                Some (PInt k) \<Rightarrow>
                  (case db_get ''CPForwarder'' (PInt k) (fw_db w) of
                     None \<Rightarrow> None
                   | Some row \<Rightarrow> Some (sanitize_forwarded_messages (jget row ''forwarded_messages''), k))
              | _ \<Rightarrow> None)"

definition wrap_forwarding_payload :: "'r fwd_env \<Rightarrow> obj \<Rightarrow> string \<Rightarrow> string \<Rightarrow> string" where
  "wrap_forwarding_payload env charger direction raw =
     (case fe_loads env raw of
        Some (PList items) \<Rightarrow>
          (let meta = [(''charger_id'', jget charger ''charger_id''), (''connector_id'', jget charger ''connector_id''),
                       (''direction'', PStr direction)] @
                      (case fe_local_uuid env of
                         Some u \<Rightarrow> (if u \<noteq> [] then [(''route'', PList [PStr u])] else [])
                       | None \<Rightarrow> [])
           in case json_dumps (PDict [(''ocpp'', PList items), (''meta'', PDict meta)]) of
                Some text \<Rightarrow> text | None \<Rightarrow> raw)
      | _ \<Rightarrow> raw)"

definition record_forwarding_activity :: "int \<Rightarrow> int option \<Rightarrow> pyval \<Rightarrow> 'r fwd_world \<Rightarrow> 'r fwd_world" where
  "record_forwarding_activity pk forwarder timestamp w =
     (let d = db_save ''Charger'' (PInt pk) [(''forwarding_watermark'', timestamp)] (fw_db w)
      in w\<lparr>fw_db := (case forwarder of
             Some k \<Rightarrow> (if k \<noteq> 0 then db_save ''CPForwarder'' (PInt k)
                           [(''last_forwarded_at'', timestamp), (''is_running'', PBool True)] d else d)
           | None \<Rightarrow> d)\<rparr>)"

definition set_context :: "nat \<Rightarrow> string list option \<Rightarrow> int option \<Rightarrow> 'r fwd_world \<Rightarrow> 'r fwd_world" where
  "set_context s messages forwarder w =
     on_session s (\<lambda>x. x\<lparr>fs_messages := messages, fs_forwarder := forwarder\<rparr>) w"

definition reconnect_forwarding_session ::
  "'r fwd_env \<Rightarrow> int \<Rightarrow> string list option \<Rightarrow> int option \<Rightarrow> 'r fwd_world \<Rightarrow> nat option \<times> 'r fwd_world" where
  "reconnect_forwarding_session env pk messages forwarder w =
     (case jget (charger_row pk w) ''forwarded_to'' of
        PInt node \<Rightarrow>
          (case connect_forwarding_session env pk node None None (Fin 0) w of
             (None, w1) \<Rightarrow> (None, w1)
           | (Some s, w1) \<Rightarrow> (Some s, set_context s messages forwarder w1))
      | _ \<Rightarrow> (None, w))"

definition activity_recorded :: "'r fwd_env \<Rightarrow> int \<Rightarrow> nat \<Rightarrow> int option \<Rightarrow> 'r fwd_world \<Rightarrow> 'r fwd_world" where
  "activity_recorded env pk s forwarder w =
     record_forwarding_activity pk forwarder (PTime (fe_now env) [])
       (on_session s (\<lambda>x. x\<lparr>fs_last_activity := Some (fe_now env)\<rparr>) w)"

definition merge_pending :: "(string, string) dict \<Rightarrow> nat \<Rightarrow> 'r fwd_world \<Rightarrow> 'r fwd_world" where
  "merge_pending kept s w =
     on_session s (\<lambda>x. x\<lparr>fs_pending := fold (\<lambda>kv. setdefault (fst kv) (snd kv)) kept (fs_pending x)\<rparr>) w"

text \<open>The retry after a failed send: a new session takes over what was buffered.\<close>

definition forward_again :: "'r fwd_env \<Rightarrow> int \<Rightarrow> string \<Rightarrow> string \<Rightarrow> string list option \<Rightarrow> int option \<Rightarrow> nat \<Rightarrow>
    'r fwd_world \<Rightarrow> 'r fwd_world" where
  "forward_again env pk action payload allowed forwarder s w =
     (case reconnect_forwarding_session env pk allowed forwarder (remove_session pk w) of
        (None, w1) \<Rightarrow> w1
      | (Some s1, w1) \<Rightarrow>
          (case ensure_forwarding_context env (charger_row pk w1) w1 of
             None \<Rightarrow> remove_session pk w1
           | Some (messages, k) \<Rightarrow>
               (let w2 = merge_pending (pending_of s w) s1 (set_context s1 (Some messages) (Some k) w1)
                in if action \<notin> set messages then w2
                   else case send_or_buffer_cp_payload env s1 action payload w2 of
                          (None, w3) \<Rightarrow> remove_session pk w3
                        | (Some False, w3) \<Rightarrow> w3
                        | (Some True, w3) \<Rightarrow> activity_recorded env pk s1 (Some k) w3)))"

definition forward_charge_point_message :: "'r fwd_env \<Rightarrow> int option \<Rightarrow> string \<Rightarrow> string \<Rightarrow> 'r fwd_world \<Rightarrow> 'r fwd_world" where
  "forward_charge_point_message env charger action raw w =
     (case charger of
        None \<Rightarrow> w
      | Some pk \<Rightarrow>
          (case get_session pk w of
             None \<Rightarrow> w
           | Some s \<Rightarrow>
               (case dget (fw_heap w) s of
                  None \<Rightarrow> w
                | Some x \<Rightarrow>
                    (if \<not> fe_enabled env \<or> action = [] \<or> raw = [] \<or> \<not> is_up s w then w
                     else let row = charger_row pk w;
                              lookup = (fs_messages x = None \<or>
                                        fs_forwarder x = None \<and> truthy (jget row ''forwarded_to''));
                              context = (if lookup
                                         then map_option (\<lambda>(m, k). (Some m, Some k)) (ensure_forwarding_context env row w)
                                         else Some (fs_messages x, fs_forwarder x))
                          in case context of
                               None \<Rightarrow> w
                             | Some (allowed, forwarder) \<Rightarrow>
                                 (let w1 = (if lookup then set_context s allowed forwarder w else w);
                                      payload = wrap_forwarding_payload env row ''cp_to_csms'' raw
                                  in if allowed \<noteq> None \<and> action \<notin> set (the allowed) then w1
                                     else case send_or_buffer_cp_payload env s action payload w1 of
                                            (None, w2) \<Rightarrow> forward_again env pk action payload allowed forwarder s w2
                                          | (Some False, w2) \<Rightarrow> w2
                                          | (Some True, w2) \<Rightarrow> activity_recorded env pk s forwarder w2)))))"

subsection \<open>Replies of the charger\<close>

definition forward_charge_point_reply :: "'r fwd_env \<Rightarrow> int option \<Rightarrow> string \<Rightarrow> string \<Rightarrow> 'r fwd_world \<Rightarrow> 'r fwd_world" where
  "forward_charge_point_reply env charger mid raw w =
     (case charger of
        None \<Rightarrow> w
      | Some pk \<Rightarrow>
          (case get_session pk w of
             None \<Rightarrow> w
           | Some s \<Rightarrow>
               (case dget (fw_heap w) s of
                  None \<Rightarrow> w
                | Some x \<Rightarrow>
                    (if \<not> fe_enabled env \<or> mid = [] \<or> raw = [] \<or> \<not> is_up s w \<or> mid \<notin> set (fs_call_ids x) then w
                     else let w1 = on_session s (\<lambda>y. y\<lparr>fs_call_ids := sdiscard mid (fs_call_ids y)\<rparr>) w
                          in case send_on env s (wrap_forwarding_payload env (charger_row pk w) ''cp_to_csms_reply'' raw) w1 of
                               (True, w2) \<Rightarrow> w2
                             | (False, w2) \<Rightarrow> remove_session pk w2))))"

subsection \<open>Commands of the remote node\<close>

text \<open>
  One message received by the listener thread.  Passing a command to the charger and noting its id are
  two steps: the charger may answer in between.
\<close>

definition remote_command :: "pyval \<Rightarrow> (pyval list \<times> string \<times> string) option" where
  "remote_command parsed =
     (let message = (case parsed of
                       PDict d \<Rightarrow> (case jget d ''ocpp'' of PList m \<Rightarrow> PList m | _ \<Rightarrow> PDict d)
                     | v \<Rightarrow> v)
      in case message of
           PList (kind # mid # action # rest) \<Rightarrow>
             (if kind = PInt 2 \<or> (case kind of PFloat (Fin q) _ \<Rightarrow> q = 2 | _ \<Rightarrow> False)
              then Some (kind # mid # action # rest, py_str mid, py_str action) else None)
         | _ \<Rightarrow> None)"

definition dumps_or_empty :: "pyval \<Rightarrow> string" where
  "dumps_or_empty v = (case json_dumps v of Some t \<Rightarrow> t | None \<Rightarrow> [])"

definition call_error :: "string \<Rightarrow> string \<Rightarrow> string \<Rightarrow> string" where
  "call_error mid kind description =
     dumps_or_empty (PList [PInt 4, PStr mid, PStr kind, PStr description, PDict []])"

definition refuse :: "'r fwd_env \<Rightarrow> nat \<Rightarrow> string \<Rightarrow> string \<Rightarrow> string \<Rightarrow> 'r fwd_world \<Rightarrow> 'r fwd_world" where
  "refuse env s mid kind description w = snd (send_on env s (call_error mid kind description) w)"

definition on_store :: "((nat, int, 'r) ocpp_store \<Rightarrow> (nat, int, 'r) ocpp_store) \<Rightarrow> 'r fwd_world \<Rightarrow> 'r fwd_world" where
  "on_store f w = w\<lparr>fw_store := f (fw_store w)\<rparr>"

definition call_metadata :: "'r fwd_env \<Rightarrow> obj \<Rightarrow> string \<Rightarrow> string \<Rightarrow> obj" where
  "call_metadata env row action log_key =
     [(''action'', PStr action), (''charger_id'', jget row ''charger_id''),
      (''connector_id'', jget row ''connector_id''), (''log_key'', PStr log_key), (''forwarded'', PBool True),
      (''requested_at'', PTime (fe_now env) [])]"

text \<open>The result says whether the command went to the charger, so that its id is noted next.\<close>

definition relay_command ::
  "'r fwd_env \<Rightarrow> nat \<Rightarrow> pyval list \<times> string \<times> string \<Rightarrow> 'r fwd_world \<Rightarrow> bool \<times> 'r fwd_world" where
  "relay_command env s command w =
     (case command of (message, mid, action) \<Rightarrow>
        (case dget (fw_heap w) s of
           None \<Rightarrow> (False, w)
         | Some x \<Rightarrow>
             (if fs_calls x = None \<or> action \<notin> set (the (fs_calls x))
              then (False, refuse env s mid ''SecurityError'' ''Action not permitted by forwarding policy.'' w)
              else case db_get ''Charger'' (PInt (fs_charger x)) (fw_db w) of
                     None \<Rightarrow> (False, w)
                   | Some row \<Rightarrow>
                       (if \<not> truthy (jget row ''allow_remote'')
                        then (False, refuse env s mid ''SecurityError'' ''Remote actions are disabled for this charge point.'' w)
                        else let serial = py_str (jget row ''charger_id''); connector = jget row ''connector_id'' in
                          case get_connection serial connector (st (fw_store w)) of
                            None \<Rightarrow> (False, refuse env s mid ''InternalError'' ''Charge point not connected.'' w)
                          | Some ws \<Rightarrow>
                              (let log_key = identity_key serial connector;
                                   text = dumps_or_empty (PList message);
                                   w1 = on_store (\<lambda>o'. register_pending_call (fe_redis env) mid
                                          (call_metadata env row action log_key)
                                          (o'\<lparr>log_lines := log_lines o' @ [(PStr log_key, ''< '' @ text, ''charger'')]\<rparr>)) w
                               in if fe_charger_send env ws
                                  then (True, w1\<lparr>fw_to_charger := fw_to_charger w1 @ [(ws, text)]\<rparr>)
                                  else (False, refuse env s mid ''InternalError'' ''Failed to forward command.''
                                          (on_store (\<lambda>o'. snd (pop_pending_call (fe_redis env) mid o')) w1)))))))"

definition note_command :: "nat \<Rightarrow> string \<Rightarrow> 'r fwd_world \<Rightarrow> 'r fwd_world" where
  "note_command s mid w = on_session s (\<lambda>x. x\<lparr>fs_call_ids := sadd mid (fs_call_ids x)\<rparr>) w"

definition listening :: "nat \<Rightarrow> 'r fwd_world \<Rightarrow> bool" where
  "listening s w =
     (case dget (fw_heap w) s of None \<Rightarrow> False | Some x \<Rightarrow> get_session (fs_charger x) w = Some s \<and> is_up s w)"

text \<open>One turn of the listener without a charger's answer in between; the reading of a frame failing.\<close>

definition listen_once :: "'r fwd_env \<Rightarrow> nat \<Rightarrow> string \<Rightarrow> 'r fwd_world \<Rightarrow> 'r fwd_world" where
  "listen_once env s raw w =
     (case (if raw = [] \<or> \<not> listening s w then None else fe_loads env raw) of
        None \<Rightarrow> w
      | Some parsed \<Rightarrow>
          (case remote_command parsed of
             None \<Rightarrow> w
           | Some (message, mid, action) \<Rightarrow>
               (case relay_command env s (message, mid, action) w of
                  (sent, w1) \<Rightarrow> (if sent then note_command s mid w1 else w1))))"

definition listener_failed :: "nat \<Rightarrow> 'r fwd_world \<Rightarrow> 'r fwd_world" where
  "listener_failed s w =
     (case dget (fw_heap w) s of
        None \<Rightarrow> close_forwarding_session s w
      | Some x \<Rightarrow>
          close_forwarding_session s
            (if get_session (fs_charger x) w = Some s
             then w\<lparr>fw_sessions := ddel (fs_charger x) (fw_sessions w)\<rparr> else w))"

subsection \<open>Keeping sessions alive and in step with the configuration\<close>

definition keepalive_one :: "'r fwd_env \<Rightarrow> int \<Rightarrow> nat \<Rightarrow> int \<times> 'r fwd_world \<Rightarrow> int \<times> 'r fwd_world" where
  "keepalive_one env idle s nw =
     (case nw of (pinged, w) \<Rightarrow>
        (case dget (fw_heap w) s of
           None \<Rightarrow> (pinged, w)
         | Some x \<Rightarrow>
             (if \<not> is_up s w then (pinged, remove_session (fs_charger x) w)
              else let last = (case fs_last_activity x of Some t \<Rightarrow> t | None \<Rightarrow> fs_connected_at x)
                   in if fe_now env - last < idle * 1000000 then (pinged, w)
                      else case fe_ping env s of
                             None \<Rightarrow> (pinged, w)
                           | Some False \<Rightarrow> (pinged, remove_session (fs_charger x) w)
                           | Some True \<Rightarrow>
                               (pinged + 1,
                                if get_session (fs_charger x) w = Some s
                                then on_session s (\<lambda>y. y\<lparr>fs_last_activity := Some (fe_now env)\<rparr>) w else w))))"

definition keepalive_sessions :: "'r fwd_env \<Rightarrow> int \<Rightarrow> 'r fwd_world \<Rightarrow> int \<times> 'r fwd_world" where
  "keepalive_sessions env idle w =
     (if \<not> fe_enabled env then (0, clear_sessions w)
      else if idle \<le> 0 then (0, w)
      else fold (keepalive_one env idle) (map snd (fw_sessions w)) (0, w))"

definition active_target_ids :: "'r fwd_world \<Rightarrow> int list" where
  "active_target_ids w =
     dedupe (concat (map (\<lambda>s. case dget (fw_heap w) s of
                                 Some x \<Rightarrow> (case fs_node x of Some n \<Rightarrow> (if is_up s w then [n] else []) | None \<Rightarrow> [])
                               | None \<Rightarrow> [])
                    (map snd (fw_sessions w))))"

text \<open>One entry per serial number and target: the station's row, else the lowest connector.\<close>

definition select_forwarding_chargers :: "(int \<times> obj) list \<Rightarrow> (int \<times> obj) list" where
  "select_forwarding_chargers rows =
     map snd (fold (\<lambda>r sel.
       let cid = py_strip (py_str (por (jget (snd r) ''charger_id'') (PStr [])));
           key = (cid, jget (snd r) ''forwarded_to'')
       in if cid = [] then sel
          else case dget sel key of
                 None \<Rightarrow> dset key r sel
               | Some old \<Rightarrow>
                   (case jget (snd old) ''connector_id'' of
                      PInt oc \<Rightarrow>
                        (case jget (snd r) ''connector_id'' of
                           PInt rc \<Rightarrow> (if rc < oc then dset key r sel else sel)
                         | _ \<Rightarrow> dset key r sel)
                    | _ \<Rightarrow> sel)) rows [])"

definition forwarder_policy :: "int \<Rightarrow> 'r fwd_world \<Rightarrow> (int \<times> obj) option" where
  "forwarder_policy node w =
     (case rev (db_pks ''CPForwarder'' (has_fields [(''target_node'', PInt node), (''enabled'', PBool True)]) (fw_db w)) of
        PInt k # _ \<Rightarrow> map_option (Pair k) (db_get ''CPForwarder'' (PInt k) (fw_db w))
      | _ \<Rightarrow> None)"

definition apply_policy :: "(int \<times> obj) option \<Rightarrow> fwd_session \<Rightarrow> fwd_session" where
  "apply_policy policy x =
     (case policy of
        Some (k, row) \<Rightarrow>
          x\<lparr>fs_forwarder := Some k,
            fs_messages := Some (sanitize_forwarded_messages (jget row ''forwarded_messages'')),
            fs_calls := Some (sanitize_forwarded_calls (jget row ''forwarded_calls'')),
            fs_interval := get_forwarding_interval_seconds (jget row ''forwarding_frequency_hz'')\<rparr>
      | None \<Rightarrow> x\<lparr>fs_forwarder := None, fs_messages := None, fs_calls := None, fs_interval := Fin 0\<rparr>)"

definition mark_running :: "int \<Rightarrow> int \<Rightarrow> 'r fwd_world \<Rightarrow> 'r fwd_world" where
  "mark_running k timestamp w =
     (case db_get ''CPForwarder'' (PInt k) (fw_db w) of
        None \<Rightarrow> w
      | Some row \<Rightarrow>
          w\<lparr>fw_db := db_save ''CPForwarder'' (PInt k)
              ((if truthy (jget row ''is_running'') then [] else [(''is_running'', PBool True)]) @
               (case jget row ''last_forwarded_at'' of
                  PTime t _ \<Rightarrow> (if t < timestamp then [(''last_forwarded_at'', PTime timestamp [])] else [])
                | _ \<Rightarrow> [(''last_forwarded_at'', PTime timestamp [])])) (fw_db w)\<rparr>)"

definition update_running_state :: "int list \<Rightarrow> 'r fwd_world \<Rightarrow> 'r fwd_world" where
  "update_running_state active w =
     w\<lparr>fw_db := map (\<lambda>row. if fst (fst row) = ''CPForwarder''
          then (fst row, dset ''is_running'' (PBool (\<exists>n \<in> set active. jget (snd row) ''target_node'' = PInt n)) (snd row))
          else row) (fw_db w)\<rparr>"

definition forwarded_rows :: "'r fwd_env \<Rightarrow> 'r fwd_world \<Rightarrow> (int \<times> obj) list" where
  "forwarded_rows env w =
     sort_key fst (concat (map (\<lambda>row. case fst row of
        (m, PInt pk) \<Rightarrow>
          (let o' = jget (snd row) ''node_origin'' in
           if m = ''Charger'' \<and> jget (snd row) ''export_transactions'' = PBool True \<and>
              jget (snd row) ''forwarded_to'' \<noteq> PNone \<and>
              (o' = PNone \<or> (case fe_local env of Some l \<Rightarrow> o' = PInt l | None \<Rightarrow> False))
           then [(pk, snd row)] else [])
      | _ \<Rightarrow> []) (fw_db w)))"

text \<open>A session that exists for the right target takes the current policy; one that is down is replaced.\<close>

definition refresh_session :: "'r fwd_env \<Rightarrow> int \<Rightarrow> nat \<Rightarrow> (int \<times> obj) option \<Rightarrow> 'r fwd_world \<Rightarrow> 'r fwd_world" where
  "refresh_session env pk s policy w =
     (let before = (case dget (fw_heap w) s of Some x \<Rightarrow> positive_interval (fs_interval x) | None \<Rightarrow> False);
          w1 = on_session s (apply_policy policy) w;
          after = (case dget (fw_heap w1) s of Some x \<Rightarrow> positive_interval (fs_interval x) | None \<Rightarrow> False);
          w2 = (if before \<and> \<not> after
                then snd (flush_pending_cp_messages env s (on_session s (\<lambda>x. x\<lparr>fs_scheduled := False\<rparr>) w1)) else w1)
      in if is_up s w2 then w2 else remove_session pk w2)"

definition connect_charger :: "'r fwd_env \<Rightarrow> int \<Rightarrow> int \<Rightarrow> (int \<times> obj) option \<Rightarrow> int \<times> 'r fwd_world \<Rightarrow> int \<times> 'r fwd_world" where
  "connect_charger env pk node policy nw =
     (case nw of (n, w) \<Rightarrow>
        (case connect_forwarding_session env pk node
                (map_option (\<lambda>(k, row). sanitize_forwarded_messages (jget row ''forwarded_messages'')) policy)
                (map_option (\<lambda>(k, row). sanitize_forwarded_calls (jget row ''forwarded_calls'')) policy)
                (case policy of Some (k, row) \<Rightarrow> get_forwarding_interval_seconds (jget row ''forwarding_frequency_hz'')
                 | None \<Rightarrow> Fin 0) w of
           (None, w1) \<Rightarrow> (n, w1)
         | (Some s, w1) \<Rightarrow>
             (let w2 = w1\<lparr>fw_db := db_save ''Charger'' (PInt pk) [(''forwarding_watermark'', PTime (fe_now env) [])] (fw_db w1)\<rparr>
              in (n + 1, case policy of
                           None \<Rightarrow> w2
                         | Some (k, row) \<Rightarrow> mark_running k (fe_now env) (on_session s (apply_policy policy) w2)))))"

definition sync_charger :: "'r fwd_env \<Rightarrow> int \<times> obj \<Rightarrow> int \<times> 'r fwd_world \<Rightarrow> int \<times> 'r fwd_world" where
  "sync_charger env charger nw =
     (case nw of (n, w) \<Rightarrow>
        (case jget (snd charger) ''forwarded_to'' of
           PInt node \<Rightarrow>
             (let pk = fst charger; policy = forwarder_policy node w in
              if fe_local env = Some node then (n, remove_session pk w)
              else case get_session pk w of
                     None \<Rightarrow> connect_charger env pk node policy (n, w)
                   | Some s \<Rightarrow>
                       (if (case dget (fw_heap w) s of Some x \<Rightarrow> fs_node x = Some node | None \<Rightarrow> False)
                        then let w1 = refresh_session env pk s policy w
                             in if is_up s w1 then (n, w1)
                                else connect_charger env pk node policy (n, w1)
                        else connect_charger env pk node policy (n, w)))
         | _ \<Rightarrow> (n, w)))"

text \<open>The synchronisation once the forwarder rows have been refreshed.\<close>

definition sync_forwarded_charge_points :: "'r fwd_env \<Rightarrow> 'r fwd_world \<Rightarrow> int \<times> 'r fwd_world" where
  "sync_forwarded_charge_points env w =
     (if \<not> fe_enabled env then (0, update_running_state [] (clear_sessions w))
      else if fe_local env = None then (0, update_running_state [] (prune_inactive_sessions [] w))
      else let chargers = select_forwarding_chargers (forwarded_rows env w);
               active = map fst (filter (\<lambda>r. jget (snd r) ''forwarded_to'' \<noteq> opt_int (fe_local env)) chargers);
               w1 = prune_inactive_sessions active w
           in if chargers = [] then (0, update_running_state [] w1)
              else case fold (sync_charger env) chargers (0, w1) of
                     (n, w2) \<Rightarrow> (n, update_running_state (active_target_ids w2) w2))"

end
