(* ===== verification/ForwardingProps.thy ===== *)
theory ForwardingProps
  imports Forwarding TxEventsProps PendingCallsProps
begin

text \<open>
  Properties of the relay: the buffer never loses the latest message of an action under any
  interleaving of its flushes, a remote command reaches the charger only where the policy allows it,
  the answer to a relayed command goes back once, and the cases in which the code repeats, reorders,
  loses or forgets.
\<close>

subsection \<open>Basic facts\<close>

lemma on_session_heap:
  "dget (fw_heap (on_session s f w)) k = (if k = s then map_option f (dget (fw_heap w) s) else dget (fw_heap w) k)"
  by (auto simp: on_session_def split: option.splits)

lemma on_session_frame [simp]:
  "fw_wire (on_session s f w) = fw_wire w" "fw_down (on_session s f w) = fw_down w"
  "fw_sessions (on_session s f w) = fw_sessions w" "fw_attempts (on_session s f w) = fw_attempts w"
  "fw_db (on_session s f w) = fw_db w" "fw_store (on_session s f w) = fw_store w"
  "fw_to_charger (on_session s f w) = fw_to_charger w" "fw_next (on_session s f w) = fw_next w"
  "is_up k (on_session s f w) = is_up k w"
  by (auto simp: on_session_def is_up_def split: option.splits)

lemma pending_on_session:
  "pending_of s (on_session s f w) = (case dget (fw_heap w) s of None \<Rightarrow> [] | Some x \<Rightarrow> fs_pending (f x))"
  by (simp add: pending_of_def on_session_heap split: option.split)

lemma send_on_frame [simp]:
  "fw_heap (snd (send_on env s p w)) = fw_heap w" "fw_sessions (snd (send_on env s p w)) = fw_sessions w"
  "fw_down (snd (send_on env s p w)) = fw_down w" "fw_db (snd (send_on env s p w)) = fw_db w"
  "fw_to_charger (snd (send_on env s p w)) = fw_to_charger w" "fw_store (snd (send_on env s p w)) = fw_store w"
  "pending_of k (snd (send_on env s p w)) = pending_of k w"
  "fw_wire (snd (send_on env s p w)) = fw_wire w @ (if fst (send_on env s p w) then [(s, p)] else [])"
  by (auto simp: send_on_def Let_def pending_of_def)

subsection \<open>The buffer under interleaving\<close>

text \<open>
  The steps of one session's buffer: a message is put in, a flush takes its snapshot, sends its next
  entry, or removes the entry it has just sent.  A failed send ends the flush.  Flushes are numbered;
  any number may be under way.
\<close>

datatype buffer_op = Put string string | Snapshot nat | SendNext nat | RemoveSent nat

type_synonym flush_task = "(string \<times> string) option \<times> (string \<times> string) list"

type_synonym 'r relay = "'r fwd_world \<times> (nat, flush_task) dict"

definition put_message :: "nat \<Rightarrow> string \<Rightarrow> string \<Rightarrow> 'r fwd_world \<Rightarrow> 'r fwd_world" where
  "put_message s action payload w = on_session s (\<lambda>y. y\<lparr>fs_pending := dset action payload (fs_pending y)\<rparr>) w"

fun run_buffer_op :: "'r fwd_env \<Rightarrow> nat \<Rightarrow> buffer_op \<Rightarrow> 'r relay \<Rightarrow> 'r relay" where
  "run_buffer_op env s (Put action payload) (w, ts) = (put_message s action payload w, ts)"
| "run_buffer_op env s (Snapshot k) (w, ts) =
     (case take_snapshot s w of (pending, w') \<Rightarrow> (w', dset k (None, pending) ts))"
| "run_buffer_op env s (SendNext k) (w, ts) =
     (case dget ts k of
        Some (None, (action, payload) # rest) \<Rightarrow>
          (case send_on env s payload w of
             (True, w') \<Rightarrow> (w', dset k (Some (action, payload), rest) ts)
           | (False, w') \<Rightarrow> (w', ddel k ts))
      | _ \<Rightarrow> (w, ts))"
| "run_buffer_op env s (RemoveSent k) (w, ts) =
     (case dget ts k of
        Some (Some (action, payload), rest) \<Rightarrow> (remove_sent s action payload w, dset k (None, rest) ts)
      | _ \<Rightarrow> (w, ts))"

fun latest_put :: "string \<Rightarrow> buffer_op list \<Rightarrow> string option" where
  "latest_put a [] = None"
| "latest_put a (op # ops) =
     (case latest_put a ops of
        Some p \<Rightarrow> Some p
      | None \<Rightarrow> (case op of Put b p \<Rightarrow> (if b = a then Some p else None) | _ \<Rightarrow> None))"

definition safe_latest :: "nat \<Rightarrow> string \<Rightarrow> string \<Rightarrow> 'r relay \<Rightarrow> bool" where
  "safe_latest s a p r \<longleftrightarrow>
     dget (pending_of s (fst r)) a = Some p \<or> (s, p) \<in> set (fw_wire (fst r))"

definition flights_sent :: "nat \<Rightarrow> 'r relay \<Rightarrow> bool" where
  "flights_sent s r \<longleftrightarrow>
     (\<forall>k a q rest. dget (snd r) k = Some (Some (a, q), rest) \<longrightarrow> (s, q) \<in> set (fw_wire (fst r)))"

lemma send_onD:
  assumes "send_on env s p w = (ok, w')"
  shows "fw_heap w' = fw_heap w" "fw_sessions w' = fw_sessions w" "fw_down w' = fw_down w" "fw_db w' = fw_db w"
    "fw_to_charger w' = fw_to_charger w" "fw_store w' = fw_store w" "pending_of k w' = pending_of k w"
    "fw_wire w' = fw_wire w @ (if ok then [(s, p)] else [])"
  using send_on_frame [where env = env and s = s and p = p and w = w, unfolded assms] by simp_all

text \<open>What a step does to the session's buffer, the wire and the flushes under way.\<close>

lemma step_Put:
  assumes "dget (fw_heap w) s \<noteq> None"
  shows "pending_of s (put_message s b p w) = dset b p (pending_of s w)" "fw_wire (put_message s b p w) = fw_wire w"
  using assms by (auto simp: put_message_def pending_of_def on_session_heap)

lemma step_Snapshot:
  "pending_of s (snd (take_snapshot s w)) = pending_of s w" "fw_wire (snd (take_snapshot s w)) = fw_wire w"
  by (auto simp: take_snapshot_def pending_of_def on_session_heap split: option.split)

lemma step_RemoveSent:
  "pending_of s (remove_sent s b q w) =
     (if dget (pending_of s w) b = Some q then ddel b (pending_of s w) else pending_of s w)"
  "fw_wire (remove_sent s b q w) = fw_wire w"
  by (auto simp: remove_sent_def pending_of_def on_session_heap split: option.split)

lemma heap_kept [simp]:
  "dget (fw_heap (put_message s b p w)) s = None \<longleftrightarrow> dget (fw_heap w) s = None"
  "dget (fw_heap (snd (take_snapshot s w))) s = None \<longleftrightarrow> dget (fw_heap w) s = None"
  "dget (fw_heap (remove_sent s b q w)) s = None \<longleftrightarrow> dget (fw_heap w) s = None"
  by (simp_all add: put_message_def take_snapshot_def remove_sent_def on_session_heap)

definition buffer_inv :: "nat \<Rightarrow> (string \<Rightarrow> string option) \<Rightarrow> 'r relay \<Rightarrow> bool" where
  "buffer_inv s latest r \<longleftrightarrow>
     dget (fw_heap (fst r)) s \<noteq> None \<and> flights_sent s r \<and> (\<forall>a p. latest a = Some p \<longrightarrow> safe_latest s a p r)"

lemma step_keeps_inv:
  assumes inv: "buffer_inv s latest r"
  shows "buffer_inv s (\<lambda>a. case op of Put b p \<Rightarrow> (if b = a then Some p else latest a) | _ \<Rightarrow> latest a)
           (run_buffer_op env s op r)"
proof (cases r)
  case (Pair w ts)
  have heap: "dget (fw_heap w) s \<noteq> None" and flights: "flights_sent s (w, ts)"
    and safe: "\<And>a p. latest a = Some p \<Longrightarrow> safe_latest s a p (w, ts)"
    using inv by (auto simp: buffer_inv_def Pair)
  show ?thesis
  proof (cases op)
    case (Put b p)
    then show ?thesis using heap flights safe
      by (auto simp: Pair buffer_inv_def flights_sent_def safe_latest_def step_Put)
  next
    case (Snapshot k)
    obtain pending w' where snap: "take_snapshot s w = (pending, w')" by fastforce
    have "pending_of s w' = pending_of s w" "fw_wire w' = fw_wire w" "dget (fw_heap w') s \<noteq> None"
      using step_Snapshot [of s w] heap_kept(2) [of s w] heap by (simp_all add: snap)
    then show ?thesis using flights safe Snapshot
      by (auto simp: Pair snap buffer_inv_def flights_sent_def safe_latest_def split: if_splits)
  next
    case (SendNext k)
    show ?thesis
    proof (cases "\<exists>b q rest. dget ts k = Some (None, (b, q) # rest)")
      case True
      then obtain b q rest where task: "dget ts k = Some (None, (b, q) # rest)" by blast
      obtain ok w' where send: "send_on env s q w = (ok, w')" by fastforce
      note d = send_onD [OF send]
      have "run_buffer_op env s op r = (if ok then (w', dset k (Some (b, q), rest) ts) else (w', ddel k ts))"
        by (simp add: Pair SendNext task send)
      moreover have "flights_sent s (run_buffer_op env s op r)"
        using calculation flights d(8) by (auto simp: flights_sent_def split: if_splits)
      moreover have "safe_latest s a p (run_buffer_op env s op r)" if "latest a = Some p" for a p
        using calculation(1) safe [OF that] d(7,8) by (auto simp: safe_latest_def)
      ultimately show ?thesis using heap d(1) SendNext by (auto simp: buffer_inv_def)
    next
      case False
      then have "run_buffer_op env s op r = r"
        by (auto simp: Pair SendNext split: option.splits list.splits)
      then show ?thesis using inv SendNext by simp
    qed
  next
    case (RemoveSent k)
    show ?thesis
    proof (cases "\<exists>b q rest. dget ts k = Some (Some (b, q), rest)")
      case True
      then obtain b q rest where task: "dget ts k = Some (Some (b, q), rest)" by blast
      then have "(s, q) \<in> set (fw_wire w)" using flights by (auto simp: flights_sent_def)
      moreover have "run_buffer_op env s op r = (remove_sent s b q w, dset k (None, rest) ts)"
        by (simp add: Pair RemoveSent task)
      moreover have "flights_sent s (run_buffer_op env s op r)"
        using calculation flights by (auto simp: flights_sent_def step_RemoveSent split: if_splits)
      moreover have "safe_latest s a p (run_buffer_op env s op r)" if "latest a = Some p" for a p
        using calculation(1,2) safe [OF that] by (auto simp: safe_latest_def step_RemoveSent)
      ultimately show ?thesis using heap RemoveSent by (auto simp: buffer_inv_def)
    next
      case False
      then have "run_buffer_op env s op r = r"
        by (auto simp: Pair RemoveSent split: option.splits)
      then show ?thesis using inv RemoveSent by simp
    qed
  qed
qed

lemma latest_put_snoc:
  "latest_put a (ops @ [op]) =
     (case op of Put b p \<Rightarrow> (if b = a then Some p else latest_put a ops) | _ \<Rightarrow> latest_put a ops)"
  by (induction ops) (auto split: buffer_op.splits option.splits)

lemma buffer_inv_run:
  assumes "dget (fw_heap (fst r)) s \<noteq> None" "snd r = []"
  shows "buffer_inv s (\<lambda>a. latest_put a ops) (fold (run_buffer_op env s) ops r)"
proof (induction ops rule: rev_induct)
  case Nil
  then show ?case using assms by (simp add: buffer_inv_def flights_sent_def)
next
  case (snoc op ops)
  have "(\<lambda>a. latest_put a (ops @ [op])) =
      (\<lambda>a. case op of Put b p \<Rightarrow> (if b = a then Some p else latest_put a ops) | _ \<Rightarrow> latest_put a ops)"
    by (simp add: latest_put_snoc fun_eq_iff)
  then show ?case using step_keeps_inv [OF snoc] by simp
qed

text \<open>
  C13: The buffer does not lose the latest message.  Whatever messages are buffered, whatever flushes
  run at the same time, in whatever order their critical sections and sends interleave and whichever
  sends fail, the message that was put in last for an action is still in the buffer or has been sent.\<close>
theorem latest_buffered_message_kept:
  assumes "dget (fw_heap w) s \<noteq> None" "latest_put action ops = Some payload"
  shows "dget (pending_of s (fst (fold (run_buffer_op env s) ops (w, [])))) action = Some payload \<or>
         (s, payload) \<in> set (fw_wire (fst (fold (run_buffer_op env s) ops (w, []))))"
  using buffer_inv_run [of "(w, [])" s ops env] assms by (simp add: buffer_inv_def safe_latest_def)

subsection \<open>A flush on its own\<close>

text \<open>The steps of one flush that nothing interrupts are the loop of the code.\<close>

definition flush_ops :: "nat \<Rightarrow> (string \<times> string) list \<Rightarrow> buffer_op list" where
  "flush_ops k pending = concat (map (\<lambda>_. [SendNext k, RemoveSent k]) pending)"

lemma flush_ops_loop:
  assumes "dget ts k = Some (None, pending)" "flush_loop env s pending w = (True, w')"
  shows "fst (fold (run_buffer_op env s) (flush_ops k pending) (w, ts)) = w'"
  using assms
proof (induction pending arbitrary: w ts)
  case Nil
  then show ?case by (simp add: flush_ops_def)
next
  case (Cons ap rest)
  obtain a p where ap: "ap = (a, p)" by (cases ap)
  obtain w1 where send: "send_on env s p w = (True, w1)"
    and loop: "flush_loop env s rest (remove_sent s a p w1) = (True, w')"
    using Cons.prems(2) by (auto simp: ap split: prod.splits bool.splits)
  have "fst (fold (run_buffer_op env s) (flush_ops k rest) (remove_sent s a p w1, dset k (None, rest) (dset k (Some (a, p), rest) ts))) = w'"
    by (rule Cons.IH [OF _ loop]) simp
  then show ?case using Cons.prems(1) send by (simp add: ap flush_ops_def)
qed

lemma flush_loop_drains:
  assumes "\<And>n. fe_send env s n" "is_up s w" "dwf pending" "\<And>a. dget (pending_of s w) a = dget pending a"
    "dwf (pending_of s w)"
  shows "\<exists>w'. flush_loop env s pending w = (True, w') \<and> pending_of s w' = [] \<and>
     fw_wire w' = fw_wire w @ map (\<lambda>ap. (s, snd ap)) pending"
  using assms(2-)
proof (induction pending arbitrary: w)
  case Nil
  then have "pending_of s w = []"
    by (metis dget_Nil dget_Cons option.distinct(1) list.exhaust surj_pair)
  then show ?case by simp
next
  case (Cons ap rest)
  obtain a p where ap: "ap = (a, p)" by (cases ap)
  obtain w1 where send: "send_on env s p w = (True, w1)" using Cons.prems(1) assms(1)
    by (auto simp: send_on_def Let_def)
  note d = send_onD [OF send]
  let ?w2 = "remove_sent s a p w1"
  have p: "dget (pending_of s w) a = Some p" using Cons.prems(3) by (simp add: ap dget_Cons)
  have pend: "pending_of s ?w2 = ddel a (pending_of s w)" by (simp add: step_RemoveSent d(7) p)
  have up: "is_up s ?w2" using Cons.prems(1) d(3) by (simp add: remove_sent_def is_up_def)
  have rest: "dget rest a = None" "dwf rest" using Cons.prems(2) by (auto simp: ap dwf_def dget_def map_of_eq_None_iff)
  have "dget (pending_of s ?w2) b = dget rest b" for b
    using Cons.prems(3) rest by (auto simp: pend ap dget_Cons)
  then obtain w' where "flush_loop env s rest ?w2 = (True, w')" "pending_of s w' = []"
    "fw_wire w' = fw_wire ?w2 @ map (\<lambda>ap. (s, snd ap)) rest"
    using Cons.IH [OF up rest(2)] Cons.prems(4) by (auto simp: pend dwf_ddel)
  then show ?case using send d(8) by (simp add: ap step_RemoveSent)
qed

lemma flush_drains:
  assumes heap: "dget (fw_heap w) s \<noteq> None" and up: "is_up s w" and ok: "\<And>n. fe_send env s n"
    and wf: "dwf (pending_of s w)" and ne: "pending_of s w \<noteq> []"
  shows "\<exists>w'. flush_buffered_forward_messages env s w = (Some True, w') \<and> pending_of s w' = [] \<and>
     fw_wire w' = fw_wire w @ map (\<lambda>ap. (s, snd ap)) (pending_of s w)"
proof -
  obtain w1 where snap: "take_snapshot s w = (pending_of s w, w1)" by (simp add: take_snapshot_def)
  have pend: "pending_of s w1 = pending_of s w" and wire: "fw_wire w1 = fw_wire w"
    using step_Snapshot [of s w] by (simp_all add: snap)
  have "is_up s w1" using up snap by (auto simp: take_snapshot_def)
  then obtain w2 where loop: "flush_loop env s (pending_of s w) w1 = (True, w2)" "pending_of s w2 = []"
    "fw_wire w2 = fw_wire w @ map (\<lambda>ap. (s, snd ap)) (pending_of s w)"
    using flush_loop_drains [of env s w1 "pending_of s w"] ok wf by (auto simp: pend wire)
  have "flush_buffered_forward_messages env s w =
      (Some True, on_session s (\<lambda>x. x\<lparr>fs_last_flush := Some (fe_now env)\<rparr>) w2)"
    using loop(1) ne by (simp add: flush_buffered_forward_messages_def snap)
  moreover have "pending_of s (on_session s (\<lambda>x. x\<lparr>fs_last_flush := Some (fe_now env)\<rparr>) w2) = []"
    using loop(2) by (auto simp: pending_of_def on_session_heap split: option.splits)
  ultimately show ?thesis using loop(3) by simp
qed

text \<open>
  C32: A flush that nothing disturbs sends every buffered message exactly once, in the order in which
  their actions were first buffered, and leaves the buffer empty.\<close>
theorem undisturbed_flush_sends_all:
  assumes "dget (fw_heap w) s \<noteq> None" "is_up s w" "\<And>n. fe_send env s n"
    and "dwf (pending_of s w)" "pending_of s w \<noteq> []"
  shows "\<exists>w'. flush_buffered_forward_messages env s w = (Some True, w') \<and> pending_of s w' = [] \<and>
     fw_wire w' = fw_wire w @ map (\<lambda>ap. (s, snd ap)) (pending_of s w)"
  using assms by (rule flush_drains)

text \<open>
  Messages of one action can leave in the wrong order.  A flush that took its snapshot before a
  newer message of the action came in still sends the old one, after a second flush has sent the newer
  one: the remote node ends with the old message as the last it heard.\<close>
lemma stale_message_sent_last:
  assumes heap: "dget (fw_heap w) s \<noteq> None" and up: "is_up s w" and ok: "\<And>n. fe_send env s n"
    and empty: "pending_of s w = []" and ne: "new \<noteq> old"
  shows "fw_wire (fst (fold (run_buffer_op env s)
      [Put action old, Snapshot 1, Put action new, Snapshot 2, SendNext 2, RemoveSent 2, SendNext 1, RemoveSent 1]
      (w, []))) = fw_wire w @ [(s, new), (s, old)]"
proof -
  obtain x where x: "dget (fw_heap w) s = Some x" and p: "fs_pending x = []"
    using heap empty by (auto simp: pending_of_def)
  show ?thesis
    using up ok ne
    by (simp add: put_message_def take_snapshot_def remove_sent_def pending_of_def on_session_heap x p dset_def
        send_on_def Let_def is_up_def)
qed

subsection \<open>Commands of the remote node\<close>

definition command_allowed :: "'r fwd_env \<Rightarrow> nat \<Rightarrow> string \<Rightarrow> nat \<Rightarrow> 'r fwd_world \<Rightarrow> bool" where
  "command_allowed env s action ws w \<longleftrightarrow>
     (\<exists>x row calls. dget (fw_heap w) s = Some x \<and> fs_calls x = Some calls \<and> action \<in> set calls \<and>
        db_get ''Charger'' (PInt (fs_charger x)) (fw_db w) = Some row \<and> truthy (jget row ''allow_remote'') \<and>
        get_connection (py_str (jget row ''charger_id'')) (jget row ''connector_id'') (st (fw_store w)) = Some ws \<and>
        fe_charger_send env ws)"

lemma refuse_frame [simp]:
  "fw_to_charger (refuse env s mid kd d w) = fw_to_charger w" "fw_store (refuse env s mid kd d w) = fw_store w"
  by (simp_all add: refuse_def)

lemma on_store_frame [simp]:
  "fw_to_charger (on_store f w) = fw_to_charger w" "fw_wire (on_store f w) = fw_wire w"
  "fw_heap (on_store f w) = fw_heap w" "fw_sessions (on_store f w) = fw_sessions w"
  "fw_store (on_store f w) = f (fw_store w)"
  by (simp_all add: on_store_def)

lemma relay_command_cases:
  assumes "relay_command env s (message, mid, action) w = (sent, w')"
  shows "if sent then \<exists>ws. command_allowed env s action ws w \<and>
           fw_to_charger w' = fw_to_charger w @ [(ws, dumps_or_empty (PList message))] \<and>
           fw_wire w' = fw_wire w \<and> fw_heap w' = fw_heap w \<and> fw_sessions w' = fw_sessions w \<and>
           is_up s w' = is_up s w \<and> fw_attempts w' = fw_attempts w
         else fw_to_charger w' = fw_to_charger w \<and> (\<forall>ws. \<not> command_allowed env s action ws w)"
proof (cases "dget (fw_heap w) s")
  case None
  then show ?thesis using assms by (auto simp: relay_command_def command_allowed_def)
next
  case x: (Some x)
  show ?thesis
  proof (cases "fs_calls x = None \<or> action \<notin> set (the (fs_calls x))")
    case True
    then show ?thesis using assms x by (auto simp: relay_command_def command_allowed_def)
  next
    case policy: False
    show ?thesis
    proof (cases "db_get ''Charger'' (PInt (fs_charger x)) (fw_db w)")
      case None
      then show ?thesis using assms x policy by (auto simp: relay_command_def command_allowed_def)
    next
      case row: (Some row)
      show ?thesis
      proof (cases "truthy (jget row ''allow_remote'')")
        case False
        then show ?thesis using assms x policy row by (auto simp: relay_command_def command_allowed_def)
      next
        case remote: True
        show ?thesis
        proof (cases "get_connection (py_str (jget row ''charger_id'')) (jget row ''connector_id'') (st (fw_store w))")
          case None
          then show ?thesis using assms x policy row remote
            by (auto simp: relay_command_def command_allowed_def Let_def)
        next
          case (Some ws)
          then show ?thesis using assms x policy row remote
            by (cases "fe_charger_send env ws")
              (auto simp: relay_command_def command_allowed_def Let_def is_up_def on_store_def)
        qed
      qed
    qed
  qed
qed

text \<open>
  C12: Which commands of the remote node reach the charger.  A frame makes the listener send
  something to a charger's websocket exactly when it is a call whose action the session's policy lists,
  the charger allows remote actions and is connected, and the send succeeds; then it is that frame's
  call, to that charger, and nothing else is sent.\<close>
theorem remote_command_gate:
  assumes "fe_loads env raw = Some parsed" "remote_command parsed = Some (message, mid, action)"
    and "raw \<noteq> []" "listening s w"
  shows "(\<exists>ws. command_allowed env s action ws w \<and>
            fw_to_charger (listen_once env s raw w) = fw_to_charger w @ [(ws, dumps_or_empty (PList message))]) \<or>
         (\<forall>ws. \<not> command_allowed env s action ws w) \<and>
            fw_to_charger (listen_once env s raw w) = fw_to_charger w"
proof -
  obtain sent w1 where r: "relay_command env s (message, mid, action) w = (sent, w1)" by fastforce
  then have l: "listen_once env s raw w = (if sent then note_command s mid w1 else w1)"
    using assms by (simp add: listen_once_def)
  show ?thesis
    using relay_command_cases [OF r] by (cases sent) (auto simp: l note_command_def)
qed

subsection \<open>Answers to relayed commands\<close>

lemma reply_forwarded:
  assumes "get_session pk w = Some s" "dget (fw_heap w) s = Some x" "fe_enabled env" "mid \<noteq> []" "raw \<noteq> []"
    and "is_up s w" "mid \<in> set (fs_call_ids x)" "\<And>n. fe_send env s n"
  shows "\<exists>w'. forward_charge_point_reply env (Some pk) mid raw w = w' \<and>
     fw_wire w' = fw_wire w @ [(s, wrap_forwarding_payload env (charger_row pk w) ''cp_to_csms_reply'' raw)] \<and>
     get_session pk w' = Some s \<and>
     dget (fw_heap w') s = Some (x\<lparr>fs_call_ids := sdiscard mid (fs_call_ids x)\<rparr>)"
  using assms
  by (simp add: forward_charge_point_reply_def Let_def send_on_def is_up_def on_session_heap get_session_def
      charger_row_def)

lemma reply_not_noted:
  assumes "\<And>s x. get_session pk w = Some s \<Longrightarrow> dget (fw_heap w) s = Some x \<Longrightarrow> mid \<notin> set (fs_call_ids x)"
  shows "forward_charge_point_reply env (Some pk) mid raw w = w"
  using assms by (auto simp: forward_charge_point_reply_def split: option.splits)

text \<open>
  C31: The charger's answer to a relayed command goes back to the remote node, and only once.  Once the
  listener has passed a permitted command on and noted its id, the answer is wrapped and sent on the same
  session; a second answer with the same id sends nothing.\<close>
theorem relayed_reply_returns_once:
  assumes frame: "fe_loads env raw = Some parsed" "remote_command parsed = Some (message, mid, action)" "raw \<noteq> []"
    and live: "listening s w" "get_session pk w = Some s" "fe_enabled env" "\<And>n. fe_send env s n"
    and allowed: "command_allowed env s action ws w" and given: "mid \<noteq> []" "reply \<noteq> []"
  shows "\<exists>w2. forward_charge_point_reply env (Some pk) mid reply (listen_once env s raw w) = w2 \<and>
    fw_wire w2 = fw_wire w @
      [(s, wrap_forwarding_payload env (charger_row pk (listen_once env s raw w)) ''cp_to_csms_reply'' reply)] \<and>
    forward_charge_point_reply env (Some pk) mid reply w2 = w2"
proof -
  obtain sent w1 where r: "relay_command env s (message, mid, action) w = (sent, w1)" by fastforce
  then have sent: "sent" and same: "fw_wire w1 = fw_wire w" "fw_heap w1 = fw_heap w" "fw_sessions w1 = fw_sessions w"
    "is_up s w1 = is_up s w"
    using relay_command_cases [OF r] allowed by (auto split: if_splits)
  obtain x where x: "dget (fw_heap w) s = Some x" and up: "is_up s w"
    using live(1) by (auto simp: listening_def split: option.splits)
  let ?w1 = "listen_once env s raw w"
  have l: "?w1 = note_command s mid w1" using frame live(1) r sent by (simp add: listen_once_def)
  have "dget (fw_heap ?w1) s = Some (x\<lparr>fs_call_ids := sadd mid (fs_call_ids x)\<rparr>)" "fw_wire ?w1 = fw_wire w"
    "get_session pk ?w1 = Some s" "is_up s ?w1"
    using x up same live(2) by (simp_all add: l note_command_def on_session_heap get_session_def)
  then show ?thesis
    using reply_forwarded [of pk ?w1 s _ env mid reply] live(3,4) given
    by (auto intro!: reply_not_noted)
qed

text \<open>
  An answer that comes before the id is noted is lost.  The listener passes the command on first
  and notes its id afterwards.  When the charger's answer is handled in between, nothing is sent to the
  remote node, and the id stays noted for an answer that has already gone.\<close>
lemma early_reply_lost:
  assumes "relay_command env s (message, mid, action) w = (True, w1)" "get_session pk w = Some s"
    and "dget (fw_heap w) s = Some x" "mid \<notin> set (fs_call_ids x)"
  shows "forward_charge_point_reply env (Some pk) mid reply w1 = w1 \<and> fw_wire (note_command s mid w1) = fw_wire w \<and>
    (\<exists>y. dget (fw_heap (note_command s mid w1)) s = Some y \<and> mid \<in> set (fs_call_ids y))"
proof -
  have same: "fw_wire w1 = fw_wire w" "fw_heap w1 = fw_heap w" "fw_sessions w1 = fw_sessions w"
    using relay_command_cases [OF assms(1)] by auto
  have "forward_charge_point_reply env (Some pk) mid reply w1 = w1"
    using assms same by (intro reply_not_noted) (auto simp: get_session_def)
  then show ?thesis using assms same by (simp add: note_command_def on_session_heap)
qed

subsection \<open>Reconnecting\<close>

lemma buffered_send_fails:
  assumes s: "dget (fw_heap w) s = Some x" and x: "positive_interval (fs_interval x)"
    and due: "\<And>t. fs_last_flush x = Some t \<Longrightarrow> interval_elapsed (fe_now env - t) (fs_interval x)"
    and env: "\<And>n. \<not> fe_send env s n"
  shows "\<exists>w2. send_or_buffer_cp_payload env s action payload w = (None, w2) \<and>
    pending_of s w2 = dset action payload (fs_pending x) \<and>
    fw_wire w2 = fw_wire w \<and> fw_sessions w2 = fw_sessions w \<and> fw_next w2 = fw_next w \<and> fw_down w2 = fw_down w \<and>
    fw_db w2 = fw_db w"
proof -
  let ?put = "on_session s (\<lambda>y. y\<lparr>fs_pending := dset action payload (fs_pending y)\<rparr>) w"
  have pend: "pending_of s ?put = dset action payload (fs_pending x)"
    by (simp add: pending_of_def on_session_heap s)
  have ne: "dset action payload (fs_pending x) \<noteq> []" by (metis dget_dset dget_Nil option.distinct(1))
  have "send_or_buffer_cp_payload env s action payload w = flush_buffered_forward_messages env s ?put"
    using due by (auto simp: send_or_buffer_cp_payload_def s x Let_def split: option.split)
  moreover obtain a p rest where first: "dset action payload (fs_pending x) = (a, p) # rest"
    using ne by (metis list.exhaust surj_pair)
  have "\<exists>w2. flush_buffered_forward_messages env s ?put = (None, w2) \<and> pending_of s w2 = pending_of s ?put \<and>
      fw_wire w2 = fw_wire w \<and> fw_sessions w2 = fw_sessions w \<and> fw_next w2 = fw_next w \<and> fw_down w2 = fw_down w \<and>
      fw_db w2 = fw_db w"
    using env
    by (simp add: flush_buffered_forward_messages_def take_snapshot_def pend first send_on_def Let_def)
      (simp add: pending_of_def on_session_heap s first)
  ultimately show ?thesis by (simp add: pend)
qed

text \<open>What a flush leaves of a session besides its buffer.\<close>

definition settings :: "nat \<Rightarrow> 'r fwd_world \<Rightarrow> (int \<Rightarrow> nat option) \<times> (string list option \<times> pfloat) option" where
  "settings s w = (dget (fw_sessions w), map_option (\<lambda>x. (fs_calls x, fs_interval x)) (dget (fw_heap w) s))"

lemma settings_on_session:
  assumes "\<And>x. fs_calls (f x) = fs_calls x \<and> fs_interval (f x) = fs_interval x"
  shows "settings s (on_session s f w) = settings s w"
  using assms by (simp add: settings_def on_session_heap option.map_comp o_def)

lemma settings_stamps [simp]:
  "settings s (on_session s (\<lambda>x. x\<lparr>fs_scheduled := b\<rparr>) w) = settings s w"
  "settings s (on_session s (\<lambda>x. x\<lparr>fs_last_flush := t\<rparr>) w) = settings s w"
  by (rule settings_on_session, simp)+

lemma settings_send: "send_on env s p w = (ok, w1) \<Longrightarrow> settings s w1 = settings s w"
  by (simp add: settings_def send_onD)

lemma settings_loop: "settings s (snd (flush_loop env s pending w)) = settings s w"
proof (induction pending arbitrary: w)
  case (Cons ap rest)
  obtain a p where ap: "ap = (a, p)" by (cases ap)
  obtain ok w1 where send: "send_on env s p w = (ok, w1)" by fastforce
  have "settings s (remove_sent s a p w1) = settings s w"
    unfolding remove_sent_def settings_send [OF send, symmetric] by (rule settings_on_session) simp
  then show ?case using Cons.IH settings_send [OF send] by (cases ok) (simp_all add: ap send)
qed simp

lemma settings_flush:
  assumes "flush_buffered_forward_messages env s w = (Some r, w2)"
  shows "settings s w2 = settings s w"
  using assms settings_loop [of s env "pending_of s w" "on_session s (\<lambda>x. x\<lparr>fs_scheduled := False\<rparr>) w"]
  by (auto simp: flush_buffered_forward_messages_def take_snapshot_def split: if_splits prod.splits bool.splits)

lemma loop_keeps_up: "is_up k (snd (flush_loop env s pending w)) \<longleftrightarrow> is_up k w"
proof (induction pending arbitrary: w)
  case (Cons ap rest)
  obtain a p where ap: "ap = (a, p)" by (cases ap)
  obtain ok w1 where send: "send_on env s p w = (ok, w1)" by fastforce
  then have "is_up k w1 \<longleftrightarrow> is_up k w" by (simp add: is_up_def send_onD(3))
  then show ?case using Cons.IH by (cases ok) (simp_all add: ap send remove_sent_def)
qed simp

lemma flush_keeps_up: "flush_buffered_forward_messages env s w = (r, w2) \<Longrightarrow> is_up k w2 \<longleftrightarrow> is_up k w"
  using loop_keeps_up [of k env s "pending_of s w" "on_session s (\<lambda>x. x\<lparr>fs_scheduled := False\<rparr>) w"]
  by (auto simp: flush_buffered_forward_messages_def take_snapshot_def split: if_splits prod.splits bool.splits)

lemma immediate_send_with_buffer:
  assumes s: "dget (fw_heap w) s = Some x" and x: "\<not> positive_interval (fs_interval x)"
    "dwf (fs_pending x)" "fs_pending x \<noteq> []" and env: "is_up s w" "\<And>n. fe_send env s n"
  shows "\<exists>w2. send_or_buffer_cp_payload env s action payload w = (Some True, w2) \<and>
    fw_wire w2 = fw_wire w @ map (\<lambda>ap. (s, snd ap)) (fs_pending x) @ [(s, payload)] \<and> settings s w2 = settings s w"
proof -
  let ?w1 = "on_session s (\<lambda>y. y\<lparr>fs_scheduled := False\<rparr>) w"
  have p: "pending_of s ?w1 = fs_pending x" by (simp add: pending_of_def on_session_heap s)
  obtain w2 where w2: "flush_buffered_forward_messages env s ?w1 = (Some True, w2)"
    "fw_wire w2 = fw_wire w @ map (\<lambda>ap. (s, snd ap)) (fs_pending x)"
    using flush_drains [of ?w1 s env] s x(2,3) env by (auto simp: p on_session_heap)
  have up: "is_up s w2" using flush_keeps_up [OF w2(1)] env(1) by simp
  obtain w3 where send: "send_on env s payload w2 = (True, w3)" using up env(2) by (auto simp: send_on_def Let_def)
  have "settings s ?w1 = settings s w" by (rule settings_on_session) simp
  then have "settings s w3 = settings s w" using settings_send [OF send] settings_flush [OF w2(1)] by simp
  then show ?thesis
    using w2 send send_onD(8) [OF send] by (auto simp: send_or_buffer_cp_payload_def s x(1))
qed

lemma dset_fresh: "k \<notin> fst ` set d \<Longrightarrow> dset k v d = d @ [(k, v)]"
  by (induction d) (auto simp: dset_def)

lemma merge_onto:
  "dwf (acc @ ks) \<Longrightarrow> fold (\<lambda>kv. setdefault (fst kv) (snd kv)) ks acc = acc @ ks"
proof (induction ks arbitrary: acc)
  case (Cons kv ks)
  have "fst kv \<notin> fst ` set acc" using Cons.prems by (simp add: dwf_def)
  then have "setdefault (fst kv) (snd kv) acc = acc @ [kv]"
    using dset_fresh [of "fst kv" acc "snd kv"] by (simp add: setdefault_def dget_def map_of_eq_None_iff)
  then show ?case using Cons.IH [of "acc @ [kv]"] Cons.prems by simp
qed simp

lemmas merge_into_empty = merge_onto [of "[]", simplified]

lemma activity_frame [simp]:
  "fw_wire (activity_recorded env pk s k w) = fw_wire w" "fw_sessions (activity_recorded env pk s k w) = fw_sessions w"
  "dget (fw_heap (activity_recorded env pk s k w)) j =
     (if j = s then map_option (\<lambda>x. x\<lparr>fs_last_activity := Some (fe_now env)\<rparr>) (dget (fw_heap w) j) else dget (fw_heap w) j)"
  by (simp_all add: activity_recorded_def record_forwarding_activity_def Let_def on_session_heap)

lemma charger_row_cong: "fw_db w' = fw_db w \<Longrightarrow> charger_row pk w' = charger_row pk w"
  by (simp add: charger_row_def)

lemma remove_session_frame [simp]:
  "fw_db (remove_session pk w) = fw_db w" "fw_wire (remove_session pk w) = fw_wire w"
  "fw_next (remove_session pk w) = fw_next w" "fw_heap (remove_session pk w) = fw_heap w"
  by (simp_all add: remove_session_def close_forwarding_session_def split: option.split)

lemma reconnected:
  assumes target: "jget (charger_row pk w) ''forwarded_to'' = PInt node" "fe_enabled env"
      "find (fe_connect env) (candidate_forwarding_urls env node
         (py_str (por (jget (charger_row pk w) ''charger_id'') (PStr [])))) = Some url"
  shows "\<exists>w1 y. reconnect_forwarding_session env pk messages k w = (Some (fw_next w), w1) \<and>
    dget (fw_heap w1) (fw_next w) = Some y \<and> fs_calls y = None \<and> fs_interval y = Fin 0 \<and> fs_pending y = [] \<and>
    get_session pk w1 = Some (fw_next w) \<and> fw_down w1 = fw_down w \<and> fw_wire w1 = fw_wire w \<and> fw_db w1 = fw_db w"
  using target
  by (simp add: reconnect_forwarding_session_def connect_forwarding_session_def Let_def set_context_def on_session_heap
      get_session_def pfloat_max0_def positive_interval_def)

text \<open>
  C33: What a reconnect forgets and repeats.  A session with a buffering interval whose flush is due
  takes a message, the send fails, and a new session to the remote node is opened on which sends
  succeed.  Then the whole buffer is sent on the new session, in order and with the message among it,
  and the message itself once more.  The new session has no list of permitted calls, so every command
  of the remote node is refused, and no interval, so nothing is buffered, until the next synchronisation.\<close>
theorem reconnect_repeats_and_forgets:
  assumes s: "get_session pk w = Some s" "dget (fw_heap w) s = Some x" "is_up s w" "fw_next w \<noteq> s"
      "fw_next w \<notin> set (fw_down w)"
    and x: "fs_messages x = Some messages" "action \<in> set messages" "fs_forwarder x = Some k0"
      "positive_interval (fs_interval x)" "dwf (fs_pending x)"
    and due: "\<And>t. fs_last_flush x = Some t \<Longrightarrow> interval_elapsed (fe_now env - t) (fs_interval x)"
    and env: "fe_enabled env" "\<And>n. \<not> fe_send env s n" "\<And>n. fe_send env (fw_next w) n"
    and given: "action \<noteq> []" "raw \<noteq> []"
    and target: "jget (charger_row pk w) ''forwarded_to'' = PInt node"
      "find (fe_connect env) (candidate_forwarding_urls env node
         (py_str (por (jget (charger_row pk w) ''charger_id'') (PStr [])))) = Some url"
    and ctx: "\<And>w'. fw_db w' = fw_db w \<Longrightarrow>
      ensure_forwarding_context env (charger_row pk w) w' = Some (permitted, k)" "action \<in> set permitted"
  defines "payload \<equiv> wrap_forwarding_payload env (charger_row pk w) ''cp_to_csms'' raw"
    and "new \<equiv> fw_next w"
  shows "\<exists>w' y. forward_charge_point_message env (Some pk) action raw w = w' \<and>
    fw_wire w' = fw_wire w @ map (\<lambda>ap. (new, snd ap)) (dset action payload (fs_pending x)) @ [(new, payload)] \<and>
    (new, payload) \<in> set (map (\<lambda>ap. (new, snd ap)) (dset action payload (fs_pending x))) \<and>
    get_session pk w' = Some new \<and> dget (fw_heap w') new = Some y \<and> fs_calls y = None \<and> fs_interval y = Fin 0"
proof -
  let ?kept = "dset action payload (fs_pending x)"
  have kept: "dwf ?kept" "?kept \<noteq> []" "(action, payload) \<in> set ?kept"
    using x(5) dget_SomeD [of ?kept action payload] by (auto simp: dget_dset)
  obtain w2 where w2: "send_or_buffer_cp_payload env s action payload w = (None, w2)"
    "pending_of s w2 = ?kept" "fw_wire w2 = fw_wire w" "fw_sessions w2 = fw_sessions w"
    "fw_next w2 = fw_next w" "fw_down w2 = fw_down w" "fw_db w2 = fw_db w"
    using buffered_send_fails [OF s(2) x(4) due, where action = action and payload = payload] env(2) by auto
  have first: "forward_charge_point_message env (Some pk) action raw w =
      forward_again env pk action payload (Some messages) (Some k0) s w2"
    using s env given x w2(1)
    by (simp add: forward_charge_point_message_def Let_def payload_def [symmetric])
  let ?w3 = "remove_session pk w2"
  have row: "charger_row pk ?w3 = charger_row pk w" by (rule charger_row_cong) (simp add: w2)
  have down: "new \<notin> set (fw_down ?w3)"
    using s w2 by (auto simp: new_def get_session_def remove_session_def close_forwarding_session_def)
  obtain w4 y where w4: "reconnect_forwarding_session env pk (Some messages) (Some k0) ?w3 = (Some new, w4)"
    "dget (fw_heap w4) new = Some y" "fs_calls y = None" "fs_interval y = Fin 0" "fs_pending y = []"
    "get_session pk w4 = Some new" "fw_down w4 = fw_down ?w3" "fw_wire w4 = fw_wire w" "fw_db w4 = fw_db w"
    using reconnected [of pk ?w3 node env url "Some messages" "Some k0"] target env(1) w2 by (auto simp: row new_def)
  let ?w5 = "merge_pending (pending_of s w2) new (set_context new (Some permitted) (Some k) w4)"
  have w5: "dget (fw_heap ?w5) new =
      Some (y\<lparr>fs_messages := Some permitted, fs_forwarder := Some k, fs_pending := ?kept\<rparr>)"
    by (simp add: merge_pending_def set_context_def on_session_heap w2 w4 merge_into_empty kept)
  have up: "is_up new ?w5" using down w4(7) by (simp add: merge_pending_def set_context_def is_up_def)
  have five: "fw_wire ?w5 = fw_wire w" "fw_sessions ?w5 = fw_sessions w4"
    by (simp_all add: merge_pending_def set_context_def w4)
  obtain w6 where w6: "send_or_buffer_cp_payload env new action payload ?w5 = (Some True, w6)"
    "fw_wire w6 = fw_wire ?w5 @ map (\<lambda>ap. (new, snd ap)) ?kept @ [(new, payload)]" "settings new w6 = settings new ?w5"
    using immediate_send_with_buffer [OF w5 _ _ _ up, of env action payload] w4(4) kept(1,2) env(3)
    by (auto simp: positive_interval_def new_def)
  then obtain z where z: "dget (fw_heap w6) new = Some z" "fs_calls z = None" "fs_interval z = Fin 0"
    "dget (fw_sessions w6) pk = Some new"
    using w4(3,4,6) by (auto simp: settings_def w5 five get_session_def)
  have "forward_again env pk action payload (Some messages) (Some k0) s w2 =
      activity_recorded env pk new (Some k) w6"
    using w4(1) w6(1) ctx(1) [OF w4(9)] ctx(2) charger_row_cong [OF w4(9)]
    by (simp add: forward_again_def Let_def)
  moreover have "(new, payload) \<in> set (map (\<lambda>ap. (new, snd ap)) ?kept)" using kept(3) by force
  ultimately show ?thesis
    using first w6(2) z by (simp add: get_session_def five)
qed

subsection \<open>Lists of permitted actions\<close>

lemma set_cleaned: "set (cleaned_actions known items) = {a \<in> set known. PStr a \<in> set items}"
  by (auto simp: cleaned_actions_def set_dedupe split: pyval.splits)

lemma cleaned_Nil [simp]: "cleaned_actions known [] = []"
  by (simp add: cleaned_actions_def dedupe_def)

lemma distinct_cleaned: "distinct (cleaned_actions known items)"
  by (simp add: cleaned_actions_def distinct_dedupe)

lemma cleaned_sorted: "sorted (map (\<lambda>a. position a known) (cleaned_actions known items))"
  by (simp add: cleaned_actions_def)

lemma position_inj: "a \<in> set known \<Longrightarrow> b \<in> set known \<Longrightarrow> position a known = position b known \<Longrightarrow> a = b"
  by (induction known) (auto split: if_splits)

lemma cleaned_again:
  assumes "cleaned = cleaned_actions known items"
  shows "cleaned_actions known (map PStr cleaned) = cleaned"
proof -
  let ?f = "\<lambda>a. position a known"
  have inj: "inj_on ?f (set cleaned)" by (auto simp: inj_on_def assms set_cleaned intro: position_inj)
  have same: "set (cleaned_actions known (map PStr cleaned)) = set cleaned"
    by (auto simp: assms set_cleaned)
  show ?thesis
  proof (rule map_inj_on)
    show "map ?f (cleaned_actions known (map PStr cleaned)) = map ?f cleaned"
    proof (rule sorted_distinct_set_unique)
      show "sorted (map ?f (cleaned_actions known (map PStr cleaned)))" "sorted (map ?f cleaned)"
        by (simp_all add: assms cleaned_sorted)
      show "distinct (map ?f (cleaned_actions known (map PStr cleaned)))" "distinct (map ?f cleaned)"
        using inj distinct_cleaned [of known items] distinct_cleaned [of known "map PStr cleaned"]
        by (simp_all only: distinct_map same assms [symmetric])
      show "set (map ?f (cleaned_actions known (map PStr cleaned))) = set (map ?f cleaned)" by (simp add: same)
    qed
    show "inj_on ?f (set (cleaned_actions known (map PStr cleaned)) \<union> set cleaned)" using inj by (simp add: same)
  qed
qed

lemma sorted_positions: "distinct known \<Longrightarrow> sorted (map (\<lambda>a. position a known) known)"
proof (induction known)
  case (Cons a known)
  have "map (\<lambda>b. position b (a # known)) known = map Suc (map (\<lambda>b. position b known) known)"
    using Cons.prems by auto
  then show ?case using Cons by (simp add: sorted_map del: map_map)
qed simp

lemma cleaned_known: "distinct known \<Longrightarrow> cleaned_actions known (map PStr known) = known"
proof -
  assume d: "distinct known"
  have s: "sorted (map (\<lambda>a. position a known) known)" using d by (rule sorted_positions)
  let ?f = "\<lambda>a. position a known" and ?c = "cleaned_actions known (map PStr known)"
  have inj: "inj_on ?f (set known)" by (auto simp: inj_on_def intro: position_inj)
  have same: "set ?c = set known" by (auto simp: set_cleaned)
  have "map ?f ?c = map ?f known"
    by (rule sorted_distinct_set_unique) (use s inj d in \<open>simp_all add: cleaned_sorted distinct_map same distinct_cleaned\<close>)
  then show ?thesis by (rule map_inj_on) (use inj in \<open>simp add: same\<close>)
qed

text \<open>What saving a forwarder stores is what reading it gives: sanitizing is stable under storing the
  result, and the result names known actions only, each once, both for the messages that are forwarded
  and for the calls that are accepted.\<close>
lemma forwarded_lists_stable:
  "sanitize_forwarded_calls (PList (map PStr (sanitize_forwarded_calls v))) = sanitize_forwarded_calls v \<and>
   sanitize_forwarded_messages (PList (map PStr (sanitize_forwarded_messages v))) = sanitize_forwarded_messages v \<and>
   set (sanitize_forwarded_calls v) \<subseteq> set OCPP_FORWARDING_CALLS \<and> distinct (sanitize_forwarded_calls v) \<and>
   set (sanitize_forwarded_messages v) \<subseteq> set OCPP_FORWARDING_MESSAGES \<and> distinct (sanitize_forwarded_messages v)"
proof -
  have d: "distinct OCPP_FORWARDING_CALLS" "distinct OCPP_FORWARDING_MESSAGES" by code_simp+
  have ne: "OCPP_FORWARDING_CALLS \<noteq> []" "OCPP_FORWARDING_MESSAGES \<noteq> []"
    by (simp_all add: OCPP_FORWARDING_CALLS_def OCPP_FORWARDING_MESSAGES_def)
  show ?thesis
    using cleaned_known [OF d(1)] cleaned_known [OF d(2)] ne d
    by (cases v) (auto simp: sanitize_forwarded_calls_def sanitize_forwarded_messages_def set_cleaned distinct_cleaned
        cleaned_again)
qed

lemma unknown_calls_permit_all:
  "items \<noteq> [] \<Longrightarrow> \<forall>a \<in> set OCPP_FORWARDING_CALLS. PStr a \<notin> set items \<Longrightarrow>
     sanitize_forwarded_calls (PList items) = OCPP_FORWARDING_CALLS"
proof -
  assume "items \<noteq> []" "\<forall>a \<in> set OCPP_FORWARDING_CALLS. PStr a \<notin> set items"
  moreover from this have "set (cleaned_actions OCPP_FORWARDING_CALLS items) = {}" by (auto simp: set_cleaned)
  ultimately show ?thesis by (simp add: sanitize_forwarded_calls_def)
qed

subsection \<open>Concrete sessions\<close>

definition demo_fwd_session :: fwd_session where
  "demo_fwd_session = \<lparr>fs_charger = 1, fs_node = Some 9, fs_url = ''ws://h:1/ocpp/CP'', fs_connected_at = 0,
     fs_forwarder = Some 4, fs_messages = Some [''Heartbeat''], fs_calls = Some [''Reset''], fs_interval = Fin 5,
     fs_call_ids = [], fs_pending = [], fs_last_flush = None, fs_last_activity = None, fs_scheduled = False\<rparr>"

definition demo_fwd_world :: "unit fwd_world" where
  "demo_fwd_world = \<lparr>fw_heap = [(0, demo_fwd_session)], fw_sessions = [(1, 0)], fw_next = 1, fw_down = [],
     fw_attempts = 0, fw_wire = [], fw_to_charger = [],
     fw_db = [((''Charger'', PInt 1), [(''charger_id'', PStr ''CP''), (''connector_id'', PNone),
                (''allow_remote'', PBool True), (''forwarded_to'', PInt 9)]),
              ((''CPForwarder'', PInt 4), [(''target_node'', PInt 9), (''source_node'', PNone), (''enabled'', PBool True),
                (''forwarded_messages'', PList [PStr ''Heartbeat''])])],
     fw_store = (init_ocpp_store None)\<lparr>st := (init_store None)\<lparr>connections := [(''CP#all'', 7)]\<rparr>\<rparr>\<rparr>"

definition demo_fwd_env :: "unit fwd_env" where
  "demo_fwd_env = \<lparr>fe_enabled = True, fe_now = 0, fe_send = (\<lambda>s n. True), fe_ping = (\<lambda>_. None),
     fe_connect = (\<lambda>_. True), fe_remote_urls = (\<lambda>_. [\<lparr>up_scheme = ''http'', up_host = ''h'', up_netloc = ''h:1'', up_path = []\<rparr>]),
     fe_loads = (\<lambda>_. Some (PList [PInt 2, PStr ''m1'', PStr ''Reset'', PDict []])), fe_local = None,
     fe_local_uuid = None, fe_charger_send = (\<lambda>_. True), fe_redis = no_redis_env\<rparr>"

definition broken_fwd_env :: "unit fwd_env" where
  "broken_fwd_env = demo_fwd_env\<lparr>fe_send := (\<lambda>s n. s \<noteq> 0)\<rparr>"

lemma demo_fwd_simps:
  "dget (fw_heap demo_fwd_world) 0 = Some demo_fwd_session" "get_session 1 demo_fwd_world = Some 0"
  "is_up k demo_fwd_world" "pending_of 0 demo_fwd_world = []" "fw_wire demo_fwd_world = []"
  "fe_send demo_fwd_env k n" "fe_enabled demo_fwd_env" "fs_call_ids demo_fwd_session = []"
  by (simp_all add: demo_fwd_world_def demo_fwd_session_def demo_fwd_env_def get_session_def is_up_def pending_of_def)

theorem latest_buffered_message_kept_witness:
  "dget (pending_of 0 (fst (fold (run_buffer_op demo_fwd_env 0) [Put ''Heartbeat'' ''a'', Snapshot 1, Put ''Heartbeat'' ''b'', SendNext 1, RemoveSent 1]
      (demo_fwd_world, [])))) ''Heartbeat'' = Some ''b'' \<or>
   (0, ''b'') \<in> set (fw_wire (fst (fold (run_buffer_op demo_fwd_env 0) [Put ''Heartbeat'' ''a'', Snapshot 1, Put ''Heartbeat'' ''b'', SendNext 1, RemoveSent 1]
      (demo_fwd_world, []))))"
  by (rule latest_buffered_message_kept) (simp_all add: demo_fwd_simps)

definition demo_buffered_world :: "unit fwd_world" where
  "demo_buffered_world = put_message 0 ''StatusNotification'' ''b'' (put_message 0 ''Heartbeat'' ''a'' demo_fwd_world)"

lemma demo_buffered: "pending_of 0 demo_buffered_world = [(''Heartbeat'', ''a''), (''StatusNotification'', ''b'')]"
  by (simp add: demo_buffered_world_def step_Put demo_fwd_simps dset_def)

theorem undisturbed_flush_sends_all_witness:
  "\<exists>w'. flush_buffered_forward_messages demo_fwd_env 0 demo_buffered_world = (Some True, w') \<and> pending_of 0 w' = [] \<and>
     fw_wire w' = [(0, ''a''), (0, ''b'')]"
  using undisturbed_flush_sends_all [of demo_buffered_world 0 demo_fwd_env]
  by (simp add: demo_buffered dwf_def demo_fwd_simps)
    (simp add: demo_buffered_world_def demo_fwd_simps put_message_def on_session_heap)

lemma stale_message_sent_last_witness:
  "fw_wire (fst (fold (run_buffer_op demo_fwd_env 0)
      [Put ''Heartbeat'' ''old'', Snapshot 1, Put ''Heartbeat'' ''new'', Snapshot 2, SendNext 2, RemoveSent 2, SendNext 1, RemoveSent 1]
      (demo_fwd_world, []))) = [(0, ''new''), (0, ''old'')]"
  using stale_message_sent_last [of demo_fwd_world 0 demo_fwd_env "''new''" "''old''" "''Heartbeat''"]
  by (simp add: demo_fwd_simps)

lemma demo_command: "remote_command (PList [PInt 2, PStr ''m1'', PStr ''Reset'', PDict []]) =
    Some ([PInt 2, PStr ''m1'', PStr ''Reset'', PDict []], ''m1'', ''Reset'')"
  by (simp add: remote_command_def)

lemma demo_ws: "get_connection ''CP'' PNone (st (fw_store demo_fwd_world)) = Some 7"
  by code_simp

lemma demo_allowed: "command_allowed demo_fwd_env 0 ''Reset'' 7 demo_fwd_world"
  using demo_ws by (simp add: command_allowed_def demo_fwd_world_def demo_fwd_session_def demo_fwd_env_def db_get_def)

lemma demo_listening: "listening 0 demo_fwd_world" "fe_loads demo_fwd_env raw = Some (PList [PInt 2, PStr ''m1'', PStr ''Reset'', PDict []])"
  by (simp_all add: listening_def demo_fwd_simps) (simp_all add: demo_fwd_session_def get_session_def demo_fwd_world_def demo_fwd_env_def)

theorem remote_command_gate_witness:
  "\<exists>ws. command_allowed demo_fwd_env 0 ''Reset'' ws demo_fwd_world \<and>
     fw_to_charger (listen_once demo_fwd_env 0 ''x'' demo_fwd_world) =
     fw_to_charger demo_fwd_world @ [(ws, dumps_or_empty (PList [PInt 2, PStr ''m1'', PStr ''Reset'', PDict []]))]"
  using remote_command_gate [OF demo_listening(2) demo_command _ demo_listening(1), of "''x''"] demo_allowed by auto

theorem relayed_reply_returns_once_witness:
  "\<exists>w2. forward_charge_point_reply demo_fwd_env (Some 1) ''m1'' ''r'' (listen_once demo_fwd_env 0 ''x'' demo_fwd_world) = w2 \<and>
    forward_charge_point_reply demo_fwd_env (Some 1) ''m1'' ''r'' w2 = w2"
  using relayed_reply_returns_once [OF demo_listening(2) demo_command _ demo_listening(1), of "''x''" 1 7 "''r''"]
    demo_allowed demo_fwd_simps by auto

lemma early_reply_lost_witness:
  "\<exists>w1. relay_command demo_fwd_env 0 ([PInt 2, PStr ''m1'', PStr ''Reset'', PDict []], ''m1'', ''Reset'') demo_fwd_world = (True, w1) \<and>
    forward_charge_point_reply demo_fwd_env (Some 1) ''m1'' ''r'' w1 = w1"
proof -
  let ?cmd = "([PInt 2, PStr ''m1'', PStr ''Reset'', PDict []], ''m1'', ''Reset'')"
  obtain sent w1 where r: "relay_command demo_fwd_env 0 ?cmd demo_fwd_world = (sent, w1)" by fastforce
  then have sent using relay_command_cases [OF r] demo_allowed by (cases sent) auto
  then show ?thesis using r early_reply_lost [of demo_fwd_env 0 _ _ _ demo_fwd_world w1 1 demo_fwd_session "''r''"] demo_fwd_simps
    by auto
qed

theorem reconnect_repeats_and_forgets_witness:
  "\<exists>w' y p. forward_charge_point_message broken_fwd_env (Some 1) ''Heartbeat'' ''x'' demo_fwd_world = w' \<and>
    fw_wire w' = [(1, p), (1, p)] \<and> get_session 1 w' = Some 1 \<and> dget (fw_heap w') 1 = Some y \<and> fs_calls y = None \<and>
    fs_interval y = Fin 0"
proof -
  have row: "charger_row 1 demo_fwd_world = [(''charger_id'', PStr ''CP''), (''connector_id'', PNone),
      (''allow_remote'', PBool True), (''forwarded_to'', PInt 9)]"
    by (simp add: charger_row_def db_get_def demo_fwd_world_def)
  have strip: "py_strip ''CP'' = ''CP''" by code_simp
  have url: "find (fe_connect broken_fwd_env) (candidate_forwarding_urls broken_fwd_env 9
      (py_str (por (jget (charger_row 1 demo_fwd_world) ''charger_id'') (PStr [])))) =
      Some (forwarding_url \<lparr>up_scheme = ''http'', up_host = ''h'', up_netloc = ''h:1'', up_path = []\<rparr> (url_quote ''CP'') ''/ocpp'')"
    by (simp add: row por_def candidate_forwarding_urls_def Let_def strip broken_fwd_env_def demo_fwd_env_def
        FORWARDING_WEBSOCKET_PREFIXES_def)
  have sani: "sanitize_forwarded_messages (PList [PStr ''Heartbeat'']) = [''Heartbeat'']" by code_simp
  have ctx: "ensure_forwarding_context broken_fwd_env (charger_row 1 demo_fwd_world) w' = Some ([''Heartbeat''], 4)"
    if "fw_db w' = fw_db demo_fwd_world" for w' :: "unit fwd_world"
    using that sani unfolding row
    by (simp add: ensure_forwarding_context_def Let_def demo_fwd_world_def broken_fwd_env_def demo_fwd_env_def
        db_first_def db_pks_def has_fields_def db_get_def)
  have world: "fw_next demo_fwd_world = 1" "fw_down demo_fwd_world = []" "fw_wire demo_fwd_world = []"
    by (simp_all add: demo_fwd_world_def)
  have session: "fs_messages demo_fwd_session = Some [''Heartbeat'']" "fs_forwarder demo_fwd_session = Some 4"
    "positive_interval (fs_interval demo_fwd_session)" "fs_pending demo_fwd_session = []"
    "fs_last_flush demo_fwd_session = None"
    by (simp_all add: demo_fwd_session_def positive_interval_def)
  have env: "fe_enabled broken_fwd_env" "\<And>n. \<not> fe_send broken_fwd_env 0 n" "\<And>n. fe_send broken_fwd_env 1 n"
    by (simp_all add: broken_fwd_env_def demo_fwd_env_def)
  show ?thesis
    using reconnect_repeats_and_forgets [OF demo_fwd_simps(2,1,3) _ _ session(1) _ session(2,3) _ _ env(1,2) _ _ _ _ url ctx,
        of "''Heartbeat''" "''x''"] env(3)
    by (simp add: row world session dset_def)
qed

end
