(* ===== verification/Sigils.thy ===== *)
theory Sigils
  imports ConsumerBase IpAddress
begin

text \<open>
  Sigils, the bracketed references in configuration texts: the scanner of \<open>apps/sigils/scanner.py\<close>, the
  parser, the policy and the resolvers of \<open>apps/sigils/sigil_resolver.py\<close>, the queries of
  \<open>apps/sigils/entity_lookup.py\<close>.  An offset into a token is the rest of the token from there.  What the
  code reads elsewhere (the rows of the roots, process environment, settings, system values, the
  request, the models with their rows and attributes) is one record; Django's queries and serialisers
  and the attributes of model objects are functions in it.
\<close>

subsection \<open>The scanner\<close>

record token_span =
  span_start :: nat
  span_end :: nat

text \<open>How many characters it takes until the brackets that are open are closed.\<close>

fun scan_close :: "nat \<Rightarrow> string \<Rightarrow> nat option" where
  "scan_close 0 cs = Some 0"
| "scan_close (Suc d) [] = None"
| "scan_close (Suc d) (c # cs) =
     map_option Suc (scan_close (if c = CHR ''['' then Suc (Suc d) else if c = CHR '']'' then d else Suc d) cs)"

function scan_from :: "nat \<Rightarrow> string \<Rightarrow> token_span list" where
  "scan_from i [] = []"
| "scan_from i (c # cs) =
     (if c \<noteq> CHR ''['' then scan_from (Suc i) cs
      else case scan_close 1 cs of
             None \<Rightarrow> scan_from (Suc i) cs
           | Some n \<Rightarrow> \<lparr>span_start = i, span_end = i + 1 + n\<rparr> # scan_from (i + 1 + n) (drop n cs))"
  by pat_completeness auto
termination
  by (relation "measure (\<lambda>(i, cs). length cs)") auto

definition scan_sigil_tokens :: "string \<Rightarrow> token_span list" where
  "scan_sigil_tokens text = scan_from 0 text"

definition text_slice :: "nat \<Rightarrow> nat \<Rightarrow> string \<Rightarrow> string" where
  "text_slice a b s = take (b - a) (drop a s)"

subsection \<open>Names\<close>

definition swap_char :: "char \<Rightarrow> char \<Rightarrow> string \<Rightarrow> string" where
  "swap_char a b s = map (\<lambda>c. if c = a then b else c) s"

definition normalize_name :: "string \<Rightarrow> string" where
  "normalize_name name = swap_char CHR ''-'' CHR ''_'' name"

definition identifier_variants :: "string \<Rightarrow> string list" where
  "identifier_variants name =
     (let normalized = normalize_name name; dashed = swap_char CHR ''_'' CHR ''-'' normalized
      in if name = [] then []
         else dedupe (filter (\<lambda>v. v \<noteq> [])
                [name, normalized, dashed, py_lower normalized, py_upper normalized, py_lower dashed, py_upper dashed]))"

subsection \<open>The token parser\<close>

text \<open>The parsers give the piece they read and the rest of the token; \<open>None\<close> stands for \<open>TokenParseError\<close>.\<close>

record token_parts =
  tp_root :: string
  tp_filter :: "string option"
  tp_instance :: "string option"
  tp_key :: "string option"
  tp_param :: "string option"
  tp_strict :: bool

fun root_span :: "string \<Rightarrow> string \<times> string" where
  "root_span [] = ([], [])"
| "root_span (c # cs) =
     (if c \<in> set '':=.'' \<or> py_startswith (c # cs) ''->'' then ([], c # cs)
      else case root_span cs of (name, rest) \<Rightarrow> (c # name, rest))"

definition parse_root_name :: "string \<Rightarrow> (string \<times> string) option" where
  "parse_root_name token = (case root_span token of (name, rest) \<Rightarrow> if name = [] then None else Some (name, rest))"

definition parse_filter_field :: "string \<Rightarrow> (string option \<times> string) option" where
  "parse_filter_field rest =
     (if \<not> py_startswith rest '':'' then Some (None, rest)
      else case span_until (\<lambda>c. c = CHR ''='') (tl rest) of
             (field, after) \<Rightarrow> if after = [] then None else Some (Some (normalize_name field), after))"

text \<open>Text up to the stop condition, which only holds outside quotes and nested sigils.\<close>

definition QUOTE :: char where "QUOTE = CHR 0x22"

definition BACKSLASH :: char where "BACKSLASH = CHR 0x5C"

fun quoted_span :: "(string \<Rightarrow> bool) \<Rightarrow> nat \<Rightarrow> bool \<Rightarrow> string \<Rightarrow> string \<times> string" where
  "quoted_span stop depth quotes [] = ([], [])"
| "quoted_span stop depth quotes [c] =
     (if depth = 0 \<and> \<not> quotes \<and> stop [c] then ([], [c]) else ([c], []))"
| "quoted_span stop depth quotes (c # e # cs) =
     (if depth = 0 \<and> \<not> quotes \<and> stop (c # e # cs) then ([], c # e # cs)
      else if c = BACKSLASH \<and> quotes
      then (case quoted_span stop depth quotes cs of (v, rest) \<Rightarrow> (c # e # v, rest))
      else (case (if c = QUOTE then quoted_span stop depth (\<not> quotes) (e # cs)
                  else quoted_span stop
                    (if quotes then depth else if c = CHR ''['' then Suc depth
                     else if c = CHR '']'' then depth - 1 else depth) quotes (e # cs)) of
              (v, rest) \<Rightarrow> (c # v, rest)))"

definition unquote :: "string \<Rightarrow> string" where
  "unquote v = (if 2 \<le> length v \<and> hd v = QUOTE \<and> last v = QUOTE then butlast (tl v) else v)"

definition parse_quoted_segment :: "(string \<Rightarrow> bool) \<Rightarrow> string \<Rightarrow> string \<times> string" where
  "parse_quoted_segment stop rest = (case quoted_span stop 0 False rest of (v, rest') \<Rightarrow> (unquote v, rest'))"

definition ends_instance :: "string \<Rightarrow> bool" where
  "ends_instance rest = (py_startswith rest ''.'' \<or> py_startswith rest ''->'')"

definition ends_key :: "string \<Rightarrow> bool" where
  "ends_key rest = py_startswith rest ''=''"

definition parse_instance_id :: "string \<Rightarrow> string option \<times> string" where
  "parse_instance_id rest =
     (if \<not> py_startswith rest ''='' then (None, rest)
      else case parse_quoted_segment ends_instance (tl rest) of (v, rest') \<Rightarrow> (Some v, rest'))"

definition parse_key_segment :: "string \<Rightarrow> string option \<times> bool \<times> string" where
  "parse_key_segment rest =
     (if py_startswith rest ''.''
      then (case parse_quoted_segment ends_key (tl rest) of (k, rest') \<Rightarrow> (Some k, False, rest'))
      else if py_startswith rest ''->''
      then (case parse_quoted_segment ends_key (drop 2 rest) of (k, rest') \<Rightarrow> (Some k, True, rest'))
      else (None, False, rest))"

definition parse_key_and_param :: "string \<Rightarrow> string option \<times> string option \<times> bool" where
  "parse_key_and_param rest =
     (case parse_key_segment rest of
        (key, strict, rest') \<Rightarrow> (key, if py_startswith rest' ''='' then Some (tl rest') else None, strict))"

definition parse_token_parts :: "string \<Rightarrow> token_parts option" where
  "parse_token_parts token =
     (case parse_root_name token of
        None \<Rightarrow> None
      | Some (name, rest) \<Rightarrow>
          (case parse_filter_field rest of
             None \<Rightarrow> None
           | Some (field, rest1) \<Rightarrow>
               (case parse_instance_id rest1 of
                  (inst, rest2) \<Rightarrow>
                    (case parse_key_and_param rest2 of
                       (key, param, strict) \<Rightarrow>
                         Some \<lparr>tp_root = name, tp_filter = field, tp_instance = inst, tp_key = key,
                               tp_param = param, tp_strict = strict\<rparr>))))"

subsection \<open>Pipeline tokens\<close>

definition is_alnum :: "char \<Rightarrow> bool" where
  "is_alnum c =
     (let n = code c in (48 \<le> n \<and> n \<le> 57) \<or> (65 \<le> n \<and> n \<le> 90) \<or> (97 \<le> n \<and> n \<le> 122) \<or>
        n \<in> {170, 178, 179, 181, 185, 186, 188, 189, 190} \<or> (192 \<le> n \<and> n \<noteq> 215 \<and> n \<noteq> 247))"

definition is_valid_pipeline_head :: "string \<Rightarrow> bool" where
  "is_valid_pipeline_head name = (name \<noteq> [] \<and> list_all (\<lambda>c. is_alnum c \<or> c = CHR ''_'' \<or> c = CHR ''-'') name)"

definition normalize_pipeline_segment :: "string \<Rightarrow> string" where
  "normalize_pipeline_segment segment =
     (case py_partition CHR '':'' segment of
        (head, None) \<Rightarrow> segment
      | (head, Some rest) \<Rightarrow> py_upper head @ '':'' @ rest)"

definition PIPELINE_WINDOW_ACTIONS :: "string list" where
  "PIPELINE_WINDOW_ACTIONS = [''COUNT'', ''FILTER'', ''MAX'', ''MIN'', ''SUM'', ''TOTAL'']"

definition PIPELINE_INSTANCE_ACTIONS :: "string list" where
  "PIPELINE_INSTANCE_ACTIONS = [''FIELD'', ''GET'']"

definition PIPELINE_AGGREGATE_ACTIONS :: "(string, string) dict" where
  "PIPELINE_AGGREGATE_ACTIONS =
     [(''COUNT'', ''count''), (''MAX'', ''max''), (''MIN'', ''min''), (''SUM'', ''total''), (''TOTAL'', ''total'')]"

definition map_pipeline_action_to_aggregate :: "string \<Rightarrow> string option" where
  "map_pipeline_action_to_aggregate action = (if action = [] then None else dget PIPELINE_AGGREGATE_ACTIONS (py_upper action))"

text \<open>Head and payload of a segment; without a colon the payload is empty.\<close>

definition pipeline_segment :: "string \<Rightarrow> string \<times> string" where
  "pipeline_segment segment =
     (case py_partition CHR '':'' (normalize_pipeline_segment segment) of
        (head, Some payload) \<Rightarrow> (head, payload)
      | (head, None) \<Rightarrow> (head, []))"

definition parse_pipeline_token_parts :: "string \<Rightarrow> (token_parts \<times> string) option" where
  "parse_pipeline_token_parts token =
     (case py_partition CHR ''|'' token of
        (_, None) \<Rightarrow> None
      | (root_segment, Some action_segment) \<Rightarrow>
          (let (name, payload) = pipeline_segment root_segment;
               (action_name, action_payload) = pipeline_segment action_segment;
               action = py_upper action_name;
               (field, inst) = (case py_partition CHR '':'' payload of
                                  (head, Some rest) \<Rightarrow> (Some (normalize_name head), Some rest)
                                | _ \<Rightarrow> (None, if payload = [] then None else Some payload));
               parts = \<lparr>tp_root = name, tp_filter = field, tp_instance = inst, tp_key = None, tp_param = None,
                        tp_strict = False\<rparr>
           in if \<not> is_valid_pipeline_head name \<or> \<not> is_valid_pipeline_head action_name then None
              else if action = ''FILTER''
              then (case py_partition CHR '':'' action_payload of
                      (_, None) \<Rightarrow> None
                    | (key, Some value) \<Rightarrow> Some (parts\<lparr>tp_key := Some key, tp_param := Some value\<rparr>, action))
              else if action \<in> set PIPELINE_WINDOW_ACTIONS
              then Some (parts\<lparr>tp_instance := Some (action_payload @ '':'' @
                           (case map_pipeline_action_to_aggregate action of Some a \<Rightarrow> a | None \<Rightarrow> ''None''))\<rparr>, action)
              else Some (parts\<lparr>tp_key := if action_payload = [] then None else Some action_payload\<rparr>, action)))"

subsection \<open>What the resolvers read\<close>

datatype sigil_exn = Python pyexn | FieldError | FieldDoesNotExist | Timeout | OtherError

text \<open>
  The value of an attribute: a plain value, a model object or a query set, the latter two with their
  \<open>str\<close> text.  An object is its model and primary key.
\<close>

type_synonym row_ref = "nat \<times> nat"

datatype sval = Plain pyval | Object row_ref string | Objects "row_ref list" string

datatype attribute = Value sval | Method "string list \<Rightarrow> sigil_exn + sval"

datatype holder = OfRow row_ref | OfManager nat

record field_info =
  fi_name :: string
  fi_unique_text :: bool
  fi_text :: bool
  fi_relation :: bool
  fi_foreign :: bool

datatype lookup = ByPk | Exact string | IgnoringCase string

text \<open>
  A model class: its concrete fields, further fields (reverse and many-to-many ones), the primary key's
  name, the objects in the model's order, the columns of an object, the object a foreign key names, the
  query for one lookup, the database's aggregates, the hooks that name a default object (on the class,
  then on the manager).
\<close>

record entity_model =
  em_fields :: "field_info list"
  em_other_fields :: "field_info list"
  em_pk_name :: string
  em_rows :: "nat list"
  em_column :: "nat \<Rightarrow> string \<Rightarrow> pyval"
  em_related :: "nat \<Rightarrow> string \<Rightarrow> sval option"
  em_query :: "lookup \<Rightarrow> string \<Rightarrow> sigil_exn + nat list"
  em_aggregate :: "string \<Rightarrow> string \<Rightarrow> sigil_exn + pyval"
  em_hook :: "bool \<Rightarrow> string \<Rightarrow> nat option"

datatype root_context = ConfigRoot | EntityRoot | RequestRoot | OtherRoot

record sigil_root =
  sr_prefix :: string
  sr_safe :: bool
  sr_context :: root_context
  sr_model :: "nat option"

record http_request =
  rq_method :: string
  rq_path :: string
  rq_full_path :: string
  rq_scheme :: string
  rq_host :: string
  rq_uri :: string
  rq_user :: "string option"
  rq_headers :: "(string, string) dict"
  rq_meta :: "string \<Rightarrow> pyval option"
  rq_get :: "(string, string) dict"
  rq_post :: "(string, string) dict"
  rq_cookies :: "(string, string) dict"

record sigil_env =
  sg_roots :: "sigil_root list"
  sg_pipeline :: bool
  sg_environ :: "(string, string) dict"
  sg_settings :: "string \<Rightarrow> string option"
  sg_system :: "(string, string) dict"
  sg_next_check :: string
  sg_auto_upgrade :: "string \<Rightarrow> string option"
  sg_request :: "http_request option"
  sg_context :: "nat \<Rightarrow> nat option"
  sg_models :: "nat \<Rightarrow> entity_model"
  sg_profile :: "row_ref \<Rightarrow> string \<Rightarrow> (bool \<times> sval) option"
  sg_attribute :: "holder \<Rightarrow> string \<Rightarrow> attribute option"
  sg_serialize :: "row_ref list \<Rightarrow> string"
  sg_encode :: "pyval \<Rightarrow> string"
  sg_filter_limit :: pyval
  sg_sum :: "pfloat list \<Rightarrow> pfloat"
  sg_repr :: "pfloat \<Rightarrow> string"

subsection \<open>Roots\<close>

text \<open>
  \<open>get(prefix__iexact=...)\<close> over the variants of a name: the first variant that one row matches; two
  rows that match end the search.
\<close>

fun first_root :: "sigil_root list \<Rightarrow> string list \<Rightarrow> sigil_root option" where
  "first_root rows [] = None"
| "first_root rows (v # vs) =
     (case filter (\<lambda>r. py_upper (sr_prefix r) = py_upper v) rows of
        [] \<Rightarrow> first_root rows vs
      | [r] \<Rightarrow> Some r
      | _ \<Rightarrow> None)"

definition get_sigil_root :: "sigil_env \<Rightarrow> string \<Rightarrow> sigil_root option" where
  "get_sigil_root env prefix = first_root (sg_roots env) (identifier_variants prefix)"

definition normalize_allowed_roots :: "string list \<Rightarrow> string list" where
  "normalize_allowed_roots roots = map (\<lambda>r. py_upper (normalize_name r)) (filter (\<lambda>r. r \<noteq> []) roots)"

definition get_user_safe_sigil_roots :: "sigil_env \<Rightarrow> string list" where
  "get_user_safe_sigil_roots env = map (\<lambda>r. py_upper (normalize_name (sr_prefix r))) (filter sr_safe (sg_roots env))"

definition get_user_safe_sigil_actions :: "sigil_env \<Rightarrow> string list" where
  "get_user_safe_sigil_actions env =
     (if list_ex (\<lambda>r. sr_safe r \<and> sr_context r = EntityRoot) (sg_roots env) then PIPELINE_INSTANCE_ACTIONS else [])"

definition failed_resolution :: "string \<Rightarrow> string" where
  "failed_resolution token = ''['' @ token @ '']''"

subsection \<open>Values and attributes\<close>

definition stringify_value :: "sval \<Rightarrow> sigil_exn + string" where
  "stringify_value v =
     (case v of
        Plain (PDict d) \<Rightarrow> (case json_dumps (PDict d) of Some t \<Rightarrow> Inr t | None \<Rightarrow> Inl (Python TypeError))
      | Plain (PList l) \<Rightarrow> (case json_dumps (PList l) of Some t \<Rightarrow> Inr t | None \<Rightarrow> Inl (Python TypeError))
      | Plain PNone \<Rightarrow> Inr []
      | Plain x \<Rightarrow> Inr (py_str x)
      | Object r t \<Rightarrow> Inr t
      | Objects rs t \<Rightarrow> Inr t)"

text \<open>
  The first variant of the name that is an attribute; a method is called, and one that cannot take the
  arguments gives nothing.  \<open>None\<close>: there is no such attribute.
\<close>

fun call_attribute_as :: "sigil_env \<Rightarrow> holder \<Rightarrow> string list \<Rightarrow> string list \<Rightarrow> sigil_exn + sval option" where
  "call_attribute_as env obj args [] = Inr None"
| "call_attribute_as env obj args (v # vs) =
     (case sg_attribute env obj v of
        None \<Rightarrow> call_attribute_as env obj args vs
      | Some (Value x) \<Rightarrow> Inr (Some x)
      | Some (Method f) \<Rightarrow>
          (case f args of
             Inr x \<Rightarrow> Inr (Some x)
           | Inl (Python TypeError) \<Rightarrow> Inr (Some (Plain PNone))
           | Inl e \<Rightarrow> Inl e))"

definition call_attribute :: "sigil_env \<Rightarrow> holder \<Rightarrow> string \<Rightarrow> string list \<Rightarrow> sigil_exn + sval option" where
  "call_attribute env obj name args = call_attribute_as env obj args (identifier_variants name)"

definition model_field :: "entity_model \<Rightarrow> string \<Rightarrow> field_info option" where
  "model_field m key = find (\<lambda>f. py_lower (fi_name f) = key) (rev (em_fields m))"

definition column_value :: "entity_model \<Rightarrow> nat \<Rightarrow> field_info \<Rightarrow> sval" where
  "column_value m pk f =
     (if fi_foreign f then (case em_related m pk (fi_name f) of Some r \<Rightarrow> r | None \<Rightarrow> Plain (em_column m pk (fi_name f)))
      else Plain (em_column m pk (fi_name f)))"

text \<open>The custom resolver of the object, then its fields, then its attributes.\<close>

definition resolve_instance_value ::
  "sigil_env \<Rightarrow> row_ref \<Rightarrow> string \<Rightarrow> string \<Rightarrow> string \<Rightarrow> string list \<Rightarrow> sigil_exn + string option" where
  "resolve_instance_value env obj key_name key_lower raw_key args =
     (let name = (if key_name = [] then raw_key else key_name) in
      case sg_profile env obj name of
        Some (True, v) \<Rightarrow> ebind (stringify_value v) (\<lambda>t. Inr (Some t))
      | _ \<Rightarrow>
          (case model_field (sg_models env (fst obj)) key_lower of
             Some f \<Rightarrow> ebind (stringify_value (column_value (sg_models env (fst obj)) (snd obj) f)) (\<lambda>t. Inr (Some t))
           | None \<Rightarrow>
               ebind (call_attribute env (OfRow obj) name args) (\<lambda>found.
                 case found of None \<Rightarrow> Inr None | Some v \<Rightarrow> ebind (stringify_value v) (\<lambda>t. Inr (Some t)))))"

subsection \<open>Entity queries\<close>

definition parse_aggregate_request :: "string option \<Rightarrow> string option \<Rightarrow> string option \<Rightarrow> (string \<times> string) option" where
  "parse_aggregate_request field inst key =
     (case inst of
        None \<Rightarrow> None
      | Some i \<Rightarrow>
          (if (field \<noteq> None \<and> field \<noteq> Some []) \<or> key \<noteq> None then None
           else case py_partition CHR '':'' i of
                  (_, None) \<Rightarrow> None
                | (target, Some func) \<Rightarrow>
                    Some (target, py_lower (normalize_name (if func = [] then ''total'' else func)))))"

definition get_field :: "entity_model \<Rightarrow> string \<Rightarrow> field_info option" where
  "get_field m name = find (\<lambda>f. fi_name f = name) (em_fields m @ em_other_fields m)"

definition first_pk :: "nat list \<Rightarrow> nat option" where
  "first_pk pks = (case pks of [] \<Rightarrow> None | pk # _ \<Rightarrow> Some pk)"

text \<open>The query of one lookup; \<open>None\<close> when its value or field is refused.\<close>

definition query_first :: "entity_model \<Rightarrow> lookup \<Rightarrow> string \<Rightarrow> sigil_exn + nat option option" where
  "query_first m l v =
     (case em_query m l v of
        Inr pks \<Rightarrow> Inr (Some (first_pk pks))
      | Inl e \<Rightarrow> (if e \<in> {FieldError, Python TypeError, Python ValueError} then Inr None else Inl e))"

fun unique_text_first :: "entity_model \<Rightarrow> string \<Rightarrow> field_info list \<Rightarrow> sigil_exn + nat option" where
  "unique_text_first m v [] = Inr None"
| "unique_text_first m v (f # fs) =
     (if \<not> fi_unique_text f then unique_text_first m v fs
      else ebind (em_query m (IgnoringCase (fi_name f)) v) (\<lambda>pks.
        case first_pk pks of None \<Rightarrow> unique_text_first m v fs | Some pk \<Rightarrow> Inr (Some pk)))"

definition field_lookup :: "entity_model \<Rightarrow> string \<Rightarrow> lookup" where
  "field_lookup m name =
     (case get_field m name of Some f \<Rightarrow> (if fi_text f then IgnoringCase name else Exact name) | None \<Rightarrow> Exact name)"

text \<open>The object, and whether the lookup was invalid.\<close>

definition resolve_entity_lookup ::
  "sigil_env \<Rightarrow> nat \<Rightarrow> string option \<Rightarrow> string option \<Rightarrow> row_ref option \<Rightarrow> sigil_exn + nat option \<times> bool" where
  "resolve_entity_lookup env k field inst current =
     (let m = sg_models env k in
      case inst of
        None \<Rightarrow> Inr (case current of Some (c, pk) \<Rightarrow> (if c = k then Some pk else None) | None \<Rightarrow> None, False)
      | Some i \<Rightarrow>
          (if field \<noteq> None \<and> field \<noteq> Some []
           then let name = py_lower (the field) in
             ebind (query_first m (field_lookup m name) i) (\<lambda>r.
               case r of None \<Rightarrow> Inr (None, True) | Some hit \<Rightarrow> Inr (hit, get_field m name = None))
           else ebind (query_first m ByPk i) (\<lambda>r.
             case r of
               Some (Some pk) \<Rightarrow> Inr (Some pk, False)
             | _ \<Rightarrow> ebind (unique_text_first m i (em_fields m)) (\<lambda>hit. Inr (hit, False)))))"

definition pfloat_less :: "pfloat \<Rightarrow> pfloat \<Rightarrow> bool" where
  "pfloat_less a b =
     (case (a, b) of
        (NaN, _) \<Rightarrow> False | (_, NaN) \<Rightarrow> False
      | (Fin p, Fin q) \<Rightarrow> p < q
      | (NegInf, NegInf) \<Rightarrow> False | (NegInf, _) \<Rightarrow> True
      | (Fin p, PosInf) \<Rightarrow> True
      | _ \<Rightarrow> False)"

definition coerce_numeric :: "sval \<Rightarrow> sigil_exn + pfloat option" where
  "coerce_numeric v =
     (case v of
        Plain x \<Rightarrow> (case py_float x of
                      Inr f \<Rightarrow> Inr (Some f)
                    | Inl OverflowError \<Rightarrow> Inl (Python OverflowError)
                    | Inl _ \<Rightarrow> Inr None)
      | _ \<Rightarrow> Inr None)"

definition aggregate_values :: "sigil_env \<Rightarrow> pfloat list \<Rightarrow> string \<Rightarrow> string" where
  "aggregate_values env values func =
     (if func = ''count'' then int_str (int (length values))
      else case values of
             [] \<Rightarrow> []
           | v # vs \<Rightarrow>
               (if func = ''min'' then sg_repr env (fold (\<lambda>x best. if pfloat_less x best then x else best) vs v)
                else if func = ''max'' then sg_repr env (fold (\<lambda>x best. if pfloat_less best x then x else best) vs v)
                else sg_repr env (sg_sum env (v # vs))))"

text \<open>The numeric values of an attribute over all objects; objects without it are passed over.\<close>

fun attribute_values :: "sigil_env \<Rightarrow> nat \<Rightarrow> string \<Rightarrow> string list \<Rightarrow> nat list \<Rightarrow> sigil_exn + pfloat list" where
  "attribute_values env k name args [] = Inr []"
| "attribute_values env k name args (pk # pks) =
     ebind (if name = [] then Inr None else call_attribute env (OfRow (k, pk)) name args) (\<lambda>found.
     ebind (case found of None \<Rightarrow> Inr None | Some v \<Rightarrow> (if v = Plain PNone then Inr None else coerce_numeric v)) (\<lambda>number.
     ebind (attribute_values env k name args pks) (\<lambda>rest.
       Inr (case number of None \<Rightarrow> rest | Some f \<Rightarrow> f # rest))))"

definition resolve_entity_aggregate ::
  "sigil_env \<Rightarrow> nat \<Rightarrow> string \<Rightarrow> string \<Rightarrow> string list \<Rightarrow> sigil_exn + string option" where
  "resolve_entity_aggregate env k target func args =
     (let m = sg_models env k; name = normalize_name target in
      if func \<notin> {''total'', ''count'', ''min'', ''max''} then Inr None
      else if func = ''count'' \<and> name = [] then Inr (Some (int_str (int (length (em_rows m)))))
      else case (if name = [] then None else model_field m (py_lower name)) of
             Some f \<Rightarrow>
               ebind (em_aggregate m func (fi_name f)) (\<lambda>v. Inr (Some (if v = PNone then [] else py_str v)))
           | None \<Rightarrow>
               ebind (attribute_values env k name args (em_rows m)) (\<lambda>vs. Inr (Some (aggregate_values env vs func))))"

text \<open>The object a root stands for: a hook of the class, of its manager, else its first object.\<close>

definition DEFAULT_HOOKS :: "string list" where
  "DEFAULT_HOOKS = [''default_instance'', ''get_default_instance'', ''default'', ''get_default'']"

fun first_some :: "'v option list \<Rightarrow> 'v option" where
  "first_some [] = None"
| "first_some (x # xs) = (case x of Some v \<Rightarrow> Some v | None \<Rightarrow> first_some xs)"

definition default_instance :: "entity_model \<Rightarrow> nat option" where
  "default_instance m =
     first_some (map (em_hook m False) DEFAULT_HOOKS @ map (em_hook m True) DEFAULT_HOOKS @ [first_pk (em_rows m)])"

subsection \<open>Entity roots\<close>

record sigil_context =
  sc_current :: "row_ref option"
  sc_instance :: "string option"
  sc_root :: string
  sc_key :: "string option"
  sc_token :: string
  sc_param :: "string option"
  sc_action :: "string option"
  sc_parts :: token_parts

definition param_args :: "sigil_context \<Rightarrow> string list" where
  "param_args ctx = (case sc_param ctx of Some p \<Rightarrow> (if p = [] then [] else py_split CHR '','' p) | None \<Rightarrow> [])"

definition opt_text :: "string option \<Rightarrow> string" where
  "opt_text v = (case v of Some s \<Rightarrow> s | None \<Rightarrow> [])"

definition PIPELINE_FILTER_SENSITIVE_FIELD_TOKENS :: "string list" where
  "PIPELINE_FILTER_SENSITIVE_FIELD_TOKENS =
     [''api_key'', ''hash'', ''key'', ''password'', ''private'', ''secret'', ''token'']"

fun text_contains :: "string \<Rightarrow> string \<Rightarrow> bool" where
  "text_contains [] sub = (sub = [])"
| "text_contains (c # cs) sub = (py_startswith (c # cs) sub \<or> text_contains cs sub)"

definition is_sensitive :: "string \<Rightarrow> bool" where
  "is_sensitive name = list_ex (text_contains (py_lower name)) PIPELINE_FILTER_SENSITIVE_FIELD_TOKENS"

definition safe_fields :: "entity_model \<Rightarrow> field_info \<Rightarrow> string \<Rightarrow> string list" where
  "safe_fields m f name =
     (let plain = map fi_name (filter (\<lambda>g. \<not> fi_relation g \<and> \<not> is_sensitive (fi_name g)) (em_fields m));
          keyed = (if em_pk_name m \<in> set plain then plain else em_pk_name m # plain)
      in if name \<notin> set keyed \<and> \<not> fi_relation f then keyed @ [name] else keyed)"

definition PIPELINE_FILTER_DEFAULT_LIMIT :: int where "PIPELINE_FILTER_DEFAULT_LIMIT = 50"

definition PIPELINE_FILTER_MAX_LIMIT :: int where "PIPELINE_FILTER_MAX_LIMIT = 200"

definition filter_limit :: "sigil_env \<Rightarrow> sigil_exn + nat" where
  "filter_limit env =
     (case py_int (sg_filter_limit env) of
        Inl OverflowError \<Rightarrow> Inl (Python OverflowError)
      | r \<Rightarrow> Inr (nat (max 1 (min (case r of Inr n \<Rightarrow> n | Inl _ \<Rightarrow> PIPELINE_FILTER_DEFAULT_LIMIT) PIPELINE_FILTER_MAX_LIMIT))))"

definition filter_rows :: "entity_model \<Rightarrow> string list \<Rightarrow> nat list \<Rightarrow> pyval" where
  "filter_rows m names pks = PList (map (\<lambda>pk. PDict (map (\<lambda>n. (n, em_column m pk n)) names)) pks)"

definition resolve_filter_action :: "sigil_env \<Rightarrow> entity_model \<Rightarrow> sigil_context \<Rightarrow> sigil_exn + string" where
  "resolve_filter_action env m ctx =
     (let failed = Inr (failed_resolution (sc_token ctx)); name = py_lower (opt_text (sc_key ctx)) in
      case sc_param ctx of
        None \<Rightarrow> failed
      | Some value \<Rightarrow>
          (if name = [] then failed
           else case get_field m name of
                  None \<Rightarrow> failed
                | Some f \<Rightarrow>
                    (case em_query m (field_lookup m name) value of
                       Inl e \<Rightarrow> (if e \<in> {FieldError, Python TypeError, Python ValueError} then failed else Inl e)
                     | Inr pks \<Rightarrow>
                         ebind (filter_limit env) (\<lambda>n.
                           Inr (sg_encode env (filter_rows m (safe_fields m f name) (take n pks)))))))"

definition resolve_instance :: "sigil_env \<Rightarrow> row_ref \<Rightarrow> sigil_context \<Rightarrow> sigil_exn + string" where
  "resolve_instance env obj ctx =
     (case sc_key ctx of
        None \<Rightarrow> Inr (sg_serialize env [obj])
      | Some key \<Rightarrow>
          ebind (resolve_instance_value env obj key (py_lower key) (opt_text (tp_key (sc_parts ctx))) (param_args ctx))
            (\<lambda>found. Inr (case found of Some t \<Rightarrow> t | None \<Rightarrow> failed_resolution (sc_token ctx))))"

definition manager_value :: "sigil_env \<Rightarrow> sval \<Rightarrow> sigil_exn + string" where
  "manager_value env v =
     (case v of
        Objects rs _ \<Rightarrow> Inr (sg_serialize env rs)
      | Object r _ \<Rightarrow> Inr (sg_serialize env [r])
      | Plain x \<Rightarrow> stringify_value (Plain x))"

text \<open>What remains when no object was found: a method of the manager, nothing for an optional key.\<close>

definition resolve_without_instance :: "sigil_env \<Rightarrow> nat \<Rightarrow> sigil_context \<Rightarrow> bool \<Rightarrow> sigil_exn + string" where
  "resolve_without_instance env k ctx invalid =
     (let field = tp_filter (sc_parts ctx);
          remaining = Inr (if invalid then failed_resolution (sc_token ctx)
                           else if sc_key ctx \<noteq> None \<and> \<not> tp_strict (sc_parts ctx) then []
                           else failed_resolution (sc_token ctx))
      in if (field \<noteq> None \<and> field \<noteq> Some []) \<or> sc_key ctx \<noteq> None \<or> opt_text (sc_instance ctx) = [] then remaining
         else ebind (call_attribute env (OfManager k) (opt_text (sc_instance ctx)) (param_args ctx)) (\<lambda>found.
           case found of Some v \<Rightarrow> manager_value env v | None \<Rightarrow> remaining))"

definition resolve_entity_root :: "sigil_env \<Rightarrow> sigil_root \<Rightarrow> sigil_context \<Rightarrow> sigil_exn + string" where
  "resolve_entity_root env r ctx =
     (case sr_model r of
        None \<Rightarrow> Inr (failed_resolution (sc_token ctx))
      | Some k \<Rightarrow>
          (let m = sg_models env k; field = tp_filter (sc_parts ctx) in
           if sc_action ctx = Some ''FILTER'' then resolve_filter_action env m ctx
           else ebind (case parse_aggregate_request field (sc_instance ctx) (sc_key ctx) of
                         None \<Rightarrow> Inr None
                       | Some (target, func) \<Rightarrow> resolve_entity_aggregate env k target func (param_args ctx)) (\<lambda>aggregate.
             case aggregate of
               Some t \<Rightarrow> Inr t
             | None \<Rightarrow>
                 ebind (resolve_entity_lookup env k field (sc_instance ctx) (sc_current ctx)) (\<lambda>(hit, invalid).
                   let ambient = (case sg_context env k of
                                    Some pk \<Rightarrow> (if pk \<in> set (em_rows m) then Some pk else None) | None \<Rightarrow> None);
                       found = (if sc_instance ctx = None then first_some [hit, ambient, default_instance m] else hit)
                   in case found of
                        Some pk \<Rightarrow> resolve_instance env (k, pk) ctx
                      | None \<Rightarrow> resolve_without_instance env k ctx invalid))))"

subsection \<open>Configuration and request roots\<close>

definition resolve_env_value :: "sigil_env \<Rightarrow> string \<Rightarrow> string \<Rightarrow> string \<Rightarrow> string" where
  "resolve_env_value env key raw token =
     (case first_some (map (dget (sg_environ env))
             (filter (\<lambda>c. c \<noteq> []) [normalize_name raw, key, py_upper key, py_lower key])) of
        Some v \<Rightarrow> v
      | None \<Rightarrow> failed_resolution token)"

definition resolve_conf_value :: "sigil_env \<Rightarrow> string \<Rightarrow> string" where
  "resolve_conf_value env key =
     opt_text (first_some (map (sg_settings env) (filter (\<lambda>c. c \<noteq> []) [key, py_upper key, py_lower key])))"

definition resolve_system_namespace_value :: "sigil_env \<Rightarrow> string \<Rightarrow> string option" where
  "resolve_system_namespace_value env key =
     (if key = [] then None
      else if py_upper (normalize_name key) = ''NEXT_VER_CHECK'' then Some (sg_next_check env)
      else case py_partition CHR ''.'' key of
             (namespace, Some remainder) \<Rightarrow>
               (if remainder \<noteq> [] \<and> py_upper (normalize_name namespace) = ''AUTO_UPGRADE''
                then sg_auto_upgrade env remainder else None)
           | _ \<Rightarrow> None)"

definition resolve_sys_value :: "sigil_env \<Rightarrow> string \<Rightarrow> string \<Rightarrow> string \<Rightarrow> string" where
  "resolve_sys_value env key raw token =
     (case first_some (map (\<lambda>c. first_some [dget (sg_system env) c, resolve_system_namespace_value env c])
             (filter (\<lambda>c. c \<noteq> []) [py_upper key, py_upper raw])) of
        Some v \<Rightarrow> v
      | None \<Rightarrow> failed_resolution token)"

definition resolve_config_value :: "sigil_env \<Rightarrow> sigil_root \<Rightarrow> sigil_context \<Rightarrow> string" where
  "resolve_config_value env r ctx =
     (case sc_key ctx of
        None \<Rightarrow> []
      | Some key \<Rightarrow>
          (let raw = opt_text (tp_key (sc_parts ctx)); prefix = py_upper (sr_prefix r) in
           if prefix = ''ENV'' then resolve_env_value env key raw (sc_token ctx)
           else if prefix = ''CONF'' then resolve_conf_value env key
           else if prefix = ''SYS'' then resolve_sys_value env key raw (sc_token ctx)
           else failed_resolution (sc_token ctx)))"

definition header_value :: "(string, string) dict \<Rightarrow> string \<Rightarrow> string" where
  "header_value headers name =
     (case find (\<lambda>kv. py_lower (fst kv) = py_lower name) headers of Some kv \<Rightarrow> snd kv | None \<Rightarrow> [])"

definition meta_text :: "http_request \<Rightarrow> string \<Rightarrow> string" where
  "meta_text r name = (case rq_meta r name of Some v \<Rightarrow> py_str v | None \<Rightarrow> [])"

definition resolve_request_value :: "http_request option \<Rightarrow> string \<Rightarrow> string \<Rightarrow> string" where
  "resolve_request_value request key param =
     (case request of
        None \<Rightarrow> []
      | Some r \<Rightarrow>
          (let k = py_lower key; with_param = (\<lambda>v. if param = [] then [] else v) in
           if k = [] then []
           else if k = ''method'' then rq_method r
           else if k = ''path'' then rq_path r
           else if k = ''full_path'' then rq_full_path r
           else if k = ''scheme'' then rq_scheme r
           else if k = ''host'' then rq_host r
           else if k \<in> {''url'', ''absolute_uri''} then rq_uri r
           else if k = ''query_string'' then meta_text r ''QUERY_STRING''
           else if k \<in> {''ip'', ''remote_addr''} then meta_text r ''REMOTE_ADDR''
           else if k = ''user'' then opt_text (rq_user r)
           else if k \<in> {''header'', ''headers''} then with_param (header_value (rq_headers r) param)
           else if k = ''meta'' then with_param (meta_text r param)
           else if k \<in> {''query'', ''get'', ''param''} then with_param (opt_text (dget (rq_get r) param))
           else if k = ''post'' then with_param (opt_text (dget (rq_post r) param))
           else if k \<in> {''cookie'', ''cookies''} then with_param (opt_text (dget (rq_cookies r) param))
           else []))"

definition resolve_request_root :: "sigil_env \<Rightarrow> sigil_context \<Rightarrow> string" where
  "resolve_request_root env ctx =
     (case sc_key ctx of
        None \<Rightarrow> []
      | Some key \<Rightarrow>
          resolve_request_value (sg_request env) key
            (case param_args ctx of a # _ \<Rightarrow> a | [] \<Rightarrow> opt_text (sc_param ctx)))"

subsection \<open>Tokens under a policy\<close>

definition token_split :: "sigil_env \<Rightarrow> string \<Rightarrow> (token_parts \<times> string option) option" where
  "token_split env token =
     (let classic = map_option (\<lambda>p. (p, None)) (parse_token_parts token) in
      if sg_pipeline env \<and> CHR ''|'' \<in> set token
      then (case parse_pipeline_token_parts token of Some (p, a) \<Rightarrow> Some (p, Some a) | None \<Rightarrow> classic)
      else classic)"

text \<open>A part of the token that may hold sigils itself: resolved unless it is absent or empty.\<close>

definition nested :: "(string \<Rightarrow> sigil_exn + string) \<Rightarrow> string option \<Rightarrow> sigil_exn + string option" where
  "nested rec part =
     (case part of
        None \<Rightarrow> Inr None
      | Some s \<Rightarrow> (if s = [] then Inr (Some []) else case rec s of Inr v \<Rightarrow> Inr (Some v) | Inl e \<Rightarrow> Inl e))"

definition build_context ::
  "(string \<Rightarrow> sigil_exn + string) \<Rightarrow> row_ref option \<Rightarrow> string \<Rightarrow> token_parts \<times> string option \<Rightarrow> sigil_exn + sigil_context" where
  "build_context rec current token split_token =
     (case split_token of
        (parts, action) \<Rightarrow>
          (case nested rec (tp_param parts) of
             Inl e \<Rightarrow> Inl e
           | Inr param \<Rightarrow>
               (case nested rec (tp_instance parts) of
                  Inl e \<Rightarrow> Inl e
                | Inr inst \<Rightarrow>
                    Inr \<lparr>sc_current = current, sc_instance = inst, sc_root = py_upper (normalize_name (tp_root parts)),
                         sc_key = (case tp_key parts of
                                     Some k \<Rightarrow> (if k = [] then None else Some (normalize_name k)) | None \<Rightarrow> None),
                         sc_token = token, sc_param = param, sc_action = action, sc_parts = parts\<rparr>)))"

definition degrades :: "sigil_exn \<Rightarrow> bool" where
  "degrades e =
     (e \<in> {Timeout, FieldError, FieldDoesNotExist, Python AttributeError, Python KeyError, Python IndexError,
           Python TypeError, Python ValueError})"

definition resolve_root :: "sigil_env \<Rightarrow> sigil_context \<Rightarrow> sigil_exn + string" where
  "resolve_root env ctx =
     (case get_sigil_root env (sc_root ctx) of
        None \<Rightarrow> Inr (failed_resolution (sc_token ctx))
      | Some r \<Rightarrow>
          (case (case sr_context r of
                   ConfigRoot \<Rightarrow> Inr (resolve_config_value env r ctx)
                 | RequestRoot \<Rightarrow> Inr (resolve_request_root env ctx)
                 | EntityRoot \<Rightarrow> resolve_entity_root env r ctx
                 | OtherRoot \<Rightarrow> Inr (failed_resolution (sc_token ctx))) of
             Inr v \<Rightarrow> Inr v
           | Inl e \<Rightarrow> (if degrades e then Inr (failed_resolution (sc_token ctx)) else Inl e)))"

definition resolve_context :: "sigil_env \<Rightarrow> string list option \<Rightarrow> string list option \<Rightarrow> sigil_context \<Rightarrow> sigil_exn + string" where
  "resolve_context env roots actions ctx =
     (if (case roots of None \<Rightarrow> False | Some rs \<Rightarrow> sc_root ctx \<notin> set rs) \<or>
         (case (actions, sc_action ctx) of
            (Some acts, Some a) \<Rightarrow> a \<noteq> [] \<and> a \<notin> set acts | _ \<Rightarrow> False)
      then Inr (failed_resolution (sc_token ctx))
      else case (sc_root ctx = ''OBJECT'', sc_current ctx) of
             (True, Some obj) \<Rightarrow> resolve_instance env obj ctx
           | _ \<Rightarrow> resolve_root env ctx)"

definition resolve_token_with_policy ::
  "(string \<Rightarrow> sigil_exn + string) \<Rightarrow> sigil_env \<Rightarrow> row_ref option \<Rightarrow> string list option \<Rightarrow> string list option \<Rightarrow>
     string \<Rightarrow> sigil_exn + string" where
  "resolve_token_with_policy rec env current roots actions token =
     (case token_split env token of
        None \<Rightarrow> Inr (failed_resolution token)
      | Some parts \<Rightarrow>
          (case build_context rec current token parts of
             Inl e \<Rightarrow> Inl e
           | Inr ctx \<Rightarrow> resolve_context env roots actions ctx))"

text \<open>The text before every token, what the token resolves to, and the text after the last token.\<close>

fun assemble :: "(string \<Rightarrow> sigil_exn + string) \<Rightarrow> string \<Rightarrow> nat \<Rightarrow> token_span list \<Rightarrow> sigil_exn + string" where
  "assemble f text cursor [] = Inr (drop cursor text)"
| "assemble f text cursor (s # ss) =
     (case f (text_slice (span_start s + 1) (span_end s - 1) text) of
        Inl e \<Rightarrow> Inl e
      | Inr v \<Rightarrow>
          (case assemble f text (span_end s) ss of
             Inl e \<Rightarrow> Inl e
           | Inr rest \<Rightarrow> Inr (text_slice cursor (span_start s) text @ v @ rest)))"

subsection \<open>Nested resolution ends\<close>

text \<open>
  A token has fewer opening brackets than the text it stands in, and its parts have no more than the
  token; the words a pipeline action adds have none.
\<close>

definition brackets :: "string \<Rightarrow> nat" where
  "brackets s = count_list s CHR ''[''"

lemma brackets_simps [simp]:
  "brackets [] = 0" "brackets (c # cs) = (if c = CHR ''['' then Suc (brackets cs) else brackets cs)"
  "brackets (a @ b) = brackets a + brackets b"
  by (simp_all add: brackets_def)

lemma brackets_take: "brackets (take n s) \<le> brackets s"
  by (metis append_take_drop_id brackets_simps(3) le_add1)

lemma brackets_drop: "brackets (drop n s) \<le> brackets s"
  by (metis append_take_drop_id brackets_simps(3) le_add2)

lemma brackets_tl: "brackets (tl s) \<le> brackets s"
  by (cases s) auto

lemma brackets_butlast: "brackets (butlast s) \<le> brackets s"
  by (simp add: butlast_conv_take brackets_take)

lemma brackets_swap [simp]: "brackets (swap_char a b s) = brackets s" if "a \<noteq> CHR ''[''" "b \<noteq> CHR ''[''"
  using that by (induction s) (auto simp: swap_char_def)

lemma scan_from_spans:
  assumes "s \<in> set (scan_from i cs)"
  shows "i \<le> span_start s \<and> span_start s < i + length cs \<and> cs ! (span_start s - i) = CHR ''[''"
  using assms
proof (induction i cs rule: scan_from.induct)
  case (2 i c cs)
  have far: "drop n cs ! (k - (i + 1 + n)) = (c # cs) ! (k - i)" if "i + 1 + n \<le> k" "n \<le> length cs" for n k
    using that by (simp add: nth_Cons' less_diff_conv)
  show ?case
  proof (cases "c = CHR ''['' \<and> scan_close 1 cs \<noteq> None")
    case True
    then obtain n where n: "scan_close 1 cs = Some n" by auto
    show ?thesis
    proof (cases "span_start s = i")
      case False
      then have s: "s \<in> set (scan_from (i + 1 + n) (drop n cs))" using 2(4) True n by auto
      have "i + 1 + n \<le> span_start s \<and> span_start s < i + 1 + n + length (drop n cs) \<and>
          drop n cs ! (span_start s - (i + 1 + n)) = CHR ''[''"
        using 2(3) True n s by auto
      then show ?thesis using far [of n "span_start s"] by auto
    qed (use True in simp)
  next
    case False
    then have "s \<in> set (scan_from (Suc i) cs)" using 2(4) by (auto split: if_splits)
    then have "Suc i \<le> span_start s \<and> span_start s < Suc i + length cs \<and> cs ! (span_start s - Suc i) = CHR ''[''"
      using 2(1,2) False by (cases "c = CHR ''[''") auto
    then show ?thesis by (simp add: nth_Cons' Suc_diff_le)
  qed
qed simp

lemma brackets_token:
  assumes "s \<in> set (scan_sigil_tokens text)"
  shows "brackets (text_slice (span_start s + 1) b text) < brackets text"
proof -
  have s: "span_start s < length text" "text ! span_start s = CHR ''[''"
    using scan_from_spans [OF assms [unfolded scan_sigil_tokens_def]] by auto
  have "brackets (text_slice (span_start s + 1) b text) \<le> brackets (drop (Suc (span_start s)) text)"
    by (simp add: text_slice_def brackets_take)
  also have "\<dots> < brackets (drop (span_start s) text)"
    using s by (simp add: Cons_nth_drop_Suc [symmetric])
  also have "\<dots> \<le> brackets text" by (rule brackets_drop)
  finally show ?thesis .
qed

lemma root_span_append: "root_span s = (a, b) \<Longrightarrow> s = a @ b"
  by (induction s arbitrary: a b) (auto split: if_splits prod.splits)

lemma span_until_append: "span_until p s = (a, b) \<Longrightarrow> s = a @ b"
  by (induction s arbitrary: a b) (auto split: if_splits prod.splits)

lemma quoted_span_append: "quoted_span stop d q s = (a, b) \<Longrightarrow> s = a @ b"
  by (induction stop d q s arbitrary: a b rule: quoted_span.induct) (auto split: if_splits prod.splits)

lemma brackets_segment: "parse_quoted_segment stop s = (v, rest) \<Longrightarrow> brackets v \<le> brackets s \<and> brackets rest \<le> brackets s"
  by (auto simp: parse_quoted_segment_def unquote_def dest!: quoted_span_append split: prod.splits)
    (meson brackets_butlast brackets_tl le_trans trans_le_add1)

lemma brackets_parts:
  assumes "parse_token_parts token = Some p"
  shows "tp_param p = Some s \<Longrightarrow> brackets s \<le> brackets token"
    and "tp_instance p = Some s \<Longrightarrow> brackets s \<le> brackets token"
proof -
  obtain name rest where 1: "root_span token = (name, rest)" "parse_root_name token = Some (name, rest)"
    using assms by (auto simp: parse_token_parts_def parse_root_name_def split: option.splits if_splits prod.splits)
  obtain field rest1 where 2: "parse_filter_field rest = Some (field, rest1)"
    using assms 1 by (auto simp: parse_token_parts_def split: option.splits)
  obtain inst rest2 where 3: "parse_instance_id rest1 = (inst, rest2)" by fastforce
  obtain key strict rest3 where 4: "parse_key_segment rest2 = (key, strict, rest3)" by (metis prod_cases3)
  have p: "tp_instance p = inst" "tp_param p = (if py_startswith rest3 ''='' then Some (tl rest3) else None)"
    using assms 1 2 3 4 by (auto simp: parse_token_parts_def parse_key_and_param_def)
  have r: "brackets rest \<le> brackets token" using root_span_append [OF 1(1)] by simp
  have r1: "brackets rest1 \<le> brackets rest"
    using 2 brackets_tl [of rest]
    by (auto simp: parse_filter_field_def dest!: span_until_append split: if_splits prod.splits)
  have r2: "brackets rest2 \<le> brackets rest1" "inst = Some s \<Longrightarrow> brackets s \<le> brackets rest1" for s
    using 3 brackets_tl [of rest1]
    by (auto simp: parse_instance_id_def dest!: brackets_segment split: if_splits prod.splits)
  have r3: "brackets rest3 \<le> brackets rest2"
    using 4 brackets_tl [of rest2] brackets_drop [of 2 rest2]
    by (auto simp: parse_key_segment_def dest!: brackets_segment split: if_splits prod.splits)
  show "tp_param p = Some s \<Longrightarrow> brackets s \<le> brackets token"
    using p r r1 r2 r3 brackets_tl [of rest3] by (auto split: if_splits)
  show "tp_instance p = Some s \<Longrightarrow> brackets s \<le> brackets token"
    using p r r1 r2 by (metis le_trans)
qed

lemma py_partition_append: "py_partition sep s = (a, Some r) \<Longrightarrow> s = a @ sep # r"
proof (induction s arbitrary: a)
  case (Cons c s)
  then show ?case
    by (cases "c = sep") (auto simp: py_partition_def before_char_def Let_def split: if_splits)
qed (simp add: py_partition_def before_char_def)

lemma code_less: "code c < 256"
  by (simp add: code_def)

lemma bracket_code: "code CHR ''['' = 91"
  by (simp add: code_def)

lemma char_of_not_bracket: "n < 256 \<Longrightarrow> n \<noteq> 91 \<Longrightarrow> char_of (n::nat) \<noteq> CHR ''[''"
  by (metis code_char_of bracket_code)

lemma brackets_upper_char: "brackets (upper_char c) = brackets [c]"
proof (cases "c = CHR ''[''")
  case False
  have "code c = 123" if "char_of (code c - 32) = CHR ''[''" "97 \<le> code c"
  proof -
    have "code c - 32 = 91" using char_of_not_bracket that(1) code_less [of c] by (metis less_imp_diff_less)
    then show ?thesis using that(2) by linarith
  qed
  then show ?thesis using False by (auto simp: upper_char_def Let_def)
qed (simp add: upper_char_def code_def)

lemma brackets_upper [simp]: "brackets (py_upper s) = brackets s"
proof (induction s)
  case (Cons c s)
  then show ?case using brackets_upper_char [of c] by (simp add: py_upper_def)
qed (simp add: py_upper_def)

lemma brackets_normalized_segment: "brackets (normalize_pipeline_segment s) = brackets s"
  by (auto simp: normalize_pipeline_segment_def dest!: py_partition_append split: prod.splits option.splits)

lemma brackets_payload: "pipeline_segment s = (h, r) \<Longrightarrow> brackets r \<le> brackets s"
  using brackets_normalized_segment [of s]
  by (auto simp: pipeline_segment_def dest!: py_partition_append split: prod.splits option.splits)

lemma brackets_aggregate: "map_pipeline_action_to_aggregate a = Some f \<Longrightarrow> brackets f = 0"
  by (auto simp: map_pipeline_action_to_aggregate_def PIPELINE_AGGREGATE_ACTIONS_def split: if_splits)

lemma brackets_pipeline_parts:
  assumes "parse_pipeline_token_parts token = Some (p, a)"
  shows "tp_param p = Some s \<Longrightarrow> brackets s \<le> brackets token"
    and "tp_instance p = Some s \<Longrightarrow> brackets s \<le> brackets token"
proof -
  obtain r t where 1: "py_partition CHR ''|'' token = (r, Some t)"
    using assms by (auto simp: parse_pipeline_token_parts_def split: prod.splits option.splits)
  obtain name payload where 2: "pipeline_segment r = (name, payload)" by fastforce
  obtain action action_payload where 3: "pipeline_segment t = (action, action_payload)" by fastforce
  have b: "brackets payload + brackets action_payload \<le> brackets token"
    using py_partition_append [OF 1] brackets_payload [OF 2] brackets_payload [OF 3] by simp
  show "tp_param p = Some s \<Longrightarrow> brackets s \<le> brackets token"
    using assms b by (auto simp: parse_pipeline_token_parts_def 1 2 3 Let_def dest!: py_partition_append
        split: prod.splits option.splits if_splits)
  show "tp_instance p = Some s \<Longrightarrow> brackets s \<le> brackets token"
    using assms b by (auto simp: parse_pipeline_token_parts_def 1 2 3 Let_def
        dest!: py_partition_append brackets_aggregate split: prod.splits option.splits if_splits)
qed

lemma brackets_split:
  assumes "token_split env token = Some (p, a)"
  shows "tp_param p = Some s \<Longrightarrow> brackets s \<le> brackets token"
    and "tp_instance p = Some s \<Longrightarrow> brackets s \<le> brackets token"
  using assms brackets_parts [of token p s] brackets_pipeline_parts [of token p _ s]
  by (auto simp: token_split_def Let_def split: if_splits option.splits)

lemma token_cong [fundef_cong]:
  assumes "token = token'" "env = env'" "current = current'" "roots = roots'" "actions = actions'"
    and rec: "\<And>s. brackets s \<le> brackets token' \<Longrightarrow> rec s = rec' s"
  shows "resolve_token_with_policy rec env current roots actions token =
    resolve_token_with_policy rec' env' current' roots' actions' token'"
proof -
  have "build_context rec current token (p, a) = build_context rec' current token (p, a)"
    if split: "token_split env token = Some (p, a)" for p a
  proof -
    have same: "nested rec (tp_param p) = nested rec' (tp_param p)" "nested rec (tp_instance p) = nested rec' (tp_instance p)"
      using brackets_split [OF split] rec assms(1) by (simp_all add: nested_def split: option.splits)
    show ?thesis unfolding build_context_def prod.case same by (rule refl)
  qed
  then show ?thesis using assms by (auto simp: resolve_token_with_policy_def split: option.splits)
qed

lemma assemble_cong [fundef_cong]:
  assumes "text = text'" "cursor = cursor'" "ss = ss'"
    and "\<And>s. s \<in> set ss' \<Longrightarrow> f (text_slice (span_start s + 1) (span_end s - 1) text') = g (text_slice (span_start s + 1) (span_end s - 1) text')"
  shows "assemble f text cursor ss = assemble g text' cursor' ss'"
  unfolding assms(1-3) using assms(4)
  by (induction ss' arbitrary: cursor') (auto split: sum.splits)

subsection \<open>Texts\<close>

function resolve_sigils ::
  "sigil_env \<Rightarrow> row_ref option \<Rightarrow> string list option \<Rightarrow> string list option \<Rightarrow> string \<Rightarrow> sigil_exn + string" where
  "resolve_sigils env current allowed_roots allowed_actions text =
     (let roots = map_option normalize_allowed_roots allowed_roots;
          actions = map_option (\<lambda>as. map py_upper (filter (\<lambda>a. a \<noteq> []) as)) allowed_actions
      in assemble (\<lambda>token. resolve_token_with_policy (\<lambda>s. resolve_sigils env current roots None s)
           env current roots actions token) text 0 (scan_sigil_tokens text))"
  by pat_completeness auto
termination
  by (relation "measure (\<lambda>(env, current, roots, actions, text). brackets text)")
    (auto intro: le_less_trans [OF _ brackets_token [simplified]])

declare resolve_sigils.simps [simp del]

definition resolve_sigil ::
  "sigil_env \<Rightarrow> row_ref option \<Rightarrow> string list option \<Rightarrow> string list option \<Rightarrow> string \<Rightarrow> sigil_exn + string" where
  "resolve_sigil env current allowed_roots allowed_actions sigil =
     resolve_sigils env current allowed_roots allowed_actions sigil"

end
