(* ===== verification/SigilScripts.thy ===== *)
theory SigilScripts
  imports Sigils
begin

text \<open>
  Scripts of sigil expressions, \<open>apps/sigils/script_runtime.py\<close>: LET and EMIT lines, variables, the
  policy of a context, and the cache of script results.  A script is run by the \<open>solve\<close> and \<open>resolve\<close>
  commands, and a policy error is how they report a blocked reference.
\<close>

subsection \<open>Lines\<close>

definition is_line_end :: "char \<Rightarrow> bool" where
  "is_line_end c = (code c \<in> {10, 11, 12, 13, 28, 29, 30, 133})"

text \<open>\<open>text.splitlines()\<close>; a carriage return and a line feed together end one line.\<close>

fun join_crlf :: "string \<Rightarrow> string" where
  "join_crlf (c # d # cs) = (if code c = 13 \<and> code d = 10 then d # join_crlf cs else c # join_crlf (d # cs))"
| "join_crlf cs = cs"

fun lines_of :: "string \<Rightarrow> string \<Rightarrow> string list" where
  "lines_of line [] = (if line = [] then [] else [line])"
| "lines_of line (c # cs) = (if is_line_end c then line # lines_of [] cs else lines_of (line @ [c]) cs)"

definition py_splitlines :: "string \<Rightarrow> string list" where
  "py_splitlines text = lines_of [] (join_crlf text)"

subsection \<open>Instructions\<close>

datatype script_error = ScriptParseError nat string | ScriptPolicyError nat string | ScriptRuntimeError nat string | Unexpected sigil_exn

record instruction =
  si_action :: string
  si_argument :: string
  si_line :: nat
  si_identifier :: "string option"

definition is_ident_char :: "char \<Rightarrow> bool" where
  "is_ident_char c =
     (let n = code c in is_ascii_digit c \<or> (65 \<le> n \<and> n \<le> 90) \<or> (97 \<le> n \<and> n \<le> 122) \<or> c = CHR ''_'')"

definition is_identifier :: "string \<Rightarrow> bool" where
  "is_identifier s = (s \<noteq> [] \<and> \<not> is_ascii_digit (hd s) \<and> list_all is_ident_char s)"

text \<open>One line that is neither blank nor a comment.\<close>

definition parse_let :: "nat \<Rightarrow> string \<Rightarrow> script_error + instruction" where
  "parse_let n line =
     (case py_partition CHR ''='' (py_strip (drop 4 line)) of
        (_, None) \<Rightarrow> Inl (ScriptParseError n ''LET requires `NAME = EXPR` syntax'')
      | (raw, Some rest) \<Rightarrow>
          (let identifier = py_upper (py_strip raw); expression = py_strip rest in
           if \<not> is_identifier identifier
           then Inl (ScriptParseError n (''invalid LET identifier `'' @ py_strip raw @ ''`''))
           else if expression = [] then Inl (ScriptParseError n ''LET expression cannot be empty'')
           else Inr \<lparr>si_action = ''LET'', si_argument = expression, si_line = n, si_identifier = Some identifier\<rparr>))"

definition parse_instruction :: "nat \<Rightarrow> string \<Rightarrow> script_error + instruction" where
  "parse_instruction n line =
     (if py_startswith (py_upper line) ''LET '' then parse_let n line
      else if py_startswith (py_upper line) ''EMIT ''
      then (let expression = py_strip (drop 5 line) in
            if expression = [] then Inl (ScriptParseError n ''EMIT expression cannot be empty'')
            else Inr \<lparr>si_action = ''EMIT'', si_argument = expression, si_line = n, si_identifier = None\<rparr>)
      else Inl (ScriptParseError n (''unsupported action `'' @ py_upper (before_char CHR '' '' line) @ ''`'')))"

fun parse_lines :: "nat \<Rightarrow> string list \<Rightarrow> script_error + instruction list" where
  "parse_lines n [] = Inr []"
| "parse_lines n (raw # raws) =
     (let line = py_strip raw in
      if line = [] \<or> py_startswith line ''#'' then parse_lines (Suc n) raws
      else ebind (parse_instruction n line) (\<lambda>i. ebind (parse_lines (Suc n) raws) (\<lambda>is. Inr (i # is))))"

definition parse_script :: "string \<Rightarrow> script_error + instruction list" where
  "parse_script text = parse_lines 1 (py_splitlines text)"

subsection \<open>Variables\<close>

text \<open>
  The pattern is the alternation of the names, longest first, so the first name that fits a position is
  the longest one; what is put in is not searched again.
\<close>

function interpolate_from :: "string list \<Rightarrow> (string, string) dict \<Rightarrow> string \<Rightarrow> string" where
  "interpolate_from keys vars [] = []"
| "interpolate_from keys vars (c # cs) =
     (case find (\<lambda>k. py_startswith (c # cs) (CHR ''$'' # k)) keys of
        Some k \<Rightarrow> opt_text (dget vars k) @ interpolate_from keys vars (drop (length k) cs)
      | None \<Rightarrow> c # interpolate_from keys vars cs)"
  by pat_completeness auto
termination
  by (relation "measure (\<lambda>(keys, vars, s). length s)") auto

definition interpolate_variables :: "string \<Rightarrow> (string, string) dict \<Rightarrow> string" where
  "interpolate_variables expression vars =
     (if vars = [] then expression
      else interpolate_from (sort_key (\<lambda>k. - int (length k)) (dkeys vars)) vars expression)"

subsection \<open>Execution\<close>

text \<open>The pattern of an unresolved sigil: a bracket, a name, and what separates a name from the rest.\<close>

definition starts_separator :: "string \<Rightarrow> bool" where
  "starts_separator s = ((s \<noteq> [] \<and> hd s \<in> set '':=.|'') \<or> py_startswith s ''->'')"

fun name_then_separator :: "string \<Rightarrow> bool" where
  "name_then_separator [] = False"
| "name_then_separator (c # cs) =
     ((is_ident_char c \<or> c = CHR ''-'') \<and> (starts_separator cs \<or> name_then_separator cs))"

fun has_unresolved :: "string \<Rightarrow> bool" where
  "has_unresolved [] = False"
| "has_unresolved (c # cs) = (c = CHR ''['' \<and> name_then_separator cs \<or> has_unresolved cs)"

definition resolve_policy :: "sigil_env \<Rightarrow> string \<Rightarrow> script_error + string list option \<times> string list option" where
  "resolve_policy env ctx =
     (let name = py_lower ctx in
      if name = ''admin'' then Inr (None, None)
      else if name = ''user'' then Inr (Some (get_user_safe_sigil_roots env), Some (get_user_safe_sigil_actions env))
      else if name = ''request''
      then Inr (Some (map (\<lambda>r. py_upper (sr_prefix r)) (filter (\<lambda>r. sr_context r = RequestRoot) (sg_roots env))), None)
      else Inl (ScriptPolicyError 0 (''unsupported context `'' @ ctx @ ''`'')))"

fun run_instructions ::
  "sigil_env \<Rightarrow> string list option \<Rightarrow> string list option \<Rightarrow> instruction list \<Rightarrow> (string, string) dict \<Rightarrow>
     script_error + string list" where
  "run_instructions env roots actions [] vars = Inr []"
| "run_instructions env roots actions (i # is) vars =
     (case resolve_sigils env None roots actions (interpolate_variables (si_argument i) vars) of
        Inl e \<Rightarrow> Inl (Unexpected e)
      | Inr resolved \<Rightarrow>
          (if has_unresolved resolved then Inl (ScriptPolicyError (si_line i) ''expression blocked or unresolved'')
           else if si_action i = ''LET''
           then (case si_identifier i of
                   None \<Rightarrow> Inl (ScriptRuntimeError (si_line i) ''LET identifier missing'')
                 | Some name \<Rightarrow> run_instructions env roots actions is (dset name resolved vars))
           else if si_action i = ''EMIT''
           then ebind (run_instructions env roots actions is vars) (\<lambda>outs. Inr (resolved # outs))
           else Inl (ScriptRuntimeError (si_line i) (''unknown action `'' @ si_action i @ ''`''))))"

definition execute_script :: "sigil_env \<Rightarrow> string \<Rightarrow> instruction list \<Rightarrow> script_error + string list" where
  "execute_script env ctx is =
     ebind (resolve_policy env ctx) (\<lambda>(roots, actions). run_instructions env roots actions is [])"

subsection \<open>The cache\<close>

text \<open>
  \<open>lru_cache(maxsize=512)\<close> over script text and context, the most recently used entry last.  A script
  that fails is not kept.
\<close>

type_synonym script_cache = "(string \<times> string, string list) dict"

definition SCRIPT_CACHE_SIZE :: nat where "SCRIPT_CACHE_SIZE = 512"

definition execute_script_text ::
  "sigil_env \<Rightarrow> bool \<Rightarrow> string \<Rightarrow> string \<Rightarrow> script_cache \<Rightarrow> (script_error + string list) \<times> script_cache" where
  "execute_script_text env use_cache ctx text cache =
     (let run = ebind (parse_script text) (execute_script env ctx); entry = (text, ctx) in
      if \<not> use_cache then (run, cache)
      else case dget cache entry of
             Some outs \<Rightarrow> (Inr outs, dset entry outs (ddel entry cache))
           | None \<Rightarrow>
               (case run of
                  Inl e \<Rightarrow> (Inl e, cache)
                | Inr outs \<Rightarrow>
                    (Inr outs, dset entry outs (if length cache < SCRIPT_CACHE_SIZE then cache else tl cache))))"

definition clear_script_execution_cache :: "script_cache \<Rightarrow> script_cache" where
  "clear_script_execution_cache cache = []"

end
