(* ===== verification/SigilProps.thy ===== *)
theory SigilProps
  imports SigilScripts
begin

text \<open>
  Properties of the sigils: which references a text has, the round trip of a quoted token, what a user's
  script can reach and what stops it, and where the policy lets more through than it says.
\<close>

subsection \<open>The references of a text\<close>

definition bracket_depth :: "string \<Rightarrow> int" where
  "bracket_depth s = int (count_list s CHR ''['') - int (count_list s CHR '']'')"

text \<open>A reference opens with a bracket that is closed by its last character and not before.\<close>

definition closed_reference :: "string \<Rightarrow> bool" where
  "closed_reference t \<longleftrightarrow>
     t \<noteq> [] \<and> hd t = CHR ''['' \<and> bracket_depth t = 0 \<and> (\<forall>k. 0 < k \<and> k < length t \<longrightarrow> 0 < bracket_depth (take k t))"

lemma depth_simps [simp]:
  "bracket_depth [] = 0"
  "bracket_depth (c # cs) = (if c = CHR ''['' then 1 else if c = CHR '']'' then - 1 else 0) + bracket_depth cs"
  by (simp_all add: bracket_depth_def)

lemma scan_close_iff:
  "scan_close d cs = Some n \<longleftrightarrow>
     n \<le> length cs \<and> int d + bracket_depth (take n cs) = 0 \<and> (\<forall>k < n. 0 < int d + bracket_depth (take k cs))"
proof (induction d cs arbitrary: n rule: scan_close.induct)
  case (1 cs)
  show ?case by (auto simp: not_less_eq gr0_conv_Suc)
next
  case (3 d c cs)
  let ?d = "if c = CHR ''['' then Suc (Suc d) else if c = CHR '']'' then d else Suc d"
  let ?step = "if c = CHR ''['' then 1 else if c = CHR '']'' then - 1 else (0::int)"
  have d: "int ?d = int (Suc d) + ?step" by simp
  show ?case
  proof (cases n)
    case (Suc m)
    have "scan_close (Suc d) (c # cs) = Some n \<longleftrightarrow> scan_close ?d cs = Some m" using Suc by auto
    also have "\<dots> \<longleftrightarrow> m \<le> length cs \<and> int (Suc d) + (?step + bracket_depth (take m cs)) = 0 \<and>
        (\<forall>k < m. 0 < int (Suc d) + (?step + bracket_depth (take k cs)))"
      using 3 [of m] d by (simp add: add.assoc)
    also have "\<dots> \<longleftrightarrow> n \<le> length (c # cs) \<and> int (Suc d) + bracket_depth (take n (c # cs)) = 0 \<and>
        (\<forall>k < n. 0 < int (Suc d) + bracket_depth (take k (c # cs)))"
      unfolding Suc by (auto simp: less_Suc_eq_0_disj)
    finally show ?thesis .
  next
    case 0
    then show ?thesis by auto
  qed
qed auto

lemma closed_reference_scan:
  "closed_reference (CHR ''['' # take n cs) \<longleftrightarrow> scan_close 1 cs = Some n" if "n \<le> length cs" "0 < n"
proof -
  have "(\<forall>k. 0 < k \<and> k < Suc n \<longrightarrow> 0 < bracket_depth (take k (CHR ''['' # take n cs))) \<longleftrightarrow>
      (\<forall>k < n. 0 < 1 + bracket_depth (take k cs))"
    using that by (auto simp: gr0_conv_Suc min_def)
  then show ?thesis using that by (simp add: closed_reference_def scan_close_iff)
qed

lemma depth_append [simp]: "bracket_depth (a @ b) = bracket_depth a + bracket_depth b"
  by (simp add: bracket_depth_def)

lemma depth_take_split: "p \<le> q \<Longrightarrow> bracket_depth (take q s) = bracket_depth (take p s) + bracket_depth (text_slice p q s)"
  by (metis depth_append le_add_diff_inverse take_add text_slice_def)

lemma slice_Cons: "text_slice (Suc a) (Suc b) (c # cs) = text_slice a b cs"
  by (simp add: text_slice_def)

lemma slice_drop: "text_slice a b (drop n cs) = text_slice (n + a) (n + b) cs"
  by (simp add: text_slice_def add.commute)

lemma take_slice: "k \<le> b - a \<Longrightarrow> take k (text_slice a b s) = text_slice a (a + k) s"
  by (simp add: text_slice_def min_def)

lemma length_slice: "b \<le> length s \<Longrightarrow> length (text_slice a b s) = b - a"
  by (simp add: text_slice_def)

lemma depth_inside:
  assumes "closed_reference (text_slice a b s)" "a < p" "p < b" "b \<le> length s"
  shows "0 < bracket_depth (text_slice a p s)"
proof -
  have "0 < bracket_depth (take (p - a) (text_slice a b s))"
    using assms length_slice [of b s a] by (auto simp: closed_reference_def)
  then show ?thesis using assms by (simp add: take_slice)
qed

lemma scan_token: "scan_close 1 cs = Some n \<Longrightarrow>
    scan_from i (CHR ''['' # cs) = \<lparr>span_start = i, span_end = i + 1 + n\<rparr> # scan_from (i + 1 + n) (drop n cs)"
  by simp

lemma scan_skip: "c \<noteq> CHR ''['' \<or> scan_close 1 cs = None \<Longrightarrow> scan_from i (c # cs) = scan_from (Suc i) cs"
  by auto

lemma scan_induct [case_names Nil token skip]:
  assumes "\<And>i. P i []"
    and token: "\<And>i cs n. scan_close 1 cs = Some n \<Longrightarrow> n \<le> length cs \<Longrightarrow> 0 < n \<Longrightarrow>
      P (i + 1 + n) (drop n cs) \<Longrightarrow> P i (CHR ''['' # cs)"
    and "\<And>i c cs. c \<noteq> CHR ''['' \<or> scan_close 1 cs = None \<Longrightarrow> P (Suc i) cs \<Longrightarrow> P i (c # cs)"
  shows "P i cs"
proof (induction i cs rule: scan_from.induct)
  case (2 i c cs)
  show ?case
  proof (cases "c = CHR ''['' \<and> scan_close 1 cs \<noteq> None")
    case True
    then obtain n where n: "scan_close 1 cs = Some n" by auto
    then have "n \<le> length cs" "0 < n" by (auto simp: scan_close_iff intro: gr0I)
    then show ?thesis using token [of cs n i] 2(3) True n by simp
  qed (use 2(1,2) assms(3) in auto)
qed (use assms(1) in simp)

declare scan_from.simps(2) [simp del]

text \<open>Spans of \<open>cs\<close> when its first character is number \<open>i\<close> of the text.\<close>

lemma scan_from_sound:
  assumes "s \<in> set (scan_from i cs)"
  shows "i \<le> span_start s \<and> span_start s < span_end s \<and> span_end s \<le> i + length cs \<and>
    closed_reference (text_slice (span_start s - i) (span_end s - i) cs)"
  using assms
proof (induction i cs rule: scan_induct)
  case (token i cs n)
  show ?case
  proof (cases "s = \<lparr>span_start = i, span_end = i + 1 + n\<rparr>")
    case True
    then show ?thesis using token closed_reference_scan [of n cs] by (simp add: text_slice_def)
  next
    case False
    then have "s \<in> set (scan_from (i + 1 + n) (drop n cs))" using token(5) by (simp add: scan_token [OF token(1)])
    from token(4) [OF this] have
      s: "i + 1 + n \<le> span_start s" "span_start s < span_end s" "span_end s \<le> i + 1 + length cs" and
      closed: "closed_reference (text_slice (span_start s - (i + 1 + n)) (span_end s - (i + 1 + n)) (drop n cs))"
      using token(2) by auto
    have "span_start s - i = Suc (n + (span_start s - (i + 1 + n)))" "span_end s - i = Suc (n + (span_end s - (i + 1 + n)))"
      using s by auto
    then have "closed_reference (text_slice (span_start s - i) (span_end s - i) (CHR ''['' # cs))"
      using closed by (simp only: slice_drop slice_Cons)
    then show ?thesis using s by simp
  qed
next
  case (skip i c cs)
  then have s: "Suc i \<le> span_start s" "span_start s < span_end s" "span_end s \<le> Suc i + length cs" and
    closed: "closed_reference (text_slice (span_start s - Suc i) (span_end s - Suc i) cs)"
    by (auto simp: scan_skip)
  have "span_start s - i = Suc (span_start s - Suc i)" "span_end s - i = Suc (span_end s - Suc i)"
    using s by auto
  then have "closed_reference (text_slice (span_start s - i) (span_end s - i) (c # cs))"
    using closed by (simp only: slice_Cons)
  then show ?case using s by simp
qed simp

lemma scan_from_sorted: "sorted_wrt (\<lambda>s t. span_end s \<le> span_start t) (scan_from i cs)"
proof (induction i cs rule: scan_induct)
  case (token i cs n)
  then show ?case using scan_from_sound by (fastforce simp: scan_token)
qed (simp_all add: scan_skip)

text \<open>A closed reference that starts inside a closed reference ends inside it.\<close>

lemma closed_nested:
  assumes outer: "closed_reference (text_slice a b s)" and inner: "closed_reference (text_slice p q s)"
    and pos: "a \<le> p" "p < b" "p < q" "b \<le> length s" "q \<le> length s"
  shows "q \<le> b"
proof (rule ccontr)
  assume "\<not> q \<le> b"
  then have in_b: "0 < bracket_depth (text_slice p b s)"
    using depth_inside [OF inner, of b] pos by simp
  have "bracket_depth (text_slice a p s) \<ge> 0"
    using depth_inside [OF outer, of p] pos by (cases "a = p") (simp_all add: text_slice_def)
  moreover have "bracket_depth (text_slice a b s) = bracket_depth (text_slice a p s) + bracket_depth (text_slice p b s)"
    using depth_take_split [of a b s] depth_take_split [of a p s] depth_take_split [of p b s] pos by simp
  ultimately show False using in_b outer by (simp add: closed_reference_def)
qed

lemma closed_at_start:
  assumes "closed_reference (text_slice 0 q (c # cs))" "0 < q" "q \<le> Suc (length cs)"
  shows "c = CHR ''['' \<and> scan_close 1 cs = Some (q - 1) \<and> 1 < q"
proof -
  obtain m where m: "q = Suc m" using assms(2) by (cases q) auto
  have c: "c = CHR ''[''" using assms(1) m by (simp add: closed_reference_def text_slice_def)
  have pos: "0 < m" using assms(1) m c by (auto simp: closed_reference_def text_slice_def intro!: gr0I)
  have "scan_close 1 cs = Some m"
    using closed_reference_scan [of m cs] assms(1,3) m c pos by (simp add: text_slice_def)
  then show ?thesis using c m pos by simp
qed

lemma scan_from_complete:
  assumes "p < q" "q \<le> length cs" "closed_reference (text_slice p q cs)"
  shows "\<exists>s \<in> set (scan_from i cs). span_start s \<le> i + p \<and> i + q \<le> span_end s"
  using assms
proof (induction i cs arbitrary: p q rule: scan_induct)
  case (token i cs n)
  have first: "closed_reference (text_slice 0 (Suc n) (CHR ''['' # cs))"
    using closed_reference_scan [OF token(2,3)] token(1) by (simp add: text_slice_def)
  show ?case
  proof (cases "p < Suc n")
    case True
    then have "q \<le> Suc n" using closed_nested [OF first token(7)] token(2,5,6) by simp
    then show ?thesis using True by (simp add: scan_token [OF token(1)])
  next
    case False
    define p' q' where "p' = p - Suc n" and "q' = q - Suc n"
    have pq: "p = Suc (n + p')" "q = Suc (n + q')" using False token(5) by (auto simp: p'_def q'_def)
    have "closed_reference (text_slice p' q' (drop n cs))"
      using token(7) unfolding pq by (simp only: slice_Cons slice_drop)
    then have "\<exists>s \<in> set (scan_from (i + 1 + n) (drop n cs)). span_start s \<le> i + 1 + n + p' \<and> i + 1 + n + q' \<le> span_end s"
      using token(4) [of p' q'] token(2,5,6) pq by simp
    then show ?thesis unfolding scan_token [OF token(1)] pq by (auto simp: ac_simps)
  qed
next
  case (skip i c cs)
  have "p \<noteq> 0" by (rule notI) (use closed_at_start [of q c cs] skip in auto)
  define p' q' where "p' = p - 1" and "q' = q - 1"
  have pq: "p = Suc p'" "q = Suc q'" using \<open>p \<noteq> 0\<close> skip(3) by (auto simp: p'_def q'_def)
  have "\<exists>s \<in> set (scan_from (Suc i) cs). span_start s \<le> Suc i + p' \<and> Suc i + q' \<le> span_end s"
    using skip(2) [of p' q'] skip(3-5) pq by (simp add: slice_Cons)
  then show ?case using skip(1) pq by (auto simp: scan_skip)
qed simp

text \<open>
  C22: Which references a text has.  The scanner gives, from left to right and without overlaps, stretches
  of the text that open with a bracket closed by their last character and not before; and every such
  stretch of the text lies inside one of them.  So these are the outermost references, all of them.\<close>
theorem scanner_finds_outermost_references:
  "sorted_wrt (\<lambda>s t. span_end s \<le> span_start t) (scan_sigil_tokens text) \<and>
   list_all (\<lambda>s. span_start s < span_end s \<and> span_end s \<le> length text \<and>
      closed_reference (text_slice (span_start s) (span_end s) text)) (scan_sigil_tokens text) \<and>
   \<not> (\<exists>p q. p < q \<and> q \<le> length text \<and> closed_reference (text_slice p q text) \<and>
        \<not> list_ex (\<lambda>s. span_start s \<le> p \<and> q \<le> span_end s) (scan_sigil_tokens text))"
  using scan_from_sorted [of 0 "text"] scan_from_sound [of _ 0 "text"] scan_from_complete [of _ _ "text" 0]
  by (auto simp: scan_sigil_tokens_def list_all_iff list_ex_iff)

subsection \<open>Names up to case and hyphens\<close>

lemma char_of_eq: "n < 256 \<Longrightarrow> char_of n = c \<longleftrightarrow> n = code c"
  using code_char_of [of n] by (auto simp: code_def)

lemma upper_char_facts:
  "concat (map upper_char (upper_char c)) = upper_char c"
  "upper_char (lower_char c) = upper_char c"
  "normalize_name (upper_char c) = upper_char (if c = CHR ''-'' then CHR ''_'' else c)"
proof -
  show "concat (map upper_char (upper_char c)) = upper_char c"
    using code_less [of c] by (auto simp: upper_char_def Let_def) (auto simp: code_def)
  show "upper_char (lower_char c) = upper_char c"
    using code_less [of c] by (auto simp: upper_char_def lower_char_def Let_def char_of_eq)
  have "code c - 32 \<noteq> code CHR ''-''" if "97 \<le> code c" using that by (auto simp: code_def)
  then show "normalize_name (upper_char c) = upper_char (if c = CHR ''-'' then CHR ''_'' else c)"
    using code_less [of c]
    by (auto simp: upper_char_def Let_def normalize_name_def swap_char_def char_of_eq) (auto simp: code_def)
qed

lemma name_append [simp]: "normalize_name (a @ b) = normalize_name a @ normalize_name b" "normalize_name [] = []"
  by (simp_all add: normalize_name_def swap_char_def)

lemma upper_simps [simp]: "py_upper [] = []" "py_upper (c # cs) = upper_char c @ py_upper cs" "py_upper (a @ b) = py_upper a @ py_upper b"
  by (simp_all add: py_upper_def)

lemma upper_upper [simp]: "py_upper (py_upper s) = py_upper s"
proof (induction s)
  case (Cons c s)
  have "py_upper (upper_char c) = upper_char c" using upper_char_facts(1) [of c] by (simp add: py_upper_def)
  then show ?case using Cons by simp
qed simp

lemma upper_lower [simp]: "py_upper (py_lower s) = py_upper s"
  by (induction s) (simp_all add: py_lower_def upper_char_facts)

lemma normalize_Cons: "normalize_name (c # cs) = (if c = CHR ''-'' then CHR ''_'' else c) # normalize_name cs"
  by (simp add: normalize_name_def swap_char_def)

lemma normalize_upper: "normalize_name (py_upper s) = py_upper (normalize_name s)"
  by (induction s) (simp_all only: upper_simps name_append normalize_Cons upper_char_facts)

lemma normalize_normalize [simp]: "normalize_name (normalize_name s) = normalize_name s"
  by (induction s) (simp_all add: normalize_Cons)

lemma normalize_dashed: "normalize_name (swap_char CHR ''_'' CHR ''-'' s) = normalize_name s"
  by (induction s) (simp_all add: swap_char_def normalize_Cons)

text \<open>The name of a root as the policy compares it.\<close>

definition policy_name :: "string \<Rightarrow> string" where
  "policy_name s = py_upper (normalize_name s)"

lemma policy_name_idem [simp]: "policy_name (policy_name s) = policy_name s"
  by (simp add: policy_name_def normalize_upper)

lemma policy_name_upper [simp]: "policy_name (py_upper s) = policy_name s"
  by (simp add: policy_name_def normalize_upper)

lemma policy_name_lower [simp]: "policy_name (py_lower s) = policy_name s"
  by (metis policy_name_upper upper_lower)

lemma policy_name_normalize [simp]: "policy_name (normalize_name s) = policy_name s"
  by (simp add: policy_name_def)

lemma policy_name_dashed [simp]: "policy_name (swap_char CHR ''_'' CHR ''-'' s) = policy_name s"
  by (simp add: policy_name_def normalize_dashed)

lemma policy_name_variant:
  assumes "v \<in> set (identifier_variants s)"
  shows "policy_name v = policy_name s"
proof -
  define n d where "n = normalize_name s" and "d = swap_char CHR ''_'' CHR ''-'' n"
  have "v \<in> set [s, n, d, py_lower n, py_upper n, py_lower d, py_upper d]"
    using assms
    by (cases "s = []") (simp_all only: identifier_variants_def Let_def n_def d_def if_True if_False set_dedupe
        set_filter mem_Collect_eq refl simp_thms list.set empty_iff)
  then show ?thesis by (auto simp: n_def d_def)
qed

lemma first_root_found:
  "first_root rows vs = Some r \<Longrightarrow> r \<in> set rows \<and> (\<exists>v \<in> set vs. py_upper (sr_prefix r) = py_upper v)"
proof (induction vs)
  case (Cons v vs)
  show ?case
  proof (cases "filter (\<lambda>r. py_upper (sr_prefix r) = py_upper v) rows")
    case Nil
    then show ?thesis using Cons by auto
  next
    case hit: (Cons a as)
    then have "r = a" using Cons(2) by (cases as) auto
    moreover have "a \<in> set (filter (\<lambda>r. py_upper (sr_prefix r) = py_upper v) rows)" using hit by simp
    ultimately show ?thesis by auto
  qed
qed simp

lemma found_root:
  assumes "get_sigil_root env name = Some r"
  shows "r \<in> set (sg_roots env)" "policy_name (sr_prefix r) = policy_name name"
  using first_root_found [OF assms [unfolded get_sigil_root_def]] policy_name_variant policy_name_upper by metis+

lemma set_allowed_roots: "set (normalize_allowed_roots roots) = policy_name ` (set roots - {[]})"
  by (auto simp: normalize_allowed_roots_def policy_name_def)

subsection \<open>What a policy keeps out\<close>

definition reconfigured :: "sigil_env \<Rightarrow> sigil_env \<Rightarrow> sigil_env" where
  "reconfigured other env =
     env\<lparr>sg_environ := sg_environ other, sg_settings := sg_settings other, sg_system := sg_system other,
         sg_next_check := sg_next_check other, sg_auto_upgrade := sg_auto_upgrade other\<rparr>"

definition reads_configuration :: "sigil_root \<Rightarrow> bool" where
  "reads_configuration r \<longleftrightarrow>
     sr_context r = ConfigRoot \<and> py_upper (sr_prefix r) \<in> {''ENV'', ''CONF'', ''SYS''}"

lemma reconfigured_frame [simp]:
  "sg_roots (reconfigured other env) = sg_roots env" "sg_pipeline (reconfigured other env) = sg_pipeline env"
  "sg_request (reconfigured other env) = sg_request env" "sg_context (reconfigured other env) = sg_context env"
  "sg_models (reconfigured other env) = sg_models env" "sg_profile (reconfigured other env) = sg_profile env"
  "sg_attribute (reconfigured other env) = sg_attribute env" "sg_serialize (reconfigured other env) = sg_serialize env"
  "sg_encode (reconfigured other env) = sg_encode env" "sg_filter_limit (reconfigured other env) = sg_filter_limit env"
  "sg_sum (reconfigured other env) = sg_sum env" "sg_repr (reconfigured other env) = sg_repr env"
  by (simp_all add: reconfigured_def)

lemma reconfigured_attribute [simp]: "call_attribute (reconfigured other env) = call_attribute env"
proof -
  have "call_attribute_as (reconfigured other env) obj args vs = call_attribute_as env obj args vs" for obj args vs
    by (induction vs) (auto split: option.splits attribute.splits)
  then show ?thesis by (auto simp: call_attribute_def fun_eq_iff)
qed

lemma reconfigured_values [simp]: "attribute_values (reconfigured other env) k name args pks = attribute_values env k name args pks"
  by (induction pks) auto

lemma reconfigured_instance [simp]: "resolve_instance (reconfigured other env) = resolve_instance env"
  unfolding resolve_instance_def resolve_instance_value_def reconfigured_frame reconfigured_attribute by (rule refl)

lemma reconfigured_entity [simp]: "resolve_entity_root (reconfigured other env) = resolve_entity_root env"
  unfolding resolve_entity_root_def resolve_filter_action_def filter_limit_def resolve_entity_aggregate_def
    aggregate_values_def resolve_entity_lookup_def resolve_without_instance_def manager_value_def
    reconfigured_frame reconfigured_attribute reconfigured_values reconfigured_instance
  by (rule refl)

lemma reconfigured_root:
  assumes "\<And>r. get_sigil_root env (sc_root ctx) = Some r \<Longrightarrow> \<not> reads_configuration r"
  shows "resolve_root (reconfigured other env) ctx = resolve_root env ctx"
proof -
  have "resolve_config_value (reconfigured other env) r ctx = resolve_config_value env r ctx"
    if "get_sigil_root env (sc_root ctx) = Some r" "sr_context r = ConfigRoot" for r
    using assms [OF that(1)] that(2) by (auto simp: reads_configuration_def resolve_config_value_def Let_def split: option.splits)
  then show ?thesis
    by (auto simp: resolve_root_def get_sigil_root_def resolve_request_root_def split: option.splits root_context.splits)
qed

definition keeps_configuration_out :: "sigil_env \<Rightarrow> string list \<Rightarrow> bool" where
  "keeps_configuration_out env roots \<longleftrightarrow>
     (\<forall>a \<in> set roots. \<forall>r. get_sigil_root env (policy_name a) = Some r \<longrightarrow> \<not> reads_configuration r)"

lemma keeps_out_normalized: "keeps_configuration_out env roots \<Longrightarrow> keeps_configuration_out env (normalize_allowed_roots roots)"
  by (auto simp: keeps_configuration_out_def set_allowed_roots)

lemma resolve_reconfigured:
  assumes "keeps_configuration_out env roots"
  shows "resolve_sigils (reconfigured other env) cur (Some roots) acts s = resolve_sigils env cur (Some roots) acts s"
  using assms
proof (induction "brackets s" arbitrary: roots acts s rule: less_induct)
  case less
  let ?env = "reconfigured other env" and ?roots = "normalize_allowed_roots roots"
    and ?acts = "map_option (\<lambda>as. map py_upper (filter (\<lambda>a. a \<noteq> []) as)) acts"
  have ctx: "resolve_context ?env (Some ?roots) ?acts c = resolve_context env (Some ?roots) ?acts c" for c
  proof -
    have "\<not> reads_configuration r" if "get_sigil_root env (sc_root c) = Some r" "sc_root c \<in> set ?roots" for r
      using that less(2) by (auto simp: keeps_configuration_out_def set_allowed_roots)
    then show ?thesis
      by (auto simp: resolve_context_def intro!: reconfigured_root split: option.splits bool.splits)
  qed
  have "assemble (\<lambda>token. resolve_token_with_policy (\<lambda>x. resolve_sigils ?env cur (Some ?roots) None x) ?env cur (Some ?roots) ?acts token) s 0 (scan_sigil_tokens s) =
    assemble (\<lambda>token. resolve_token_with_policy (\<lambda>x. resolve_sigils env cur (Some ?roots) None x) env cur (Some ?roots) ?acts token) s 0 (scan_sigil_tokens s)"
  proof (rule assemble_cong [OF refl refl refl])
    fix sp assume sp: "sp \<in> set (scan_sigil_tokens s)"
    let ?token = "text_slice (span_start sp + 1) (span_end sp - 1) s"
    have inner: "resolve_sigils ?env cur (Some ?roots) None x = resolve_sigils env cur (Some ?roots) None x"
      if "brackets x \<le> brackets ?token" for x
      using less(1) [OF le_less_trans [OF that brackets_token [OF sp]] keeps_out_normalized [OF less(2)]] .
    have "resolve_token_with_policy (\<lambda>x. resolve_sigils ?env cur (Some ?roots) None x) ?env cur (Some ?roots) ?acts ?token =
        resolve_token_with_policy (\<lambda>x. resolve_sigils env cur (Some ?roots) None x) ?env cur (Some ?roots) ?acts ?token"
      by (rule token_cong) (simp_all add: inner)
    also have "\<dots> = resolve_token_with_policy (\<lambda>x. resolve_sigils env cur (Some ?roots) None x) env cur (Some ?roots) ?acts ?token"
      unfolding resolve_token_with_policy_def token_split_def reconfigured_frame ctx by (rule refl)
    finally show "resolve_token_with_policy (\<lambda>x. resolve_sigils ?env cur (Some ?roots) None x) ?env cur (Some ?roots) ?acts ?token =
        resolve_token_with_policy (\<lambda>x. resolve_sigils env cur (Some ?roots) None x) env cur (Some ?roots) ?acts ?token" .
  qed
  then show ?case
    unfolding resolve_sigils.simps [of ?env cur "Some roots" acts s] resolve_sigils.simps [of env cur "Some roots" acts s]
    by (simp add: Let_def)
qed

lemma reserved_name:
  assumes "policy_name s \<in> {''ENV'', ''CONF'', ''SYS''}"
  shows "py_upper s = policy_name s"
proof -
  have "normalize_name (py_upper s) \<in> {''ENV'', ''CONF'', ''SYS''}" using assms by (simp add: policy_name_def normalize_upper)
  then have "normalize_name (py_upper s) = py_upper s"
    by (auto simp: normalize_name_def swap_char_def split: if_splits)
  then show ?thesis by (simp add: policy_name_def normalize_upper)
qed

lemma safe_roots_keep_out:
  assumes "\<And>r. r \<in> set (sg_roots env) \<Longrightarrow> py_upper (sr_prefix r) \<in> {''ENV'', ''CONF'', ''SYS''} \<Longrightarrow> \<not> sr_safe r"
  shows "keeps_configuration_out env (get_user_safe_sigil_roots env)"
  unfolding keeps_configuration_out_def
proof (intro ballI allI impI notI)
  fix a r
  assume a: "a \<in> set (get_user_safe_sigil_roots env)" and r: "get_sigil_root env (policy_name a) = Some r" "reads_configuration r"
  obtain p where p: "p \<in> set (sg_roots env)" "sr_safe p" "a = policy_name (sr_prefix p)"
    using a by (auto simp: get_user_safe_sigil_roots_def policy_name_def)
  have "policy_name (sr_prefix r) = policy_name (sr_prefix p)" using found_root(2) [OF r(1)] p(3) by simp
  moreover have "policy_name (sr_prefix r) \<in> {''ENV'', ''CONF'', ''SYS''}"
  proof -
    have "py_upper (sr_prefix r) \<in> {''ENV'', ''CONF'', ''SYS''}" using r(2) by (simp add: reads_configuration_def)
    moreover from this have "normalize_name (py_upper (sr_prefix r)) = py_upper (sr_prefix r)"
      by (auto simp: normalize_name_def swap_char_def)
    ultimately show ?thesis by (simp add: policy_name_def normalize_upper)
  qed
  ultimately have "py_upper (sr_prefix p) \<in> {''ENV'', ''CONF'', ''SYS''}"
    using reserved_name [of "sr_prefix p"] by simp
  then show False using assms [OF p(1)] p(2) by simp
qed

lemma run_reconfigured:
  assumes "keeps_configuration_out env roots"
  shows "run_instructions (reconfigured other env) (Some roots) acts is vars = run_instructions env (Some roots) acts is vars"
  using resolve_reconfigured [OF assms]
  by (induction env "Some roots" acts "is" vars rule: run_instructions.induct) (auto split: sum.splits option.splits)


subsection \<open>Writing a token and reading it back\<close>

definition quote_text :: "string \<Rightarrow> string" where
  "quote_text v = [QUOTE] @ v @ [QUOTE]"

definition render_token :: "token_parts \<Rightarrow> string" where
  "render_token p =
     tp_root p @
     (case tp_filter p of None \<Rightarrow> [] | Some f \<Rightarrow> '':'' @ f) @
     (case tp_instance p of None \<Rightarrow> [] | Some i \<Rightarrow> ''='' @ quote_text i) @
     (case tp_key p of None \<Rightarrow> [] | Some k \<Rightarrow> (if tp_strict p then ''->'' else ''.'') @ quote_text k) @
     (case tp_param p of None \<Rightarrow> [] | Some x \<Rightarrow> ''='' @ x)"

definition quotable :: "string option \<Rightarrow> bool" where
  "quotable v \<longleftrightarrow> (case v of None \<Rightarrow> True | Some s \<Rightarrow> QUOTE \<notin> set s \<and> BACKSLASH \<notin> set s)"

definition root_ok :: "string \<Rightarrow> bool" where
  "root_ok s \<longleftrightarrow> s \<noteq> [] \<and> set s \<inter> set '':=.'' = {} \<and> \<not> text_contains s ''->''"

definition writable :: "token_parts \<Rightarrow> bool" where
  "writable p \<longleftrightarrow>
     root_ok (tp_root p) \<and> quotable (tp_instance p) \<and> quotable (tp_key p) \<and>
     (case tp_filter p of None \<Rightarrow> True
      | Some f \<Rightarrow> CHR ''-'' \<notin> set f \<and> CHR ''='' \<notin> set f \<and> tp_instance p \<noteq> None) \<and>
     (tp_key p = None \<longrightarrow> tp_param p = None \<and> \<not> tp_strict p)"

lemma root_span_stops:
  assumes "set s \<inter> set '':=.'' = {}" "\<not> text_contains s ''->''"
    and "rest = [] \<or> hd rest \<in> set '':=.'' \<or> py_startswith rest ''->''"
  shows "root_span (s @ rest) = (s, rest)"
  using assms
proof (induction s)
  case Nil
  then show ?case by (cases rest) auto
next
  case (Cons c s)
  have "\<not> py_startswith (c # s @ rest) ''->''"
    using Cons(3,4) by (cases s; cases rest) auto
  then show ?case using Cons by auto
qed

lemma quoted_span_step:
  assumes "c \<noteq> BACKSLASH \<or> \<not> q" "\<not> (d = 0 \<and> \<not> q \<and> stop (c # cs))"
  shows "quoted_span stop d q (c # cs) =
    (case (if c = QUOTE then quoted_span stop d (\<not> q) cs
           else quoted_span stop (if q then d else if c = CHR ''['' then Suc d
                                  else if c = CHR '']'' then d - 1 else d) q cs) of
       (v, rest) \<Rightarrow> (c # v, rest))"
  using assms by (cases cs) auto

lemma quoted_span_inside:
  "QUOTE \<notin> set v \<Longrightarrow> BACKSLASH \<notin> set v \<Longrightarrow> quoted_span stop d False rest = ([], rest) \<Longrightarrow>
     quoted_span stop d True (v @ QUOTE # rest) = (v @ [QUOTE], rest)"
proof (induction v)
  case Nil
  have "QUOTE \<noteq> BACKSLASH" by (simp add: QUOTE_def BACKSLASH_def)
  then show ?case using Nil by (simp add: quoted_span_step)
next
  case (Cons c v)
  then show ?case by (auto simp: quoted_span_step)
qed

lemma parse_quoted:
  assumes "QUOTE \<notin> set v" "BACKSLASH \<notin> set v" "rest = [] \<or> stop rest" "\<And>cs. \<not> stop (QUOTE # cs)"
  shows "parse_quoted_segment stop (quote_text v @ rest) = (v, rest)"
proof -
  have rest: "quoted_span stop 0 False rest = ([], rest)"
    using assms(3) by (cases rest rule: remdups_adj.cases) auto
  have "quoted_span stop 0 False (QUOTE # v @ QUOTE # rest) = (QUOTE # v @ [QUOTE], rest)"
    using quoted_span_inside [OF assms(1,2) rest] assms(4) by (simp add: quoted_span_step)
  then show ?thesis by (simp add: parse_quoted_segment_def quote_text_def unquote_def)
qed

lemma stop_quote: "\<not> ends_instance (QUOTE # cs)" "\<not> ends_key (QUOTE # cs)"
  by (simp_all add: ends_instance_def ends_key_def QUOTE_def)

lemma span_until_stops: "list_all (\<lambda>c. \<not> p c) a \<Longrightarrow> b \<noteq> [] \<Longrightarrow> p (hd b) \<Longrightarrow> span_until p (a @ b) = (a, b)"
  by (induction a) (auto simp: neq_Nil_conv)

lemma normalize_plain: "CHR ''-'' \<notin> set s \<Longrightarrow> normalize_name s = s"
  by (induction s) (auto simp: normalize_Cons)

text \<open>
  C23: Writing a token and reading it back.  Any text without quotes and backslashes, with dots, arrows,
  equal signs and brackets in it, can stand as instance or key when it is put in quotes, and anything at
  all as the parameter: the parser reads back the parts the token was written from.\<close>
theorem written_token_reads_back:
  assumes "writable p"
  shows "parse_token_parts (render_token p) = Some p"
proof -
  let ?param = "case tp_param p of None \<Rightarrow> [] | Some x \<Rightarrow> ''='' @ x"
  let ?key = "(case tp_key p of None \<Rightarrow> [] | Some k \<Rightarrow> (if tp_strict p then ''->'' else ''.'') @ quote_text k) @ ?param"
  let ?inst = "(case tp_instance p of None \<Rightarrow> [] | Some i \<Rightarrow> ''='' @ quote_text i) @ ?key"
  let ?filter = "(case tp_filter p of None \<Rightarrow> [] | Some f \<Rightarrow> '':'' @ f) @ ?inst"
  have w: "root_ok (tp_root p)" "quotable (tp_instance p)" "quotable (tp_key p)"
    "tp_key p = None \<Longrightarrow> tp_param p = None \<and> \<not> tp_strict p"
    using assms by (auto simp: writable_def)
  have key_start: "?key = [] \<or> ends_instance ?key"
    using w(4) by (auto simp: ends_instance_def split: option.splits)
  have 1: "parse_root_name (tp_root p @ ?filter) = Some (tp_root p, ?filter)"
    using w root_span_stops [of "tp_root p" ?filter]
    by (auto simp: parse_root_name_def root_ok_def split: option.splits)
  have 2: "parse_filter_field ?filter = Some (tp_filter p, ?inst)"
  proof (cases "tp_filter p")
    case None
    then show ?thesis using w(4) by (auto simp: parse_filter_field_def split: option.splits)
  next
    case (Some f)
    then obtain i where f: "CHR ''-'' \<notin> set f" "CHR ''='' \<notin> set f" "tp_instance p = Some i"
      using assms by (auto simp: writable_def)
    then have "span_until (\<lambda>c. c = CHR ''='') (f @ ?inst) = (f, ?inst)"
      by (intro span_until_stops) (auto simp: list_all_iff)
    then show ?thesis using Some f by (simp add: parse_filter_field_def normalize_plain)
  qed
  have 3: "parse_instance_id ?inst = (tp_instance p, ?key)"
  proof (cases "tp_instance p")
    case None
    then show ?thesis using w(4) by (auto simp: parse_instance_id_def split: option.splits)
  next
    case (Some i)
    then show ?thesis
      using parse_quoted [of i ?key ends_instance] w(2) key_start stop_quote by (simp add: parse_instance_id_def quotable_def)
  qed
  have 4: "parse_key_and_param ?key = (tp_key p, tp_param p, tp_strict p)"
  proof (cases "tp_key p")
    case None
    then show ?thesis using w(4) by (simp add: parse_key_and_param_def parse_key_segment_def)
  next
    case (Some k)
    have "parse_quoted_segment ends_key (quote_text k @ ?param) = (k, ?param)"
      using parse_quoted [of k ?param ends_key] w(3) Some stop_quote
      by (simp add: quotable_def ends_key_def split: option.splits)
    then show ?thesis using Some
      by (auto simp: parse_key_and_param_def parse_key_segment_def split: option.splits)
  qed
  show ?thesis using 1 2 3 4 by (simp add: render_token_def parse_token_parts_def)
qed

subsection \<open>Blocked references stop a script\<close>

lemma scan_no_bracket: "CHR ''['' \<notin> set cs \<Longrightarrow> scan_from i cs = []"
  by (induction cs arbitrary: i) (auto simp: scan_skip)

lemma resolve_plain: "CHR ''['' \<notin> set s \<Longrightarrow> resolve_sigils env cur roots acts s = Inr s"
  by (simp add: resolve_sigils.simps [of _ _ _ _ s] scan_sigil_tokens_def scan_no_bracket Let_def)

lemma assemble_member:
  assumes "sp \<in> set ss" "f (text_slice (span_start sp + 1) (span_end sp - 1) s) = Inr v"
    and "assemble f s n ss = Inr out"
  shows "\<exists>x y. out = x @ v @ y"
  using assms(1,3)
proof (induction ss arbitrary: n out)
  case (Cons r ss)
  obtain w rest where w: "f (text_slice (span_start r + 1) (span_end r - 1) s) = Inr w"
    "assemble f s (span_end r) ss = Inr rest" "out = text_slice n (span_start r) s @ w @ rest"
    using Cons.prems(2) by (auto split: sum.splits)
  show ?case
  proof (cases "sp = r")
    case True
    then show ?thesis using w assms(2) by auto
  next
    case False
    then have "sp \<in> set ss" using Cons.prems(1) by simp
    then obtain x y where "rest = x @ v @ y" using Cons.IH w(2) by blast
    then have "out = (text_slice n (span_start r) s @ w @ x) @ v @ y" using w(3) by simp
    then show ?thesis by blast
  qed
qed simp

text \<open>
  A reference the policy of a context blocks: one that cannot be read as a token, or whose root or
  pipeline action is not allowed.\<close>

definition blocked_reference :: "sigil_env \<Rightarrow> string list \<Rightarrow> string list option \<Rightarrow> string \<Rightarrow> bool" where
  "blocked_reference env roots acts token =
     (case token_split env token of
        None \<Rightarrow> True
      | Some (p, a) \<Rightarrow>
          policy_name (tp_root p) \<notin> set (normalize_allowed_roots roots) \<or>
          (case (acts, a) of
             (Some as, Some x) \<Rightarrow> x \<noteq> [] \<and> x \<notin> set (map py_upper (filter (\<lambda>y. y \<noteq> []) as))
           | _ \<Rightarrow> False))"

lemma no_brackets: "brackets s = 0 \<longleftrightarrow> CHR ''['' \<notin> set s"
  by (simp add: brackets_def count_list_0_iff)

lemma nested_plain:
  assumes "\<And>s. part = Some s \<Longrightarrow> CHR ''['' \<notin> set s"
  shows "nested (\<lambda>s. resolve_sigils env cur roots None s) part = Inr part"
  using assms by (auto simp: nested_def resolve_plain split: option.splits)

lemma blocked_token:
  assumes "blocked_reference env roots acts token" "CHR ''['' \<notin> set token"
  shows "resolve_token_with_policy (\<lambda>s. resolve_sigils env cur rs None s) env cur (Some (normalize_allowed_roots roots))
    (map_option (\<lambda>as. map py_upper (filter (\<lambda>a. a \<noteq> []) as)) acts) token = Inr (failed_resolution token)"
proof (cases "token_split env token")
  case (Some pa)
  obtain p a where pa: "pa = (p, a)" by fastforce
  have "brackets token = 0" using assms(2) by (simp add: no_brackets)
  then have "tp_param p = Some s \<Longrightarrow> brackets s = 0" "tp_instance p = Some s \<Longrightarrow> brackets s = 0" for s
    using brackets_split [of env token p a s] Some pa by auto
  then have "nested (\<lambda>s. resolve_sigils env cur rs None s) (tp_param p) = Inr (tp_param p)"
    "nested (\<lambda>s. resolve_sigils env cur rs None s) (tp_instance p) = Inr (tp_instance p)"
    by (auto simp: no_brackets intro!: nested_plain)
  then show ?thesis
    using assms(1) Some pa
    by (auto simp: blocked_reference_def resolve_token_with_policy_def build_context_def resolve_context_def
        policy_name_def split: option.splits)
qed (simp add: resolve_token_with_policy_def)

lemma unresolved_append: "has_unresolved b \<Longrightarrow> has_unresolved (a @ b)"
  by (induction a) auto

lemma separator_append: "starts_separator s \<Longrightarrow> starts_separator (s @ x)"
  by (auto simp: starts_separator_def py_startswith_iff)

lemma name_separator_append: "name_then_separator s \<Longrightarrow> name_then_separator (s @ x)"
  by (induction s) (auto simp: separator_append)

text \<open>The pattern of an unresolved sigil asks for a name and a separator after it.\<close>

lemma blocked_text:
  assumes "sp \<in> set (scan_sigil_tokens s)" "token = text_slice (span_start sp + 1) (span_end sp - 1) s"
    and "CHR ''['' \<notin> set token" "blocked_reference env roots acts token" "name_then_separator token"
    and "resolve_sigils env cur (Some roots) acts s = Inr out"
  shows "has_unresolved out"
proof -
  let ?f = "\<lambda>t. resolve_token_with_policy (\<lambda>x. resolve_sigils env cur (Some (normalize_allowed_roots roots)) None x)
    env cur (Some (normalize_allowed_roots roots)) (map_option (\<lambda>as. map py_upper (filter (\<lambda>a. a \<noteq> []) as)) acts) t"
  have "?f (text_slice (span_start sp + 1) (span_end sp - 1) s) = Inr (failed_resolution token)"
    unfolding assms(2) [symmetric] by (rule blocked_token [OF assms(4,3)])
  moreover have "assemble ?f s 0 (scan_sigil_tokens s) = Inr out"
    using assms(6) unfolding resolve_sigils.simps [of env cur "Some roots" acts s] by (simp only: Let_def option.map)
  ultimately obtain x y where out: "out = x @ failed_resolution token @ y"
    using assemble_member [OF assms(1), of ?f s "failed_resolution token" 0 out] by blast
  have "has_unresolved (failed_resolution token @ y)"
    using name_separator_append [OF assms(5), of "'']'' @ y"] by (simp add: failed_resolution_def)
  then show ?thesis using unresolved_append out by metis
qed

lemma interpolate_plain: "CHR ''$'' \<notin> set s \<Longrightarrow> interpolate_variables s vars = s"
proof -
  assume s: "CHR ''$'' \<notin> set s"
  have "interpolate_from keys vars s = s" for keys
    using s
  proof (induction s)
    case (Cons c s)
    then have "find (\<lambda>k. py_startswith (c # s) (CHR ''$'' # k)) keys = None" by (auto simp: find_None_iff)
    then show ?case using Cons by simp
  qed simp
  then show ?thesis by (simp add: interpolate_variables_def)
qed

text \<open>
  C19: A reference that the policy blocks stops the script.  Take any line of a script that holds no
  variables, and any outermost reference of it without nested ones.  If the context does not allow the
  root or the pipeline action of the reference, and the reference is a name followed by a separator (a
  filter, an instance, a key, a pipeline), then the script does not succeed, whatever the other lines
  and references give: no output appears in which the reference was quietly left out.  A blocked
  reference that is a name alone is not found by the pattern and is not covered.\<close>
theorem blocked_reference_stops_script:
  assumes policy: "resolve_policy env ctx = Inr (Some roots, acts)"
    and line: "i \<in> set is" "CHR ''$'' \<notin> set (si_argument i)"
    and ref: "sp \<in> set (scan_sigil_tokens (si_argument i))"
      "token = text_slice (span_start sp + 1) (span_end sp - 1) (si_argument i)" "CHR ''['' \<notin> set token"
    and blocked: "blocked_reference env roots acts token"
    and separated: "name_then_separator token"
  shows "execute_script env ctx is \<noteq> Inr outs"
proof -
  have "run_instructions env (Some roots) acts is vars \<noteq> Inr outs" for vars outs
    using line(1)
  proof (induction "is" arbitrary: vars outs)
    case (Cons j js)
    show ?case
    proof (cases "j = i")
      case True
      have "has_unresolved out" if "resolve_sigils env None (Some roots) acts (interpolate_variables (si_argument i) vars) = Inr out" for out
        using blocked_text [OF ref blocked separated] that interpolate_plain [OF line(2)] by metis
      then show ?thesis using True by (auto split: sum.splits)
    next
      case False
      then have "\<And>vars outs. run_instructions env (Some roots) acts js vars \<noteq> Inr outs" using Cons by auto
      then show ?thesis by (auto simp: ebind_Inr_iff split: sum.splits option.splits)
    qed
  qed simp
  then show ?thesis using policy by (simp add: execute_script_def)
qed

subsection \<open>Which references the action policy sees\<close>

lemma mem_slice: "c \<in> set (text_slice a b s) \<Longrightarrow> c \<in> set s"
  by (auto simp: text_slice_def dest: in_set_takeD in_set_dropD)

lemma classic_split:
  assumes "\<not> sg_pipeline env \<or> CHR ''|'' \<notin> set token" "token_split env token = Some (p, a)"
  shows "a = None"
  using assms by (auto simp: token_split_def Let_def split: if_splits)

lemma classic_action:
  assumes "token_split env token = Some (p, None)" "build_context rec cur token (p, None) = Inr ctx"
  shows "resolve_context env roots acts ctx = resolve_context env roots None ctx"
proof -
  have "sc_action ctx = None" using assms by (auto simp: build_context_def split: sum.splits)
  then show ?thesis by (simp add: resolve_context_def split: option.splits)
qed

lemma classic_token:
  assumes "\<not> sg_pipeline env \<or> CHR ''|'' \<notin> set token"
  shows "resolve_token_with_policy rec env cur roots acts token = resolve_token_with_policy rec env cur roots None token"
proof (cases "token_split env token")
  case (Some pa)
  then obtain p where p: "token_split env token = Some (p, None)" using classic_split [OF assms] by (cases pa) auto
  show ?thesis
  proof (cases "build_context rec cur token (p, None)")
    case (Inr ctx)
    then show ?thesis using classic_action [OF p Inr, of roots acts] by (simp add: resolve_token_with_policy_def p)
  qed (simp add: resolve_token_with_policy_def p)
qed (simp add: resolve_token_with_policy_def)

text \<open>
  C36: What the list of allowed actions does not cover.  It is compared with the action of a pipeline
  token only; in a text without a bar, or with pipelines switched off, it changes nothing, so the count,
  the total and the other aggregates of the classic notation, and the whole tables a manager method
  gives, are resolved whatever the list says.\<close>
theorem allowed_actions_cover_pipelines_only:
  assumes "\<not> sg_pipeline env \<or> CHR ''|'' \<notin> set text"
  shows "resolve_sigils env cur roots (Some acts) text = resolve_sigils env cur roots None text"
proof -
  have "\<not> sg_pipeline env \<or> CHR ''|'' \<notin> set (text_slice a b text)" for a b using assms mem_slice by blast
  then show ?thesis
    using classic_token
    unfolding resolve_sigils.simps [of env cur roots "Some acts" "text"] resolve_sigils.simps [of env cur roots None "text"]
      Let_def option.map by (intro assemble_cong) blast+
qed

subsection \<open>What a filter shows\<close>

lemma filter_limit_bounds: "filter_limit env = Inr n \<Longrightarrow> 1 \<le> n \<and> n \<le> 200"
  by (auto simp: filter_limit_def PIPELINE_FILTER_MAX_LIMIT_def PIPELINE_FILTER_DEFAULT_LIMIT_def
      split: sum.splits pyexn.splits)

definition shown_column :: "entity_model \<Rightarrow> string \<Rightarrow> string \<Rightarrow> bool" where
  "shown_column m filtered name \<longleftrightarrow>
     name = em_pk_name m \<or> name = filtered \<or>
     \<not> is_sensitive name \<and> list_ex (\<lambda>g. fi_name g = name \<and> \<not> fi_relation g) (em_fields m)"

lemma safe_fields_shown: "list_all (shown_column m name) (safe_fields m f name)"
  by (auto simp: safe_fields_def shown_column_def list_all_iff list_ex_iff Let_def)

text \<open>
  C35: What a filter shows.  Whatever limit the settings give, a filter that gives more than its own text
  gives the encoding of at most 200 of the rows the query found, the first of them in order; and every
  column is the primary key, the field filtered on, or a plain field whose name has no sensitive word.\<close>
theorem filter_shows_bounded_safe_rows:
  assumes "resolve_filter_action env m ctx = Inr out" "out \<noteq> failed_resolution (sc_token ctx)"
  shows "\<exists>pks names n. em_query m (field_lookup m (py_lower (opt_text (sc_key ctx)))) (opt_text (sc_param ctx)) = Inr pks \<and>
    n \<le> 200 \<and> 0 < n \<and> list_all (shown_column m (py_lower (opt_text (sc_key ctx)))) names \<and>
    out = sg_encode env (filter_rows m names (take n pks))"
proof -
  let ?name = "py_lower (opt_text (sc_key ctx))"
  obtain w where v: "sc_param ctx = Some w"
    using assms by (auto simp: resolve_filter_action_def Let_def split: option.splits)
  obtain f where f: "?name \<noteq> []" "get_field m ?name = Some f"
    using assms v by (auto simp: resolve_filter_action_def Let_def split: option.splits if_splits)
  obtain pks where q: "em_query m (field_lookup m ?name) w = Inr pks"
    using assms v f by (auto simp: resolve_filter_action_def Let_def split: sum.splits if_splits)
  obtain n where "filter_limit env = Inr n" "out = sg_encode env (filter_rows m (safe_fields m f ?name) (take n pks))"
    using assms v f q by (auto simp: resolve_filter_action_def Let_def ebind_Inr_iff)
  then show ?thesis using q v filter_limit_bounds [of env n] safe_fields_shown [of m ?name f]
    by (intro exI [of _ pks] exI [of _ "safe_fields m f ?name"] exI [of _ n]) (auto simp: opt_text_def)
qed

subsection \<open>Examples\<close>

definition charger_model :: entity_model where
  "charger_model =
     \<lparr>em_fields = [\<lparr>fi_name = ''id'', fi_unique_text = False, fi_text = False, fi_relation = False, fi_foreign = False\<rparr>,
                   \<lparr>fi_name = ''name'', fi_unique_text = True, fi_text = True, fi_relation = False, fi_foreign = False\<rparr>,
                   \<lparr>fi_name = ''password'', fi_unique_text = False, fi_text = True, fi_relation = False, fi_foreign = False\<rparr>],
      em_other_fields = [], em_pk_name = ''id'', em_rows = [1, 2],
      em_column = (\<lambda>pk name. if name = ''id'' then PInt (int pk) else if name = ''name'' then PStr ''CP'' else PStr ''pw''),
      em_related = (\<lambda>pk name. None),
      em_query = (\<lambda>l v. case l of ByPk \<Rightarrow> Inl (Python ValueError) | Exact n \<Rightarrow> Inr [] | IgnoringCase n \<Rightarrow> Inr [1, 2]),
      em_aggregate = (\<lambda>f n. Inr PNone), em_hook = (\<lambda>b n. None)\<rparr>"

definition demo_env :: "string \<Rightarrow> sigil_env" where
  "demo_env secret =
     \<lparr>sg_roots = [\<lparr>sr_prefix = ''ENV'', sr_safe = False, sr_context = ConfigRoot, sr_model = None\<rparr>,
                  \<lparr>sr_prefix = ''CP'', sr_safe = True, sr_context = EntityRoot, sr_model = Some 0\<rparr>],
      sg_pipeline = True, sg_environ = [(''KEY'', secret)], sg_settings = (\<lambda>n. None), sg_system = [],
      sg_next_check = [], sg_auto_upgrade = (\<lambda>n. None), sg_request = None, sg_context = (\<lambda>k. None),
      sg_models = (\<lambda>k. charger_model), sg_profile = (\<lambda>r n. None), sg_attribute = (\<lambda>h n. None),
      sg_serialize = (\<lambda>rs. ''rows''), sg_encode = (\<lambda>v. case json_dumps v of Some t \<Rightarrow> t | None \<Rightarrow> []),
      sg_filter_limit = PInt 1, sg_sum = (\<lambda>xs. NaN), sg_repr = (\<lambda>x. ''nan'')\<rparr>"

definition demo_script :: "instruction list" where
  "demo_script =
     [\<lparr>si_action = ''EMIT'', si_argument = ''[CP=:count]'', si_line = 1, si_identifier = None\<rparr>,
      \<lparr>si_action = ''EMIT'', si_argument = ''a [ENV.KEY] b'', si_line = 2, si_identifier = None\<rparr>]"


definition demo_parts :: token_parts where
  "demo_parts = \<lparr>tp_root = ''CP'', tp_filter = Some ''name'', tp_instance = Some ''a.b=c'', tp_key = Some ''x->y'',
     tp_param = Some ''p=q'', tp_strict = True\<rparr>"

theorem written_token_reads_back_witness:
  "parse_token_parts (render_token demo_parts) = Some demo_parts"
  by (rule written_token_reads_back) code_simp

theorem blocked_reference_stops_script_witness:
  "execute_script (demo_env ''x'') ''user'' demo_script \<noteq> Inr [''2'', ''a x b'']"
proof (rule blocked_reference_stops_script)
  let ?i = "\<lparr>si_action = ''EMIT'', si_argument = ''a [ENV.KEY] b'', si_line = 2, si_identifier = None\<rparr>"
  show "resolve_policy (demo_env ''x'') ''user'' = Inr (Some [''CP''], Some [''FIELD'', ''GET''])" by code_simp
  show "?i \<in> set demo_script" by (simp add: demo_script_def)
  show "\<lparr>span_start = 2, span_end = 11\<rparr> \<in> set (scan_sigil_tokens (si_argument ?i))" by code_simp
  show "''ENV.KEY'' = text_slice (span_start \<lparr>span_start = 2, span_end = 11\<rparr> + 1)
      (span_end \<lparr>span_start = 2, span_end = 11\<rparr> - 1) (si_argument ?i)" by code_simp
  show "blocked_reference (demo_env ''x'') [''CP''] (Some [''FIELD'', ''GET'']) ''ENV.KEY''" by code_simp
  show "name_then_separator ''ENV.KEY''" by code_simp
qed simp_all

text \<open>A blocked name without a separator is given as output.\<close>

lemma bare_reference_passes:
  "execute_script (demo_env ''x'') ''user''
     [\<lparr>si_action = ''EMIT'', si_argument = ''[ENV]'', si_line = 1, si_identifier = None\<rparr>] = Inr [''[ENV]'']"
  by code_simp

theorem allowed_actions_cover_pipelines_only_witness:
  "resolve_sigils (demo_env ''x'') None (Some [''CP'']) (Some [''FIELD'', ''GET'']) ''[CP=:count]'' = Inr ''2'' \<and>
   resolve_sigils (demo_env ''x'') None (Some [''CP'']) (Some [''FIELD'', ''GET'']) ''[CP|COUNT]'' = Inr ''[CP|COUNT]''"
proof
  have "resolve_sigils (demo_env ''x'') None (Some [''CP'']) None ''[CP=:count]'' = Inr ''2''" by code_simp
  then show "resolve_sigils (demo_env ''x'') None (Some [''CP'']) (Some [''FIELD'', ''GET'']) ''[CP=:count]'' = Inr ''2''"
    using allowed_actions_cover_pipelines_only [of "demo_env ''x''" "''[CP=:count]''" None "Some [''CP'']" "[''FIELD'', ''GET'']"]
    by simp
  show "resolve_sigils (demo_env ''x'') None (Some [''CP'']) (Some [''FIELD'', ''GET'']) ''[CP|COUNT]'' = Inr ''[CP|COUNT]''"
    by code_simp
qed

definition demo_filter :: sigil_context where
  "demo_filter = \<lparr>sc_current = None, sc_instance = None, sc_root = ''CP'', sc_key = Some ''name'', sc_token = ''CP|FILTER:name:cp'',
     sc_param = Some ''cp'', sc_action = Some ''FILTER'', sc_parts = demo_parts\<rparr>"

theorem filter_shows_bounded_safe_rows_witness:
  "\<exists>pks names n. em_query charger_model (field_lookup charger_model (py_lower ''name'')) ''cp'' = Inr pks \<and>
    n \<le> 200 \<and> 0 < n \<and> list_all (shown_column charger_model (py_lower ''name'')) names \<and>
    sg_encode (demo_env ''x'') (PList [PDict [(''id'', PInt 1), (''name'', PStr ''CP'')]]) =
      sg_encode (demo_env ''x'') (filter_rows charger_model names (take n pks))"
proof -
  have "resolve_filter_action (demo_env ''x'') charger_model demo_filter =
      Inr (sg_encode (demo_env ''x'') (PList [PDict [(''id'', PInt 1), (''name'', PStr ''CP'')]]))" by code_simp
  moreover have "sg_encode (demo_env ''x'') (PList [PDict [(''id'', PInt 1), (''name'', PStr ''CP'')]]) \<noteq>
      failed_resolution (sc_token demo_filter)" by code_simp
  ultimately show ?thesis
    using filter_shows_bounded_safe_rows [of "demo_env ''x''" charger_model demo_filter] by (simp add: demo_filter_def opt_text_def)
qed

end
