(* ===== verification/Spec2Isabelle.thy ===== *)
theory Spec2Isabelle
  imports DispatchProps TxInvariant LogReaderProps ConnectionProps ChargingProfilesProps ForwardingProps SigilProps
begin

text \<open>
  \<^bold>\<open>The OCPP server and the sigils of arthexis\<close>

  Charging stations connect to this program by websocket and exchange OCPP messages with it.  A
  connection is a consumer object (\<open>apps/ocpp/consumers\<close>); what outlives one message is kept in the
  process-wide tables of \<open>apps/ocpp/store\<close> and in the database.  A charger sends a CALL, which an
  action handler answers; the server sends calls of its own, whose CALLRESULT or CALLERROR arrives
  later on the same websocket, and other threads wait for it.  The development models these tables,
  the frames and handlers that act on them, and the life of a connection.  Apart from that it models the
  sigils (\<open>apps/sigils\<close>), the bracketed references such as \<open>[CP=SIM-1.name]\<close> that texts all over the program hold
  and that are resolved against configuration, the request and the database under a policy.

  \<^bold>\<open>Theories and the code they model\<close>

  \<^item> \<open>Prelude\<close>, \<open>PyValues\<close>: insertion-ordered dictionaries, bounded queues, exceptions as sums;
    JSON values with Python's conversions, \<open>str\<close>, \<open>repr\<close> and string methods on Latin-1.
    \<open>Sha256\<close> and \<open>IpAddress\<close> define what the code uses of \<open>hashlib\<close> and \<open>ipaddress\<close> on 32-bit and
    128-bit words.
  \<^item> \<open>StoreState\<close>: \<open>store/state.py\<close> and \<open>reassign_identity\<close>; the module's globals are one record and
    every function returns the updated record.  \<open>TxRequests\<close>: \<open>store/transactions.py\<close>, the table of
    transaction requests with its two indices.  \<open>PendingCalls\<close>: \<open>store/pending_calls.py\<close>, outstanding
    calls with events, replies, timers, follow-ups, the Redis mirror, clearing and restoring.
    \<open>CallMailbox\<close>: the abstract contract of that module.  \<open>SessionLog\<close>, \<open>LogReader\<close>:
    \<open>store/logs.py\<close>, memory buffers, session files, and reading them back.
  \<^item> \<open>HandlerWorld\<close>, \<open>CallResults\<close>, \<open>CallErrors\<close>: the world a reply handler acts on and the handlers
    of \<open>call_result_handlers\<close> and \<open>call_error_handlers\<close> with their registries.  \<open>Dispatch\<close>:
    \<open>consumers/base/dispatch.py\<close>, from the received text to the recorded reply.
  \<^item> \<open>ChargerIdentity\<close>: the identity and policy helpers of \<open>models/charger.py\<close>.  \<open>AuthPolicy\<close>:
    \<open>consumers/base/rfid.py\<close> and \<open>can_authorize\<close> of \<open>apps/energy/models/billing.py\<close>.
    \<open>ConnectorAssign\<close>: \<open>_assign_connector\<close> of \<open>consumers/csms/consumer.py\<close>.  \<open>TxEvents\<close>:
    \<open>consumers/base/legacy_transactions.py\<close> and \<open>csms/handlers/availability.py\<close>.
    \<open>Metering\<close>: \<open>csms/handlers/metering.py\<close> with \<open>_store_meter_values\<close> and
    \<open>_process_meter_value_entries\<close> of \<open>consumers/csms/consumer.py\<close>.
  \<^item> \<open>ClientIp\<close>: the address part of \<open>consumers/base/identity.py\<close>.  \<open>Connection\<close>:
    \<open>consumers/connection.py\<close>, \<open>consumers/base/connection_flow.py\<close> and the serial number part of
    \<open>identity.py\<close>.  \<open>SecurityAlerts\<close>, \<open>StatusReports\<close>: \<open>csms/persistence.py\<close>,
    \<open>csms/handlers/status.py\<close> and \<open>SecurityAlertEvent\<close> of \<open>apps/ops/models.py\<close>.
  \<^item> \<open>ConsumerBase\<close>, \<open>ChargingProfiles\<close>: the ReportChargingProfiles handler of
    \<open>consumers/csms/consumer.py\<close> with the checks of \<open>models/charging_profile.py\<close> and
    \<open>models/charging_schedule.py\<close>.  \<open>Forwarding\<close>: \<open>forwarder/__init__.py\<close>,
    \<open>consumers/csms/transport.py\<close> and the policy of \<open>models/cp_forwarder.py\<close>.
  \<^item> \<open>Sigils\<close>: \<open>scanner.py\<close>, \<open>sigil_resolver.py\<close>, \<open>entity_lookup.py\<close>, the default object of
    \<open>models.py\<close> and the namespaces of \<open>system.py\<close>, all in \<open>apps/sigils\<close>; from the brackets of a text to the
    values of its references.  \<open>SigilScripts\<close>: \<open>script_runtime.py\<close>, LET and EMIT scripts and their cache.

  Definitions keep the source's names (without a leading underscore); a theory \<open>XProps\<close> proves the
  properties of \<open>X\<close>.

  \<^bold>\<open>State\<close>

  \<open>store_state\<close>, \<open>tx_state\<close> and \<open>ocpp_store\<close> hold the module globals of the store, \<open>log_state\<close> the
  globals, files and lock file of the logs.  The reply handlers act on \<open>world\<close>, the call handlers on
  \<open>tx_conn\<close>: the shared state together with the attributes of one consumer.  Another consumer's turn is
  the same state seen through its attributes (\<open>as_consumer\<close>).  Forwarding sessions are objects several
  threads hold, so \<open>fwd_world\<close> keeps them in a heap beside the forwarder's table.  The database is a list of rows per model
  and primary key with the queries the code makes; a model object is identified with its row.
  Messages and objects that leave the process are recorded as calls or effects, in order.
  The rows of \<open>MeterValue\<close> and the decimal columns stand beside a connection in \<open>meter_world\<close>.
  Sigils only read: everything they may read is the record \<open>sigil_env\<close>, and a result is a text or an exception.

  \<^bold>\<open>What the lemmas show\<close>

  \<^item> Store: lookups are not disturbed by other chargers, every address holds a bounded number of
    consumers in every reachable state, reports are consumed once; the indices of the transaction
    requests agree with the plain search in every reachable table, cleared chargers included.
  \<^item> Calls: the reply to a call finds the metadata registered with it after any history; every history
    is a run of the mailbox specification (a refinement, for any Redis answers); a reply in memory is
    fresh; a timeout is announced at most once; a waiting thread gets exactly the reply recorded meanwhile; a
    disconnect takes exactly the charger's calls.
  \<^item> Frames: on the connection of the charger that was called, every error is recorded, and every result
    is recorded unless its handler raises, which only the handlers of six actions that convert numbers or
    times do; on the connection of another charger the call is dropped.  Background tasks stay bounded.
  \<^item> Sessions: who may start a transaction and what is recorded; every active transaction has an
    accepted row in every reachable state unless a MeterValues message named it; a stop with a readable
    time closes the session that was started, one with an invalid date leaves it open; session files
    parse back; the backwards reader ends and yields the lines of the file; merged logs are ordered and
    give every entry of every identifier once.
  \<^item> Readings: which entries of a MeterValues message become rows, that a session keeps its start reading,
    and that watt hours are stored in the transaction to the last digit.
  \<^item> Connections: who is admitted and what a rejected charger leaves behind, which subprotocol is
    negotiated, and that forged forwarding headers have no effect.
  \<^item> Status: a readable report is recorded in its row, alerts follow the last report, replays of old
    faults never reopen an alert, keys and messages fit their columns.
  \<^item> Charging profiles: the validation is type-sound, and a stored report that is received again leaves
    the rows as they are.
  \<^item> Forwarding: which remote commands reach the charger, where its answers go, and that the buffer
    keeps the latest message of every action whatever flushes interleave and whatever sends fail.
  \<^item> Sigils: which references a text has; a quoted token is read back; what a user's script gives does not
    depend on environment, settings and system values; a blocked reference with a name and a separator stops a script; a filter shows
    bounded rows without sensitive columns.
  \<^item> Errors: named theorems state where the code does not do what it means to, each with a concrete
    instance.

  \<^bold>\<open>Bounds and loops\<close>

  Queue sizes, the per-address limit, the 32 background tasks, the session buffer of 16 messages and
  the chunk of 4096 bytes are the source's constants (the limits that are settings are parameters).
  No fuel is used: loops recurse on their data or have a termination proof (the chunked reader on the
  position in the file, the merge on the entries left, SHA-256 on the words left, nested references on
  the opening brackets left).  What may happen
  between two steps of a thread is a separate step: waiting is two phases, arming and tracking a timer
  are two operations, and histories are lists of operations.

  \<^bold>\<open>Parameters\<close>

  Code outside the repository is an argument: the Redis client (each command may fail), the JSON
  codec of the mirror, Django's datetime parser (which may raise), the decoding of log lines, queries and Base64, user
  authentication, the feature table, the rate limiter's verdict, the tag and account queries, disks
  that may refuse a write, and the consumer methods the reply handlers' protocol names.  For the sigils
  it is Django's queries, aggregates, serialisers and model attributes, the text of a float and the sum of
  floats, with no hypothesis on any of them.  The interface
  \<open>call_registry\<close> states what callers rely on and is interpreted on the model's own operations.

  \<^bold>\<open>Not modelled\<close>

  Column limits and database errors apart from integrity errors on a primary key; consumption messages,
  console references and the samples of a TransactionEvent, which are effects; console port scans; get_logs and clear_log;
  the refreshing of forwarder rows and the signed metadata a node sends; the other notifications
  of the CSMS consumer.  Of the sigils, what gathers the system values, the fixtures loader,
  form fields, the builder pages and the middleware; the time limit on attributes is an exception an
  attribute may give.  The rest of the repository (administration, views, nodes, release scripts, devices) is
  rendering, system administration and calls of external programs, and is listed in the manifest.
\<close>

end
